(* ===== verification/TF_Prelude.thy ===== *)
theory TF_Prelude
  imports Main "HOL-Library.Char_ord" "HOL-Library.List_Lexorder"
begin

text \<open>
  Shared vocabulary of the development. Go strings are byte sequences, so they are HOL
  strings (a HOL character is a byte). The section on text models the functions of Go's
  standard library the program calls on strings (\<open>strings.TrimSpace\<close>, \<open>strings.Trim\<close>,
  \<open>strings.ToLower\<close>, \<open>strings.EqualFold\<close> on ASCII, \<open>strconv.ParseInt\<close>, a regular
  expression that replaces runs, base64 and hexadecimal encoding). The collections declared
  here carry the component proofs: \<open>io_simps\<close> evaluates the program monad, \<open>io_success\<close> takes
  a successful run apart, \<open>keeps_intro\<close> propagates store invariants through it.
\<close>

named_theorems io_simps \<open>evaluation of the program monad\<close>
named_theorems query_defs \<open>definitions of the database statements\<close>
named_theorems keeps_intro \<open>preservation of store invariants\<close>
named_theorems io_success \<open>inversion of successful runs\<close>

type_synonym uuid = nat
type_synonym time = int
type_synonym duration = int

text \<open>
  A UUID is a number and \<open>uuid.Nil\<close> is 0. Instants and durations are nanoseconds, as in Go's
  \<open>time.Duration\<close>.
\<close>

abbreviation uuid_Nil :: uuid where
  "uuid_Nil \<equiv> 0"

abbreviation Millisecond :: duration where
  "Millisecond \<equiv> 1000000"

abbreviation Second :: duration where
  "Second \<equiv> 1000000000"

abbreviation Minute :: duration where
  "Minute \<equiv> 60000000000"

abbreviation Hour :: duration where
  "Hour \<equiv> 3600000000000"

section \<open>Lists\<close>

lemma find_SomeD:
  "find P xs = Some x \<Longrightarrow> x \<in> set xs \<and> P x"
  by (auto simp: find_Some_iff in_set_conv_nth)

lemma find_filter:
  "find P (filter Q xs) = find (\<lambda>x. Q x \<and> P x) xs"
  by (induction xs) auto

lemma find_eq_None: "find P xs = None \<longleftrightarrow> (\<forall>x\<in>set xs. \<not> P x)"
  by (auto simp: find_None_iff)

lemma find_unique:
  assumes "x \<in> set xs" "P x" and unique: "\<And>y. y \<in> set xs \<Longrightarrow> P y \<Longrightarrow> y = x"
  shows "find P xs = Some x"
proof (cases "find P xs")
  case None
  then show ?thesis using assms(1,2) find_eq_None by metis
next
  case (Some y)
  then show ?thesis using unique find_SomeD by metis
qed

lemma not_isl_Inr: "\<not> isl r \<Longrightarrow> \<exists>x. r = Inr x"
  by (cases r) auto

text \<open>An \<open>UPDATE ... SET ... WHERE\<close> on the rows of a table.\<close>

definition update_where :: "('r \<Rightarrow> bool) \<Rightarrow> ('r \<Rightarrow> 'r) \<Rightarrow> 'r list \<Rightarrow> 'r list" where
  "update_where P f rows = map (\<lambda>r. if P r then f r else r) rows"

lemma update_where_simps [simp]:
  "update_where P f [] = []"
  "update_where P f (r # rs) = (if P r then f r else r) # update_where P f rs"
  "update_where P f (xs @ ys) = update_where P f xs @ update_where P f ys"
  by (simp_all add: update_where_def)

lemma length_update_where [simp]: "length (update_where P f rows) = length rows"
  by (simp add: update_where_def)

lemma set_update_where:
  "set (update_where P f rows) = (\<lambda>r. if P r then f r else r) ` set rows"
  by (simp add: update_where_def)

lemma update_where_none: "(\<forall>r\<in>set rows. \<not> P r) \<Longrightarrow> update_where P f rows = rows"
  by (induction rows) auto

lemma update_where_cong:
  "(\<And>r. r \<in> set rows \<Longrightarrow> P r \<longleftrightarrow> Q r) \<Longrightarrow> update_where P f rows = update_where Q f rows"
  by (induction rows) auto

lemma filter_update_where_other:
  "(\<And>r. P r \<Longrightarrow> \<not> Q r) \<Longrightarrow> (\<And>r. P r \<Longrightarrow> \<not> Q (f r)) \<Longrightarrow>
   filter Q (update_where P f rows) = filter Q rows"
  by (induction rows) auto

lemma map_update_where_same:
  "(\<And>r. P r \<Longrightarrow> g (f r) = g r) \<Longrightarrow> map g (update_where P f rows) = map g rows"
  by (induction rows) auto

text \<open>
  \<open>ORDER BY key ASC\<close> or \<open>DESC\<close>, stable: rows with equal keys keep the order they come in, which is
  that of the remaining sort keys.
\<close>

definition order_by :: "bool \<Rightarrow> ('r \<Rightarrow> 'k::linorder) \<Rightarrow> 'r list \<Rightarrow> 'r list" where
  "order_by desc key rows = (if desc then rev (sort_key key (rev rows)) else sort_key key rows)"

lemma set_order_by [simp]: "set (order_by desc key rows) = set rows"
  by (simp add: order_by_def)

lemma length_order_by [simp]: "length (order_by desc key rows) = length rows"
  by (simp add: order_by_def)

section \<open>Text\<close>

definition ascii :: "char \<Rightarrow> bool" where
  "ascii c \<longleftrightarrow> of_char c < (128 :: nat)"

definition is_lower_ascii :: "char \<Rightarrow> bool" where
  "is_lower_ascii c \<longleftrightarrow> (97 :: nat) \<le> of_char c \<and> of_char c \<le> (122 :: nat)"

definition is_upper_ascii :: "char \<Rightarrow> bool" where
  "is_upper_ascii c \<longleftrightarrow> (65 :: nat) \<le> of_char c \<and> of_char c \<le> (90 :: nat)"

definition is_digit :: "char \<Rightarrow> bool" where
  "is_digit c \<longleftrightarrow> (48 :: nat) \<le> of_char c \<and> of_char c \<le> (57 :: nat)"

definition lower_char :: "char \<Rightarrow> char" where
  "lower_char c = (if is_upper_ascii c then char_of (of_char c + 32 :: nat) else c)"

text \<open>
  \<open>strings.ToLower\<close>: the standard library maps ASCII strings byte by byte and every other
  string through the Unicode tables, which are the parameter \<open>ul\<close>.
\<close>

definition to_lower :: "(string \<Rightarrow> string) \<Rightarrow> string \<Rightarrow> string" where
  "to_lower ul s = (if list_all ascii s then map lower_char s else ul s)"

text \<open>
  The byte sequences \<open>unicode.IsSpace\<close> accepts: the ASCII blanks and the UTF-8 encodings of
  U+0085, U+00A0, U+1680, U+2000 to U+200A, U+2028, U+2029, U+202F, U+205F and U+3000.
\<close>

definition is_ascii_space :: "char \<Rightarrow> bool" where
  "is_ascii_space c \<longleftrightarrow> of_char c = (32 :: nat) \<or> ((9 :: nat) \<le> of_char c \<and> of_char c \<le> (13 :: nat))"

definition is_space2 :: "char \<Rightarrow> char \<Rightarrow> bool" where
  "is_space2 a b \<longleftrightarrow> of_char a = (194 :: nat) \<and> (of_char b = (133 :: nat) \<or> of_char b = (160 :: nat))"

definition is_space3 :: "char \<Rightarrow> char \<Rightarrow> char \<Rightarrow> bool" where
  "is_space3 a b c \<longleftrightarrow>
     (let x = of_char a; y = of_char b; z = of_char c :: nat in
       x = 225 \<and> y = 154 \<and> z = 128 \<or>
       x = 226 \<and> y = 128 \<and> (128 \<le> z \<and> z \<le> 138 \<or> z = 168 \<or> z = 169 \<or> z = 175) \<or>
       x = 226 \<and> y = 129 \<and> z = 159 \<or>
       x = (227 :: nat) \<and> y = (128 :: nat) \<and> z = 128)"

fun trim_left :: "string \<Rightarrow> string" where
  "trim_left [] = []"
| "trim_left [a] = (if is_ascii_space a then [] else [a])"
| "trim_left [a, b] =
     (if is_ascii_space a then trim_left [b] else if is_space2 a b then [] else [a, b])"
| "trim_left (a # b # c # s) =
     (if is_ascii_space a then trim_left (b # c # s)
      else if is_space2 a b then trim_left (c # s)
      else if is_space3 a b c then trim_left s
      else a # b # c # s)"

text \<open>The same from the right end, on the reversed string.\<close>

fun trim_left_rev :: "string \<Rightarrow> string" where
  "trim_left_rev [] = []"
| "trim_left_rev [a] = (if is_ascii_space a then [] else [a])"
| "trim_left_rev [b, a] =
     (if is_ascii_space b then trim_left_rev [a] else if is_space2 a b then [] else [b, a])"
| "trim_left_rev (c # b # a # s) =
     (if is_ascii_space c then trim_left_rev (b # a # s)
      else if is_space2 b c then trim_left_rev (a # s)
      else if is_space3 a b c then trim_left_rev s
      else c # b # a # s)"

definition TrimSpace :: "string \<Rightarrow> string" where
  "TrimSpace s = rev (trim_left_rev (rev (trim_left s)))"

text \<open>\<open>strings.Trim(s, cutset)\<close> for a one-character cutset, and \<open>strings.TrimRight\<close>.\<close>

definition trim_char_right :: "char \<Rightarrow> string \<Rightarrow> string" where
  "trim_char_right c s = rev (dropWhile (\<lambda>x. x = c) (rev s))"

definition trim_char :: "char \<Rightarrow> string \<Rightarrow> string" where
  "trim_char c s = trim_char_right c (dropWhile (\<lambda>x. x = c) s)"

text \<open>\<open>regexp.ReplaceAllString\<close> for a pattern \<open>[class]+\<close>: each maximal run is replaced once.\<close>

function replace_runs :: "(char \<Rightarrow> bool) \<Rightarrow> string \<Rightarrow> string \<Rightarrow> string" where
  "replace_runs p r [] = []"
| "replace_runs p r (c # cs) =
     (if p c then r @ replace_runs p r (dropWhile p cs) else c # replace_runs p r cs)"
  by pat_completeness auto
termination
  by (relation "measure (\<lambda>(p, r, s). length s)") (auto simp: le_imp_less_Suc length_dropWhile_le)

text \<open>\<open>strings.HasPrefix\<close> and \<open>strings.Contains\<close>.\<close>

definition has_prefix :: "string \<Rightarrow> string \<Rightarrow> bool" where
  "has_prefix s p \<longleftrightarrow> take (length p) s = p"

fun contains_text :: "string \<Rightarrow> string \<Rightarrow> bool" where
  "contains_text [] p \<longleftrightarrow> p = []"
| "contains_text (c # s) p \<longleftrightarrow> has_prefix (c # s) p \<or> contains_text s p"

text \<open>\<open>strings.EqualFold\<close> of two ASCII strings.\<close>

definition equal_fold_ascii :: "string \<Rightarrow> string \<Rightarrow> bool" where
  "equal_fold_ascii s t \<longleftrightarrow> map lower_char s = map lower_char t"

text \<open>\<open>strings.Split(s, sep)\<close> for a one-character separator.\<close>

fun split_char :: "char \<Rightarrow> string \<Rightarrow> string list" where
  "split_char sep [] = [[]]"
| "split_char sep (c # s) =
     (if c = sep then [] # split_char sep s
      else (case split_char sep s of [] \<Rightarrow> [[c]] | f # fs \<Rightarrow> (c # f) # fs))"

lemma split_char_not_Nil [simp]: "split_char sep s \<noteq> []"
  by (induction s) (auto split: list.splits)

section \<open>Numbers in text\<close>

definition digit_value :: "char \<Rightarrow> int" where
  "digit_value c = int (of_char c) - 48"

fun digits_value :: "int \<Rightarrow> string \<Rightarrow> int option" where
  "digits_value acc [] = Some acc"
| "digits_value acc (c # s) =
     (if is_digit c then digits_value (10 * acc + digit_value c) s else None)"

definition parse_unsigned :: "string \<Rightarrow> int option" where
  "parse_unsigned s = (if s = [] then None else digits_value 0 s)"

text \<open>
  \<open>strconv.ParseInt(s, 10, bits)\<close>: an optional sign, decimal digits, and a value that fits the
  signed width; \<open>None\<close> is the syntax or range error.
\<close>

definition ParseInt :: "nat \<Rightarrow> string \<Rightarrow> int option" where
  "ParseInt bits s =
     (let (neg, ds) = (case s of [] \<Rightarrow> (False, [])
                       | c # r \<Rightarrow> if c = CHR ''-'' then (True, r)
                                  else if c = CHR ''+'' then (False, r) else (False, s))
      in case parse_unsigned ds of
           None \<Rightarrow> None
         | Some n \<Rightarrow>
             (let v = (if neg then - n else n) in
              if - (2 ^ (bits - 1)) \<le> v \<and> v < 2 ^ (bits - 1) then Some v else None))"

lemma ParseInt_range:
  "ParseInt bits s = Some v \<Longrightarrow> - (2 ^ (bits - 1)) \<le> v \<and> v < 2 ^ (bits - 1)"
  by (auto simp: ParseInt_def Let_def split: prod.splits option.splits if_splits)

function decimal_nat :: "nat \<Rightarrow> string" where
  "decimal_nat n =
     (if n < 10 then [char_of (48 + n)] else decimal_nat (n div 10) @ [char_of (48 + n mod 10)])"
  by pat_completeness auto
termination
  by (relation "measure id") auto

declare decimal_nat.simps [simp del]

text \<open>\<open>strconv.Itoa\<close> and the verb \<open>%d\<close>.\<close>

definition Itoa :: "int \<Rightarrow> string" where
  "Itoa n = (if n < 0 then CHR ''-'' # decimal_nat (nat (- n)) else decimal_nat (nat n))"

section \<open>Encodings\<close>

definition nat_of_byte :: "char \<Rightarrow> nat" where
  "nat_of_byte c = of_char c"

lemma nat_of_byte_less [simp]: "nat_of_byte c < 256"
  by (simp add: nat_of_byte_def)

definition hex_digit :: "nat \<Rightarrow> char" where
  "hex_digit n = (if n < 10 then char_of (48 + n) else char_of (87 + n))"

text \<open>\<open>hex.EncodeToString\<close>.\<close>

definition hex_encode :: "string \<Rightarrow> string" where
  "hex_encode s =
     concat (map (\<lambda>c. [hex_digit (nat_of_byte c div 16), hex_digit (nat_of_byte c mod 16)]) s)"

lemma length_hex_encode: "length (hex_encode s) = 2 * length s"
  by (induction s) (simp_all add: hex_encode_def)

text \<open>\<open>base64.RawURLEncoding.EncodeToString\<close>: the URL alphabet without padding.\<close>

definition base64_digit :: "nat \<Rightarrow> char" where
  "base64_digit n =
     (if n < 26 then char_of (65 + n)
      else if n < 52 then char_of (97 + (n - 26))
      else if n < 62 then char_of (48 + (n - 52))
      else if n = 62 then CHR ''-'' else CHR ''_'')"

fun base64_encode :: "string \<Rightarrow> string" where
  "base64_encode [] = []"
| "base64_encode [a] =
     (let x = nat_of_byte a in [base64_digit (x div 4), base64_digit (x mod 4 * 16)])"
| "base64_encode [a, b] =
     (let x = nat_of_byte a; y = nat_of_byte b in
      [base64_digit (x div 4), base64_digit (x mod 4 * 16 + y div 16),
       base64_digit (y mod 16 * 4)])"
| "base64_encode (a # b # c # s) =
     (let x = nat_of_byte a; y = nat_of_byte b; z = nat_of_byte c in
      base64_digit (x div 4) # base64_digit (x mod 4 * 16 + y div 16)
      # base64_digit (y mod 16 * 4 + z div 64) # base64_digit (z mod 64)
      # base64_encode s)"

lemma length_base64_encode: "length (base64_encode s) = (4 * length s + 2) div 3"
  by (induction s rule: base64_encode.induct) (simp_all add: Let_def)

definition is_base64url_char :: "char \<Rightarrow> bool" where
  "is_base64url_char c \<longleftrightarrow>
     is_upper_ascii c \<or> is_lower_ascii c \<or> is_digit c \<or> c = CHR ''-'' \<or> c = CHR ''_''"

lemma is_base64url_digit: "is_base64url_char (base64_digit n)"
  by (auto simp: base64_digit_def is_base64url_char_def is_upper_ascii_def is_lower_ascii_def
      is_digit_def)

lemma base64_encode_alphabet: "list_all is_base64url_char (base64_encode s)"
  by (induction s rule: base64_encode.induct) (simp_all add: Let_def is_base64url_digit)

end
