(* ===== verification/Httpx.thy ===== *)
theory Httpx
  imports TF_Prelude
begin

text \<open>
  Package \<open>internal/httpx\<close>: the error values services return and the way the HTTP layer maps
  them (\<open>errors.go\<close>, \<open>response.go\<close>), the JSON body decoder's error mapping (\<open>decode.go\<close>),
  pagination (\<open>pagination.go\<close>) and the client address used for rate limiting
  (\<open>client.go\<close>).

  A Go error is a value of type \<open>err\<close>: a sentinel, a typed API error that may wrap a cause, a
  PostgreSQL error with its SQLSTATE code and constraint, a wrapped error
  (\<open>fmt.Errorf("...: %w", err)\<close>), a permanent job failure (\<open>internal/jobs\<close>), or a plain
  message. \<open>errors.Is\<close> and \<open>errors.As\<close> walk the chain of causes.
\<close>

section \<open>Errors\<close>

datatype sentinel =
    ErrNotFound | ErrUnauthorized | ErrForbidden | ErrValidation | ErrConflict
  | ErrUnprocessable | ErrRateLimited | ErrInternal
  | ErrNoRows | ErrEOF | ErrInvalidToken | ErrCanceled | ErrRedisNil

type_synonym details = "(string \<times> string) list"

datatype err =
    Sentinel sentinel
  | APIError (api_Status: int) (api_Code: string) (api_Message: string) (api_Details: details)
      (api_err: "err option")
  | PgError (pg_Code: string) (pg_ConstraintName: string)
  | MaxBytesError
  | Wrapped string err
  | PermanentError err
  | Timeout string
  | Message string

abbreviation throw_sentinel :: "sentinel \<Rightarrow> err + 'a" where
  "throw_sentinel s \<equiv> Inl (Sentinel s)"

fun sentinel_text :: "sentinel \<Rightarrow> string" where
  "sentinel_text ErrNotFound = ''resource not found''"
| "sentinel_text ErrUnauthorized = ''unauthorized''"
| "sentinel_text ErrForbidden = ''forbidden''"
| "sentinel_text ErrValidation = ''validation failed''"
| "sentinel_text ErrConflict = ''conflict''"
| "sentinel_text ErrUnprocessable = ''unprocessable entity''"
| "sentinel_text ErrRateLimited = ''rate limited''"
| "sentinel_text ErrInternal = ''internal error''"
| "sentinel_text ErrNoRows = ''no rows in result set''"
| "sentinel_text ErrEOF = ''EOF''"
| "sentinel_text ErrInvalidToken = ''invalid token''"
| "sentinel_text ErrCanceled = ''context canceled''"
| "sentinel_text ErrRedisNil = ''redis: nil''"

text \<open>The method \<open>Error()\<close> of each error value.\<close>

fun error_text :: "err \<Rightarrow> string" where
  "error_text (Sentinel s) = sentinel_text s"
| "error_text (APIError st c m d None) = m"
| "error_text (APIError st c m d (Some e)) = error_text e"
| "error_text (PgError c k) = ''ERROR: '' @ k @ '' (SQLSTATE '' @ c @ '')''"
| "error_text MaxBytesError = ''http: request body too large''"
| "error_text (Wrapped t e) = t @ '': '' @ error_text e"
| "error_text (PermanentError e) = error_text e"
| "error_text (Timeout t) = t"
| "error_text (Message t) = t"

text \<open>\<open>errors.Is(err, sentinel)\<close>: the sentinel occurs in the chain of causes.\<close>

fun errors_Is :: "err \<Rightarrow> sentinel \<Rightarrow> bool" where
  "errors_Is (Sentinel s) t \<longleftrightarrow> s = t"
| "errors_Is (APIError st c m d None) t \<longleftrightarrow> False"
| "errors_Is (APIError st c m d (Some e)) t \<longleftrightarrow> errors_Is e t"
| "errors_Is (Wrapped x e) t \<longleftrightarrow> errors_Is e t"
| "errors_Is (PermanentError e) t \<longleftrightarrow> errors_Is e t"
| "errors_Is (PgError c k) t \<longleftrightarrow> False"
| "errors_Is MaxBytesError t \<longleftrightarrow> False"
| "errors_Is (Timeout x) t \<longleftrightarrow> False"
| "errors_Is (Message x) t \<longleftrightarrow> False"

text \<open>\<open>errors.As(err, &apiErr)\<close>: the first API error of the chain.\<close>

fun errors_As_api :: "err \<Rightarrow> err option" where
  "errors_As_api (APIError st c m d e) = Some (APIError st c m d e)"
| "errors_As_api (Wrapped x e) = errors_As_api e"
| "errors_As_api (PermanentError e) = errors_As_api e"
| "errors_As_api _ = None"

text \<open>\<open>errors.As(err, &pgErr)\<close>: code and constraint of the first PostgreSQL error.\<close>

fun errors_As_pg :: "err \<Rightarrow> (string \<times> string) option" where
  "errors_As_pg (PgError c k) = Some (c, k)"
| "errors_As_pg (APIError st c m d (Some e)) = errors_As_pg e"
| "errors_As_pg (Wrapped x e) = errors_As_pg e"
| "errors_As_pg (PermanentError e) = errors_As_pg e"
| "errors_As_pg _ = None"

fun errors_As_maxbytes :: "err \<Rightarrow> bool" where
  "errors_As_maxbytes MaxBytesError \<longleftrightarrow> True"
| "errors_As_maxbytes (APIError st c m d (Some e)) \<longleftrightarrow> errors_As_maxbytes e"
| "errors_As_maxbytes (Wrapped x e) \<longleftrightarrow> errors_As_maxbytes e"
| "errors_As_maxbytes (PermanentError e) \<longleftrightarrow> errors_As_maxbytes e"
| "errors_As_maxbytes _ \<longleftrightarrow> False"

definition NewAPIError :: "int \<Rightarrow> string \<Rightarrow> string \<Rightarrow> err option \<Rightarrow> err" where
  "NewAPIError status code message cause = APIError status code message [] cause"

definition NewValidationError :: "details \<Rightarrow> err" where
  "NewValidationError fields =
     APIError 400 ''VALIDATION_ERROR'' ''The request is invalid'' fields (Some (Sentinel ErrValidation))"

definition FromError :: "err \<Rightarrow> err" where
  "FromError e =
     (case errors_As_api e of
        Some a \<Rightarrow> a
      | None \<Rightarrow>
          if errors_Is e ErrNotFound then NewAPIError 404 ''NOT_FOUND'' ''Resource not found'' (Some e)
          else if errors_Is e ErrUnauthorized then
            NewAPIError 401 ''UNAUTHORIZED'' ''Authentication required'' (Some e)
          else if errors_Is e ErrForbidden then
            NewAPIError 403 ''FORBIDDEN'' ''You do not have permission to perform this action'' (Some e)
          else if errors_Is e ErrValidation then
            NewAPIError 400 ''VALIDATION_ERROR'' ''The request is invalid'' (Some e)
          else if errors_Is e ErrUnprocessable then
            NewAPIError 422 ''UNPROCESSABLE_ENTITY'' ''The request could not be processed'' (Some e)
          else if errors_Is e ErrConflict then
            NewAPIError 409 ''CONFLICT'' ''The request conflicts with the current state'' (Some e)
          else if errors_Is e ErrRateLimited then
            NewAPIError 429 ''RATE_LIMITED'' ''Too many requests'' (Some e)
          else NewAPIError 500 ''INTERNAL_ERROR'' ''An internal error occurred'' (Some e))"

section \<open>Responses\<close>

record ErrorBody =
  eb_Code :: string
  eb_Message :: string
  eb_Details :: details
  eb_RequestID :: string

datatype 'a response = RespData (resp_status: int) 'a | RespError (resp_status: int) ErrorBody

text \<open>
  What the client receives. \<open>WriteError\<close> also logs errors with status 500 and above; the log
  record is the second component.
\<close>

definition WriteError :: "string \<Rightarrow> err \<Rightarrow> 'a response \<times> (string \<times> int \<times> err) option" where
  "WriteError requestID e =
     (let a = FromError e in
      (RespError (api_Status a)
         \<lparr>eb_Code = api_Code a, eb_Message = api_Message a, eb_Details = api_Details a,
          eb_RequestID = requestID\<rparr>,
       if api_Status a \<ge> 500 then Some (api_Code a, api_Status a, e) else None))"

definition WriteData :: "int \<Rightarrow> 'a \<Rightarrow> 'a response" where
  "WriteData status x = RespData status x"

text \<open>
  \<open>DecodeJSON\<close>: \<open>first\<close> is what \<open>json.Decoder.Decode\<close> returns for the destination and
  \<open>second\<close> the error of the decode that looks for trailing data (\<open>None\<close> when it succeeds,
  which means a second value was present).
\<close>

definition DecodeJSON :: "err + 'a \<Rightarrow> err option \<Rightarrow> err + 'a" where
  "DecodeJSON first second =
     (case first of
        Inl e \<Rightarrow>
          if errors_As_maxbytes e then
            Inl (NewAPIError 413 ''REQUEST_TOO_LARGE'' ''Request body is too large'' (Some e))
          else if errors_Is e ErrEOF then
            Inl (NewAPIError 400 ''INVALID_JSON'' ''Request body must not be empty'' (Some e))
          else Inl (NewAPIError 400 ''INVALID_JSON'' ''Request body contains invalid JSON'' (Some e))
      | Inr v \<Rightarrow>
          (case second of
             Some e \<Rightarrow>
               if errors_Is e ErrEOF then Inr v
               else Inl (NewAPIError 400 ''INVALID_JSON''
                     ''Request body must contain a single JSON object''
                     (Some (Message ''multiple json values'')))
           | None \<Rightarrow>
               Inl (NewAPIError 400 ''INVALID_JSON'' ''Request body must contain a single JSON object''
                     (Some (Message ''multiple json values'')))))"

section \<open>Pagination\<close>

definition DefaultPageSize :: int where
  "DefaultPageSize = 20"

definition MaxPageSize :: int where
  "MaxPageSize = 100"

record PageRequest =
  Page :: int
  PageSize :: int

record Pagination =
  pg_Page :: int
  pg_PageSize :: int
  pg_Total :: int
  pg_TotalPages :: int

text \<open>Two's complement wrap-around at a width, as Go's conversions and arithmetic do.\<close>

definition wrap_int :: "nat \<Rightarrow> int \<Rightarrow> int" where
  "wrap_int bits n = (n + 2 ^ (bits - 1)) mod 2 ^ bits - 2 ^ (bits - 1)"

lemma wrap_int_id: "0 < bits \<Longrightarrow> - (2 ^ (bits - 1)) \<le> n \<Longrightarrow> n < 2 ^ (bits - 1) \<Longrightarrow> wrap_int bits n = n"
proof -
  assume "0 < bits" "- (2 ^ (bits - 1)) \<le> n" "n < 2 ^ (bits - 1)"
  moreover have "(2::int) ^ bits = 2 * 2 ^ (bits - 1)"
    using \<open>0 < bits\<close> by (cases bits) simp_all
  ultimately show ?thesis by (simp add: wrap_int_def mod_pos_pos_trivial)
qed

definition go_quotient :: "int \<Rightarrow> int \<Rightarrow> int" where
  "go_quotient n d = (if n < 0 \<longleftrightarrow> d < 0 then abs n div abs d else - (abs n div abs d))"

lemma go_quotient_nonneg: "0 \<le> n \<Longrightarrow> 0 < d \<Longrightarrow> go_quotient n d = n div d"
  by (simp add: go_quotient_def)

text \<open>The fields are \<open>int32\<close>; limit and offset are \<open>int64\<close>.\<close>

definition Limit :: "PageRequest \<Rightarrow> int" where
  "Limit p = PageSize p"

definition Offset :: "PageRequest \<Rightarrow> int" where
  "Offset p = wrap_int 64 (wrap_int 32 (Page p - 1) * PageSize p)"

text \<open>\<open>url.Values.Get\<close>: the first value of a key, the empty string when there is none.\<close>

type_synonym url_values = "string \<Rightarrow> string list option"

definition values_Get :: "url_values \<Rightarrow> string \<Rightarrow> string" where
  "values_Get vs k = (case vs k of Some (v # _) \<Rightarrow> v | _ \<Rightarrow> [])"

definition ParsePageRequest :: "url_values \<Rightarrow> err + PageRequest" where
  "ParsePageRequest vs =
     (let req0 = \<lparr>Page = 1, PageSize = DefaultPageSize\<rparr>;
          raw1 = values_Get vs ''page'';
          (req1, f1) =
            (if raw1 \<noteq> [] then
               (case ParseInt 32 raw1 of
                  None \<Rightarrow> (req0, [(''page'', ''must be a positive integer'')])
                | Some n \<Rightarrow> if n < 1 then (req0, [(''page'', ''must be a positive integer'')])
                            else (req0\<lparr>Page := wrap_int 32 n\<rparr>, []))
             else (req0, []));
          raw2 = values_Get vs ''page_size'';
          (req2, f2) =
            (if raw2 \<noteq> [] then
               (case ParseInt 32 raw2 of
                  None \<Rightarrow> (req1, [(''page_size'', ''must be between 1 and '' @ Itoa MaxPageSize)])
                | Some n \<Rightarrow>
                    if n < 1 \<or> n > MaxPageSize
                    then (req1, [(''page_size'', ''must be between 1 and '' @ Itoa MaxPageSize)])
                    else (req1\<lparr>PageSize := wrap_int 32 n\<rparr>, []))
             else (req1, []))
      in if f1 @ f2 \<noteq> [] then Inl (NewValidationError (f1 @ f2)) else Inr req2)"

definition NewPagination :: "PageRequest \<Rightarrow> int \<Rightarrow> Pagination" where
  "NewPagination req n =
     \<lparr>pg_Page = Page req, pg_PageSize = PageSize req, pg_Total = n,
      pg_TotalPages =
        (if PageSize req > 0
         then go_quotient (wrap_int 64 (wrap_int 64 (n + PageSize req) - 1)) (PageSize req) else 0)\<rparr>"

section \<open>Client address\<close>

text \<open>
  An IP address is its 16 bytes, as \<open>net.ParseIP\<close> returns them, an IPv4 address in the
  form \<open>::ffff:a.b.c.d\<close>. Parsing an address and splitting host and port are the parameters
  \<open>parse_ip\<close> and \<open>split_host_port\<close>.
\<close>

type_synonym ip = "nat list"

definition To4 :: "ip \<Rightarrow> nat list option" where
  "To4 a = (if length a = 16 \<and> take 12 a = replicate 10 0 @ [255, 255] then Some (drop 12 a)
            else if length a = 4 then Some a else None)"

definition IsLoopback :: "ip \<Rightarrow> bool" where
  "IsLoopback a = (case To4 a of Some b \<Rightarrow> b ! 0 = 127 | None \<Rightarrow> a = replicate 15 0 @ [1])"

definition IsPrivate :: "ip \<Rightarrow> bool" where
  "IsPrivate a =
     (case To4 a of
        Some b \<Rightarrow> b ! 0 = 10 \<or> (b ! 0 = 172 \<and> 16 \<le> b ! 1 \<and> b ! 1 < 32) \<or> (b ! 0 = 192 \<and> b ! 1 = 168)
      | None \<Rightarrow> length a = 16 \<and> 252 \<le> a ! 0 \<and> a ! 0 < 254)"

definition IsLinkLocalUnicast :: "ip \<Rightarrow> bool" where
  "IsLinkLocalUnicast a =
     (case To4 a of
        Some b \<Rightarrow> b ! 0 = 169 \<and> b ! 1 = 254
      | None \<Rightarrow> length a = 16 \<and> a ! 0 = 254 \<and> 128 \<le> a ! 1 \<and> a ! 1 < 192)"

definition isTrustedProxy :: "(string \<Rightarrow> ip option) \<Rightarrow> string \<Rightarrow> bool" where
  "isTrustedProxy parse_ip s =
     (case parse_ip s of None \<Rightarrow> False
      | Some a \<Rightarrow> IsLoopback a \<or> IsPrivate a \<or> IsLinkLocalUnicast a)"

definition remoteIP :: "(string \<Rightarrow> ip option) \<Rightarrow> (string \<Rightarrow> (string \<times> string) option) \<Rightarrow> string \<Rightarrow> string"
  where
  "remoteIP parse_ip split_host_port addr =
     (case split_host_port addr of
        Some (host, port) \<Rightarrow> host
      | None \<Rightarrow> (case parse_ip addr of Some a \<Rightarrow> addr | None \<Rightarrow> []))"

definition ClientIP ::
  "(string \<Rightarrow> ip option) \<Rightarrow> (string \<Rightarrow> (string \<times> string) option) \<Rightarrow> string \<Rightarrow> string \<Rightarrow> string" where
  "ClientIP parse_ip split_host_port remoteAddr forwarded =
     (let peer = remoteIP parse_ip split_host_port remoteAddr in
      if peer \<noteq> [] \<and> isTrustedProxy parse_ip peer \<and> forwarded \<noteq> [] then
        (let first = TrimSpace (hd (split_char (CHR '','') forwarded)) in
         case parse_ip first of Some a \<Rightarrow> first | None \<Rightarrow> peer)
      else peer)"


section \<open>Properties\<close>

lemma errors_As_api_is_api:
  "errors_As_api e = Some a \<Longrightarrow> errors_As_api a = Some a"
  by (induction e rule: errors_As_api.induct) auto

lemma FromError_eq:
  "errors_As_api e1 = errors_As_api e2 \<Longrightarrow> (\<And>s. errors_Is e1 s \<longleftrightarrow> errors_Is e2 s) \<Longrightarrow>
   api_Status (FromError e1) = api_Status (FromError e2) \<and>
   api_Code (FromError e1) = api_Code (FromError e2) \<and>
   api_Message (FromError e1) = api_Message (FromError e2) \<and>
   api_Details (FromError e1) = api_Details (FromError e2)"
  by (cases "errors_As_api e2") (simp_all add: FromError_def NewAPIError_def)

text \<open>
  Internal details never reach the client. The response to a failed request is a function of
  the API error in the chain, or else of which sentinels occur in it: two errors that agree on
  these give the same response whatever messages, SQLSTATE codes and causes they carry, and
  wrapping an error with context changes nothing.
\<close>

theorem write_error_no_leak:
  assumes "errors_As_api e1 = errors_As_api e2" and "\<forall>s. errors_Is e1 s \<longleftrightarrow> errors_Is e2 s"
  shows "(fst (WriteError rid e1) :: 'a response) = fst (WriteError rid e2) \<and>
         (fst (WriteError rid (Wrapped t e1)) :: 'a response) = fst (WriteError rid e1) \<and>
         (errors_As_api e1 = None \<and> (\<forall>s\<in>{ErrNotFound, ErrUnauthorized, ErrForbidden, ErrValidation,
             ErrUnprocessable, ErrConflict, ErrRateLimited}. \<not> errors_Is e1 s) \<longrightarrow>
          (fst (WriteError rid e1) :: 'a response) =
            RespError 500 \<lparr>eb_Code = ''INTERNAL_ERROR'', eb_Message = ''An internal error occurred'',
                           eb_Details = [], eb_RequestID = rid\<rparr>)"
  using FromError_eq [of e1 e2] FromError_eq [of "Wrapped t e1" e1] assms
  by (simp_all add: WriteError_def Let_def FromError_def NewAPIError_def)

theorem write_error_no_leak_witness:
  "fst (WriteError ''r'' (Wrapped ''get user'' (PgError ''08006'' ''secret''))) =
     (fst (WriteError ''r'' (Message ''disk on fire'')) :: unit response) \<and>
   fst (WriteError ''r'' (Message ''disk on fire'')) =
     (RespError 500 \<lparr>eb_Code = ''INTERNAL_ERROR'', eb_Message = ''An internal error occurred'',
                     eb_Details = [], eb_RequestID = ''r''\<rparr> :: unit response)"
  using write_error_no_leak [where 'a = unit and ?e1.0 = "Wrapped ''get user'' (PgError ''08006'' ''secret'')"
      and ?e2.0 = "Message ''disk on fire''" and rid = "''r''" and t = "''x''"]
  by (simp, metis)

lemma page_offset_exact:
  assumes "1 \<le> Page p" "Page p < 2 ^ 31" "1 \<le> PageSize p" "PageSize p \<le> 100"
  shows "Offset p = (Page p - 1) * PageSize p"
proof -
  have "wrap_int 32 (Page p - 1) = Page p - 1"
    using assms by (intro wrap_int_id) simp_all
  moreover have "(Page p - 1) * PageSize p \<le> 2 ^ 31 * 100"
    using assms by (intro mult_mono) simp_all
  moreover have "0 \<le> (Page p - 1) * PageSize p"
    using assms by simp
  ultimately show ?thesis
    using wrap_int_id [of 64 "(Page p - 1) * PageSize p"] by (simp add: Offset_def)
qed

text \<open>
  A page request that is accepted is inside its bounds, and the row offset computed for it in
  machine integers is the exact non-negative product, for every page a client can send.
\<close>

theorem parse_page_request_bounds:
  assumes "ParsePageRequest vs = Inr p"
  shows "1 \<le> Page p \<and> Page p < 2 ^ 31 \<and> 1 \<le> PageSize p \<and> PageSize p \<le> MaxPageSize \<and>
         Offset p = (Page p - 1) * PageSize p \<and> 0 \<le> Offset p"
proof -
  have wid: "\<And>n. 1 \<le> n \<Longrightarrow> n < 2 ^ 31 \<Longrightarrow> wrap_int 32 n = n"
    by (rule wrap_int_id) simp_all
  have rng: "\<And>s n. ParseInt 32 s = Some n \<Longrightarrow> n < 2 ^ 31"
    using ParseInt_range [of 32] by auto
  have bounds: "1 \<le> Page p \<and> Page p < 2 ^ 31 \<and> 1 \<le> PageSize p \<and> PageSize p \<le> MaxPageSize"
    using assms wid
    by (auto simp: ParsePageRequest_def Let_def DefaultPageSize_def MaxPageSize_def dest!: rng
        split: if_splits option.splits)
  moreover from bounds have "Offset p = (Page p - 1) * PageSize p"
    by (intro page_offset_exact) (auto simp: MaxPageSize_def)
  ultimately show ?thesis by simp
qed

definition last_page_query :: url_values where
  "last_page_query =
     (\<lambda>k. if k = ''page'' then Some [''2147483647''] else if k = ''page_size'' then Some [''100'']
          else None)"

lemma parse_last_page:
  "ParsePageRequest last_page_query = Inr \<lparr>Page = 2147483647, PageSize = 100\<rparr>"
  by (simp add: ParsePageRequest_def last_page_query_def values_Get_def ParseInt_def
      parse_unsigned_def is_digit_def digit_value_def MaxPageSize_def wrap_int_def)

theorem parse_page_request_bounds_witness:
  "Offset \<lparr>Page = 2147483647, PageSize = 100\<rparr> = 214748364600"
  using parse_page_request_bounds [OF parse_last_page] by simp

text \<open>
  The page count of the response metadata is the number of pages needed: every item has a page
  and no page is empty; an empty collection has none. The request is one the parser accepts.
\<close>

theorem new_pagination_ceiling:
  assumes "1 \<le> PageSize req" "PageSize req \<le> MaxPageSize" "0 \<le> n" "n < 2 ^ 62"
  shows "n \<le> pg_TotalPages (NewPagination req n) * PageSize req \<and>
         (if n = 0 then pg_TotalPages (NewPagination req n) = 0
          else (pg_TotalPages (NewPagination req n) - 1) * PageSize req < n)"
proof -
  let ?k = "PageSize req"
  have k: "0 < ?k" "?k \<le> 100" using assms by (simp_all add: MaxPageSize_def)
  have "wrap_int 64 (n + ?k) = n + ?k" "wrap_int 64 (n + ?k - 1) = n + ?k - 1"
    using k assms(3,4) by (intro wrap_int_id; simp)+
  then have tp: "pg_TotalPages (NewPagination req n) = (n + ?k - 1) div ?k"
    using k assms(3) by (simp add: NewPagination_def go_quotient_nonneg)
  have split: "n + ?k - 1 = (n + ?k - 1) div ?k * ?k + (n + ?k - 1) mod ?k"
    by simp
  have rem: "0 \<le> (n + ?k - 1) mod ?k" "(n + ?k - 1) mod ?k < ?k"
    using k by simp_all
  have "n \<le> (n + ?k - 1) div ?k * ?k" "((n + ?k - 1) div ?k - 1) * ?k < n \<or> n = 0"
    unfolding left_diff_distrib using split rem assms(3) by linarith+
  then show ?thesis
    using k tp by (cases "n = 0") (auto simp: div_pos_pos_trivial)
qed

theorem new_pagination_ceiling_witness:
  "(21::int) \<le> pg_TotalPages (NewPagination \<lparr>Page = 1, PageSize = 20\<rparr> 21) * 20 \<and>
   (pg_TotalPages (NewPagination \<lparr>Page = 1, PageSize = 20\<rparr> 21) - 1) * 20 < 21"
  using new_pagination_ceiling [of "\<lparr>Page = 1, PageSize = 20\<rparr>" 21]
  by (simp add: MaxPageSize_def)

text \<open>
  A peer that is not a trusted proxy cannot choose the address it is limited by: the forwarded
  header has no effect, and the address is the one of the connection.
\<close>

theorem client_ip_direct_peer:
  assumes "\<not> isTrustedProxy parse_ip (remoteIP parse_ip split_host_port addr)"
  shows "ClientIP parse_ip split_host_port addr forwarded = remoteIP parse_ip split_host_port addr"
  using assms by (simp add: ClientIP_def Let_def)

definition demo_parse_ip :: "string \<Rightarrow> ip option" where
  "demo_parse_ip s =
     (if s = ''8.8.8.8'' then Some (replicate 10 0 @ [255, 255, 8, 8, 8, 8])
      else if s = ''10.0.0.1'' then Some (replicate 10 0 @ [255, 255, 10, 0, 0, 1])
      else if s = ''1.2.3.4'' then Some (replicate 10 0 @ [255, 255, 1, 2, 3, 4]) else None)"

definition demo_split_host_port :: "string \<Rightarrow> (string \<times> string) option" where
  "demo_split_host_port s =
     (if s = ''8.8.8.8:99'' then Some (''8.8.8.8'', ''99'')
      else if s = ''10.0.0.1:80'' then Some (''10.0.0.1'', ''80'') else None)"

theorem client_ip_direct_peer_witness:
  "ClientIP demo_parse_ip demo_split_host_port ''8.8.8.8:99'' ''1.2.3.4'' = ''8.8.8.8''"
proof -
  have "\<not> isTrustedProxy demo_parse_ip (remoteIP demo_parse_ip demo_split_host_port ''8.8.8.8:99'')"
    by (simp add: isTrustedProxy_def remoteIP_def demo_parse_ip_def demo_split_host_port_def
        IsLoopback_def IsPrivate_def IsLinkLocalUnicast_def To4_def)
  from client_ip_direct_peer [OF this, of "''1.2.3.4''"]
  show ?thesis by (simp add: remoteIP_def demo_split_host_port_def)
qed

lemma split_char_prefix:
  "sep \<notin> set a \<Longrightarrow> hd (split_char sep (a @ sep # rest)) = a"
proof (induction a)
  case Nil
  then show ?case by simp
next
  case (Cons c a)
  then show ?case by (cases "split_char sep (a @ sep # rest)") auto
qed

text \<open>
  Behind a trusted proxy the address is the leftmost element of the forwarded header, whatever
  the proxies appended after it. A proxy appends the address it saw, so the leftmost element is the
  text the client itself sent.
\<close>

theorem client_ip_leftmost_is_client_chosen:
  assumes peer: "remoteIP parse_ip split_host_port addr = peer" "peer \<noteq> []"
    "isTrustedProxy parse_ip peer"
    and claimed: "parse_ip claimed = Some a" "CHR '','' \<notin> set claimed" "TrimSpace claimed = claimed"
  shows "ClientIP parse_ip split_host_port addr (claimed @ CHR '','' # appended) = claimed"
  using assms split_char_prefix [of "CHR '',''" claimed appended]
  by (simp add: ClientIP_def Let_def)

theorem client_ip_leftmost_is_client_chosen_witness:
  "ClientIP demo_parse_ip demo_split_host_port ''10.0.0.1:80'' (''1.2.3.4'' @ CHR '','' # '' 8.8.8.8'')
     = ''1.2.3.4''"
proof (rule client_ip_leftmost_is_client_chosen)
  show "remoteIP demo_parse_ip demo_split_host_port ''10.0.0.1:80'' = ''10.0.0.1''"
    by (simp add: remoteIP_def demo_split_host_port_def)
  show "isTrustedProxy demo_parse_ip ''10.0.0.1''"
    by (simp add: isTrustedProxy_def demo_parse_ip_def IsPrivate_def To4_def)
  show "demo_parse_ip ''1.2.3.4'' = Some (replicate 10 0 @ [255, 255, 1, 2, 3, 4])"
    by (simp add: demo_parse_ip_def)
  show "TrimSpace ''1.2.3.4'' = ''1.2.3.4''"
    by (simp add: TrimSpace_def is_ascii_space_def is_space2_def is_space3_def)
qed simp_all

end
