(* ===== verification/Validation.thy ===== *)
theory Validation
  imports Httpx
begin

text \<open>
  Package \<open>internal/validation\<close>. The validator is the accumulated map from field to first
  message, kept as an association list in the order the checks ran. The address grammar of
  \<open>mail.ParseAddress\<close> and the Unicode letter and digit tables are parameters: \<open>mail_ok\<close> says
  whether an address parses, \<open>runes\<close> decodes a string into its code points and \<open>IsLetter\<close>,
  \<open>IsDigit\<close> classify them.
\<close>

type_synonym validator = details

definition New :: validator where
  "New = []"

definition Check :: "bool \<Rightarrow> string \<Rightarrow> string \<Rightarrow> validator \<Rightarrow> validator" where
  "Check ok field msg v = (if \<not> ok then (if map_of v field = None then v @ [(field, msg)] else v) else v)"

definition Valid :: "validator \<Rightarrow> bool" where
  "Valid v \<longleftrightarrow> v = []"

definition Err :: "validator \<Rightarrow> err option" where
  "Err v = (if Valid v then None else Some (NewValidationError v))"

definition Required :: "string \<Rightarrow> string \<Rightarrow> validator \<Rightarrow> validator" where
  "Required field val v = Check (TrimSpace val \<noteq> []) field ''is required'' v"

definition MaxLen :: "string \<Rightarrow> string \<Rightarrow> nat \<Rightarrow> validator \<Rightarrow> validator" where
  "MaxLen field val n v = Check (length val \<le> n) field ''is too long'' v"

definition Email :: "(string \<Rightarrow> bool) \<Rightarrow> string \<Rightarrow> string \<Rightarrow> validator \<Rightarrow> validator" where
  "Email mail_ok field val v = Check (mail_ok val) field ''must be a valid email address'' v"

record unicode =
  runes :: "string \<Rightarrow> nat list"
  IsLetter :: "nat \<Rightarrow> bool"
  IsDigit :: "nat \<Rightarrow> bool"

text \<open>The loop over the runes, with the two flags as its state.\<close>

fun scan_password :: "unicode \<Rightarrow> nat list \<Rightarrow> bool \<times> bool \<Rightarrow> bool \<times> bool" where
  "scan_password U [] flags = flags"
| "scan_password U (r # rs) (hasLetter, hasDigit) =
     scan_password U rs
       (if IsLetter U r then (True, hasDigit)
        else if IsDigit U r then (hasLetter, True) else (hasLetter, hasDigit))"

definition Password :: "unicode \<Rightarrow> string \<Rightarrow> string \<Rightarrow> validator \<Rightarrow> validator" where
  "Password U field val v =
     (if length val > 72 then Check False field ''must be at most 72 bytes'' v
      else if length val < 8 then Check False field ''must be at least 8 characters'' v
      else (let (hasLetter, hasDigit) = scan_password U (runes U val) (False, False)
            in Check (hasLetter \<and> hasDigit) field ''must contain both letters and numbers'' v))"

definition NormalizeEmail :: "(string \<Rightarrow> string) \<Rightarrow> string \<Rightarrow> string" where
  "NormalizeEmail ul email = to_lower ul (TrimSpace email)"

section \<open>Properties\<close>

lemma Check_simps [simp]:
  "Check True f m v = v"
  "map_of (Check ok f m v) k =
     (if \<not> ok \<and> k = f \<and> map_of v f = None then Some m else map_of v k)"
  by (auto simp: Check_def map_add_def map_of_append split: option.splits)

lemma Check_keeps: "map_of v k = Some x \<Longrightarrow> map_of (Check ok f m v) k = Some x"
  by auto

lemma Check_Nil_iff: "Check ok f m v = [] \<longleftrightarrow> v = [] \<and> ok"
  by (auto simp: Check_def)

lemma distinct_Check: "distinct (map fst v) \<Longrightarrow> distinct (map fst (Check ok f m v))"
  by (auto simp: Check_def map_of_eq_None_iff)

text \<open>A run of checks, as handlers make them one after the other.\<close>

type_synonym check = "bool \<times> string \<times> string"

definition run_checks :: "check list \<Rightarrow> validator \<Rightarrow> validator" where
  "run_checks cs v = fold (\<lambda>(ok, f, m). Check ok f m) cs v"

lemma run_checks_Nil_iff: "run_checks cs v = [] \<longleftrightarrow> v = [] \<and> (\<forall>(ok, f, m)\<in>set cs. ok)"
  by (induction cs arbitrary: v) (auto simp: run_checks_def Check_Nil_iff)

lemma run_checks_map_of:
  "map_of (run_checks cs v) k =
     (case map_of v k of Some x \<Rightarrow> Some x
      | None \<Rightarrow> map_option (\<lambda>c. snd (snd c)) (find (\<lambda>(ok, f, m). \<not> ok \<and> f = k) cs))"
proof (induction cs arbitrary: v)
  case Nil
  then show ?case by (simp add: run_checks_def split: option.splits)
next
  case (Cons c cs)
  obtain ok f m where c: "c = (ok, f, m)" by (cases c)
  have step: "run_checks (c # cs) v = run_checks cs (Check ok f m v)"
    by (simp add: run_checks_def c)
  show ?case
    unfolding step Cons.IH by (auto simp: c split: option.splits)
qed

text \<open>
  A validation run reports an error exactly when some check failed, and then reports for each
  field the message of its first failed check, once per field.
\<close>

theorem validator_reports_first_failures:
  "(Err (run_checks cs New) = None \<longleftrightarrow> (\<forall>(ok, f, m)\<in>set cs. ok)) \<and>
   distinct (map fst (run_checks cs New)) \<and>
   map_of (run_checks cs New) k =
     map_option (\<lambda>c. snd (snd c)) (find (\<lambda>(ok, f, m). \<not> ok \<and> f = k) cs)"
proof -
  have "distinct (map fst v) \<Longrightarrow> distinct (map fst (run_checks cs v))" for v
    by (induction cs arbitrary: v) (auto simp: run_checks_def distinct_Check)
  from this [of New] show ?thesis
    by (simp add: Err_def Valid_def run_checks_Nil_iff run_checks_map_of New_def)
qed

theorem validator_reports_first_failures_witness:
  "map_of (run_checks [(True, ''a'', ''x''), (False, ''a'', ''y''), (False, ''a'', ''z'')] New) ''a''
     = Some ''y''"
  using validator_reports_first_failures
      [of "[(True, ''a'', ''x''), (False, ''a'', ''y''), (False, ''a'', ''z'')]" "''a''"]
  by simp

lemma scan_password_flags:
  "scan_password U rs (l, d) =
     (l \<or> (\<exists>r\<in>set rs. IsLetter U r), d \<or> (\<exists>r\<in>set rs. \<not> IsLetter U r \<and> IsDigit U r))"
  by (induction rs arbitrary: l d) auto

text \<open>
  The password policy. A password is accepted exactly when it has 8 to 72 bytes and contains a
  letter and a digit; so every accepted password is within bcrypt's 72-byte limit.
\<close>

theorem password_policy:
  "Err (Password U f val New) = None \<longleftrightarrow>
     8 \<le> length val \<and> length val \<le> 72 \<and>
     (\<exists>r\<in>set (runes U val). IsLetter U r) \<and>
     (\<exists>r\<in>set (runes U val). \<not> IsLetter U r \<and> IsDigit U r)"
  by (auto simp: Password_def Err_def Valid_def New_def Check_Nil_iff scan_password_flags Check_def
      split: if_splits)

end
