(* ===== verification/Permissions.thy ===== *)
theory Permissions
  imports TF_Prelude
begin

text \<open>
  Package \<open>internal/permissions\<close>: the permission keys and the grants seeded for the default
  system roles.
\<close>

definition OrganizationsRead :: string where "OrganizationsRead = ''organizations.read''"
definition OrganizationsUpdate :: string where "OrganizationsUpdate = ''organizations.update''"
definition MembersRead :: string where "MembersRead = ''members.read''"
definition MembersManage :: string where "MembersManage = ''members.manage''"
definition RolesRead :: string where "RolesRead = ''roles.read''"
definition RolesManage :: string where "RolesManage = ''roles.manage''"
definition TeamsRead :: string where "TeamsRead = ''teams.read''"
definition TeamsManage :: string where "TeamsManage = ''teams.manage''"
definition ProjectsRead :: string where "ProjectsRead = ''projects.read''"
definition ProjectsCreate :: string where "ProjectsCreate = ''projects.create''"
definition ProjectsUpdate :: string where "ProjectsUpdate = ''projects.update''"
definition ProjectsDelete :: string where "ProjectsDelete = ''projects.delete''"
definition TasksRead :: string where "TasksRead = ''tasks.read''"
definition TasksCreate :: string where "TasksCreate = ''tasks.create''"
definition TasksUpdate :: string where "TasksUpdate = ''tasks.update''"
definition TasksDelete :: string where "TasksDelete = ''tasks.delete''"
definition APIKeysManage :: string where "APIKeysManage = ''api_keys.manage''"
definition AuditRead :: string where "AuditRead = ''audit.read''"

lemmas permission_keys =
  OrganizationsRead_def OrganizationsUpdate_def MembersRead_def MembersManage_def RolesRead_def
  RolesManage_def TeamsRead_def TeamsManage_def ProjectsRead_def ProjectsCreate_def
  ProjectsUpdate_def ProjectsDelete_def TasksRead_def TasksCreate_def TasksUpdate_def
  TasksDelete_def APIKeysManage_def AuditRead_def

definition readOnly :: "string list" where
  "readOnly = [OrganizationsRead, MembersRead, RolesRead, TeamsRead, ProjectsRead, TasksRead]"

definition All :: "string list" where
  "All =
     [OrganizationsRead, OrganizationsUpdate, MembersRead, MembersManage, RolesRead, RolesManage,
      TeamsRead, TeamsManage, ProjectsRead, ProjectsCreate, ProjectsUpdate, ProjectsDelete,
      TasksRead, TasksCreate, TasksUpdate, TasksDelete, APIKeysManage, AuditRead]"

definition DefaultForRole :: "string \<Rightarrow> string list" where
  "DefaultForRole roleName =
     (if roleName = ''Owner'' \<or> roleName = ''Admin'' then All
      else if roleName = ''Manager'' then
        readOnly @ [ProjectsCreate, ProjectsUpdate, TasksCreate, TasksUpdate]
      else readOnly)"

lemma distinct_All: "distinct All"
  by (simp add: All_def permission_keys)

lemma readOnly_subset_All: "set readOnly \<subseteq> set All"
  by (simp add: readOnly_def All_def)

text \<open>The keys that let their holder change access: members, roles, credentials, deletions.\<close>

definition administrative :: "string list" where
  "administrative =
     [OrganizationsUpdate, MembersManage, RolesManage, TeamsManage, ProjectsDelete, TasksDelete,
      APIKeysManage, AuditRead]"

text \<open>
  The seeded grants form a hierarchy. Every role's grants are known keys without repetition;
  Owner and Admin hold every key; every role can read; a Manager holds exactly the read keys and
  the four keys to create and update projects and tasks; and no role other than Owner and Admin,
  whatever its name, is seeded with an administrative key.
\<close>

theorem default_grants_hierarchy:
  "set (DefaultForRole r) \<subseteq> set All \<and> distinct (DefaultForRole r) \<and>
   set readOnly \<subseteq> set (DefaultForRole r) \<and>
   (if r = ''Owner'' \<or> r = ''Admin'' then DefaultForRole r = All
    else set (DefaultForRole r) \<inter> set administrative = {} \<and>
         set (DefaultForRole r) \<subseteq> set (DefaultForRole ''Manager''))"
proof -
  have "set (DefaultForRole r) \<subseteq> set All" "set readOnly \<subseteq> set (DefaultForRole r)"
    by (auto simp: DefaultForRole_def readOnly_def All_def)
  moreover have "distinct (DefaultForRole r)"
    using distinct_All by (simp add: DefaultForRole_def readOnly_def permission_keys)
  moreover have "set readOnly \<inter> set administrative = {}"
      "set (DefaultForRole ''Manager'') \<inter> set administrative = {}"
    by (simp_all add: DefaultForRole_def readOnly_def administrative_def permission_keys)
  moreover have "set readOnly \<subseteq> set (DefaultForRole ''Manager'')"
    by (auto simp: DefaultForRole_def)
  ultimately show ?thesis by (simp add: DefaultForRole_def)
qed

end
