(* ===== verification/Slug.thy ===== *)
theory Slug
  imports TF_Prelude
begin

text \<open>
  Organization slugs. The program has two implementations: \<open>internal/auth/slug.go\<close> uses two
  regular expressions, \<open>internal/organizations/service.go\<close> a loop with a flag. \<open>ul\<close> is the
  Unicode part of \<open>strings.ToLower\<close>.
\<close>

definition slug_char :: "char \<Rightarrow> bool" where
  "slug_char c \<longleftrightarrow> is_lower_ascii c \<or> is_digit c"

text \<open>\<open>auth.slugify\<close>: \<open>[^a-z0-9]+\<close> to a dash, runs of dashes to one dash, trim dashes.\<close>

definition auth_slugify :: "(string \<Rightarrow> string) \<Rightarrow> string \<Rightarrow> string" where
  "auth_slugify ul name =
     (let s = to_lower ul (TrimSpace name);
          s = replace_runs (\<lambda>c. \<not> slug_char c) ''-'' s;
          s = replace_runs (\<lambda>c. c = CHR ''-'') ''-'' s;
          s = trim_char (CHR ''-'') s
      in if s = [] then ''org'' else s)"

text \<open>\<open>organizations.slugify\<close>: the loop over the string with the flag \<open>prevDash\<close>.\<close>

fun slug_loop :: "bool \<Rightarrow> string \<Rightarrow> string" where
  "slug_loop prevDash [] = []"
| "slug_loop prevDash (c # s) =
     (if slug_char c then c # slug_loop False s
      else if \<not> prevDash then CHR ''-'' # slug_loop True s
      else slug_loop prevDash s)"

definition org_slugify :: "(string \<Rightarrow> string) \<Rightarrow> string \<Rightarrow> string" where
  "org_slugify ul name =
     (let out = trim_char (CHR ''-'') (slug_loop False (to_lower ul (TrimSpace name)))
      in if out = [] then ''org'' else out)"

section \<open>Properties\<close>

lemma slug_char_not_dash [simp]: "\<not> slug_char (CHR ''-'')"
  by (simp add: slug_char_def is_lower_ascii_def is_digit_def)

lemma slug_loop_True: "slug_loop True s = slug_loop False (dropWhile (\<lambda>c. \<not> slug_char c) s)"
  by (induction s) auto

lemma replace_runs_slug: "replace_runs (\<lambda>c. \<not> slug_char c) ''-'' s = slug_loop False s"
  by (induction "\<lambda>c. \<not> slug_char c" "''-''" s rule: replace_runs.induct) (auto simp: slug_loop_True)

text \<open>The shape the loop produces: slug characters, and dashes that are never adjacent.\<close>

fun slug_shape :: "string \<Rightarrow> bool" where
  "slug_shape [] \<longleftrightarrow> True"
| "slug_shape [c] \<longleftrightarrow> slug_char c \<or> c = CHR ''-''"
| "slug_shape (c # d # s) \<longleftrightarrow>
     (slug_char c \<or> c = CHR ''-'') \<and> \<not> (c = CHR ''-'' \<and> d = CHR ''-'') \<and> slug_shape (d # s)"

lemma slug_shape_Cons:
  "slug_shape (c # s) \<longleftrightarrow> (slug_char c \<or> c = CHR ''-'') \<and> \<not> (c = CHR ''-'' \<and> s \<noteq> [] \<and> hd s = CHR ''-'')
     \<and> slug_shape s"
  by (cases s) auto

lemma slug_loop_shape:
  "slug_shape (slug_loop b s) \<and> (b \<longrightarrow> slug_loop b s = [] \<or> hd (slug_loop b s) \<noteq> CHR ''-'')"
proof (induction b s rule: slug_loop.induct)
  case (1 b)
  then show ?case by simp
next
  case (2 b c s)
  then show ?case by (auto simp: slug_shape_Cons)
qed

lemma dropWhile_dash_shape:
  "slug_shape (CHR ''-'' # s) \<Longrightarrow> dropWhile (\<lambda>c. c = CHR ''-'') s = s"
  by (cases s) (auto simp: slug_shape_Cons)

lemma replace_dashes_id: "slug_shape s \<Longrightarrow> replace_runs (\<lambda>c. c = CHR ''-'') ''-'' s = s"
proof (induction s)
  case Nil
  then show ?case by simp
next
  case (Cons c s)
  then show ?case
    using dropWhile_dash_shape [of s] by (auto simp: slug_shape_Cons)
qed

text \<open>
  C38: the two slug implementations agree on every organization name, so an organization gets the
  same base slug whether it is created by registration or by the organizations service.
\<close>

theorem slugify_implementations_agree: "auth_slugify ul name = org_slugify ul name"
proof -
  have "replace_runs (\<lambda>c. c = CHR ''-'') ''-'' (slug_loop False s) = slug_loop False s" for s
    using slug_loop_shape [of False s] by (intro replace_dashes_id) simp
  then show ?thesis
    by (simp add: auth_slugify_def org_slugify_def replace_runs_slug Let_def)
qed

lemma slug_shape_append:
  "slug_shape (xs @ ys) \<Longrightarrow> slug_shape xs \<and> slug_shape ys"
  by (induction xs) (auto simp: slug_shape_Cons)

lemma trim_char_shape: "slug_shape s \<Longrightarrow> slug_shape (trim_char (CHR ''-'') s)"
proof -
  let ?p = "\<lambda>x. x = CHR ''-''"
  assume "slug_shape s"
  then have "slug_shape (takeWhile ?p s @ dropWhile ?p s)"
    by (simp only: takeWhile_dropWhile_id)
  then have d: "slug_shape (dropWhile ?p s)"
    by (rule slug_shape_append [THEN conjunct2])
  have "dropWhile ?p s = trim_char (CHR ''-'') s @ rev (takeWhile ?p (rev (dropWhile ?p s)))"
    by (metis rev_append rev_rev_ident takeWhile_dropWhile_id trim_char_def trim_char_right_def)
  with d show ?thesis
    by (metis slug_shape_append)
qed

lemma trim_char_ends:
  assumes "trim_char c s \<noteq> []"
  shows "hd (trim_char c s) \<noteq> c \<and> last (trim_char c s) \<noteq> c"
proof -
  let ?p = "\<lambda>x. x = c" and ?t = "dropWhile (\<lambda>x. x = c) s"
  have ne: "dropWhile ?p (rev ?t) \<noteq> []"
    using assms by (simp add: trim_char_def trim_char_right_def)
  have t: "?t = trim_char c s @ rev (takeWhile ?p (rev ?t))"
    by (metis rev_append rev_rev_ident takeWhile_dropWhile_id trim_char_def trim_char_right_def)
  have "hd ?t = hd (trim_char c s)"
    using assms t by (metis hd_append2)
  moreover have "?t \<noteq> []" using assms t by (metis append_is_Nil_conv)
  then have "hd ?t \<noteq> c" using hd_dropWhile by blast
  moreover have "last (trim_char c s) = hd (dropWhile ?p (rev ?t))"
    using ne by (simp add: trim_char_def trim_char_right_def last_rev)
  moreover have "hd (dropWhile ?p (rev ?t)) \<noteq> c"
    using ne hd_dropWhile by blast
  ultimately show ?thesis by simp
qed

text \<open>
  A slug is never empty, contains only lowercase ASCII letters, digits and single dashes, and
  neither starts nor ends with a dash, whatever the organization is called.
\<close>

theorem slugify_url_safe:
  "org_slugify ul name \<noteq> [] \<and> slug_shape (org_slugify ul name) \<and>
   slug_char (hd (org_slugify ul name)) \<and> slug_char (last (org_slugify ul name))"
proof -
  let ?t = "trim_char (CHR ''-'') (slug_loop False (to_lower ul (TrimSpace name)))"
  have sh: "slug_shape ?t" using slug_loop_shape by (intro trim_char_shape) simp
  have el: "c \<in> set s \<Longrightarrow> slug_shape s \<Longrightarrow> slug_char c \<or> c = CHR ''-''" for c s
    by (induction s) (auto simp: slug_shape_Cons)
  have "slug_shape ''org'' \<and> slug_char (CHR ''o'') \<and> slug_char (CHR ''g'')"
    by (simp add: slug_char_def is_lower_ascii_def)
  moreover have "?t \<noteq> [] \<Longrightarrow> slug_char (hd ?t) \<and> slug_char (last ?t)"
    using el sh trim_char_ends by (metis hd_in_set last_in_set)
  ultimately show ?thesis using sh by (simp add: org_slugify_def Let_def)
qed

end
