(* ===== verification/Store.thy ===== *)
theory Store
  imports Httpx
begin

text \<open>
  The state of the program and the monad its services run in.

  Each row type of \<open>internal/db/models.go\<close> is a record with the same fields; the tables of the
  schema are the fields of \<open>store\<close>. A \<open>world\<close> adds what a request sees besides the tables: the
  tenant of the current transaction (the setting \<open>app.current_org_id\<close> the row level security
  policies read), the clock, the lines the log sender of emails wrote, the generator of UUIDs (a counter: \<open>gen_random_uuid()\<close> and
  \<open>uuid.New()\<close> never repeat), the stream of random bytes, and a script of infrastructure
  faults. Every database call consumes one entry of the script and fails with it when it is an
  error, so each error branch of the source is reachable; an empty script means no fault.

  \<open>'a io\<close> is a Go function that returns \<open>('a, error)\<close> and changes the world. \<open>io_try m f k\<close>
  is \<open>x, err := m; if err != nil { return f(err) }; k(x)\<close>, and \<open>io_case m h k\<close> the form in
  which the error branch goes on. \<open>WithTenantTx\<close> is \<open>internal/database/database.go\<close>: a
  transaction confined to one organization that either commits or leaves the store as it was. A commit
  that returns an error is taken not to have happened: the case that the server committed and only its
  acknowledgement was lost is left out. Transactions run one after the other; the locks of
  \<open>SELECT ... FOR UPDATE\<close> and the isolation level have no counterpart, so such a read is a plain read.

  \<open>env\<close> collects the functions the program calls and does not define: the Unicode case mapping,
  the collation of the database, the text form of UUIDs, hashing and password hashing, tokens.

  The locale \<open>store_invariant\<close> is the interface between an invariant and the programs that keep
  it: for any predicate that a later UUID counter cannot break, it proves once that the monad's
  combinators and the transactions keep what their parts keep. Its predicate \<open>keeps T m\<close> asks
  for preservation when the tenant satisfies \<open>T\<close>; a tenant transaction asks its body only for
  preservation under its own tenant, which is how confinement to a tenant composes.
\<close>

section \<open>Rows\<close>

record User =
  u_ID :: uuid
  u_Email :: string
  u_PasswordHash :: string
  u_FirstName :: string
  u_LastName :: string
  u_AvatarUrl :: "string option"
  u_Status :: string
  u_EmailVerifiedAt :: "time option"
  u_LastLoginAt :: "time option"
  u_CreatedAt :: time
  u_UpdatedAt :: time

record Organization =
  o_ID :: uuid
  o_Name :: string
  o_Slug :: string
  o_Status :: string
  o_CreatedAt :: time
  o_UpdatedAt :: time

record OrganizationMembership =
  m_ID :: uuid
  m_OrganizationID :: uuid
  m_UserID :: uuid
  m_RoleID :: uuid
  m_Status :: string
  m_JoinedAt :: "time option"
  m_CreatedAt :: time
  m_UpdatedAt :: time

record Role =
  r_ID :: uuid
  r_OrganizationID :: uuid
  r_Name :: string
  r_Description :: "string option"
  r_IsSystem :: bool
  r_CreatedAt :: time
  r_UpdatedAt :: time

record Permission =
  p_ID :: uuid
  p_Key :: string
  p_Description :: string
  p_CreatedAt :: time

record RolePermission =
  rp_RoleID :: uuid
  rp_PermissionID :: uuid

record RefreshToken =
  t_ID :: uuid
  t_UserID :: uuid
  t_FamilyID :: uuid
  t_TokenHash :: string
  t_ExpiresAt :: time
  t_RevokedAt :: "time option"
  t_ReplacedBy :: "uuid option"
  t_UserAgent :: "string option"
  t_IpAddress :: "string option"
  t_CreatedAt :: time

record Team =
  tm_ID :: uuid
  tm_OrganizationID :: uuid
  tm_Name :: string
  tm_Description :: "string option"
  tm_CreatedBy :: uuid
  tm_CreatedAt :: time
  tm_UpdatedAt :: time

record TeamMember =
  tmm_ID :: uuid
  tmm_OrganizationID :: uuid
  tmm_TeamID :: uuid
  tmm_UserID :: uuid
  tmm_CreatedAt :: time

record AuditLog =
  al_ID :: uuid
  al_OrganizationID :: "uuid option"
  al_ActorUserID :: "uuid option"
  al_Action :: string
  al_Outcome :: string
  al_TargetType :: "string option"
  al_TargetID :: "string option"
  al_IpAddress :: "string option"
  al_UserAgent :: "string option"
  al_RequestID :: "string option"
  al_TraceID :: "string option"
  al_Metadata :: string
  al_CreatedAt :: time

record ApiKey =
  k_ID :: uuid
  k_OrganizationID :: uuid
  k_CreatedBy :: uuid
  k_Name :: string
  k_KeyPrefix :: string
  k_KeyLastFour :: string
  k_KeyHash :: string
  k_ExpiresAt :: time
  k_RevokedAt :: "time option"
  k_LastUsedAt :: "time option"
  k_CreatedAt :: time
  k_UpdatedAt :: time

record Project =
  pr_ID :: uuid
  pr_OrganizationID :: uuid
  pr_TeamID :: "uuid option"
  pr_Name :: string
  pr_Description :: "string option"
  pr_Status :: string
  pr_Priority :: string
  pr_StartDate :: "int option"
  pr_DueDate :: "int option"
  pr_CreatedBy :: uuid
  pr_CreatedAt :: time
  pr_UpdatedAt :: time

record Task =
  tk_ID :: uuid
  tk_OrganizationID :: uuid
  tk_ProjectID :: uuid
  tk_Title :: string
  tk_Description :: "string option"
  tk_Status :: string
  tk_Priority :: string
  tk_AssigneeID :: "uuid option"
  tk_DueDate :: "int option"
  tk_CreatedBy :: uuid
  tk_CreatedAt :: time
  tk_UpdatedAt :: time

record ActivityLog =
  av_ID :: uuid
  av_OrganizationID :: uuid
  av_ActorUserID :: "uuid option"
  av_Action :: string
  av_ResourceType :: string
  av_ResourceID :: uuid
  av_Metadata :: string
  av_CreatedAt :: time

record Invitation =
  i_ID :: uuid
  i_OrganizationID :: uuid
  i_Email :: string
  i_RoleID :: uuid
  i_Status :: string
  i_TokenHash :: string
  i_InvitedBy :: uuid
  i_ExpiresAt :: time
  i_AcceptedAt :: "time option"
  i_AcceptedBy :: "uuid option"
  i_RevokedAt :: "time option"
  i_CreatedAt :: time
  i_UpdatedAt :: time
  i_NotifiedAt :: "time option"
  i_DeliveryAttempts :: int

record store =
  users :: "User list"
  organizations :: "Organization list"
  memberships :: "OrganizationMembership list"
  roles :: "Role list"
  permissions :: "Permission list"
  role_permissions :: "RolePermission list"
  refresh_tokens :: "RefreshToken list"
  teams :: "Team list"
  team_members :: "TeamMember list"
  projects :: "Project list"
  tasks :: "Task list"
  activity_logs :: "ActivityLog list"
  invitations :: "Invitation list"
  api_keys :: "ApiKey list"
  audit_logs :: "AuditLog list"

text \<open>
  The Redis keys of the job queue: the stream of entries (each with the value of its field
  \<open>job\<close>, if it has one), whether the consumer group exists, the last entry delivered to it, its
  pending entries with the consumer and the instant of delivery, the sorted set of retries, the
  dead-letter stream and the next entry identifier. Identifiers are opaque and increase.
\<close>

record jobs_redis =
  jr_stream :: "(nat \<times> string option) list"
  jr_group :: bool
  jr_delivered :: nat
  jr_pending :: "(nat \<times> string \<times> int) list"
  jr_retry :: "(string \<times> int) list"
  jr_dead :: "string list"
  jr_next :: nat

record world =
  st :: store
  redis :: jobs_redis
  tenant :: "uuid option"
  clock :: time
  fresh :: nat
  entropy :: "nat \<Rightarrow> char"
  entropy_pos :: nat
  faults :: "err option list"
  mail_log :: "(string \<times> string) list list"

text \<open>
  Third-party and generated code the program calls. \<open>unicode_lower\<close> lowers the text that is not
  ASCII, \<open>collate\<close> is the sort key of the database's text collation, \<open>sha256\<close> returns the 32 raw
  bytes of the digest, \<open>bcrypt_hash\<close> takes the salt it draws, \<open>json_Marshal\<close> renders the metadata
  of an event, \<open>inet_valid\<close> tells the texts PostgreSQL accepts as an address, and
  \<open>pgx_scans_inet\<close> whether the driver can scan an address into a Go string.
\<close>

datatype json = JNull | JString string | JInt int | JBool bool | JStrings "string list" | JObject "(string \<times> json) list"

type_synonym metadata = "(string \<times> json) list"

record env =
  unicode_lower :: "string \<Rightarrow> string"
  collate :: "string \<Rightarrow> string"
  uuid_string :: "uuid \<Rightarrow> string"
  uuid_Parse :: "string \<Rightarrow> uuid option"
  sha256 :: "string \<Rightarrow> string"
  bcrypt_hash :: "string \<Rightarrow> string \<Rightarrow> err + string"
  bcrypt_compare :: "string \<Rightarrow> string \<Rightarrow> bool"
  json_Marshal :: "metadata \<Rightarrow> string"
  inet_valid :: "string \<Rightarrow> bool"
  pgx_scans_inet :: bool

section \<open>The program monad\<close>

type_synonym 'a io = "world \<Rightarrow> (err + 'a) \<times> world"

definition io_return :: "'a \<Rightarrow> 'a io" where
  "io_return x w = (Inr x, w)"

definition io_throw :: "err \<Rightarrow> 'a io" where
  "io_throw e w = (Inl e, w)"

definition io_case :: "'a io \<Rightarrow> (err \<Rightarrow> 'b io) \<Rightarrow> ('a \<Rightarrow> 'b io) \<Rightarrow> 'b io" where
  "io_case m h k w = (case m w of (Inl e, w') \<Rightarrow> h e w' | (Inr x, w') \<Rightarrow> k x w')"

definition io_try :: "'a io \<Rightarrow> (err \<Rightarrow> err) \<Rightarrow> ('a \<Rightarrow> 'b io) \<Rightarrow> 'b io" where
  "io_try m f k = io_case m (\<lambda>e. io_throw (f e)) k"

fun io_each :: "('x \<Rightarrow> unit io) \<Rightarrow> 'x list \<Rightarrow> unit io" where
  "io_each f [] = io_return ()"
| "io_each f (x # xs) = io_try (f x) id (\<lambda>_. io_each f xs)"

definition wrap :: "string \<Rightarrow> err \<Rightarrow> err" where
  "wrap t e = Wrapped t e"

definition time_Now :: "time io" where
  "time_Now w = (Inr (clock w), w)"

definition uuid_New :: "uuid io" where
  "uuid_New w = (Inr (fresh w), w\<lparr>fresh := Suc (fresh w)\<rparr>)"

definition next_fault :: "world \<Rightarrow> err option \<times> world" where
  "next_fault w = (case faults w of [] \<Rightarrow> (None, w) | f # fs \<Rightarrow> (f, w\<lparr>faults := fs\<rparr>))"

text \<open>\<open>crypto/rand.Read\<close> into a buffer of \<open>n\<close> bytes.\<close>

definition rand_Read :: "nat \<Rightarrow> string io" where
  "rand_Read n w =
     (case next_fault w of
        (Some e, w') \<Rightarrow> (Inl e, w')
      | (None, w') \<Rightarrow>
          (Inr (map (entropy w') [entropy_pos w' ..< entropy_pos w' + n]),
           w'\<lparr>entropy_pos := entropy_pos w' + n\<rparr>))"

text \<open>One database statement: a query that reads, and one that may write and draw UUIDs.\<close>

definition db_read :: "(world \<Rightarrow> err + 'a) \<Rightarrow> 'a io" where
  "db_read q w =
     (case next_fault w of
        (Some e, w') \<Rightarrow> (Inl e, w')
      | (None, w') \<Rightarrow> (q w', w'))"

definition db_write :: "(world \<Rightarrow> err + ('a \<times> store \<times> nat)) \<Rightarrow> 'a io" where
  "db_write q w =
     (case next_fault w of
        (Some e, w') \<Rightarrow> (Inl e, w')
      | (None, w') \<Rightarrow>
          (case q w' of
             Inl e \<Rightarrow> (Inl e, w')
           | Inr (x, s, n) \<Rightarrow> (Inr x, w'\<lparr>st := s, fresh := n\<rparr>)))"

text \<open>
  Calls to Redis. The request may not arrive (the first fault) or its reply may get lost after the
  command ran (the second one). A pipeline sends its commands together: a fault cuts it after some
  prefix of them, or loses the replies of all. Redis is not part of a database transaction.
\<close>

definition redis_call :: "(world \<Rightarrow> err + ('a \<times> jobs_redis)) \<Rightarrow> 'a io" where
  "redis_call q w =
     (case next_fault w of
        (Some e, w1) \<Rightarrow> (Inl e, w1)
      | (None, w1) \<Rightarrow>
          (case q w1 of
             Inl e \<Rightarrow> (Inl e, w1)
           | Inr (x, r) \<Rightarrow>
               (case next_fault (w1\<lparr>redis := r\<rparr>) of
                  (Some e, w2) \<Rightarrow> (Inl e, w2)
                | (None, w2) \<Rightarrow> (Inr x, w2))))"

fun redis_pipeline :: "(jobs_redis \<Rightarrow> jobs_redis) list \<Rightarrow> unit io" where
  "redis_pipeline [] w =
     (case next_fault w of (Some e, w1) \<Rightarrow> (Inl e, w1) | (None, w1) \<Rightarrow> (Inr (), w1))"
| "redis_pipeline (c # cs) w =
     (case next_fault w of
        (Some e, w1) \<Rightarrow> (Inl e, w1)
      | (None, w1) \<Rightarrow> redis_pipeline cs (w1\<lparr>redis := c (redis w1)\<rparr>))"

section \<open>Row level security and transactions\<close>

text \<open>
  The isolation policies of migrations 8, 11 to 16: a row is visible when no tenant is set or
  when it belongs to the tenant. The same condition is checked for a row an \<open>INSERT\<close> or
  \<open>UPDATE\<close> would store (SQLSTATE 42501 otherwise).
\<close>

definition rls :: "world \<Rightarrow> uuid \<Rightarrow> bool" where
  "rls w org \<longleftrightarrow> (case tenant w of None \<Rightarrow> True | Some t \<Rightarrow> org = t)"

definition rls_violation :: err where
  "rls_violation = PgError ''42501'' []"

definition unique_violation :: "string \<Rightarrow> err" where
  "unique_violation constraint = PgError ''23505'' constraint"

definition foreign_key_violation :: "string \<Rightarrow> err" where
  "foreign_key_violation constraint = PgError ''23503'' constraint"

definition check_violation :: "string \<Rightarrow> err" where
  "check_violation constraint = PgError ''23514'' constraint"

definition isUniqueViolation :: "err \<Rightarrow> bool" where
  "isUniqueViolation e \<longleftrightarrow> (case errors_As_pg e of Some (c, k) \<Rightarrow> c = ''23505'' | None \<Rightarrow> False)"

text \<open>A query for one row: the first match, or \<open>pgx.ErrNoRows\<close>.\<close>

definition one_row :: "('r \<Rightarrow> bool) \<Rightarrow> 'r list \<Rightarrow> err + 'r" where
  "one_row P rows = (case find P rows of None \<Rightarrow> throw_sentinel ErrNoRows | Some r \<Rightarrow> Inr r)"

text \<open>
  Case-insensitive text (the type CITEXT of emails and slugs), which lowers by the locale of the
  database: here the one of the locale C, which lowers ASCII letters only. And \<open>length(btrim(s)) > 0\<close>.
\<close>

definition citext_eq :: "string \<Rightarrow> string \<Rightarrow> bool" where
  "citext_eq a b \<longleftrightarrow> map lower_char a = map lower_char b"

definition not_blank :: "string \<Rightarrow> bool" where
  "not_blank s \<longleftrightarrow> (\<exists>c\<in>set s. c \<noteq> CHR '' '')"

definition WithTenantTx :: "uuid \<Rightarrow> 'a io \<Rightarrow> 'a io" where
  "WithTenantTx org fn w =
     (case next_fault w of
        (Some e, w1) \<Rightarrow> (Inl (wrap ''begin tx'' e), w1)
      | (None, w1) \<Rightarrow>
         (case next_fault w1 of
            (Some e, w2) \<Rightarrow> (Inl (wrap ''set tenant context'' e), w2)
          | (None, w2) \<Rightarrow>
             (case fn (w2\<lparr>tenant := Some org\<rparr>) of
                (Inl e, w3) \<Rightarrow> (Inl e, w3\<lparr>st := st w, tenant := tenant w\<rparr>)
              | (Inr x, w3) \<Rightarrow>
                 (case next_fault w3 of
                    (Some e, w4) \<Rightarrow>
                      (Inl (wrap ''commit tx'' e), w4\<lparr>st := st w, tenant := tenant w\<rparr>)
                  | (None, w4) \<Rightarrow> (Inr x, w4\<lparr>tenant := tenant w\<rparr>)))))"

text \<open>A transaction without a tenant, as registration, refresh and organization creation open it.\<close>

definition WithTxAs :: "('a \<Rightarrow> string) \<Rightarrow> 'a io \<Rightarrow> 'a io" where
  "WithTxAs commit_text fn w =
     (case next_fault w of
        (Some e, w1) \<Rightarrow> (Inl (wrap ''begin tx'' e), w1)
      | (None, w1) \<Rightarrow>
         (case fn w1 of
            (Inl e, w2) \<Rightarrow> (Inl e, w2\<lparr>st := st w\<rparr>)
          | (Inr x, w2) \<Rightarrow>
             (case next_fault w2 of
                (Some e, w3) \<Rightarrow> (Inl (wrap (commit_text x) e), w3\<lparr>st := st w\<rparr>)
              | (None, w3) \<Rightarrow> (Inr x, w3))))"

definition WithTx :: "'a io \<Rightarrow> 'a io" where
  "WithTx = WithTxAs (\<lambda>_. ''commit tx'')"

section \<open>Evaluation rules\<close>

lemma next_fault_no_faults [io_simps]: "faults w = [] \<Longrightarrow> next_fault w = (None, w)"
  by (simp add: next_fault_def)

lemma next_fault_frame [simp]:
  "st (snd (next_fault w)) = st w" "redis (snd (next_fault w)) = redis w" "tenant (snd (next_fault w)) = tenant w"
  "clock (snd (next_fault w)) = clock w" "fresh (snd (next_fault w)) = fresh w"
  by (auto simp: next_fault_def split: list.splits)

lemma next_fault_frameD:
  "next_fault w = (f, w') \<Longrightarrow>
     st w' = st w \<and> redis w' = redis w \<and> tenant w' = tenant w \<and> clock w' = clock w \<and> fresh w' = fresh w"
  using next_fault_frame [of w] by auto

lemma io_return_run [io_simps]: "io_return x w = (Inr x, w)"
  by (simp add: io_return_def)

lemma io_throw_run [io_simps]: "io_throw e w = (Inl e, w)"
  by (simp add: io_throw_def)

lemma io_case_run [io_simps]:
  "m w = (Inr x, w') \<Longrightarrow> io_case m h k w = k x w'"
  "m w = (Inl e, w') \<Longrightarrow> io_case m h k w = h e w'"
  by (simp_all add: io_case_def)

lemma io_try_run [io_simps]:
  "m w = (Inr x, w') \<Longrightarrow> io_try m f k w = k x w'"
  "m w = (Inl e, w') \<Longrightarrow> io_try m f k w = (Inl (f e), w')"
  by (simp_all add: io_try_def io_case_def io_throw_def)

lemma io_try_assoc: "io_try (io_try m f k) id k' = io_try m f (\<lambda>x. io_try (k x) id k')"
  by (auto simp: fun_eq_iff io_try_def io_case_def io_throw_def split: prod.splits sum.splits)

lemma time_Now_run [io_simps]: "time_Now w = (Inr (clock w), w)"
  by (simp add: time_Now_def)

lemma uuid_New_run [io_simps]: "uuid_New w = (Inr (fresh w), w\<lparr>fresh := Suc (fresh w)\<rparr>)"
  by (simp add: uuid_New_def)

lemma rand_Read_run [io_simps]:
  "faults w = [] \<Longrightarrow>
   rand_Read n w = (Inr (map (entropy w) [entropy_pos w ..< entropy_pos w + n]),
                    w\<lparr>entropy_pos := entropy_pos w + n\<rparr>)"
  by (simp add: rand_Read_def next_fault_def)

lemma db_read_run [io_simps]: "faults w = [] \<Longrightarrow> db_read q w = (q w, w)"
  by (simp add: db_read_def next_fault_def)

lemma db_write_run [io_simps]:
  "faults w = [] \<Longrightarrow> q w = Inl e \<Longrightarrow> db_write q w = (Inl e, w)"
  "faults w = [] \<Longrightarrow> q w = Inr (x, s, n) \<Longrightarrow> db_write q w = (Inr x, w\<lparr>st := s, fresh := n\<rparr>)"
  by (simp_all add: db_write_def next_fault_def)

lemma WithTenantTx_ok [io_simps]:
  "faults w = [] \<Longrightarrow> fn (w\<lparr>tenant := Some org\<rparr>) = (Inr x, w') \<Longrightarrow> faults w' = [] \<Longrightarrow>
   WithTenantTx org fn w = (Inr x, w'\<lparr>tenant := tenant w\<rparr>)"
  by (simp add: WithTenantTx_def next_fault_def)

lemma WithTenantTx_err [io_simps]:
  "faults w = [] \<Longrightarrow> fn (w\<lparr>tenant := Some org\<rparr>) = (Inl e, w') \<Longrightarrow>
   WithTenantTx org fn w = (Inl e, w'\<lparr>st := st w, tenant := tenant w\<rparr>)"
  by (simp add: WithTenantTx_def next_fault_def)

lemma WithTxAs_ok [io_simps]:
  "faults w = [] \<Longrightarrow> fn w = (Inr x, w') \<Longrightarrow> faults w' = [] \<Longrightarrow> WithTxAs c fn w = (Inr x, w')"
  by (simp add: WithTxAs_def next_fault_def)

lemma WithTxAs_err [io_simps]:
  "faults w = [] \<Longrightarrow> fn w = (Inl e, w') \<Longrightarrow> WithTxAs c fn w = (Inl e, w'\<lparr>st := st w\<rparr>)"
  by (simp add: WithTxAs_def next_fault_def)

section \<open>Successful runs\<close>

text \<open>
  A run that returns a value met no fault: each statement consumed an entry of the script that is
  not an error. These equivalences take a successful run apart, statement by statement.
\<close>

definition fault_free :: "world \<Rightarrow> bool" where
  "fault_free w \<longleftrightarrow> (case faults w of [] \<Rightarrow> True | f # fs \<Rightarrow> f = None)"

abbreviation drop_fault :: "world \<Rightarrow> world" where
  "drop_fault w \<equiv> w\<lparr>faults := tl (faults w)\<rparr>"

lemma next_fault_None: "next_fault w = (None, v) \<longleftrightarrow> fault_free w \<and> v = drop_fault w"
  by (cases "faults w") (auto simp: next_fault_def fault_free_def)

lemma next_fault_cases:
  obtains "next_fault w = (None, drop_fault w)" "fault_free w"
  | e where "next_fault w = (Some e, drop_fault w)" "\<not> fault_free w"
  by (cases "faults w"; cases "hd (faults w)") (auto simp: next_fault_def fault_free_def)

lemma io_return_Inr [io_success]: "io_return x w = (Inr y, w') \<longleftrightarrow> y = x \<and> w' = w"
  by (auto simp: io_return_def)

lemma io_throw_Inr [io_success]: "io_throw e w = (Inr y, w') \<longleftrightarrow> False"
  by (simp add: io_throw_def)

lemma io_case_Inr [io_success]:
  "io_case m h k w = (Inr y, w') \<longleftrightarrow>
     (\<exists>x w1. m w = (Inr x, w1) \<and> k x w1 = (Inr y, w')) \<or>
     (\<exists>e w1. m w = (Inl e, w1) \<and> h e w1 = (Inr y, w'))"
  by (auto simp: io_case_def split: prod.splits sum.splits)

lemma io_try_Inr [io_success]:
  "io_try m f k w = (Inr y, w') \<longleftrightarrow> (\<exists>x w1. m w = (Inr x, w1) \<and> k x w1 = (Inr y, w'))"
  by (auto simp: io_try_def io_case_def io_throw_def split: prod.splits sum.splits)

lemma time_Now_Inr [io_success]: "time_Now w = (Inr t, w') \<longleftrightarrow> t = clock w \<and> w' = w"
  by (auto simp: time_Now_def)

lemma uuid_New_Inr [io_success]:
  "uuid_New w = (Inr u, w') \<longleftrightarrow> u = fresh w \<and> w' = w\<lparr>fresh := Suc (fresh w)\<rparr>"
  by (auto simp: uuid_New_def)

lemma db_read_Inr [io_success]:
  "db_read q w = (Inr x, w') \<longleftrightarrow> fault_free w \<and> q (drop_fault w) = Inr x \<and> w' = drop_fault w"
  by (cases rule: next_fault_cases [of w]) (auto simp: db_read_def)

lemma db_write_Inr [io_success]:
  "db_write q w = (Inr x, w') \<longleftrightarrow>
     fault_free w \<and>
     (\<exists>s n. q (drop_fault w) = Inr (x, s, n) \<and> w' = (drop_fault w)\<lparr>st := s, fresh := n\<rparr>)"
  by (cases rule: next_fault_cases [of w]) (auto simp: db_write_def split: sum.splits)

lemma WithTenantTx_Inr [io_success]:
  "WithTenantTx org fn w = (Inr x, w') \<longleftrightarrow>
     fault_free w \<and> fault_free (drop_fault w) \<and>
     (\<exists>w3. fn ((drop_fault (drop_fault w))\<lparr>tenant := Some org\<rparr>) = (Inr x, w3) \<and> fault_free w3 \<and>
           w' = (drop_fault w3)\<lparr>tenant := tenant w\<rparr>)"
proof (cases rule: next_fault_cases [of w])
  case 1
  show ?thesis
  proof (cases rule: next_fault_cases [of "drop_fault w"])
    case 1
    note 2 = this
    obtain r w3 where 3: "fn ((drop_fault (drop_fault w))\<lparr>tenant := Some org\<rparr>) = (r, w3)"
      by (cases "fn ((drop_fault (drop_fault w))\<lparr>tenant := Some org\<rparr>)")
    show ?thesis
      by (cases rule: next_fault_cases [of w3])
        (insert \<open>next_fault w = _\<close> \<open>fault_free w\<close> 2 3, cases r; auto simp: WithTenantTx_def)+
  qed (use 1 in \<open>simp add: WithTenantTx_def\<close>)
qed (simp add: WithTenantTx_def)

lemma WithTxAs_Inr [io_success]:
  "WithTxAs c fn w = (Inr x, w') \<longleftrightarrow>
     fault_free w \<and> (\<exists>w2. fn (drop_fault w) = (Inr x, w2) \<and> fault_free w2 \<and> w' = drop_fault w2)"
proof (cases rule: next_fault_cases [of w])
  case 1
  obtain r w2 where 2: "fn (drop_fault w) = (r, w2)" by (cases "fn (drop_fault w)")
  show ?thesis
    by (cases rule: next_fault_cases [of w2])
      (insert 1 2, cases r; auto simp: WithTxAs_def)+
qed (simp add: WithTxAs_def)

section \<open>Atomicity\<close>

text \<open>
  A transaction that returns an error, whatever its body does and wherever a fault strikes (begin,
  set_config, any statement of the body, commit), leaves every table as it was; and in every case the
  tenant setting of the session is the one before.
\<close>

lemma tenant_tx_restores:
  assumes "WithTenantTx org fn w = (r, w')"
  shows "tenant w' = tenant w \<and> ((\<exists>e. r = Inl e) \<longrightarrow> st w' = st w)"
  using assms
  by (auto simp: WithTenantTx_def dest!: next_fault_frameD split: prod.splits option.splits sum.splits)

definition empty_store :: store where
  "empty_store =
     \<lparr>users = [], organizations = [], memberships = [], roles = [], permissions = [],
      role_permissions = [], refresh_tokens = [], teams = [], team_members = [], projects = [],
      tasks = [], activity_logs = [], invitations = [], api_keys = [], audit_logs = []\<rparr>"

definition empty_world :: world where
  "empty_world =
     \<lparr>st = empty_store,
      redis = \<lparr>jr_stream = [], jr_group = False, jr_delivered = 0, jr_pending = [], jr_retry = [], jr_dead = [], jr_next = 1\<rparr>,
      tenant = None, clock = 0, fresh = 1, entropy = (\<lambda>i. char_of i),
      entropy_pos = 0, faults = [], mail_log = []\<rparr>"

section \<open>Invariants\<close>

text \<open>
  What a transaction can leave behind: the store before, or the one its body made when it started
  from the same store under the tenant \<open>t\<close>.
\<close>

definition tx_shape :: "uuid option \<Rightarrow> 'a io \<Rightarrow> world \<Rightarrow> world \<Rightarrow> bool" where
  "tx_shape t fn w w' \<longleftrightarrow>
     (st w' = st w \<and> fresh w' = fresh w) \<or>
     (\<exists>v. st v = st w \<and> fresh v = fresh w \<and> tenant v = t \<and> fresh w' = fresh (snd (fn v)) \<and>
          (st w' = st w \<or> st w' = st (snd (fn v))))"

lemma WithTenantTx_shape: "tx_shape (Some org) fn w (snd (WithTenantTx org fn w))"
proof -
  obtain f1 w1 where 1: "next_fault w = (f1, w1)" by (cases "next_fault w")
  obtain f2 w2 where 2: "next_fault w1 = (f2, w2)" by (cases "next_fault w1")
  let ?v = "w2\<lparr>tenant := Some org\<rparr>"
  obtain r w3 where 3: "fn ?v = (r, w3)" by (cases "fn ?v")
  obtain f4 w4 where 4: "next_fault w3 = (f4, w4)" by (cases "next_fault w3")
  have v: "st ?v = st w" "fresh ?v = fresh w" "tenant ?v = Some org"
    and "st w4 = st w3" "fresh w4 = fresh w3" "st w1 = st w" "fresh w1 = fresh w"
    using 1 2 4 by (auto dest!: next_fault_frameD)
  with 1 2 3 4 show ?thesis
    unfolding tx_shape_def
    by (cases f1; cases f2; cases r; cases f4; simp add: WithTenantTx_def) (metis 3 v snd_conv)+
qed

lemma WithTxAs_shape: "tx_shape (tenant w) fn w (snd (WithTxAs c fn w))"
proof -
  obtain f1 w1 where 1: "next_fault w = (f1, w1)" by (cases "next_fault w")
  obtain r w2 where 2: "fn w1 = (r, w2)" by (cases "fn w1")
  obtain f3 w3 where 3: "next_fault w2 = (f3, w3)" by (cases "next_fault w2")
  have "st w1 = st w" "fresh w1 = fresh w" "tenant w1 = tenant w" "st w3 = st w2" "fresh w3 = fresh w2"
    using 1 3 by (auto dest!: next_fault_frameD)
  with 1 2 3 show ?thesis
    unfolding tx_shape_def by (cases f1; cases r; cases f3; simp add: WithTxAs_def) (metis snd_conv)+
qed

lemma WithTenantTx_on_success:
  assumes "P (st w)"
    and "\<And>v x v'. st v = st w \<Longrightarrow> fresh v = fresh w \<Longrightarrow> tenant v = Some org \<Longrightarrow> fn v = (Inr x, v') \<Longrightarrow> P (st v')"
  shows "P (st (snd (WithTenantTx org fn w)))"
proof (cases "fst (WithTenantTx org fn w)")
  case (Inl e)
  then show ?thesis
    using assms(1)
    by (auto simp: WithTenantTx_def dest!: next_fault_frameD split: prod.splits option.splits sum.splits)
next
  case (Inr x)
  then have "WithTenantTx org fn w = (Inr x, snd (WithTenantTx org fn w))"
    by (metis prod.collapse)
  then show ?thesis
    using assms(2) [of "(drop_fault (drop_fault w))\<lparr>tenant := Some org\<rparr>"]
    by (subst (asm) WithTenantTx_Inr) auto
qed

lemma WithTxAs_on_success:
  assumes "P (st w)"
    and "\<And>v x v'. st v = st w \<Longrightarrow> fresh v = fresh w \<Longrightarrow> tenant v = tenant w \<Longrightarrow> fn v = (Inr x, v') \<Longrightarrow> P (st v')"
  shows "P (st (snd (WithTxAs c fn w)))"
proof (cases "fst (WithTxAs c fn w)")
  case (Inl e)
  then show ?thesis
    using assms(1) by (auto simp: WithTxAs_def dest!: next_fault_frameD split: prod.splits option.splits sum.splits)
next
  case (Inr x)
  then have "WithTxAs c fn w = (Inr x, snd (WithTxAs c fn w))"
    by (metis prod.collapse)
  then show ?thesis
    using assms(2) [of "drop_fault w"] by (subst (asm) WithTxAs_Inr) auto
qed

lemma WithTenantTx_tenant: "tenant (snd (WithTenantTx org fn w)) = tenant w"
  by (auto simp: WithTenantTx_def dest!: next_fault_frameD split: prod.splits option.splits sum.splits)

lemma WithTxAs_tenant:
  assumes "\<And>v. tenant v = tenant w \<Longrightarrow> tenant (snd (fn v)) = tenant v"
  shows "tenant (snd (WithTxAs c fn w)) = tenant w"
proof -
  obtain f1 w1 where 1: "next_fault w = (f1, w1)" by (cases "next_fault w")
  obtain r w2 where 2: "fn w1 = (r, w2)" by (cases "fn w1")
  obtain f3 w3 where 3: "next_fault w2 = (f3, w3)" by (cases "next_fault w2")
  have "tenant w1 = tenant w" "tenant w3 = tenant w2"
    using 1 3 by (auto dest!: next_fault_frameD)
  moreover have "tenant w2 = tenant w1"
    using assms [of w1] 2 \<open>tenant w1 = tenant w\<close> by simp
  ultimately show ?thesis
    using 1 2 3 by (cases f1; cases r; cases f3; simp add: WithTxAs_def)
qed

lemma redis_pipeline_frame:
  "st (snd (redis_pipeline cs w)) = st w \<and> tenant (snd (redis_pipeline cs w)) = tenant w \<and>
   clock (snd (redis_pipeline cs w)) = clock w \<and> fresh (snd (redis_pipeline cs w)) = fresh w"
proof (induction cs arbitrary: w)
  case Nil
  show ?case by (cases rule: next_fault_cases [of w]) simp_all
next
  case (Cons c cs)
  show ?case by (cases rule: next_fault_cases [of w]) (simp_all add: Cons.IH)
qed

locale store_invariant =
  fixes I :: "store \<Rightarrow> nat \<Rightarrow> bool"
  assumes later: "I s n \<Longrightarrow> n \<le> n' \<Longrightarrow> I s n'"
begin

definition keeps :: "(uuid option \<Rightarrow> bool) \<Rightarrow> 'a io \<Rightarrow> bool" where
  "keeps T m \<longleftrightarrow>
     (\<forall>w. T (tenant w) \<longrightarrow>
          tenant (snd (m w)) = tenant w \<and> fresh w \<le> fresh (snd (m w)) \<and>
          (I (st w) (fresh w) \<longrightarrow> I (st (snd (m w))) (fresh (snd (m w)))))"

lemma keepsI:
  "(\<And>w. T (tenant w) \<Longrightarrow> tenant (snd (m w)) = tenant w) \<Longrightarrow>
   (\<And>w. T (tenant w) \<Longrightarrow> fresh w \<le> fresh (snd (m w))) \<Longrightarrow>
   (\<And>w. T (tenant w) \<Longrightarrow> I (st w) (fresh w) \<Longrightarrow> I (st (snd (m w))) (fresh (snd (m w)))) \<Longrightarrow>
   keeps T m"
  by (simp add: keeps_def)

lemma keepsD:
  assumes "keeps T m" "T (tenant w)"
  shows "tenant (snd (m w)) = tenant w" "fresh w \<le> fresh (snd (m w))"
    "I (st w) (fresh w) \<Longrightarrow> I (st (snd (m w))) (fresh (snd (m w)))"
  using assms by (simp_all add: keeps_def)

lemma keeps_same:
  "(\<And>w. st (snd (m w)) = st w \<and> tenant (snd (m w)) = tenant w \<and> fresh w \<le> fresh (snd (m w))) \<Longrightarrow>
   keeps T m"
  by (rule keepsI) (simp_all add: later)

lemma keeps_return [keeps_intro]: "keeps T (io_return x)"
  and keeps_throw [keeps_intro]: "keeps T (io_throw e)"
  and keeps_time_Now [keeps_intro]: "keeps T time_Now"
  and keeps_db_read [keeps_intro]: "keeps T (db_read q)"
  and keeps_rand_Read [keeps_intro]: "keeps T (rand_Read n)"
  and keeps_uuid_New [keeps_intro]: "keeps T uuid_New"
  by (rule keeps_same; auto simp: io_return_def io_throw_def time_Now_def db_read_def rand_Read_def
      uuid_New_def dest!: next_fault_frameD split: prod.splits option.splits)+

lemma keeps_redis_call [keeps_intro]: "keeps T (redis_call q)"
  by (rule keeps_same) (auto simp: redis_call_def dest!: next_fault_frameD split: prod.splits option.splits sum.splits)

lemma keeps_redis_pipeline [keeps_intro]: "keeps T (redis_pipeline cs)"
  by (rule keeps_same) (simp add: redis_pipeline_frame)

lemma keeps_io_case [keeps_intro]:
  assumes m: "keeps T m" and h: "\<And>e. keeps T (h e)" and k: "\<And>x. keeps T (k x)"
  shows "keeps T (io_case m h k)"
  unfolding keeps_def
proof (intro allI impI)
  fix w :: world
  assume T: "T (tenant w)"
  obtain r w1 where r: "m w = (r, w1)" by (cases "m w")
  note m' = keepsD [OF m T, unfolded r snd_conv]
  then have T1: "T (tenant w1)" using T by simp
  show "tenant (snd (io_case m h k w)) = tenant w \<and> fresh w \<le> fresh (snd (io_case m h k w)) \<and>
        (I (st w) (fresh w) \<longrightarrow>
           I (st (snd (io_case m h k w))) (fresh (snd (io_case m h k w))))"
  proof (cases r)
    case (Inl e)
    with r m' keepsD [OF h [of e] T1] show ?thesis by (simp add: io_case_def)
  next
    case (Inr x)
    with r m' keepsD [OF k [of x] T1] show ?thesis by (simp add: io_case_def)
  qed
qed

lemma keeps_io_try [keeps_intro]: "keeps T m \<Longrightarrow> (\<And>x. keeps T (k x)) \<Longrightarrow> keeps T (io_try m f k)"
  by (simp add: io_try_def keeps_intro)

lemma keeps_if [keeps_intro]: "keeps T m \<Longrightarrow> keeps T m' \<Longrightarrow> keeps T (if b then m else m')"
  by simp

lemma keeps_option [keeps_intro]:
  "keeps T m \<Longrightarrow> (\<And>x. keeps T (k x)) \<Longrightarrow> keeps T (case v of None \<Rightarrow> m | Some x \<Rightarrow> k x)"
  by (simp split: option.split)

lemma keeps_sum [keeps_intro]:
  "(\<And>e. keeps T (h e)) \<Longrightarrow> (\<And>x. keeps T (k x)) \<Longrightarrow> keeps T (case v of Inl e \<Rightarrow> h e | Inr x \<Rightarrow> k x)"
  by (simp split: sum.split)

lemma keeps_prod [keeps_intro]: "(\<And>x y. keeps T (k x y)) \<Longrightarrow> keeps T (case v of (x, y) \<Rightarrow> k x y)"
  by (simp split: prod.split)

lemma keeps_let [keeps_intro]: "(\<And>x. keeps T (k x)) \<Longrightarrow> keeps T (let x = v in k x)"
  by simp

lemma keeps_each [keeps_intro]: "(\<And>x. keeps T (f x)) \<Longrightarrow> keeps T (io_each f xs)"
  by (induction xs) (auto intro: keeps_intro)

lemma keeps_db_write:
  assumes "\<And>w x s n. T (tenant w) \<Longrightarrow> q w = Inr (x, s, n) \<Longrightarrow>
             fresh w \<le> n \<and> (I (st w) (fresh w) \<longrightarrow> I s n)"
  shows "keeps T (db_write q)"
  unfolding keeps_def
proof (intro allI impI)
  fix w :: world
  assume T: "T (tenant w)"
  then have T': "T (tenant (drop_fault w))" by simp
  show "tenant (snd (db_write q w)) = tenant w \<and> fresh w \<le> fresh (snd (db_write q w)) \<and>
        (I (st w) (fresh w) \<longrightarrow> I (st (snd (db_write q w))) (fresh (snd (db_write q w))))"
  proof (cases rule: next_fault_cases [of w])
    case 1
    then show ?thesis
      using assms [OF T'] by (auto simp: db_write_def split: sum.splits)
  qed (simp add: db_write_def)
qed

lemma keeps_shape:
  assumes fn: "keeps (\<lambda>u. u = t) fn"
    and shape: "tx_shape t fn w (snd (m w))"
  shows "fresh w \<le> fresh (snd (m w)) \<and>
         (I (st w) (fresh w) \<longrightarrow> I (st (snd (m w))) (fresh (snd (m w))))"
  using shape unfolding tx_shape_def
proof
  assume "\<exists>v. st v = st w \<and> fresh v = fresh w \<and> tenant v = t \<and>
            fresh (snd (m w)) = fresh (snd (fn v)) \<and>
            (st (snd (m w)) = st w \<or> st (snd (m w)) = st (snd (fn v)))"
  then obtain v where v: "st v = st w" "fresh v = fresh w" "tenant v = t"
      "fresh (snd (m w)) = fresh (snd (fn v))"
      "st (snd (m w)) = st w \<or> st (snd (m w)) = st (snd (fn v))" by blast
  from v(5) show ?thesis
    using keepsD [OF fn v(3)] v(1,2,4) by (auto intro: later)
qed simp

lemma keeps_WithTenantTx [keeps_intro]:
  assumes "keeps (\<lambda>u. u = Some org) fn"
  shows "keeps T (WithTenantTx org fn)"
proof (rule keepsI)
  fix w
  note shape = keeps_shape [where m = "WithTenantTx org fn", OF assms WithTenantTx_shape]
  show "fresh w \<le> fresh (snd (WithTenantTx org fn w))"
    using shape by blast
  show "I (st (snd (WithTenantTx org fn w))) (fresh (snd (WithTenantTx org fn w)))"
    if "I (st w) (fresh w)"
    using shape that by blast
qed (rule WithTenantTx_tenant)

lemma keeps_WithTxAs [keeps_intro]:
  assumes "keeps T fn"
  shows "keeps T (WithTxAs c fn)"
  unfolding keeps_def
proof (intro allI impI)
  fix w :: world
  assume "T (tenant w)"
  then have fn: "keeps (\<lambda>u. u = tenant w) fn"
    using assms by (simp add: keeps_def)
  show "tenant (snd (WithTxAs c fn w)) = tenant w \<and> fresh w \<le> fresh (snd (WithTxAs c fn w)) \<and>
        (I (st w) (fresh w) \<longrightarrow> I (st (snd (WithTxAs c fn w))) (fresh (snd (WithTxAs c fn w))))"
    using keeps_shape [where m = "WithTxAs c fn", OF fn WithTxAs_shape] WithTxAs_tenant [of w fn c] fn by (simp add: keeps_def)
qed

lemma keeps_WithTx [keeps_intro]: "keeps T fn \<Longrightarrow> keeps T (WithTx fn)"
  unfolding WithTx_def by (rule keeps_WithTxAs)

text \<open>A transaction whose statements break the invariant on the way, and restore it before the commit.\<close>

lemma keeps_WithTxAs_success:
  assumes mono: "\<And>v. T (tenant v) \<Longrightarrow> tenant (snd (fn v)) = tenant v \<and> fresh v \<le> fresh (snd (fn v))"
    and ok: "\<And>v x v'. T (tenant v) \<Longrightarrow> I (st v) (fresh v) \<Longrightarrow> fn v = (Inr x, v') \<Longrightarrow> I (st v') (fresh v')"
  shows "keeps T (WithTxAs c fn)"
proof (rule keepsI)
  fix w :: world
  assume T: "T (tenant w)"
  show "tenant (snd (WithTxAs c fn w)) = tenant w"
    using mono T by (intro WithTxAs_tenant) auto
  have T': "T (tenant (drop_fault w))" using T by simp
  obtain r w2 where r: "fn (drop_fault w) = (r, w2)" by (cases "fn (drop_fault w)")
  have m: "fresh w \<le> fresh w2" using mono [OF T'] r by simp
  show "fresh w \<le> fresh (snd (WithTxAs c fn w))"
    by (cases rule: next_fault_cases [of w]; cases r; cases rule: next_fault_cases [of w2])
      (use r m in \<open>simp_all add: WithTxAs_def\<close>)
  assume I: "I (st w) (fresh w)"
  have "I (st w2) (fresh w2)" if "r = Inr x" for x
    using ok [OF T', of x w2] I r that by simp
  then show "I (st (snd (WithTxAs c fn w))) (fresh (snd (WithTxAs c fn w)))"
    by (cases rule: next_fault_cases [of w]; cases r; cases rule: next_fault_cases [of w2])
      (use r m I in \<open>simp_all add: WithTxAs_def later\<close>)
qed

end

text \<open>The frame of a program: the part \<open>f\<close> of the store that it leaves as it is.\<close>

definition unchanged :: "(store \<Rightarrow> 'f) \<Rightarrow> 'f \<Rightarrow> store \<Rightarrow> nat \<Rightarrow> bool" where
  "unchanged f x s n \<longleftrightarrow> f s = x"

interpretation frame: store_invariant "unchanged f x" for f :: "store \<Rightarrow> 'f" and x
  by unfold_locales (simp add: unchanged_def)

lemma frame_same:
  assumes "store_invariant.keeps (unchanged f (f (st w))) T m" "T (tenant w)" "m w = (r, w')"
  shows "f (st w') = f (st w)"
  using frame.keepsD(3) [OF assms(1,2)] assms(3) by (simp add: unchanged_def)

end
