(* ===== verification/Queries.thy ===== *)
theory Queries
  imports Store
begin

text \<open>
  The statements of users, refresh tokens, organizations, memberships, roles and permissions:
  the generated methods of \<open>internal/db/*.sql.go\<close> over the schema of \<open>migrations/\<close>. A statement
  sees the rows the isolation policies admit (\<open>rls\<close>; users, refresh tokens and permissions have
  no policy). A statement that stores a row checks, in the order PostgreSQL does, the policy
  (42501), the \<open>CHECK\<close> constraints (23514), the unique constraints (23505) and the foreign keys
  (23503), which see every row. The triggers that maintain \<open>updated_at\<close> and the cascades of
  \<open>DELETE\<close> are part of the statement.

  \<open>wf_ids\<close> states what the primary keys and unique constraints give: identifiers are distinct and
  below the UUID counter, role names are unique in an organization, a user has one membership
  in an organization. \<open>others\<close> is the part of the store that belongs to other organizations than
  a given one. Every statement keeps \<open>wf_ids\<close>, and under a tenant it leaves \<open>others\<close> as it was:
  the interpretations \<open>ids\<close> and \<open>confined\<close> of \<open>store_invariant\<close> carry this to the services.
\<close>

section \<open>Helpers\<close>

text \<open>The constraints of a statement: the first that fails decides the error.\<close>

fun guards :: "(bool \<times> err) list \<Rightarrow> err + 'a \<Rightarrow> err + 'a" where
  "guards [] r = r"
| "guards ((ok, e) # gs) r = (if ok then guards gs r else Inl e)"

lemma guards_Inr: "guards gs r = Inr x \<longleftrightarrow> (\<forall>g\<in>set gs. fst g) \<and> r = Inr x"
  by (induction gs r rule: guards.induct) auto

declare guards.simps [simp del]

definition rp_visible :: "world \<Rightarrow> RolePermission \<Rightarrow> bool" where
  "rp_visible w rp \<longleftrightarrow>
     (case tenant w of
        None \<Rightarrow> True
      | Some t \<Rightarrow> (\<exists>r\<in>set (roles (st w)). r_ID r = rp_RoleID rp \<and> r_OrganizationID r = t))"

section \<open>users\<close>

definition CreateUser :: "string \<Rightarrow> string \<Rightarrow> string \<Rightarrow> string \<Rightarrow> string \<Rightarrow> User io" where
  "CreateUser email password_hash first_name last_name status = db_write (\<lambda>w.
     let s = st w;
         u = \<lparr>u_ID = fresh w, u_Email = email, u_PasswordHash = password_hash, u_FirstName = first_name,
              u_LastName = last_name, u_AvatarUrl = None, u_Status = status, u_EmailVerifiedAt = None,
              u_LastLoginAt = None, u_CreatedAt = clock w, u_UpdatedAt = clock w\<rparr>
     in guards
          [(not_blank first_name, check_violation ''users_first_name_check''),
           (not_blank last_name, check_violation ''users_last_name_check''),
           (status \<in> {''active'', ''suspended'', ''pending'', ''deleted''},
            check_violation ''users_status_check''),
           (\<not> (\<exists>v\<in>set (users s). citext_eq (u_Email v) email), unique_violation ''users_email_key'')]
          (Inr (u, s\<lparr>users := users s @ [u]\<rparr>, Suc (fresh w))))"

definition GetUserByID :: "uuid \<Rightarrow> User io" where
  "GetUserByID uid = db_read (\<lambda>w. one_row (\<lambda>u. u_ID u = uid) (users (st w)))"

definition GetUserByEmail :: "string \<Rightarrow> User io" where
  "GetUserByEmail email = db_read (\<lambda>w. one_row (\<lambda>u. citext_eq (u_Email u) email) (users (st w)))"

definition UpdateUserLastLogin :: "uuid \<Rightarrow> unit io" where
  "UpdateUserLastLogin uid = db_write (\<lambda>w.
     let s = st w in
       Inr ((), s\<lparr>users := update_where (\<lambda>u. u_ID u = uid)
              (\<lambda>u. u\<lparr>u_LastLoginAt := Some (clock w), u_UpdatedAt := clock w\<rparr>) (users s)\<rparr>, fresh w))"

section \<open>refresh\_tokens\<close>

definition CreateRefreshToken ::
  "uuid \<Rightarrow> uuid \<Rightarrow> string \<Rightarrow> time \<Rightarrow> string option \<Rightarrow> string option \<Rightarrow> RefreshToken io" where
  "CreateRefreshToken user family hash expires ua ip = db_write (\<lambda>w.
     let s = st w;
         t = \<lparr>t_ID = fresh w, t_UserID = user, t_FamilyID = family, t_TokenHash = hash,
              t_ExpiresAt = expires, t_RevokedAt = None, t_ReplacedBy = None, t_UserAgent = ua,
              t_IpAddress = ip, t_CreatedAt = clock w\<rparr>
     in guards
          [(\<not> (\<exists>x\<in>set (refresh_tokens s). t_TokenHash x = hash),
            unique_violation ''refresh_tokens_token_hash_key''),
           (\<exists>u\<in>set (users s). u_ID u = user, foreign_key_violation ''refresh_tokens_user_id_fkey'')]
          (Inr (t, s\<lparr>refresh_tokens := refresh_tokens s @ [t]\<rparr>, Suc (fresh w))))"

definition GetRefreshTokenByHash :: "string \<Rightarrow> RefreshToken io" where
  "GetRefreshTokenByHash hash =
     db_read (\<lambda>w. one_row (\<lambda>t. t_TokenHash t = hash) (refresh_tokens (st w)))"

definition GetRefreshTokenByHashForUpdate :: "string \<Rightarrow> RefreshToken io" where
  "GetRefreshTokenByHashForUpdate hash =
     db_read (\<lambda>w. one_row (\<lambda>t. t_TokenHash t = hash) (refresh_tokens (st w)))"

definition revoke_where :: "(RefreshToken \<Rightarrow> bool) \<Rightarrow> time \<Rightarrow> RefreshToken list \<Rightarrow> RefreshToken list" where
  "revoke_where P now = update_where (\<lambda>t. P t \<and> t_RevokedAt t = None) (\<lambda>t. t\<lparr>t_RevokedAt := Some now\<rparr>)"

definition RevokeRefreshToken :: "uuid \<Rightarrow> uuid option \<Rightarrow> unit io" where
  "RevokeRefreshToken tid replaced_by = db_write (\<lambda>w.
     let s = st w;
         hit = (\<exists>t\<in>set (refresh_tokens s). t_ID t = tid \<and> t_RevokedAt t = None)
     in guards
          [(hit \<longrightarrow> (case replaced_by of
              None \<Rightarrow> True | Some r \<Rightarrow> (\<exists>t\<in>set (refresh_tokens s). t_ID t = r)),
            foreign_key_violation ''refresh_tokens_replaced_by_fkey'')]
          (Inr ((), s\<lparr>refresh_tokens := update_where (\<lambda>t. t_ID t = tid \<and> t_RevokedAt t = None)
                 (\<lambda>t. t\<lparr>t_RevokedAt := Some (clock w), t_ReplacedBy := replaced_by\<rparr>)
                 (refresh_tokens s)\<rparr>, fresh w)))"

definition RevokeRefreshTokenFamily :: "uuid \<Rightarrow> unit io" where
  "RevokeRefreshTokenFamily family = db_write (\<lambda>w.
     let s = st w in
       Inr ((), s\<lparr>refresh_tokens :=
              revoke_where (\<lambda>t. t_FamilyID t = family) (clock w) (refresh_tokens s)\<rparr>, fresh w))"

definition RevokeAllUserRefreshTokens :: "uuid \<Rightarrow> unit io" where
  "RevokeAllUserRefreshTokens user = db_write (\<lambda>w.
     let s = st w in
       Inr ((), s\<lparr>refresh_tokens :=
              revoke_where (\<lambda>t. t_UserID t = user) (clock w) (refresh_tokens s)\<rparr>, fresh w))"

text \<open>The rows that referred to a deleted token lose their reference (\<open>ON DELETE SET NULL\<close>).\<close>

definition DeleteExpiredRefreshTokens :: "unit io" where
  "DeleteExpiredRefreshTokens = db_write (\<lambda>w.
     let s = st w;
         gone = map t_ID (filter (\<lambda>t. t_ExpiresAt t < clock w) (refresh_tokens s))
     in Inr ((), s\<lparr>refresh_tokens :=
               update_where (\<lambda>t. case t_ReplacedBy t of None \<Rightarrow> False | Some r \<Rightarrow> r \<in> set gone)
                 (\<lambda>t. t\<lparr>t_ReplacedBy := None\<rparr>)
                 (filter (\<lambda>t. \<not> t_ExpiresAt t < clock w) (refresh_tokens s))\<rparr>, fresh w))"

section \<open>organizations\<close>

definition CreateOrganization_q :: "string \<Rightarrow> string \<Rightarrow> string \<Rightarrow> Organization io" where
  "CreateOrganization_q name slug status = db_write (\<lambda>w.
     let s = st w;
         org = \<lparr>o_ID = fresh w, o_Name = name, o_Slug = slug, o_Status = status,
                o_CreatedAt = clock w, o_UpdatedAt = clock w\<rparr>
     in guards
          [(rls w (o_ID org), rls_violation),
           (not_blank name, check_violation ''organizations_name_check''),
           (status \<in> {''active'', ''suspended'', ''deleted''}, check_violation ''organizations_status_check''),
           (\<not> (\<exists>x\<in>set (organizations s). citext_eq (o_Slug x) slug),
            unique_violation ''organizations_slug_key'')]
          (Inr (org, s\<lparr>organizations := organizations s @ [org]\<rparr>, Suc (fresh w))))"

definition GetOrganizationByID :: "uuid \<Rightarrow> Organization io" where
  "GetOrganizationByID oid =
     db_read (\<lambda>w. one_row (\<lambda>x. rls w (o_ID x) \<and> o_ID x = oid) (organizations (st w)))"

definition OrganizationSlugExists :: "string \<Rightarrow> bool io" where
  "OrganizationSlugExists slug = db_read (\<lambda>w.
     Inr (\<exists>x\<in>set (organizations (st w)). rls w (o_ID x) \<and> citext_eq (o_Slug x) slug))"

definition ListActiveOrganizationIDs :: "nat \<Rightarrow> uuid list io" where
  "ListActiveOrganizationIDs row_limit = db_read (\<lambda>w.
     Inr (map o_ID (take row_limit (sort_key o_CreatedAt
            (filter (\<lambda>x. rls w (o_ID x) \<and> o_Status x = ''active'') (organizations (st w)))))))"

text \<open>The statement \<open>UPDATE organizations SET name = ...\<close> inside \<open>UpdateOrganization\<close>.\<close>

definition rename_organization :: "uuid \<Rightarrow> string \<Rightarrow> Organization io" where
  "rename_organization oid name = db_write (\<lambda>w.
     let s = st w;
         hit = (\<lambda>x. rls w (o_ID x) \<and> o_ID x = oid \<and> o_Status x = ''active'');
         new = (\<lambda>x. x\<lparr>o_Name := name, o_UpdatedAt := clock w\<rparr>)
     in (case one_row hit (organizations s) of
           Inl e \<Rightarrow> Inl e
         | Inr x \<Rightarrow>
             guards [(not_blank name, check_violation ''organizations_name_check'')]
               (Inr (new x, s\<lparr>organizations := update_where hit new (organizations s)\<rparr>, fresh w))))"

section \<open>roles and permissions\<close>

definition CreateRole_q :: "uuid \<Rightarrow> string \<Rightarrow> string option \<Rightarrow> bool \<Rightarrow> Role io" where
  "CreateRole_q org name description is_system = db_write (\<lambda>w.
     let s = st w;
         r = \<lparr>r_ID = fresh w, r_OrganizationID = org, r_Name = name, r_Description = description,
              r_IsSystem = is_system, r_CreatedAt = clock w, r_UpdatedAt = clock w\<rparr>
     in guards
          [(rls w org, rls_violation),
           (not_blank name, check_violation ''roles_name_check''),
           (\<not> (\<exists>x\<in>set (roles s). r_OrganizationID x = org \<and> r_Name x = name),
            unique_violation ''roles_organization_id_name_key''),
           (\<exists>x\<in>set (organizations s). o_ID x = org, foreign_key_violation ''roles_organization_id_fkey'')]
          (Inr (r, s\<lparr>roles := roles s @ [r]\<rparr>, Suc (fresh w))))"

definition GetRoleByID :: "uuid \<Rightarrow> uuid \<Rightarrow> Role io" where
  "GetRoleByID rid org = db_read (\<lambda>w.
     one_row (\<lambda>r. rls w (r_OrganizationID r) \<and> r_ID r = rid \<and> r_OrganizationID r = org) (roles (st w)))"

definition GetRoleByName :: "uuid \<Rightarrow> string \<Rightarrow> Role io" where
  "GetRoleByName org name = db_read (\<lambda>w.
     one_row (\<lambda>r. rls w (r_OrganizationID r) \<and> r_OrganizationID r = org \<and> r_Name r = name)
       (roles (st w)))"

definition ListRolesByOrganization :: "env \<Rightarrow> uuid \<Rightarrow> Role list io" where
  "ListRolesByOrganization e org = db_read (\<lambda>w.
     Inr (sort_key (\<lambda>r. collate e (r_Name r))
       (filter (\<lambda>r. rls w (r_OrganizationID r) \<and> r_OrganizationID r = org) (roles (st w)))))"

definition UpdateRole_q :: "uuid \<Rightarrow> uuid \<Rightarrow> string \<Rightarrow> string option \<Rightarrow> Role io" where
  "UpdateRole_q rid org name description = db_write (\<lambda>w.
     let s = st w;
         hit = (\<lambda>r. rls w (r_OrganizationID r) \<and> r_ID r = rid \<and> r_OrganizationID r = org \<and> \<not> r_IsSystem r);
         new = (\<lambda>r. r\<lparr>r_Name := name, r_Description := description, r_UpdatedAt := clock w\<rparr>)
     in (case one_row hit (roles s) of
           Inl e \<Rightarrow> Inl e
         | Inr r \<Rightarrow>
             guards
               [(not_blank name, check_violation ''roles_name_check''),
                (\<not> (\<exists>x\<in>set (roles s). r_ID x \<noteq> rid \<and> r_OrganizationID x = org \<and> r_Name x = name),
                 unique_violation ''roles_organization_id_name_key'')]
               (Inr (new r, s\<lparr>roles := update_where hit new (roles s)\<rparr>, fresh w))))"

text \<open>
  A deleted role takes its grants and the invitations for it along; a membership that still has
  the role forbids the deletion.
\<close>

definition delete_role_rows :: "uuid \<Rightarrow> uuid \<Rightarrow> world \<Rightarrow> err + unit \<times> store \<times> nat" where
  "delete_role_rows rid org w =
     (let s = st w;
          hit = (\<lambda>r. rls w (r_OrganizationID r) \<and> r_ID r = rid \<and> r_OrganizationID r = org \<and> \<not> r_IsSystem r)
      in if \<not> (\<exists>r\<in>set (roles s). hit r) then Inr ((), s, fresh w)
         else guards
           [(\<not> (\<exists>m\<in>set (memberships s). m_RoleID m = rid),
             foreign_key_violation ''organization_memberships_role_id_fkey'')]
           (Inr ((), s\<lparr>roles := filter (\<lambda>r. \<not> hit r) (roles s),
                      role_permissions := filter (\<lambda>rp. rp_RoleID rp \<noteq> rid) (role_permissions s),
                      invitations := filter (\<lambda>i. \<not> (i_RoleID i = rid \<and> i_OrganizationID i = org))
                        (invitations s)\<rparr>, fresh w)))"

definition DeleteRole_q :: "uuid \<Rightarrow> uuid \<Rightarrow> unit io" where
  "DeleteRole_q rid org = db_write (delete_role_rows rid org)"

text \<open>Either nothing was deleted, or a role that is not a system role, with what depends on it.\<close>

lemma delete_role_rows_cases:
  assumes "delete_role_rows rid org w = Inr (x, s, n)"
  obtains "s = st w" "n = fresh w"
  | r where "r \<in> set (roles (st w))" "rls w (r_OrganizationID r)" "r_ID r = rid"
      "r_OrganizationID r = org" "\<not> r_IsSystem r" "n = fresh w"
      "s = (st w)\<lparr>
         roles := filter (\<lambda>r. \<not> (rls w (r_OrganizationID r) \<and> r_ID r = rid \<and> r_OrganizationID r = org \<and> \<not> r_IsSystem r))
           (roles (st w)),
         role_permissions := filter (\<lambda>rp. rp_RoleID rp \<noteq> rid) (role_permissions (st w)),
         invitations := filter (\<lambda>i. \<not> (i_RoleID i = rid \<and> i_OrganizationID i = org)) (invitations (st w))\<rparr>"
proof (cases "\<exists>r\<in>set (roles (st w)). rls w (r_OrganizationID r) \<and> r_ID r = rid \<and>
    r_OrganizationID r = org \<and> \<not> r_IsSystem r")
  case True
  note hit = this
  then obtain r where r: "r \<in> set (roles (st w))" "rls w (r_OrganizationID r)" "r_ID r = rid"
    "r_OrganizationID r = org" "\<not> r_IsSystem r" by blast
  have "(\<not> (\<exists>r\<in>set (roles (st w)). rls w (r_OrganizationID r) \<and> r_ID r = rid \<and>
    r_OrganizationID r = org \<and> \<not> r_IsSystem r)) = False" using hit by simp
  note a = assms [unfolded delete_role_rows_def Let_def this if_False guards_Inr sum.inject prod.inject]
  show ?thesis
    by (rule that(2) [OF r]) (simp_all only: a)
next
  case False
  with assms show ?thesis
    by (intro that(1)) (simp_all add: delete_role_rows_def Let_def)
qed

definition CountMembershipsByRole :: "uuid \<Rightarrow> uuid \<Rightarrow> nat io" where
  "CountMembershipsByRole rid org = db_read (\<lambda>w.
     Inr (length (filter (\<lambda>m. rls w (m_OrganizationID m) \<and> m_RoleID m = rid \<and> m_OrganizationID m = org)
            (memberships (st w)))))"

definition ListPermissionKeysByRole :: "env \<Rightarrow> uuid \<Rightarrow> string list io" where
  "ListPermissionKeysByRole e rid = db_read (\<lambda>w.
     Inr (sort_key (collate e)
       [p_Key p. p \<leftarrow> permissions (st w), rp \<leftarrow> role_permissions (st w),
          rp_visible w rp \<and> rp_PermissionID rp = p_ID p \<and> rp_RoleID rp = rid]))"

definition HasRolePermission :: "uuid \<Rightarrow> string \<Rightarrow> bool io" where
  "HasRolePermission rid key = db_read (\<lambda>w.
     Inr (\<exists>rp\<in>set (role_permissions (st w)). \<exists>p\<in>set (permissions (st w)).
            rp_visible w rp \<and> p_ID p = rp_PermissionID rp \<and> rp_RoleID rp = rid \<and> p_Key p = key))"

definition GetPermissionByKey :: "string \<Rightarrow> Permission io" where
  "GetPermissionByKey key = db_read (\<lambda>w. one_row (\<lambda>p. p_Key p = key) (permissions (st w)))"

definition SetRolePermissions :: "uuid \<Rightarrow> unit io" where
  "SetRolePermissions rid = db_write (\<lambda>w.
     let s = st w in
       Inr ((), s\<lparr>role_permissions :=
              filter (\<lambda>rp. \<not> (rp_visible w rp \<and> rp_RoleID rp = rid)) (role_permissions s)\<rparr>, fresh w))"

definition AddRolePermission :: "uuid \<Rightarrow> uuid \<Rightarrow> unit io" where
  "AddRolePermission rid pid = db_write (\<lambda>w.
     let s = st w;
         rp = \<lparr>rp_RoleID = rid, rp_PermissionID = pid\<rparr>
     in guards
          [(rp_visible w rp, rls_violation),
           (rp \<in> set (role_permissions s) \<or> (\<exists>r\<in>set (roles s). r_ID r = rid),
            foreign_key_violation ''role_permissions_role_id_fkey''),
           (rp \<in> set (role_permissions s) \<or> (\<exists>p\<in>set (permissions s). p_ID p = pid),
            foreign_key_violation ''role_permissions_permission_id_fkey'')]
          (Inr ((), (if rp \<in> set (role_permissions s) then s
                     else s\<lparr>role_permissions := role_permissions s @ [rp]\<rparr>), fresh w)))"

section \<open>organization\_memberships\<close>

definition CreateMembership ::
  "uuid \<Rightarrow> uuid \<Rightarrow> uuid \<Rightarrow> string \<Rightarrow> time option \<Rightarrow> OrganizationMembership io" where
  "CreateMembership org user role status joined = db_write (\<lambda>w.
     let s = st w;
         m = \<lparr>m_ID = fresh w, m_OrganizationID = org, m_UserID = user, m_RoleID = role,
              m_Status = status, m_JoinedAt = joined, m_CreatedAt = clock w, m_UpdatedAt = clock w\<rparr>
     in guards
          [(rls w org, rls_violation),
           (status \<in> {''active'', ''invited'', ''suspended'', ''removed''},
            check_violation ''organization_memberships_status_check''),
           (\<not> (\<exists>x\<in>set (memberships s). m_OrganizationID x = org \<and> m_UserID x = user),
            unique_violation ''organization_memberships_organization_id_user_id_key''),
           (\<exists>x\<in>set (organizations s). o_ID x = org,
            foreign_key_violation ''organization_memberships_organization_id_fkey''),
           (\<exists>x\<in>set (users s). u_ID x = user, foreign_key_violation ''organization_memberships_user_id_fkey''),
           (\<exists>x\<in>set (roles s). r_ID x = role, foreign_key_violation ''organization_memberships_role_id_fkey'')]
          (Inr (m, s\<lparr>memberships := memberships s @ [m]\<rparr>, Suc (fresh w))))"

definition GetMembership :: "uuid \<Rightarrow> uuid \<Rightarrow> OrganizationMembership io" where
  "GetMembership org user = db_read (\<lambda>w.
     one_row (\<lambda>m. rls w (m_OrganizationID m) \<and> m_OrganizationID m = org \<and> m_UserID m = user)
       (memberships (st w)))"

definition GetMembershipByID :: "uuid \<Rightarrow> uuid \<Rightarrow> OrganizationMembership io" where
  "GetMembershipByID mid org = db_read (\<lambda>w.
     one_row (\<lambda>m. rls w (m_OrganizationID m) \<and> m_ID m = mid \<and> m_OrganizationID m = org)
       (memberships (st w)))"

record ListMembershipsByUserRow =
  lm_Membership :: OrganizationMembership
  lm_OrganizationName :: string
  lm_OrganizationSlug :: string
  lm_OrganizationStatus :: string
  lm_RoleName :: string

definition ListMembershipsByUser :: "env \<Rightarrow> uuid \<Rightarrow> ListMembershipsByUserRow list io" where
  "ListMembershipsByUser e user = db_read (\<lambda>w.
     Inr (sort_key (\<lambda>x. collate e (lm_OrganizationName x))
       [\<lparr>lm_Membership = m, lm_OrganizationName = o_Name x, lm_OrganizationSlug = o_Slug x,
         lm_OrganizationStatus = o_Status x, lm_RoleName = r_Name r\<rparr>.
          m \<leftarrow> memberships (st w), x \<leftarrow> organizations (st w), r \<leftarrow> roles (st w),
          rls w (m_OrganizationID m) \<and> rls w (o_ID x) \<and> rls w (r_OrganizationID r) \<and>
          o_ID x = m_OrganizationID m \<and> r_ID r = m_RoleID m \<and>
          m_UserID m = user \<and> m_Status m = ''active'']))"

record ListMembersByOrganizationRow =
  lo_Membership :: OrganizationMembership
  lo_Email :: string
  lo_FirstName :: string
  lo_LastName :: string
  lo_RoleName :: string

definition ListMembersByOrganization :: "env \<Rightarrow> uuid \<Rightarrow> ListMembersByOrganizationRow list io" where
  "ListMembersByOrganization e org = db_read (\<lambda>w.
     Inr (sort_key (\<lambda>x. collate e (map lower_char (lo_Email x)))
       [\<lparr>lo_Membership = m, lo_Email = u_Email u, lo_FirstName = u_FirstName u,
         lo_LastName = u_LastName u, lo_RoleName = r_Name r\<rparr>.
          m \<leftarrow> memberships (st w), u \<leftarrow> users (st w), r \<leftarrow> roles (st w),
          rls w (m_OrganizationID m) \<and> rls w (r_OrganizationID r) \<and>
          u_ID u = m_UserID m \<and> r_ID r = m_RoleID m \<and> m_OrganizationID m = org]))"

definition active_owner_pairs ::
  "(uuid \<Rightarrow> bool) \<Rightarrow> uuid \<Rightarrow> store \<Rightarrow> (OrganizationMembership \<times> Role) list" where
  "active_owner_pairs vis org s =
     [(m, r). m \<leftarrow> memberships s, r \<leftarrow> roles s,
        vis (m_OrganizationID m) \<and> vis (r_OrganizationID r) \<and> r_ID r = m_RoleID m \<and>
        m_OrganizationID m = org \<and> m_Status m = ''active'' \<and> r_Name r = ''Owner'']"

definition CountActiveOwners :: "uuid \<Rightarrow> nat io" where
  "CountActiveOwners org = db_read (\<lambda>w. Inr (length (active_owner_pairs (rls w) org (st w))))"

definition UpdateMembershipRole :: "uuid \<Rightarrow> uuid \<Rightarrow> uuid \<Rightarrow> OrganizationMembership io" where
  "UpdateMembershipRole mid org role = db_write (\<lambda>w.
     let s = st w;
         hit = (\<lambda>m. rls w (m_OrganizationID m) \<and> m_ID m = mid \<and> m_OrganizationID m = org \<and>
                    m_Status m = ''active'');
         new = (\<lambda>m. m\<lparr>m_RoleID := role, m_UpdatedAt := clock w\<rparr>)
     in (case one_row hit (memberships s) of
           Inl e \<Rightarrow> Inl e
         | Inr m \<Rightarrow>
             guards [(\<exists>r\<in>set (roles s). r_ID r = role,
                      foreign_key_violation ''organization_memberships_role_id_fkey'')]
               (Inr (new m, s\<lparr>memberships := update_where hit new (memberships s)\<rparr>, fresh w))))"

lemmas identity_writes [query_defs] =
  CreateUser_def UpdateUserLastLogin_def CreateRefreshToken_def RevokeRefreshToken_def
  RevokeRefreshTokenFamily_def RevokeAllUserRefreshTokens_def DeleteExpiredRefreshTokens_def
  CreateOrganization_q_def rename_organization_def CreateRole_q_def UpdateRole_q_def DeleteRole_q_def
  SetRolePermissions_def AddRolePermission_def CreateMembership_def UpdateMembershipRole_def

lemmas identity_reads [query_defs] =
  GetUserByID_def GetUserByEmail_def GetRefreshTokenByHash_def GetRefreshTokenByHashForUpdate_def
  GetOrganizationByID_def OrganizationSlugExists_def ListActiveOrganizationIDs_def GetRoleByID_def
  GetRoleByName_def ListRolesByOrganization_def CountMembershipsByRole_def
  ListPermissionKeysByRole_def HasRolePermission_def GetPermissionByKey_def GetMembership_def
  GetMembershipByID_def ListMembershipsByUser_def ListMembersByOrganization_def CountActiveOwners_def

end
