(* ===== verification/Tenancy.thy ===== *)
theory Tenancy
  imports Queries
begin

text \<open>
  What the schema guarantees and what the tenant setting confines. \<open>wf_ids\<close> holds in every
  store the statements can produce: distinct identifiers below the UUID counter and the unique
  constraints. \<open>others org\<close> is everything that belongs to other organizations than \<open>org\<close>. The
  interpretations \<open>ids\<close> and \<open>confined\<close> of \<open>store_invariant\<close> prove, statement by statement, that
  \<open>wf_ids\<close> is kept and that a statement run under the tenant \<open>org\<close> leaves \<open>others org\<close> as it was,
  whatever organization its parameters name.
\<close>

section \<open>Keys\<close>

definition rows_ok :: "('r \<Rightarrow> nat) \<Rightarrow> 'r list \<Rightarrow> nat \<Rightarrow> bool" where
  "rows_ok key rows n \<longleftrightarrow> distinct (map key rows) \<and> (\<forall>r\<in>set rows. key r < n)"

lemma rows_ok_Nil [simp]: "rows_ok key [] n"
  by (simp add: rows_ok_def)

lemma rows_ok_later: "rows_ok key rows n \<Longrightarrow> n \<le> n' \<Longrightarrow> rows_ok key rows n'"
  by (auto simp: rows_ok_def)

lemma rows_ok_snoc [simp]:
  "key r = n \<Longrightarrow> rows_ok key rows n \<Longrightarrow> rows_ok key (rows @ [r]) (Suc n)"
  by (auto simp: rows_ok_def)

lemma rows_ok_Suc [simp]: "rows_ok key rows n \<Longrightarrow> rows_ok key rows (Suc n)"
  by (auto simp: rows_ok_def)

lemma rows_ok_update [simp]:
  "rows_ok key rows n \<Longrightarrow> (\<And>r. P r \<Longrightarrow> key (f r) = key r) \<Longrightarrow> rows_ok key (update_where P f rows) n"
  by (auto simp: rows_ok_def map_update_where_same set_update_where)

lemma distinct_map_filter_key: "distinct (map f xs) \<Longrightarrow> distinct (map f (filter P xs))"
  by (induction xs) auto

lemma rows_ok_filter [simp]: "rows_ok key rows n \<Longrightarrow> rows_ok key (filter P rows) n"
  by (auto simp: rows_ok_def distinct_map_filter_key)

lemma rows_ok_unique:
  "rows_ok key rows n \<Longrightarrow> a \<in> set rows \<Longrightarrow> b \<in> set rows \<Longrightarrow> key a = key b \<Longrightarrow> a = b"
  by (meson distinct_map inj_onD rows_ok_def)

lemma distinct_update_key:
  assumes "distinct (map ident rows)" "distinct (map key rows)"
    and "\<And>r. P r \<Longrightarrow> ident r = i \<and> key (f r) = k"
    and "\<And>r. r \<in> set rows \<Longrightarrow> ident r \<noteq> i \<Longrightarrow> key r \<noteq> k"
  shows "distinct (map key (update_where P f rows))"
  using assms
proof (induction rows)
  case (Cons r rows)
  have IH: "distinct (map key (update_where P f rows))"
    using Cons by simp
  show ?case
  proof (cases "P r")
    case True
    then have r: "ident r = i" "key (f r) = k" using Cons.prems(3) by auto
    have no: "\<not> P x \<and> key x \<noteq> k" if "x \<in> set rows" for x
      using that Cons.prems r(1) by (metis (no_types, lifting) distinct.simps(2) image_eqI list.set_intros(2) list.set_map list.simps(9))
    then have "update_where P f rows = rows"
      by (simp add: update_where_none)
    then show ?thesis
      using True r(2) no Cons.prems(2) by (auto dest: no)
  next
    case False
    have "key r \<notin> key ` set (update_where P f rows)"
    proof
      assume "key r \<in> key ` set (update_where P f rows)"
      then obtain x where x: "x \<in> set rows" "key r = key (if P x then f x else x)"
        by (auto simp: set_update_where)
      show False
      proof (cases "P x")
        case True
        then have "ident x = i" "key r = k" using x(2) Cons.prems(3) by auto
        then have "ident r = i" using Cons.prems(4) [of r] by auto
        then show False
          using \<open>ident x = i\<close> x(1) Cons.prems(1) by (metis distinct.simps(2) image_eqI list.set_map list.simps(9))
      next
        case False
        then show False using x Cons.prems(2) by auto
      qed
    qed
    then show ?thesis using IH False by simp
  qed
qed simp

definition lower_key :: "string \<Rightarrow> string" where
  "lower_key s = map lower_char s"

definition wf_ids :: "store \<Rightarrow> nat \<Rightarrow> bool" where
  "wf_ids s n \<longleftrightarrow>
     rows_ok u_ID (users s) n \<and> rows_ok o_ID (organizations s) n \<and> rows_ok m_ID (memberships s) n \<and>
     rows_ok r_ID (roles s) n \<and> rows_ok t_ID (refresh_tokens s) n \<and>
     rows_ok k_ID (api_keys s) n \<and> rows_ok i_ID (invitations s) n \<and> rows_ok tm_ID (teams s) n \<and>
     rows_ok pr_ID (projects s) n \<and> rows_ok tk_ID (tasks s) n \<and>
     distinct (map k_KeyHash (api_keys s)) \<and> distinct (map i_TokenHash (invitations s)) \<and>
     distinct (map (\<lambda>u. lower_key (u_Email u)) (users s)) \<and>
     distinct (map (\<lambda>x. lower_key (o_Slug x)) (organizations s)) \<and>
     distinct (map (\<lambda>m. (m_OrganizationID m, m_UserID m)) (memberships s)) \<and>
     distinct (map (\<lambda>r. (r_OrganizationID r, r_Name r)) (roles s)) \<and>
     distinct (map t_TokenHash (refresh_tokens s))"

lemma wf_ids_later: "wf_ids s n \<Longrightarrow> n \<le> n' \<Longrightarrow> wf_ids s n'"
  by (auto simp: wf_ids_def intro: rows_ok_later)

interpretation ids: store_invariant wf_ids
  by unfold_locales (rule wf_ids_later)

lemma wf_idsD:
  assumes "wf_ids s n"
  shows wf_role_unique: "r \<in> set (roles s) \<Longrightarrow> r' \<in> set (roles s) \<Longrightarrow> r_ID r = r_ID r' \<Longrightarrow> r = r'"
    and wf_membership_unique:
      "m \<in> set (memberships s) \<Longrightarrow> m' \<in> set (memberships s) \<Longrightarrow> m_ID m = m_ID m' \<Longrightarrow> m = m'"
    and wf_membership_user:
      "m \<in> set (memberships s) \<Longrightarrow> m' \<in> set (memberships s) \<Longrightarrow>
       m_OrganizationID m = m_OrganizationID m' \<Longrightarrow> m_UserID m = m_UserID m' \<Longrightarrow> m = m'"
    and wf_role_name:
      "r \<in> set (roles s) \<Longrightarrow> r' \<in> set (roles s) \<Longrightarrow> r_OrganizationID r = r_OrganizationID r' \<Longrightarrow>
       r_Name r = r_Name r' \<Longrightarrow> r = r'"
    and wf_organization_unique:
      "x \<in> set (organizations s) \<Longrightarrow> x' \<in> set (organizations s) \<Longrightarrow> o_ID x = o_ID x' \<Longrightarrow> x = x'"
    and wf_token_unique:
      "t \<in> set (refresh_tokens s) \<Longrightarrow> t' \<in> set (refresh_tokens s) \<Longrightarrow> t_ID t = t_ID t' \<Longrightarrow> t = t'"
    and wf_token_hash:
      "t \<in> set (refresh_tokens s) \<Longrightarrow> t' \<in> set (refresh_tokens s) \<Longrightarrow> t_TokenHash t = t_TokenHash t' \<Longrightarrow> t = t'"
    and wf_key_unique:
      "k \<in> set (api_keys s) \<Longrightarrow> k' \<in> set (api_keys s) \<Longrightarrow> k_ID k = k_ID k' \<Longrightarrow> k = k'"
    and wf_key_hash:
      "k \<in> set (api_keys s) \<Longrightarrow> k' \<in> set (api_keys s) \<Longrightarrow> k_KeyHash k = k_KeyHash k' \<Longrightarrow> k = k'"
    and wf_invitation_unique:
      "i \<in> set (invitations s) \<Longrightarrow> i' \<in> set (invitations s) \<Longrightarrow> i_ID i = i_ID i' \<Longrightarrow> i = i'"
    and wf_invitation_hash:
      "i \<in> set (invitations s) \<Longrightarrow> i' \<in> set (invitations s) \<Longrightarrow> i_TokenHash i = i_TokenHash i' \<Longrightarrow> i = i'"
    and wf_user_unique:
      "u \<in> set (users s) \<Longrightarrow> u' \<in> set (users s) \<Longrightarrow> u_ID u = u_ID u' \<Longrightarrow> u = u'"
    and wf_fresh_organization: "x \<in> set (organizations s) \<Longrightarrow> o_ID x < n"
    and wf_fresh_role: "r \<in> set (roles s) \<Longrightarrow> r_ID r < n"
    and wf_fresh_membership: "m \<in> set (memberships s) \<Longrightarrow> m_ID m < n"
    and wf_fresh_token: "t \<in> set (refresh_tokens s) \<Longrightarrow> t_ID t < n"
  using assms unfolding wf_ids_def
  by (auto simp: rows_ok_def distinct_map inj_on_def)

section \<open>The rest of the store\<close>

definition others ::
  "uuid \<Rightarrow> store \<Rightarrow>
     Organization list \<times> OrganizationMembership list \<times> Role list \<times> RolePermission list \<times> Team list \<times>
     TeamMember list \<times> Project list \<times> Task list \<times> ActivityLog list \<times> Invitation list \<times> ApiKey list" where
  "others org s =
     (filter (\<lambda>x. o_ID x \<noteq> org) (organizations s),
      filter (\<lambda>m. m_OrganizationID m \<noteq> org) (memberships s),
      filter (\<lambda>r. r_OrganizationID r \<noteq> org) (roles s),
      filter (\<lambda>rp. \<exists>r\<in>set (roles s). r_ID r = rp_RoleID rp \<and> r_OrganizationID r \<noteq> org) (role_permissions s),
      filter (\<lambda>t. tm_OrganizationID t \<noteq> org) (teams s),
      filter (\<lambda>t. tmm_OrganizationID t \<noteq> org) (team_members s),
      filter (\<lambda>p. pr_OrganizationID p \<noteq> org) (projects s),
      filter (\<lambda>t. tk_OrganizationID t \<noteq> org) (tasks s),
      filter (\<lambda>a. av_OrganizationID a \<noteq> org) (activity_logs s),
      filter (\<lambda>i. i_OrganizationID i \<noteq> org) (invitations s),
      filter (\<lambda>k. k_OrganizationID k \<noteq> org) (api_keys s))"

section \<open>Every statement keeps the keys\<close>

lemmas write_simps = Let_def guards_Inr one_row_def wf_ids_def lower_key_def citext_eq_def
  revoke_where_def map_update_where_same

lemma ids_writes [keeps_intro]:
  "ids.keeps T (CreateUser email hash first_name last_name status)"
  "ids.keeps T (UpdateUserLastLogin uid)"
  "ids.keeps T (CreateRefreshToken uid family hash expires ua ip)"
  "ids.keeps T (RevokeRefreshToken tid replaced)"
  "ids.keeps T (RevokeRefreshTokenFamily family)"
  "ids.keeps T (RevokeAllUserRefreshTokens uid)"
  "ids.keeps T DeleteExpiredRefreshTokens"
  "ids.keeps T (CreateOrganization_q name slug status)"
  "ids.keeps T (CreateRole_q org name descr is_system)"
  "ids.keeps T (SetRolePermissions rid)"
  "ids.keeps T (AddRolePermission rid pid)"
  "ids.keeps T (CreateMembership org uid role status joined)"
  unfolding identity_writes
  by (rule ids.keeps_db_write;
      auto simp: write_simps distinct_map_filter_key split: if_splits option.splits)+

lemma ids_rename [keeps_intro]: "ids.keeps T (rename_organization oid name)"
  and ids_UpdateMembershipRole [keeps_intro]: "ids.keeps T (UpdateMembershipRole mid org role)"
  unfolding identity_writes
  by (rule ids.keeps_db_write; auto simp: write_simps split: option.splits)+

lemma ids_DeleteRole [keeps_intro]: "ids.keeps T (DeleteRole_q rid org)"
  unfolding identity_writes
  by (rule ids.keeps_db_write)
    (erule delete_role_rows_cases; simp add: write_simps distinct_map_filter_key)

lemma ids_UpdateRole [keeps_intro]: "ids.keeps T (UpdateRole_q rid org name descr)"
  unfolding identity_writes
  by (rule ids.keeps_db_write)
    (auto simp: write_simps rows_ok_def set_update_where
      intro!: distinct_update_key [where ident = r_ID and i = rid and k = "(org, name)"]
      split: option.splits)

section \<open>Every statement is confined to its tenant\<close>

text \<open>
  A property of stores that holds together with the keys. The locale \<open>schema_property\<close> reduces its
  preservation to statements, and to the committed effect of transactions whose statements break
  it on the way.
\<close>

definition wf_and :: "(store \<Rightarrow> bool) \<Rightarrow> store \<Rightarrow> nat \<Rightarrow> bool" where
  "wf_and P s n \<longleftrightarrow> wf_ids s n \<and> P s"

locale schema_property =
  fixes P :: "store \<Rightarrow> bool"

sublocale schema_property \<subseteq> store_invariant "wf_and P"
  by unfold_locales (auto simp: wf_and_def intro: wf_ids_later)

context schema_property
begin

lemma statement:
  assumes wf: "ids.keeps T (db_write q)"
    and ok: "\<And>w x s n. T (tenant w) \<Longrightarrow> wf_ids (st w) (fresh w) \<Longrightarrow> P (st w) \<Longrightarrow> q w = Inr (x, s, n) \<Longrightarrow> P s"
  shows "keeps T (db_write q)"
proof (rule keepsI)
  fix w :: world
  assume T: "T (tenant w)"
  note k = ids.keepsD [OF wf T]
  show "tenant (snd (db_write q w)) = tenant w" "fresh w \<le> fresh (snd (db_write q w))"
    by (rule k)+
  assume I: "wf_and P (st w) (fresh w)"
  have "P (st (snd (db_write q w)))"
  proof (cases rule: next_fault_cases [of w])
    case 1
    then show ?thesis
      using ok [of "drop_fault w"] T I by (auto simp: db_write_def wf_and_def split: sum.splits)
  qed (use I in \<open>simp add: db_write_def wf_and_def\<close>)
  then show "wf_and P (st (snd (db_write q w))) (fresh (snd (db_write q w)))"
    using k(3) I by (simp add: wf_and_def)
qed

lemma tenant_tx:
  assumes wf: "ids.keeps (\<lambda>t. t = Some org) fn"
    and ok: "\<And>v x v'. wf_ids (st v) (fresh v) \<Longrightarrow> P (st v) \<Longrightarrow> tenant v = Some org \<Longrightarrow>
               fn v = (Inr x, v') \<Longrightarrow> P (st v')"
  shows "keeps T (WithTenantTx org fn)"
proof (rule keepsI)
  fix w
  note k = ids.keepsD [OF ids.keeps_WithTenantTx [OF wf], of "\<lambda>_. True" w, OF TrueI]
  show "tenant (snd (WithTenantTx org fn w)) = tenant w" "fresh w \<le> fresh (snd (WithTenantTx org fn w))"
    by (rule k)+
  assume I: "wf_and P (st w) (fresh w)"
  have "P (st (snd (WithTenantTx org fn w)))"
  proof (rule WithTenantTx_on_success [where P = P])
    show "P (st w)" using I by (simp add: wf_and_def)
  qed (rule ok, use I in \<open>simp_all add: wf_and_def\<close>)
  then show "wf_and P (st (snd (WithTenantTx org fn w))) (fresh (snd (WithTenantTx org fn w)))"
    using k(3) I by (simp add: wf_and_def)
qed

lemma plain_tx:
  assumes wf: "ids.keeps (\<lambda>_. True) fn"
    and ok: "\<And>v x v'. wf_ids (st v) (fresh v) \<Longrightarrow> P (st v) \<Longrightarrow> fn v = (Inr x, v') \<Longrightarrow> P (st v')"
  shows "keeps T (WithTx fn)"
  unfolding WithTx_def
proof (rule keepsI)
  fix w
  note k = ids.keepsD [OF ids.keeps_WithTxAs [OF wf] TrueI]
  show "tenant (snd (WithTxAs (\<lambda>_. ''commit tx'') fn w)) = tenant w" "fresh w \<le> fresh (snd (WithTxAs (\<lambda>_. ''commit tx'') fn w))"
    by (rule k)+
  assume I: "wf_and P (st w) (fresh w)"
  have "P (st (snd (WithTxAs (\<lambda>_. ''commit tx'') fn w)))"
  proof (rule WithTxAs_on_success [where P = P])
    show "P (st w)" using I by (simp add: wf_and_def)
  qed (rule ok, use I in \<open>simp_all add: wf_and_def\<close>)
  then show "wf_and P (st (snd (WithTxAs (\<lambda>_. ''commit tx'') fn w))) (fresh (snd (WithTxAs (\<lambda>_. ''commit tx'') fn w)))"
    using k(3) I by (simp add: wf_and_def)
qed

lemma kept:
  "keeps (\<lambda>_. True) m \<Longrightarrow> wf_ids (st w) (fresh w) \<Longrightarrow> P (st w) \<Longrightarrow> P (st (snd (m w)))"
  using keepsD(3) [of "\<lambda>_. True" m w] by (simp add: wf_and_def)

end

interpretation confined: schema_property "\<lambda>s. others org s = y" for org y .

lemma confined_db_write:
  assumes "ids.keeps (\<lambda>t. t = Some org) (db_write q)"
    and "\<And>w x s n. tenant w = Some org \<Longrightarrow> wf_ids (st w) (fresh w) \<Longrightarrow> q w = Inr (x, s, n) \<Longrightarrow>
           others org s = others org (st w)"
  shows "confined.keeps org y (\<lambda>t. t = Some org) (db_write q)"
  using assms(1) by (rule confined.statement) (simp add: assms(2))

lemma rls_tenant: "tenant w = Some org \<Longrightarrow> rls w x \<longleftrightarrow> x = org"
  by (auto simp: rls_def)

lemma filter_filter_other:
  "(\<And>x. x \<in> set xs \<Longrightarrow> Q x \<Longrightarrow> P x) \<Longrightarrow> filter Q (filter P xs) = filter Q xs"
  by (induction xs) auto

lemma filter_conj_other:
  "(\<And>x. x \<in> set xs \<Longrightarrow> Q x \<Longrightarrow> P x) \<Longrightarrow> filter (\<lambda>x. P x \<and> Q x) xs = filter Q xs"
  by (induction xs) auto

lemma ex_update_where:
  "(\<And>r. P r \<Longrightarrow> Q (f r) \<longleftrightarrow> Q r) \<Longrightarrow>
   (\<exists>r\<in>set (update_where P f rows). Q r) \<longleftrightarrow> (\<exists>r\<in>set rows. Q r)"
  by (auto simp: set_update_where)

lemma role_in_one_organization:
  "wf_ids s n \<Longrightarrow> r \<in> set (roles s) \<Longrightarrow> r_ID r = rid \<Longrightarrow> r_OrganizationID r = org \<Longrightarrow>
   (\<exists>r'\<in>set (roles s). r_ID r' = rid \<and> r_OrganizationID r' \<noteq> org) \<longleftrightarrow> False"
  using wf_role_unique by blast

lemma wf_role_organization:
  "wf_ids s n \<Longrightarrow> r \<in> set (roles s) \<Longrightarrow> r' \<in> set (roles s) \<Longrightarrow> r_ID r = u \<Longrightarrow> r_ID r' = u \<Longrightarrow>
   r_OrganizationID r = r_OrganizationID r'"
  using wf_role_unique by metis

lemmas unfolded_ids_writes =
  ids_writes [unfolded identity_writes] ids_rename [unfolded identity_writes]
  ids_UpdateMembershipRole [unfolded identity_writes] ids_UpdateRole [unfolded identity_writes]
  ids_DeleteRole [unfolded identity_writes]

lemma confined_no_rls_table:
  "confined.keeps org y (\<lambda>t. t = Some org) (CreateUser email hash first_name last_name status)"
  "confined.keeps org y (\<lambda>t. t = Some org) (UpdateUserLastLogin uid)"
  "confined.keeps org y (\<lambda>t. t = Some org) (CreateRefreshToken uid family hash expires ua ip)"
  "confined.keeps org y (\<lambda>t. t = Some org) (RevokeRefreshToken tid replaced)"
  "confined.keeps org y (\<lambda>t. t = Some org) (RevokeRefreshTokenFamily family)"
  "confined.keeps org y (\<lambda>t. t = Some org) (RevokeAllUserRefreshTokens uid)"
  "confined.keeps org y (\<lambda>t. t = Some org) DeleteExpiredRefreshTokens"
  unfolding identity_writes
  by (rule confined_db_write; (rule unfolded_ids_writes)?;
      auto simp: Let_def guards_Inr others_def)+

lemma confined_organizations:
  "confined.keeps org y (\<lambda>t. t = Some org) (CreateOrganization_q name slug status)"
  "confined.keeps org y (\<lambda>t. t = Some org) (rename_organization oid name)"
  unfolding identity_writes
  by (rule confined_db_write; (rule unfolded_ids_writes)?;
      auto simp: Let_def guards_Inr others_def rls_tenant one_row_def
        intro!: filter_update_where_other split: option.splits)+

lemma confined_memberships:
  "confined.keeps org y (\<lambda>t. t = Some org) (CreateMembership oid uid role status joined)"
  "confined.keeps org y (\<lambda>t. t = Some org) (UpdateMembershipRole mid oid role)"
  unfolding identity_writes
  by (rule confined_db_write; (rule unfolded_ids_writes)?;
      auto simp: Let_def guards_Inr others_def rls_tenant one_row_def
        intro!: filter_update_where_other split: option.splits)+

lemma confined_CreateRole:
  "confined.keeps org y (\<lambda>t. t = Some org) (CreateRole_q oid name descr is_system)"
  unfolding identity_writes
  by (rule confined_db_write; (rule unfolded_ids_writes)?;
     auto simp: Let_def guards_Inr others_def rls_tenant)

lemma confined_UpdateRole:
  "confined.keeps org y (\<lambda>t. t = Some org) (UpdateRole_q rid oid name descr)"
  unfolding identity_writes
  by (rule confined_db_write; (rule unfolded_ids_writes)?;
      auto simp: Let_def guards_Inr others_def rls_tenant one_row_def ex_update_where
        intro!: filter_update_where_other split: option.splits)

lemma others_delete_role:
  assumes wf: "wf_ids s n" and r: "r \<in> set (roles s)" "r_ID r = rid" "r_OrganizationID r = org"
    and "\<And>x. x \<in> set (roles s) \<Longrightarrow> hit x \<Longrightarrow> r_OrganizationID x = org"
  shows "others org (s\<lparr>roles := filter (\<lambda>r. \<not> hit r) (roles s),
           role_permissions := filter (\<lambda>rp. rp_RoleID rp \<noteq> rid) (role_permissions s),
           invitations := filter (\<lambda>i. \<not> (i_RoleID i = rid \<and> i_OrganizationID i = org)) (invitations s)\<rparr>)
         = others org s"
proof -
  have roles: "filter (\<lambda>x. r_OrganizationID x \<noteq> org) (filter (\<lambda>r. \<not> hit r) (roles s)) =
      filter (\<lambda>x. r_OrganizationID x \<noteq> org) (roles s)"
    using assms(5) by (intro filter_filter_other) auto
  have ex: "(\<exists>x\<in>set (filter (\<lambda>r. \<not> hit r) (roles s)). r_ID x = u \<and> r_OrganizationID x \<noteq> org) \<longleftrightarrow>
      (\<exists>x\<in>set (roles s). r_ID x = u \<and> r_OrganizationID x \<noteq> org)" for u
    using assms(5) by auto
  have grants: "filter (\<lambda>rp. \<exists>x\<in>set (roles s). r_ID x = rp_RoleID rp \<and> r_OrganizationID x \<noteq> org)
        (filter (\<lambda>rp. rp_RoleID rp \<noteq> rid) (role_permissions s)) =
      filter (\<lambda>rp. \<exists>x\<in>set (roles s). r_ID x = rp_RoleID rp \<and> r_OrganizationID x \<noteq> org) (role_permissions s)"
    using role_in_one_organization [OF wf r] by (intro filter_filter_other) auto
  have invs: "filter (\<lambda>i. i_OrganizationID i \<noteq> org)
        (filter (\<lambda>i. i_RoleID i = rid \<longrightarrow> i_OrganizationID i \<noteq> org) (invitations s)) =
      filter (\<lambda>i. i_OrganizationID i \<noteq> org) (invitations s)"
    by (intro filter_filter_other) auto
  show ?thesis
    by (simp add: others_def roles ex grants invs del: filter_filter set_filter)
qed

lemma confined_DeleteRole: "confined.keeps org y (\<lambda>t. t = Some org) (DeleteRole_q rid oid)"
  unfolding identity_writes
proof (rule confined_db_write, rule ids_DeleteRole [unfolded identity_writes])
  fix w :: world and x s n
  assume t: "tenant w = Some org" and wf: "wf_ids (st w) (fresh w)"
  assume "delete_role_rows rid oid w = Inr (x, s, n)"
  then show "others org s = others org (st w)"
  proof (cases rule: delete_role_rows_cases)
    case (2 r)
    then have "oid = org" using t by (simp add: rls_tenant)
    with 2 t show ?thesis
      by (simp only: \<open>s = _\<close>) (rule others_delete_role [OF wf]; simp add: rls_tenant)
  qed simp
qed

lemma confined_SetRolePermissions:
  "confined.keeps org y (\<lambda>t. t = Some org) (SetRolePermissions rid)"
  unfolding identity_writes
  by (rule confined_db_write; (rule unfolded_ids_writes)?;
      auto simp: Let_def others_def rp_visible_def intro!: filter_conj_other dest: wf_role_organization)

lemma confined_AddRolePermission:
  "confined.keeps org y (\<lambda>t. t = Some org) (AddRolePermission rid pid)"
  unfolding identity_writes
  by (rule confined_db_write; (rule unfolded_ids_writes)?;
      auto simp: Let_def guards_Inr others_def rp_visible_def dest: wf_role_organization split: if_splits)

lemmas confined_writes [keeps_intro] =
  confined_no_rls_table confined_organizations confined_memberships confined_CreateRole
  confined_UpdateRole confined_DeleteRole confined_SetRolePermissions confined_AddRolePermission

end
