(* ===== verification/Authctx.thy ===== *)
theory Authctx
  imports TF_Prelude
begin

text \<open>
  The identity of a request, \<open>internal/authctx/authctx.go\<close>: the principal a credential proves and
  the tenant resolved for it, carried by the request context.
\<close>

definition MethodBearer :: string where
  "MethodBearer = ''bearer''"

definition MethodAPIKey :: string where
  "MethodAPIKey = ''api_key''"

record Principal =
  UserID :: uuid
  TokenID :: uuid
  Method :: string
  APIKeyID :: uuid
  OrganizationID :: uuid

definition IsAPIKey :: "Principal \<Rightarrow> bool" where
  "IsAPIKey p \<longleftrightarrow> APIKeyID p \<noteq> uuid_Nil"

record Tenant =
  ten_OrganizationID :: uuid
  ten_MembershipID :: uuid
  ten_RoleID :: uuid
  ten_RoleName :: string

record request_context =
  principalKey :: "Principal option"
  tenantKey :: "Tenant option"

definition WithPrincipal :: "request_context \<Rightarrow> Principal \<Rightarrow> request_context" where
  "WithPrincipal ctx p = ctx\<lparr>principalKey := Some p\<rparr>"

definition PrincipalFromContext :: "request_context \<Rightarrow> Principal option" where
  "PrincipalFromContext ctx = principalKey ctx"

definition WithTenant :: "request_context \<Rightarrow> Tenant \<Rightarrow> request_context" where
  "WithTenant ctx t = ctx\<lparr>tenantKey := Some t\<rparr>"

definition TenantFromContext :: "request_context \<Rightarrow> Tenant option" where
  "TenantFromContext ctx = tenantKey ctx"

lemma context_roundtrip [simp]:
  "PrincipalFromContext (WithPrincipal ctx p) = Some p"
  "TenantFromContext (WithTenant ctx t) = Some t"
  "PrincipalFromContext (WithTenant ctx t) = PrincipalFromContext ctx"
  "TenantFromContext (WithPrincipal ctx p) = TenantFromContext ctx"
  by (simp_all add: PrincipalFromContext_def WithPrincipal_def TenantFromContext_def WithTenant_def)

end
