(* ===== verification/Organizations.thy ===== *)
theory Organizations
  imports Tenancy Authctx Permissions Slug
begin

text \<open>
  The service of \<open>internal/organizations/service.go\<close>: tenant resolution, the permission check every
  other service calls, organizations, members and roles. Each method is the composition of the
  statements and transactions of the source, with its error mapping on every branch.
\<close>

section \<open>Data\<close>

definition maintenanceBatchSize :: nat where
  "maintenanceBatchSize = 1000"

definition defaultRoles :: "(string \<times> string) list" where
  "defaultRoles =
     [(''Owner'', ''Full control over the organization''),
      (''Admin'', ''Manage organization resources and members''),
      (''Manager'', ''Manage teams, projects and tasks''),
      (''Member'', ''Work on assigned projects and tasks''),
      (''Viewer'', ''Read-only access'')]"

record OrganizationDTO =
  od_ID :: uuid
  od_Name :: string
  od_Slug :: string
  od_Status :: string
  od_Role :: string
  od_CreatedAt :: time
  od_UpdatedAt :: time

record MemberDTO =
  md_MembershipID :: uuid
  md_UserID :: uuid
  md_Email :: string
  md_FirstName :: string
  md_LastName :: string
  md_Role :: string
  md_Status :: string
  md_JoinedAt :: "time option"

record RoleDTO =
  rd_ID :: uuid
  rd_OrganizationID :: uuid
  rd_Name :: string
  rd_Description :: "string option"
  rd_IsSystem :: bool
  rd_Permissions :: "string list"
  rd_CreatedAt :: time
  rd_UpdatedAt :: time

definition organizationDTO :: "Organization \<Rightarrow> string \<Rightarrow> OrganizationDTO" where
  "organizationDTO org role =
     \<lparr>od_ID = o_ID org, od_Name = o_Name org, od_Slug = o_Slug org, od_Status = o_Status org,
      od_Role = role, od_CreatedAt = o_CreatedAt org, od_UpdatedAt = o_UpdatedAt org\<rparr>"

definition roleDTO :: "Role \<Rightarrow> string list \<Rightarrow> RoleDTO" where
  "roleDTO role perms =
     \<lparr>rd_ID = r_ID role, rd_OrganizationID = r_OrganizationID role, rd_Name = r_Name role,
      rd_Description = r_Description role, rd_IsSystem = r_IsSystem role, rd_Permissions = perms,
      rd_CreatedAt = r_CreatedAt role, rd_UpdatedAt = r_UpdatedAt role\<rparr>"

section \<open>Tenant resolution and authorization\<close>

definition withOrgTx :: "uuid \<Rightarrow> 'a io \<Rightarrow> 'a io" where
  "withOrgTx orgID fn = WithTenantTx orgID fn"

definition organization_not_found :: "err option \<Rightarrow> err" where
  "organization_not_found cause = NewAPIError 404 ''ORGANIZATION_NOT_FOUND'' ''Organization not found'' cause"

definition missing_as :: "(err option \<Rightarrow> err) \<Rightarrow> string \<Rightarrow> err \<Rightarrow> err" where
  "missing_as not_found what e = (if errors_Is e ErrNoRows then not_found (Some e) else wrap what e)"

definition ResolveTenant :: "uuid \<Rightarrow> uuid \<Rightarrow> Tenant io" where
  "ResolveTenant userID orgID = withOrgTx orgID
     (io_try (GetMembership orgID userID) (missing_as organization_not_found ''get membership'') (\<lambda>row.
        if m_Status row \<noteq> ''active'' then io_throw (organization_not_found None)
        else io_try (GetOrganizationByID orgID) (missing_as organization_not_found ''get organization'') (\<lambda>org.
          if o_Status org = ''deleted'' then io_throw (organization_not_found None)
          else if o_Status org \<noteq> ''active'' then
            io_throw (NewAPIError 403 ''ORGANIZATION_SUSPENDED'' ''Organization is not active'' None)
          else io_try (GetRoleByID (m_RoleID row) orgID) (missing_as organization_not_found ''get role'') (\<lambda>role.
            io_return \<lparr>ten_OrganizationID = orgID, ten_MembershipID = m_ID row,
                       ten_RoleID = m_RoleID row, ten_RoleName = r_Name role\<rparr>))))"

definition requirePermission :: "uuid \<Rightarrow> uuid \<Rightarrow> string \<Rightarrow> unit io" where
  "requirePermission orgID roleID permission =
     io_try (withOrgTx orgID (HasRolePermission roleID permission)) (wrap ''check permission'') (\<lambda>allowed.
       if \<not> allowed then io_throw (Sentinel ErrForbidden) else io_return ())"

definition Authorize :: "uuid \<Rightarrow> uuid \<Rightarrow> string \<Rightarrow> Tenant io" where
  "Authorize userID orgID permission =
     io_try (ResolveTenant userID orgID) id (\<lambda>t.
     io_try (requirePermission orgID (ten_RoleID t) permission) id (\<lambda>_.
     io_return t))"

section \<open>Organizations\<close>

definition ListMyOrganizations :: "env \<Rightarrow> uuid \<Rightarrow> OrganizationDTO list io" where
  "ListMyOrganizations e userID =
     io_try (ListMembershipsByUser e userID) (wrap ''list memberships'') (\<lambda>rows.
     io_return (map (\<lambda>r. \<lparr>od_ID = m_OrganizationID (lm_Membership r), od_Name = lm_OrganizationName r,
                          od_Slug = lm_OrganizationSlug r, od_Status = lm_OrganizationStatus r,
                          od_Role = lm_RoleName r, od_CreatedAt = m_CreatedAt (lm_Membership r),
                          od_UpdatedAt = m_UpdatedAt (lm_Membership r)\<rparr>)
                 (filter (\<lambda>r. lm_OrganizationStatus r = ''active'') rows)))"

definition GetOrganization :: "uuid \<Rightarrow> uuid \<Rightarrow> OrganizationDTO io" where
  "GetOrganization userID orgID =
     io_try (ResolveTenant userID orgID) id (\<lambda>t.
     io_try (requirePermission orgID (ten_RoleID t) OrganizationsRead) id (\<lambda>_.
     io_try (withOrgTx orgID (io_try (GetOrganizationByID orgID) (wrap ''get organization'') io_return)) id (\<lambda>org.
     io_return (organizationDTO org (ten_RoleName t)))))"

definition setPermissions :: "uuid \<Rightarrow> string list \<Rightarrow> unit io" where
  "setPermissions roleID perms =
     io_try (SetRolePermissions roleID) id (\<lambda>_.
     io_each (\<lambda>key.
       io_try (GetPermissionByKey key)
         (\<lambda>e. if errors_Is e ErrNoRows
              then NewAPIError 400 ''UNKNOWN_PERMISSION'' ''Unknown permission'' None else e)
         (\<lambda>permission. AddRolePermission roleID (p_ID permission))) perms)"

fun uniqueSlug_loop :: "env \<Rightarrow> nat \<Rightarrow> string \<Rightarrow> string \<Rightarrow> string io" where
  "uniqueSlug_loop e 0 base candidate = io_return candidate"
| "uniqueSlug_loop e (Suc i) base candidate =
     io_try (OrganizationSlugExists candidate) (wrap ''check slug'') (\<lambda>exists.
       if \<not> exists then io_return candidate
       else io_try uuid_New id (\<lambda>u.
              uniqueSlug_loop e i base (base @ ''-'' @ take 8 (uuid_string e u))))"

definition uniqueSlug :: "env \<Rightarrow> string \<Rightarrow> string io" where
  "uniqueSlug e name =
     (let base = org_slugify (unicode_lower e) name in uniqueSlug_loop e 5 base base)"

text \<open>The loop of \<open>CreateOrganization\<close> over the default roles; it returns the role named Owner.\<close>

fun seed_roles :: "uuid \<Rightarrow> (string \<times> string) list \<Rightarrow> uuid \<Rightarrow> uuid io" where
  "seed_roles org [] ownerID = io_return ownerID"
| "seed_roles org ((name, desc) # rs) ownerID =
     io_try (CreateRole_q org name (Some desc) True) (wrap (''create role '' @ name)) (\<lambda>role.
     io_try (setPermissions (r_ID role) (DefaultForRole name))
       (wrap (''seed permissions for role '' @ name)) (\<lambda>_.
     seed_roles org rs (if name = ''Owner'' then r_ID role else ownerID)))"

definition CreateOrganization :: "env \<Rightarrow> uuid \<Rightarrow> string \<Rightarrow> OrganizationDTO io" where
  "CreateOrganization e userID name =
     io_try (uniqueSlug e name) id (\<lambda>slug.
     WithTx
       (io_try (CreateOrganization_q name slug ''active'') (wrap ''create organization'') (\<lambda>org.
        io_try (seed_roles (o_ID org) defaultRoles uuid_Nil) id (\<lambda>ownerID.
        io_try time_Now id (\<lambda>now.
        io_try (CreateMembership (o_ID org) userID ownerID ''active'' (Some now))
          (wrap ''create membership'') (\<lambda>_.
        io_return (organizationDTO org ''Owner'')))))))"

definition UpdateOrganization :: "uuid \<Rightarrow> uuid \<Rightarrow> string \<Rightarrow> OrganizationDTO io" where
  "UpdateOrganization userID orgID name =
     io_try (ResolveTenant userID orgID) id (\<lambda>t.
     io_try (requirePermission orgID (ten_RoleID t) OrganizationsUpdate) id (\<lambda>_.
     io_try (withOrgTx orgID (rename_organization orgID name))
       (missing_as organization_not_found ''update organization'') (\<lambda>org.
     io_return (organizationDTO org (ten_RoleName t)))))"

definition ListMembers :: "env \<Rightarrow> uuid \<Rightarrow> uuid \<Rightarrow> MemberDTO list io" where
  "ListMembers e userID orgID =
     io_try (ResolveTenant userID orgID) id (\<lambda>t.
     io_try (requirePermission orgID (ten_RoleID t) MembersRead) id (\<lambda>_.
     io_try (withOrgTx orgID (io_try (ListMembersByOrganization e orgID) (wrap ''list members'') io_return)) id (\<lambda>rows.
     io_return (map (\<lambda>r. \<lparr>md_MembershipID = m_ID (lo_Membership r), md_UserID = m_UserID (lo_Membership r),
                          md_Email = lo_Email r, md_FirstName = lo_FirstName r, md_LastName = lo_LastName r,
                          md_Role = lo_RoleName r, md_Status = m_Status (lo_Membership r),
                          md_JoinedAt = m_JoinedAt (lo_Membership r)\<rparr>) rows))))"

section \<open>Roles\<close>

fun collect_roles :: "env \<Rightarrow> Role list \<Rightarrow> RoleDTO list io" where
  "collect_roles e [] = io_return []"
| "collect_roles e (role # rs) =
     io_try (ListPermissionKeysByRole e (r_ID role)) id (\<lambda>perms.
     io_try (collect_roles e rs) id (\<lambda>rest. io_return (roleDTO role perms # rest)))"

definition ListRoles :: "env \<Rightarrow> uuid \<Rightarrow> uuid \<Rightarrow> RoleDTO list io" where
  "ListRoles e userID orgID =
     io_try (ResolveTenant userID orgID) id (\<lambda>t.
     io_try (requirePermission orgID (ten_RoleID t) RolesRead) id (\<lambda>_.
     io_try (withOrgTx orgID (io_try (ListRolesByOrganization e orgID) id (collect_roles e)))
       (wrap ''list roles'') io_return))"

definition role_name_taken :: "err \<Rightarrow> err" where
  "role_name_taken e =
     (if isUniqueViolation e
      then NewAPIError 409 ''ROLE_NAME_TAKEN'' ''A role with this name already exists'' (Some e) else e)"

definition missing_is_not_found :: "err \<Rightarrow> err" where
  "missing_is_not_found e = (if errors_Is e ErrNoRows then Sentinel ErrNotFound else e)"

definition CreateRole ::
  "uuid \<Rightarrow> uuid \<Rightarrow> string \<Rightarrow> string option \<Rightarrow> string list \<Rightarrow> RoleDTO io" where
  "CreateRole userID orgID name description perms =
     io_try (ResolveTenant userID orgID) id (\<lambda>t.
     io_try (requirePermission orgID (ten_RoleID t) RolesManage) id (\<lambda>_.
     io_try (withOrgTx orgID
         (io_try (CreateRole_q orgID name description False) role_name_taken (\<lambda>role.
          io_try (setPermissions (r_ID role) perms) id (\<lambda>_. io_return role))))
       (wrap ''create role'') (\<lambda>role.
     io_return (roleDTO role perms))))"

definition UpdateRole ::
  "uuid \<Rightarrow> uuid \<Rightarrow> uuid \<Rightarrow> string \<Rightarrow> string option \<Rightarrow> string list \<Rightarrow> RoleDTO io" where
  "UpdateRole userID orgID roleID name description perms =
     io_try (ResolveTenant userID orgID) id (\<lambda>t.
     io_try (requirePermission orgID (ten_RoleID t) RolesManage) id (\<lambda>_.
     io_try (withOrgTx orgID
         (io_try (GetRoleByID roleID orgID) missing_is_not_found (\<lambda>current.
          if r_IsSystem current then
            io_throw (NewAPIError 409 ''SYSTEM_ROLE_IMMUTABLE'' ''System roles cannot be changed'' None)
          else
            io_try (UpdateRole_q roleID orgID name description) role_name_taken (\<lambda>role.
            io_try (setPermissions (r_ID role) perms) id (\<lambda>_. io_return role)))))
       (wrap ''update role'') (\<lambda>role.
     io_return (roleDTO role perms))))"

definition DeleteRole :: "uuid \<Rightarrow> uuid \<Rightarrow> uuid \<Rightarrow> unit io" where
  "DeleteRole userID orgID roleID =
     io_try (ResolveTenant userID orgID) id (\<lambda>t.
     io_try (requirePermission orgID (ten_RoleID t) RolesManage) id (\<lambda>_.
     withOrgTx orgID
       (io_try (GetRoleByID roleID orgID) missing_is_not_found (\<lambda>role.
        if r_IsSystem role then
          io_throw (NewAPIError 409 ''SYSTEM_ROLE_IMMUTABLE'' ''System roles cannot be deleted'' None)
        else
          io_try (CountMembershipsByRole roleID orgID) id (\<lambda>count.
          if count > 0 then
            io_throw (NewAPIError 409 ''ROLE_IN_USE'' ''Reassign members before deleting this role'' None)
          else DeleteRole_q roleID orgID)))))"

text \<open>
  The transaction of \<open>AssignMemberRole\<close> in two parts: the reads that decide, and the update.
\<close>

definition assign_checks :: "Tenant \<Rightarrow> uuid \<Rightarrow> uuid \<Rightarrow> uuid \<Rightarrow> Role io" where
  "assign_checks t orgID membershipID roleID =
     io_try (GetMembershipByID membershipID orgID) missing_is_not_found (\<lambda>current.
     io_try (GetRoleByID (m_RoleID current) orgID) id (\<lambda>currentRole.
     io_try (GetRoleByID roleID orgID)
       (\<lambda>e. if errors_Is e ErrNoRows then NewAPIError 404 ''ROLE_NOT_FOUND'' ''Role not found'' (Some e) else e)
       (\<lambda>newRole.
     if (r_Name currentRole = ''Owner'' \<or> r_Name newRole = ''Owner'') \<and> ten_RoleName t \<noteq> ''Owner'' then
       io_throw (Sentinel ErrForbidden)
     else if r_Name currentRole = ''Owner'' \<and> r_Name newRole \<noteq> ''Owner'' then
       io_try (CountActiveOwners orgID) id (\<lambda>owners.
       if owners \<le> 1 then
         io_throw (NewAPIError 409 ''LAST_OWNER'' ''The organization must retain an Owner'' None)
       else io_return newRole)
     else io_return newRole)))"

definition assign_update :: "uuid \<Rightarrow> uuid \<Rightarrow> uuid \<Rightarrow> Role \<Rightarrow> MemberDTO io" where
  "assign_update orgID membershipID roleID newRole =
     io_try (UpdateMembershipRole membershipID orgID roleID) id (\<lambda>updated.
     io_try (GetUserByID (m_UserID updated)) id (\<lambda>user.
     io_return \<lparr>md_MembershipID = m_ID updated, md_UserID = m_UserID updated, md_Email = u_Email user,
                md_FirstName = u_FirstName user, md_LastName = u_LastName user, md_Role = r_Name newRole,
                md_Status = m_Status updated, md_JoinedAt = m_JoinedAt updated\<rparr>))"

definition AssignMemberRole :: "uuid \<Rightarrow> uuid \<Rightarrow> uuid \<Rightarrow> uuid \<Rightarrow> MemberDTO io" where
  "AssignMemberRole userID orgID membershipID roleID =
     io_try (ResolveTenant userID orgID) id (\<lambda>t.
     io_try (requirePermission orgID (ten_RoleID t) MembersManage) id (\<lambda>_.
     io_try (withOrgTx orgID
         (io_try (assign_checks t orgID membershipID roleID) id (assign_update orgID membershipID roleID)))
       (wrap ''assign member role'') io_return))"

definition ForEachActiveOrganization :: "uuid \<Rightarrow> (uuid \<Rightarrow> unit io) \<Rightarrow> unit io" where
  "ForEachActiveOrganization only fn =
     (if only \<noteq> uuid_Nil then fn only
      else io_try (ListActiveOrganizationIDs maintenanceBatchSize)
             (wrap ''list organizations for maintenance'') (\<lambda>ids. io_each fn ids))"


section \<open>Keys and confinement\<close>

lemmas organization_reads =
  ResolveTenant_def requirePermission_def Authorize_def withOrgTx_def identity_reads

lemma ids_organizations [keeps_intro]:
  "ids.keeps T (setPermissions rid perms)"
  "ids.keeps T (uniqueSlug_loop e n base candidate)"
  "ids.keeps T (seed_roles org rs owner)"
  unfolding setPermissions_def identity_reads
  subgoal by (intro keeps_intro)
  subgoal by (induction n arbitrary: candidate) (auto simp: identity_reads intro!: keeps_intro)
  subgoal by (induction rs arbitrary: owner)
      (auto simp: setPermissions_def identity_reads Let_def intro!: keeps_intro)
  done

lemma confined_setPermissions [keeps_intro]:
  "confined.keeps org y (\<lambda>t. t = Some org) (setPermissions rid perms)"
  unfolding setPermissions_def identity_reads by (intro keeps_intro)

lemmas organization_writes =
  UpdateOrganization_def CreateRole_def UpdateRole_def DeleteRole_def AssignMemberRole_def
  assign_checks_def assign_update_def

lemma ids_organization_ops [keeps_intro]:
  "ids.keeps T (CreateOrganization e uid name)"
  "ids.keeps T (UpdateOrganization uid org name)"
  "ids.keeps T (CreateRole uid org name descr perms)"
  "ids.keeps T (UpdateRole uid org rid name descr perms)"
  "ids.keeps T (DeleteRole uid org rid)"
  "ids.keeps T (AssignMemberRole uid org mid rid)"
  unfolding CreateOrganization_def uniqueSlug_def organization_writes organization_reads
  by (intro keeps_intro)+

lemma confined_organization_ops [keeps_intro]:
  "confined.keeps org y T (UpdateOrganization uid org name)"
  "confined.keeps org y T (CreateRole uid org name descr perms)"
  "confined.keeps org y T (UpdateRole uid org rid name descr perms)"
  "confined.keeps org y T (DeleteRole uid org rid)"
  "confined.keeps org y T (AssignMemberRole uid org mid rid)"
  unfolding organization_writes organization_reads
  by (intro keeps_intro)+

section \<open>Every organization keeps an active Owner\<close>

definition owner_of :: "store \<Rightarrow> uuid \<Rightarrow> OrganizationMembership \<Rightarrow> Role \<Rightarrow> bool" where
  "owner_of s org m r \<longleftrightarrow>
     m \<in> set (memberships s) \<and> r \<in> set (roles s) \<and> m_OrganizationID m = org \<and> m_Status m = ''active'' \<and>
     r_ID r = m_RoleID m \<and> r_OrganizationID r = org \<and> r_Name r = ''Owner'' \<and> r_IsSystem r"

definition owned :: "store \<Rightarrow> bool" where
  "owned s \<longleftrightarrow>
     (\<forall>x\<in>set (organizations s). \<exists>m\<in>set (memberships s). \<exists>r\<in>set (roles s). owner_of s (o_ID x) m r)"

lemma owned_iff: "owned s \<longleftrightarrow> (\<forall>x\<in>set (organizations s). \<exists>m r. owner_of s (o_ID x) m r)"
  unfolding owned_def owner_of_def by blast

interpretation owners: schema_property owned .

text \<open>Statements that touch neither organizations, memberships nor system roles.\<close>

abbreviation ownership :: "store \<Rightarrow> Organization list \<times> OrganizationMembership list \<times> Role list" where
  "ownership s \<equiv> (organizations s, memberships s, roles s)"

lemma owned_cong: "ownership s = ownership s' \<Longrightarrow> owned s \<longleftrightarrow> owned s'"
  by (simp add: owned_iff owner_of_def)

lemma owned_mono:
  assumes "owned s" "o_ID ` set (organizations s') \<subseteq> o_ID ` set (organizations s)"
    "set (memberships s) \<subseteq> set (memberships s')"
    "\<And>r. r \<in> set (roles s) \<Longrightarrow> r_IsSystem r \<Longrightarrow> r \<in> set (roles s')"
  shows "owned s'"
  unfolding owned_iff
proof
  fix x
  assume "x \<in> set (organizations s')"
  then obtain y where "y \<in> set (organizations s)" "o_ID y = o_ID x"
    using assms(2) by (metis image_iff subset_iff)
  then obtain m r where "owner_of s (o_ID x) m r"
    using assms(1) by (metis owned_iff)
  then have "owner_of s' (o_ID x) m r"
    using assms(3,4) by (auto simp: owner_of_def)
  then show "\<exists>m r. owner_of s' (o_ID x) m r" by blast
qed

lemma frame_grants [keeps_intro]:
  "store_invariant.keeps (unchanged ownership x) T (SetRolePermissions rid)"
  "store_invariant.keeps (unchanged ownership x) T (AddRolePermission rid pid)"
  unfolding identity_writes
  by (rule frame.keeps_db_write; auto simp: unchanged_def Let_def guards_Inr)+

lemma frame_setPermissions [keeps_intro]:
  "store_invariant.keeps (unchanged ownership x) T (setPermissions rid perms)"
  unfolding setPermissions_def identity_reads by (intro keeps_intro)

lemma setPermissions_ownership:
  "setPermissions rid perms w = (r, w') \<Longrightarrow> ownership (st w') = ownership (st w)"
  using frame_same [where T = "\<lambda>_. True" and f = ownership and m = "setPermissions rid perms",
      OF frame_setPermissions TrueI] .

lemma CreateRole_q_success:
  assumes "CreateRole_q org name descr sys w = (Inr r, w')"
  shows "r_Name r = name" "r_OrganizationID r = org" "r_IsSystem r = sys" "r_ID r = fresh w"
    "roles (st w') = roles (st w) @ [r]" "memberships (st w') = memberships (st w)"
    "organizations (st w') = organizations (st w)"
  using assms by (auto simp: CreateRole_q_def io_success Let_def guards_Inr)

lemma seed_roles_success:
  "seed_roles org rs owner w = (Inr own, w') \<Longrightarrow>
     set (roles (st w)) \<subseteq> set (roles (st w')) \<and> memberships (st w') = memberships (st w) \<and>
     organizations (st w') = organizations (st w) \<and>
     (if ''Owner'' \<in> fst ` set rs
      then \<exists>r\<in>set (roles (st w')). r_ID r = own \<and> r_OrganizationID r = org \<and> r_Name r = ''Owner'' \<and> r_IsSystem r
      else own = owner)"
proof (induction rs arbitrary: owner w)
  case (Cons p rs)
  obtain name desc where p: "p = (name, desc)" by (cases p)
  from Cons.prems obtain r w1 u w2 where
    1: "CreateRole_q org name (Some desc) True w = (Inr r, w1)" and
    2: "setPermissions (r_ID r) (DefaultForRole name) w1 = (Inr u, w2)" and
    3: "seed_roles org rs (if name = ''Owner'' then r_ID r else owner) w2 = (Inr own, w')"
    unfolding p seed_roles.simps io_success by blast
  note c = CreateRole_q_success [OF 1]
  have same: "roles (st w2) = roles (st w1)" "memberships (st w2) = memberships (st w1)"
    "organizations (st w2) = organizations (st w1)"
    using setPermissions_ownership [OF 2] by simp_all
  note IH = Cons.IH [OF 3]
  show ?case
  proof (cases "''Owner'' \<in> fst ` set rs")
    case True
    then show ?thesis using IH same c p by auto
  next
    case False
    then have own: "own = (if name = ''Owner'' then r_ID r else owner)" using IH by simp
    have "r \<in> set (roles (st w'))" using IH same c by auto
    then show ?thesis using IH same c p own False by auto
  qed
qed (simp add: io_success)

lemma owners_uniqueSlug: "owners.keeps T (uniqueSlug_loop e n base candidate)"
  by (induction n arbitrary: candidate) (auto simp: identity_reads intro!: keeps_intro)

lemma owners_CreateOrganization [keeps_intro]: "owners.keeps T (CreateOrganization e uid name)"
  unfolding CreateOrganization_def uniqueSlug_def Let_def
proof (rule owners.keeps_io_try [OF _ owners.plain_tx])
  show "owners.keeps T (uniqueSlug_loop e 5 (org_slugify (unicode_lower e) name) (org_slugify (unicode_lower e) name))"
    by (rule owners_uniqueSlug)
next
  fix slug v x v'
  assume I: "owned (st v)"
    and run: "io_try (CreateOrganization_q name slug ''active'') (wrap ''create organization'') (\<lambda>org.
        io_try (seed_roles (o_ID org) defaultRoles uuid_Nil) id (\<lambda>ownerID.
        io_try time_Now id (\<lambda>now.
        io_try (CreateMembership (o_ID org) uid ownerID ''active'' (Some now))
          (wrap ''create membership'') (\<lambda>_.
        io_return (organizationDTO org ''Owner''))))) v = (Inr x, v')"
  from run obtain org w1 own w2 m w3 where
    1: "CreateOrganization_q name slug ''active'' v = (Inr org, w1)" and
    2: "seed_roles (o_ID org) defaultRoles uuid_Nil w1 = (Inr own, w2)" and
    3: "CreateMembership (o_ID org) uid own ''active'' (Some (clock w2)) w2 = (Inr m, w3)" "v' = w3"
    unfolding io_success by blast
  have 1: "organizations (st w1) = organizations (st v) @ [org]" "memberships (st w1) = memberships (st v)"
      "roles (st w1) = roles (st v)"
    using 1 by (auto simp: CreateOrganization_q_def io_success Let_def guards_Inr)
  have 3: "memberships (st v') = memberships (st w2) @ [m]" "organizations (st v') = organizations (st w2)"
      "roles (st v') = roles (st w2)" "m_OrganizationID m = o_ID org" "m_Status m = ''active''" "m_RoleID m = own"
    using 3 by (auto simp: CreateMembership_def io_success Let_def guards_Inr)
  note s = seed_roles_success [OF 2, unfolded defaultRoles_def, simplified]
  have "\<exists>m r. owner_of (st v') (o_ID y) m r" if y: "y \<in> set (organizations (st v))" for y
  proof -
    obtain m' r where "owner_of (st v) (o_ID y) m' r"
      using I y by (auto simp: owned_iff)
    then have "owner_of (st v') (o_ID y) m' r"
      using s 1 3 by (auto simp: owner_of_def)
    then show ?thesis by blast
  qed
  moreover have "\<exists>m r. owner_of (st v') (o_ID org) m r"
    using s 3 unfolding owner_of_def by (metis in_set_conv_decomp)
  ultimately show "owned (st v')"
    using 1 3 s unfolding owned_iff by auto
qed (intro keeps_intro)

lemma owners_statements [keeps_intro]:
  "owners.keeps T (rename_organization oid name)"
  "owners.keeps T (CreateRole_q org name descr sys)"
  "owners.keeps T (UpdateRole_q rid org name descr)"
  "owners.keeps T (SetRolePermissions rid)"
  "owners.keeps T (AddRolePermission rid pid)"
  unfolding identity_writes
  by (rule owners.statement; (rule unfolded_ids_writes)?;
      auto simp: Let_def guards_Inr one_row_def set_update_where elim!: owned_mono
        split: option.splits if_splits)+

lemma owners_DeleteRole_q [keeps_intro]: "owners.keeps T (DeleteRole_q rid org)"
  unfolding identity_writes
proof (rule owners.statement, rule ids_DeleteRole [unfolded identity_writes])
  fix w x s n
  assume "owned (st w)" "delete_role_rows rid org w = Inr (x, s, n)"
  then show "owned s"
    by (elim delete_role_rows_cases) (auto elim!: owned_mono)
qed

lemma owners_setPermissions [keeps_intro]: "owners.keeps T (setPermissions rid perms)"
  unfolding setPermissions_def identity_reads by (intro keeps_intro)

lemma active_owner_pairs_product:
  "active_owner_pairs vis org s =
     filter (\<lambda>(m, r). vis (m_OrganizationID m) \<and> vis (r_OrganizationID r) \<and> r_ID r = m_RoleID m \<and>
        m_OrganizationID m = org \<and> m_Status m = ''active'' \<and> r_Name r = ''Owner'')
       (List.product (memberships s) (roles s))"
proof -
  have *: "concat (map (\<lambda>r. if P r then [(m, r)] else []) rs) = filter (\<lambda>(m, r). P r) (map (Pair m) rs)" for P m rs
    by (induction rs) auto
  have "[(m, r). m \<leftarrow> ms, r \<leftarrow> rs, Q m r] = filter (\<lambda>(m, r). Q m r) (List.product ms rs)" for Q ms rs
    by (induction ms) (simp_all add: * filter_map comp_def)
  then show ?thesis by (simp add: active_owner_pairs_def)
qed

text \<open>When two active owners are counted, one of them is not the membership in question.\<close>

lemma another_owner:
  assumes wf: "wf_ids s n" and n: "1 < length (active_owner_pairs vis org s)"
  shows "\<exists>m r. m \<in> set (memberships s) \<and> r \<in> set (roles s) \<and> m_ID m \<noteq> mid \<and> vis (r_OrganizationID r) \<and>
           m_OrganizationID m = org \<and> m_Status m = ''active'' \<and> r_ID r = m_RoleID m \<and> r_Name r = ''Owner''"
proof -
  let ?ps = "active_owner_pairs vis org s"
  have "distinct ?ps"
    using wf by (simp add: active_owner_pairs_product wf_ids_def rows_ok_def distinct_map distinct_product)
  then obtain m r m' r' where p: "(m, r) \<in> set ?ps" "(m', r') \<in> set ?ps" "(m, r) \<noteq> (m', r')"
    using n by (metis One_nat_def Suc_lessD nth_eq_iff_index_eq nth_mem surj_pair zero_neq_one)
  then have mem: "m \<in> set (memberships s)" "m' \<in> set (memberships s)" "r \<in> set (roles s)" "r' \<in> set (roles s)"
      "r_ID r = m_RoleID m" "r_ID r' = m_RoleID m'"
    by (auto simp: active_owner_pairs_product)
  then have "m_ID m \<noteq> m_ID m'"
    using p(3) wf_membership_unique [OF wf] wf_role_unique [OF wf] by (metis)
  then have "m_ID m \<noteq> mid \<or> m_ID m' \<noteq> mid" by auto
  then show ?thesis
    using p(1,2) by (auto simp: active_owner_pairs_product)
qed

text \<open>What the checks of \<open>AssignMemberRole\<close> established when they pass.\<close>

lemma assign_checks_success:
  assumes "assign_checks t org mid rid w = (Inr newRole, w')" "tenant w = Some org"
  obtains c cr where
    "c \<in> set (memberships (st w))" "m_ID c = mid" "m_OrganizationID c = org"
    "cr \<in> set (roles (st w))" "r_ID cr = m_RoleID c" "r_OrganizationID cr = org"
    "newRole \<in> set (roles (st w))" "r_ID newRole = rid" "r_OrganizationID newRole = org"
    "r_Name cr = ''Owner'' \<or> r_Name newRole = ''Owner'' \<Longrightarrow> ten_RoleName t = ''Owner''"
    "r_Name cr = ''Owner'' \<Longrightarrow> r_Name newRole \<noteq> ''Owner'' \<Longrightarrow>
       1 < length (active_owner_pairs (\<lambda>x. x = org) org (st w))"
    "st w' = st w" "fresh w' = fresh w" "tenant w' = tenant w"
proof -
  have rls: "rls v = (\<lambda>x. x = org)" if "tenant v = Some org" for v
    using that by (auto simp: rls_def)
  show ?thesis
    using assms
    by (auto simp: assign_checks_def identity_reads io_success one_row_def rls
        split: option.splits if_splits dest!: find_SomeD intro: that)
qed

lemma UpdateMembershipRole_success:
  assumes "UpdateMembershipRole mid org role w = (Inr m, w')" "tenant w = Some org"
  shows "organizations (st w') = organizations (st w)" "roles (st w') = roles (st w)"
    "memberships (st w') =
       update_where (\<lambda>m. m_ID m = mid \<and> m_OrganizationID m = org \<and> m_Status m = ''active'')
         (\<lambda>m. m\<lparr>m_RoleID := role, m_UpdatedAt := clock w\<rparr>) (memberships (st w))"
  using assms unfolding UpdateMembershipRole_def io_success Let_def
  by (auto simp: guards_Inr one_row_def rls_tenant intro!: update_where_cong split: option.splits)

lemma assign_keeps_owner:
  assumes wf: "wf_ids (st w) (fresh w)" and own: "owned (st w)" and t: "tenant w = Some org"
    and run: "io_try (assign_checks t org mid rid) id (assign_update org mid rid) w = (Inr x, w')"
  shows "owned (st w')"
proof -
  from run obtain newRole w1 m w2 where
    1: "assign_checks t org mid rid w = (Inr newRole, w1)" and
    2: "UpdateMembershipRole mid org rid w1 = (Inr m, w2)" and "st w' = st w2"
    unfolding assign_update_def GetUserByID_def io_success by auto
  from assign_checks_success [OF 1 t] obtain c cr where
    c: "c \<in> set (memberships (st w))" "m_ID c = mid" "m_OrganizationID c = org" and
    cr: "cr \<in> set (roles (st w))" "r_ID cr = m_RoleID c" and
    nr: "newRole \<in> set (roles (st w))" "r_ID newRole = rid" "r_OrganizationID newRole = org" and
    two: "r_Name cr = ''Owner'' \<Longrightarrow> r_Name newRole \<noteq> ''Owner'' \<Longrightarrow>
          1 < length (active_owner_pairs (\<lambda>x. x = org) org (st w))" and
    same: "st w1 = st w" "tenant w1 = Some org"
    using t by metis
  let ?hit = "\<lambda>m. m_ID m = mid \<and> m_OrganizationID m = org \<and> m_Status m = ''active''"
  let ?new = "\<lambda>m. m\<lparr>m_RoleID := rid, m_UpdatedAt := clock w1\<rparr>"
  note u = UpdateMembershipRole_success [OF 2 same(2), folded \<open>st w' = st w2\<close>, unfolded same(1)]
  have stays: "owner_of (st w') oid m r" if "owner_of (st w) oid m r" "m_ID m \<noteq> mid \<or> oid \<noteq> org" for oid m r
    using that unfolding owner_of_def u by (auto simp: set_update_where image_iff)
  show ?thesis
    unfolding owned_iff u(1)
  proof
    fix x
    assume "x \<in> set (organizations (st w))"
    then obtain m r where mr: "owner_of (st w) (o_ID x) m r"
      using own by (auto simp: owned_iff)
    show "\<exists>m r. owner_of (st w') (o_ID x) m r"
    proof (cases "m_ID m \<noteq> mid \<or> o_ID x \<noteq> org")
      case True
      then show ?thesis using stays mr by blast
    next
      case False
      then have "m = c" using wf_membership_unique [OF wf] mr c by (auto simp: owner_of_def)
      then have "r = cr" using wf_role_unique [OF wf] mr cr by (auto simp: owner_of_def)
      show ?thesis
      proof (cases "r_Name newRole = ''Owner''")
        case True
        then have "newRole = r"
          using wf_role_name [OF wf] nr mr False by (auto simp: owner_of_def)
        then have "owner_of (st w') (o_ID x) (?new m) r"
          using mr False nr unfolding owner_of_def u by (auto simp: set_update_where image_iff)
        then show ?thesis by blast
      next
        case notOwner: False
        with two \<open>r = cr\<close> mr have "1 < length (active_owner_pairs (\<lambda>x. x = org) org (st w))"
          by (auto simp: owner_of_def)
        from another_owner [OF wf this, of mid] obtain m' r' where
          m': "m' \<in> set (memberships (st w))" "r' \<in> set (roles (st w))" "m_ID m' \<noteq> mid" "r_OrganizationID r' = org"
            "m_OrganizationID m' = org" "m_Status m' = ''active''" "r_ID r' = m_RoleID m'" "r_Name r' = ''Owner''"
          by blast
        then have "r' = r" using wf_role_name [OF wf] mr False by (auto simp: owner_of_def)
        then have "owner_of (st w) (o_ID x) m' r'" using m' mr False by (auto simp: owner_of_def)
        then show ?thesis using stays m'(3) by blast
      qed
    qed
  qed
qed

lemma owners_operations [keeps_intro]:
  "owners.keeps T (UpdateOrganization uid org name)"
  "owners.keeps T (CreateRole uid org name descr perms)"
  "owners.keeps T (UpdateRole uid org rid name descr perms)"
  "owners.keeps T (DeleteRole uid org rid)"
  unfolding UpdateOrganization_def CreateRole_def UpdateRole_def DeleteRole_def organization_reads
  by (intro keeps_intro)+

lemma owners_AssignMemberRole [keeps_intro]: "owners.keeps T (AssignMemberRole uid org mid rid)"
proof -
  have ids: "ids.keeps (\<lambda>t. t = Some org)
      (io_try (assign_checks t org mid rid) id (assign_update org mid rid))" for t
    unfolding assign_checks_def assign_update_def identity_reads by (intro keeps_intro)
  have tx: "owners.keeps T (WithTenantTx org
      (io_try (assign_checks t org mid rid) id (assign_update org mid rid)))" for t T
    by (rule owners.tenant_tx [OF ids]) (rule assign_keeps_owner)
  have reads: "owners.keeps T (ResolveTenant uid org)" "owners.keeps T (requirePermission org r p)" for r p
    unfolding organization_reads by (intro keeps_intro)+
  show ?thesis
    unfolding AssignMemberRole_def withOrgTx_def
    by (rule owners.keeps_io_try reads tx keeps_intro)+
qed

section \<open>Properties\<close>

text \<open>
  C20: organizations are isolated. Whatever a user asks of an organization, with whatever
  identifiers of roles and memberships and wherever the infrastructure fails, no row of another
  organization is created, changed or deleted.
\<close>

theorem organization_operations_confined:
  assumes "wf_ids (st w) (fresh w)"
  shows "others org (st (snd (UpdateOrganization uid org name w))) = others org (st w) \<and>
         others org (st (snd (CreateRole uid org name descr perms w))) = others org (st w) \<and>
         others org (st (snd (UpdateRole uid org rid name descr perms w))) = others org (st w) \<and>
         others org (st (snd (DeleteRole uid org rid w))) = others org (st w) \<and>
         others org (st (snd (AssignMemberRole uid org mid rid w))) = others org (st w)"
proof -
  have *: "others org (st (snd (m w))) = others org (st w)"
    if "confined.keeps org (others org (st w)) (\<lambda>_. True) m" for m :: "'x io"
    using confined.kept [OF that assms] by simp
  show ?thesis
    by (intro conjI *) (rule keeps_intro)+
qed

text \<open>The policy in terms of the tables: who may do what in an organization.\<close>

definition entitled :: "store \<Rightarrow> uuid \<Rightarrow> uuid \<Rightarrow> string \<Rightarrow> bool" where
  "entitled s uid org perm \<longleftrightarrow>
     (\<exists>m\<in>set (memberships s). m_OrganizationID m = org \<and> m_UserID m = uid \<and> m_Status m = ''active'' \<and>
        (\<exists>x\<in>set (organizations s). o_ID x = org \<and> o_Status x = ''active'') \<and>
        (\<exists>r\<in>set (roles s). r_ID r = m_RoleID m \<and> r_OrganizationID r = org) \<and>
        (\<exists>rp\<in>set (role_permissions s). rp_RoleID rp = m_RoleID m \<and>
           (\<exists>p\<in>set (permissions s). p_ID p = rp_PermissionID rp \<and> p_Key p = perm)))"

lemma authorize_facts:
  assumes "Authorize uid org perm w = (Inr t, w')"
  shows "st w' = st w \<and> ten_OrganizationID t = org \<and>
         (\<exists>m x r rp p. m \<in> set (memberships (st w)) \<and> m_OrganizationID m = org \<and> m_UserID m = uid \<and>
            m_Status m = ''active'' \<and> m_ID m = ten_MembershipID t \<and> m_RoleID m = ten_RoleID t \<and>
            x \<in> set (organizations (st w)) \<and> o_ID x = org \<and> o_Status x = ''active'' \<and>
            r \<in> set (roles (st w)) \<and> r_ID r = ten_RoleID t \<and> r_OrganizationID r = org \<and>
            r_Name r = ten_RoleName t \<and>
            rp \<in> set (role_permissions (st w)) \<and> rp_RoleID rp = ten_RoleID t \<and>
            p \<in> set (permissions (st w)) \<and> p_ID p = rp_PermissionID rp \<and> p_Key p = perm)"
  using assms
  by (auto simp: organization_reads io_success one_row_def split: option.splits if_splits
      dest!: find_SomeD) blast

text \<open>
  C15: the authorization gate fails closed. When \<open>Authorize\<close> admits a request, whatever faults
  occurred on the way, the user has an active membership in the organization, the organization
  is active, the role belongs to the organization and the permission is granted to that role;
  and nothing was written.
\<close>

theorem authorize_sound:
  assumes "Authorize uid org perm w = (Inr t, w')"
  shows "st w' = st w \<and> ten_OrganizationID t = org \<and>
         (\<exists>m x r rp p. m \<in> set (memberships (st w)) \<and> m_OrganizationID m = org \<and> m_UserID m = uid \<and>
            m_Status m = ''active'' \<and> m_ID m = ten_MembershipID t \<and> m_RoleID m = ten_RoleID t \<and>
            x \<in> set (organizations (st w)) \<and> o_ID x = org \<and> o_Status x = ''active'' \<and>
            r \<in> set (roles (st w)) \<and> r_ID r = ten_RoleID t \<and> r_OrganizationID r = org \<and>
            r_Name r = ten_RoleName t \<and>
            rp \<in> set (role_permissions (st w)) \<and> rp_RoleID rp = ten_RoleID t \<and>
            p \<in> set (permissions (st w)) \<and> p_ID p = rp_PermissionID rp \<and> p_Key p = perm)"
  using assms by (rule authorize_facts)

definition demo_store :: store where
  "demo_store = empty_store\<lparr>
     users := map (\<lambda>(i, a). \<lparr>u_ID = i, u_Email = a, u_PasswordHash = ''h'', u_FirstName = ''F'', u_LastName = ''L'',
        u_AvatarUrl = None, u_Status = ''active'', u_EmailVerifiedAt = None, u_LastLoginAt = None,
        u_CreatedAt = 0, u_UpdatedAt = 0\<rparr>) [(1, ''a@x''), (2, ''b@x'')],
     organizations := map (\<lambda>(i, s). \<lparr>o_ID = i, o_Name = ''Org'', o_Slug = s, o_Status = ''active'',
        o_CreatedAt = 0, o_UpdatedAt = 0\<rparr>) [(10, ''one''), (20, ''two'')],
     roles := map (\<lambda>(i, org, name, sys). \<lparr>r_ID = i, r_OrganizationID = org, r_Name = name, r_Description = None,
        r_IsSystem = sys, r_CreatedAt = 0, r_UpdatedAt = 0\<rparr>)
        [(11, 10, ''Owner'', True), (12, 10, ''Viewer'', True), (13, 10, ''Auditor'', False), (21, 20, ''Owner'', True)],
     permissions := map (\<lambda>(i, k). \<lparr>p_ID = i, p_Key = k, p_Description = k, p_CreatedAt = 0\<rparr>)
        [(41, MembersManage), (42, RolesManage), (43, OrganizationsUpdate)],
     role_permissions := map (\<lambda>(r, p). \<lparr>rp_RoleID = r, rp_PermissionID = p\<rparr>)
        [(11, 41), (11, 42), (11, 43), (21, 41)],
     memberships := map (\<lambda>(i, org, u, r). \<lparr>m_ID = i, m_OrganizationID = org, m_UserID = u, m_RoleID = r,
        m_Status = ''active'', m_JoinedAt = None, m_CreatedAt = 0, m_UpdatedAt = 0\<rparr>)
        [(31, 10, 1, 11), (32, 10, 2, 11), (33, 20, 2, 21)]\<rparr>"

definition demo_world :: world where
  "demo_world = empty_world\<lparr>st := demo_store, fresh := 100\<rparr>"

definition demo_env :: env where
  "demo_env = \<lparr>unicode_lower = id, collate = id, uuid_string = decimal_nat,
     uuid_Parse = (\<lambda>s. map_option nat (digits_value 0 s)), sha256 = (\<lambda>x. take 4 (rev x)),
     bcrypt_hash = (\<lambda>salt pw. Inr pw), bcrypt_compare = (\<lambda>h pw. h = pw),
     json_Marshal = (\<lambda>_. ''{}''), inet_valid = (\<lambda>_. True), pgx_scans_inet = False\<rparr>"

lemma demo_wf: "wf_ids (st demo_world) (fresh demo_world)"
  by code_simp

theorem organization_operations_confined_witness:
  "others 20 (st (snd (AssignMemberRole 2 20 31 12 demo_world))) = others 20 (st demo_world)"
  using organization_operations_confined [OF demo_wf, of 20] by blast

theorem authorize_sound_witness:
  "\<exists>m\<in>set (memberships (st demo_world)). m_OrganizationID m = 10 \<and> m_UserID m = 1 \<and> m_Status m = ''active''"
proof -
  let ?r = "Authorize 1 10 MembersManage demo_world"
  have "\<not> isl (fst ?r)" by code_simp
  then obtain t where "?r = (Inr t, snd ?r)" by (metis not_isl_Inr prod.collapse)
  from authorize_sound [OF this] show ?thesis by blast
qed

text \<open>
  C12: the authorization gate decides exactly the documented policy. In a store that satisfies the
  schema and without infrastructure faults, \<open>Authorize\<close> admits a request if and only if the user
  has an active membership in the organization, the organization is active, and the role of the
  membership, a role of that organization, has been granted the permission.
\<close>

theorem authorize_decides:
  assumes wf: "wf_ids (st w) (fresh w)" and nf: "faults w = []"
  shows "(\<exists>t w'. Authorize uid org perm w = (Inr t, w')) \<longleftrightarrow> entitled (st w) uid org perm"
    (is "?admitted \<longleftrightarrow> _")
proof
  assume ?admitted
  then obtain t w' where "Authorize uid org perm w = (Inr t, w')" by blast
  from authorize_facts [OF this] show "entitled (st w) uid org perm"
    unfolding entitled_def by (elim conjE exE) (rule bexI, auto)
next
  assume "entitled (st w) uid org perm"
  then obtain m x r rp p where
    m: "m \<in> set (memberships (st w))" "m_OrganizationID m = org" "m_UserID m = uid" "m_Status m = ''active''" and
    x: "x \<in> set (organizations (st w))" "o_ID x = org" "o_Status x = ''active''" and
    r: "r \<in> set (roles (st w))" "r_ID r = m_RoleID m" "r_OrganizationID r = org" and
    p: "rp \<in> set (role_permissions (st w))" "rp_RoleID rp = m_RoleID m"
       "p \<in> set (permissions (st w))" "p_ID p = rp_PermissionID rp" "p_Key p = perm"
    unfolding entitled_def by blast
  let ?v = "w\<lparr>tenant := Some org\<rparr>"
  have "find (\<lambda>m. rls ?v (m_OrganizationID m) \<and> m_OrganizationID m = org \<and> m_UserID m = uid) (memberships (st w)) = Some m"
    using m wf_membership_user [OF wf] by (intro find_unique) (auto simp: rls_def)
  moreover have "find (\<lambda>x. rls ?v (o_ID x) \<and> o_ID x = org) (organizations (st w)) = Some x"
    using x wf_organization_unique [OF wf] by (intro find_unique) (auto simp: rls_def)
  moreover have "find (\<lambda>r. rls ?v (r_OrganizationID r) \<and> r_ID r = m_RoleID m \<and> r_OrganizationID r = org) (roles (st w)) = Some r"
    using r wf_role_unique [OF wf] by (intro find_unique) (auto simp: rls_def)
  moreover have "\<exists>rp\<in>set (role_permissions (st w)). \<exists>p\<in>set (permissions (st w)).
      rp_visible ?v rp \<and> p_ID p = rp_PermissionID rp \<and> rp_RoleID rp = m_RoleID m \<and> p_Key p = perm"
    by (rule bexI [OF _ p(1)], rule bexI [OF _ p(3)]) (use p r in \<open>auto simp: rp_visible_def\<close>)
  ultimately show ?admitted
    using m x nf by (simp add: organization_reads io_simps one_row_def)
qed

theorem authorize_decides_witness:
  "(\<exists>t w'. Authorize 1 10 MembersManage demo_world = (Inr t, w')) \<and>
   \<not> (\<exists>t w'. Authorize 1 20 MembersManage demo_world = (Inr t, w'))"
proof -
  have nf: "faults demo_world = []" by (simp add: demo_world_def empty_world_def)
  show ?thesis
    unfolding authorize_decides [OF demo_wf nf] by code_simp
qed

text \<open>
  The guard against losing the last Owner under concurrency, on an example. Two owners of an
  organization demote each other at the same time. \<open>AssignMemberRole\<close> locks no row before it counts the
  owners, so under the default isolation level both transactions may pass their checks on the same
  committed state; their updates touch different rows and both commit, and the organization is left
  without an Owner.
\<close>

lemma concurrent_demotions_lose_last_owner:
  "\<exists>v viewer t1 t2.
     owned (st v) \<and> tenant v = Some 10 \<and> ten_RoleName t1 = ''Owner'' \<and> ten_RoleName t2 = ''Owner'' \<and>
     fst (assign_checks t1 10 32 12 v) = Inr viewer \<and> fst (assign_checks t2 10 31 12 v) = Inr viewer \<and>
     \<not> isl (fst (assign_update 10 32 12 viewer v)) \<and>
     \<not> isl (fst (assign_update 10 31 12 viewer (snd (assign_update 10 32 12 viewer v)))) \<and>
     \<not> owned (st (snd (assign_update 10 31 12 viewer (snd (assign_update 10 32 12 viewer v)))))"
proof -
  let ?v = "demo_world\<lparr>tenant := Some 10\<rparr>"
  let ?t = "\<lparr>ten_OrganizationID = 10, ten_MembershipID = 31, ten_RoleID = 11, ten_RoleName = ''Owner''\<rparr>"
  let ?viewer = "roles demo_store ! 1"
  have "owned (st ?v)"
    by code_simp
  moreover have "fst (assign_checks ?t 10 32 12 ?v) = Inr ?viewer" "fst (assign_checks ?t 10 31 12 ?v) = Inr ?viewer"
    by code_simp+
  moreover have "\<not> isl (fst (assign_update 10 32 12 ?viewer ?v))"
    "\<not> isl (fst (assign_update 10 31 12 ?viewer (snd (assign_update 10 32 12 ?viewer ?v))))"
    by code_simp+
  moreover have "\<not> owned (st (snd (assign_update 10 31 12 ?viewer (snd (assign_update 10 32 12 ?viewer ?v)))))"
    by code_simp
  ultimately show ?thesis
    by (intro exI [of _ ?v] exI [of _ ?viewer] exI [of _ ?t]) simp
qed

end
