(* ===== verification/System_Roles.thy ===== *)
theory System_Roles
  imports Organizations
begin

text \<open>
  The system roles of an organization: they are seeded with exactly the default grants when the
  organization is created, and no operation of the service changes them or their grants.
\<close>

section \<open>Grants of one role\<close>

definition granted :: "store \<Rightarrow> uuid \<Rightarrow> string \<Rightarrow> bool" where
  "granted s rid key \<longleftrightarrow>
     (\<exists>rp\<in>set (role_permissions s). rp_RoleID rp = rid \<and>
        (\<exists>p\<in>set (permissions s). p_ID p = rp_PermissionID rp \<and> p_Key p = key))"

definition other_grants :: "uuid \<Rightarrow> store \<Rightarrow> RolePermission list" where
  "other_grants rid s = filter (\<lambda>rp. rp_RoleID rp \<noteq> rid) (role_permissions s)"

lemma frame_other_grants [keeps_intro]:
  "store_invariant.keeps (unchanged (other_grants rid) x) T (SetRolePermissions rid)"
  "store_invariant.keeps (unchanged (other_grants rid) x) T (AddRolePermission rid pid)"
  unfolding identity_writes
  by (rule frame.keeps_db_write;
      auto simp: unchanged_def other_grants_def Let_def guards_Inr intro!: filter_conj_other)+

lemma setPermissions_other_grants:
  assumes "setPermissions rid perms w = (r, w')"
  shows "other_grants rid (st w') = other_grants rid (st w)"
proof -
  have "store_invariant.keeps (unchanged (other_grants rid) x) (\<lambda>_. True) (setPermissions rid perms)" for x
    unfolding setPermissions_def identity_reads by (intro keeps_intro)
  from frame_same [OF this TrueI assms] show ?thesis .
qed

section \<open>System roles\<close>

definition system_roles :: "store \<Rightarrow> Role list" where
  "system_roles s = filter r_IsSystem (roles s)"

definition system_grants :: "store \<Rightarrow> RolePermission list" where
  "system_grants s =
     filter (\<lambda>rp. \<exists>r\<in>set (roles s). r_IsSystem r \<and> r_ID r = rp_RoleID rp) (role_permissions s)"

definition system_part :: "store \<Rightarrow> Role list \<times> RolePermission list" where
  "system_part s = (system_roles s, system_grants s)"

lemma system_grants_alt:
  "system_grants s = filter (\<lambda>rp. \<exists>r\<in>set (system_roles s). r_ID r = rp_RoleID rp) (role_permissions s)"
  by (auto simp: system_grants_def system_roles_def intro!: filter_cong [OF refl])

lemma system_part_other_grants:
  assumes "system_roles s' = system_roles s" "other_grants rid s' = other_grants rid s"
    "\<And>r. r \<in> set (system_roles s) \<Longrightarrow> r_ID r \<noteq> rid"
  shows "system_part s' = system_part s"
proof -
  have *: "system_grants s = filter (\<lambda>rp. \<exists>r\<in>set (system_roles s). r_ID r = rp_RoleID rp) (other_grants rid s)"
    if "\<forall>r\<in>set (system_roles s). r_ID r \<noteq> rid" for s
    unfolding system_grants_alt other_grants_def using that by (intro filter_filter_other [symmetric]) blast
  show ?thesis
    using * [of s] * [of s'] assms by (simp add: system_part_def)
qed

interpretation system: schema_property "\<lambda>s. system_part s = x" for x .

lemma system_statements [keeps_intro]:
  "system.keeps x T (rename_organization oid name)"
  "system.keeps x T (UpdateMembershipRole mid org role)"
  unfolding identity_writes
  by (rule system.statement; (rule unfolded_ids_writes)?;
      auto simp: Let_def guards_Inr one_row_def system_part_def system_roles_def system_grants_def
        split: option.splits)+

lemma DeleteRole_q_system [keeps_intro]: "system.keeps x T (DeleteRole_q rid org)"
  unfolding identity_writes
proof (rule system.statement, rule ids_DeleteRole [unfolded identity_writes])
  fix w :: world and y s n
  assume wf: "wf_ids (st w) (fresh w)" and P: "system_part (st w) = x"
  assume "delete_role_rows rid org w = Inr (y, s, n)"
  then show "system_part s = x"
  proof (cases rule: delete_role_rows_cases)
    case (2 r)
    have "system_part s = system_part (st w)"
    proof (rule system_part_other_grants)
      show "system_roles s = system_roles (st w)"
        using 2 by (auto simp: system_roles_def intro!: filter_conj_other)
      show "other_grants rid s = other_grants rid (st w)"
        using 2 by (simp add: other_grants_def)
      show "r_ID r' \<noteq> rid" if "r' \<in> set (system_roles (st w))" for r'
        using that 2 wf_role_unique [OF wf] by (auto simp: system_roles_def)
    qed
    then show ?thesis using P by simp
  qed (simp add: P)
qed

lemma create_role_body:
  assumes wf: "wf_ids (st v) (fresh v)"
    and run: "io_try (CreateRole_q org name descr False) role_name_taken (\<lambda>role.
       io_try (setPermissions (r_ID role) perms) id (\<lambda>_. io_return role)) v = (Inr x, v')"
  shows "system_part (st v') = system_part (st v)"
proof -
  from run obtain r v1 u where
    1: "CreateRole_q org name descr False v = (Inr r, v1)" and
    2: "setPermissions (r_ID r) perms v1 = (Inr u, v')"
    unfolding io_success by blast
  note c = CreateRole_q_success [OF 1]
  have g: "role_permissions (st v1) = role_permissions (st v)"
    using 1 by (auto simp: CreateRole_q_def io_success Let_def guards_Inr)
  show ?thesis
  proof (rule system_part_other_grants)
    show "system_roles (st v') = system_roles (st v)"
      using setPermissions_ownership [OF 2] c by (simp add: system_roles_def)
    show "other_grants (r_ID r) (st v') = other_grants (r_ID r) (st v)"
      using setPermissions_other_grants [OF 2] g by (simp add: other_grants_def)
    show "r_ID r' \<noteq> r_ID r" if "r' \<in> set (system_roles (st v))" for r'
      using that wf_fresh_role [OF wf, of r'] c by (auto simp: system_roles_def)
  qed
qed

lemma UpdateRole_q_success:
  assumes "UpdateRole_q rid org name descr v = (Inr r, v')"
  shows "(\<exists>r0\<in>set (roles (st v)). r_ID r0 = rid \<and> \<not> r_IsSystem r0) \<and> r_ID r = rid \<and>
         system_roles (st v') = system_roles (st v) \<and> role_permissions (st v') = role_permissions (st v)"
  using assms
  by (auto simp: UpdateRole_q_def io_success Let_def guards_Inr one_row_def system_roles_def
      intro!: filter_update_where_other split: option.splits dest!: find_SomeD)

lemma update_role_body:
  assumes wf: "wf_ids (st v) (fresh v)"
    and run: "io_try (UpdateRole_q rid org name descr) role_name_taken (\<lambda>role.
       io_try (setPermissions (r_ID role) perms) id (\<lambda>_. io_return role)) v = (Inr x, v')"
  shows "system_part (st v') = system_part (st v)"
proof -
  from run obtain r v1 u where
    1: "UpdateRole_q rid org name descr v = (Inr r, v1)" and
    2: "setPermissions (r_ID r) perms v1 = (Inr u, v')"
    unfolding io_success by blast
  obtain r0 where r0: "r0 \<in> set (roles (st v))" "r_ID r0 = rid" "\<not> r_IsSystem r0" "r_ID r = rid"
    and roles: "system_roles (st v1) = system_roles (st v)"
    and g: "role_permissions (st v1) = role_permissions (st v)"
    using UpdateRole_q_success [OF 1] by blast
  show ?thesis
  proof (rule system_part_other_grants)
    show "system_roles (st v') = system_roles (st v)"
      using setPermissions_ownership [OF 2] roles by (simp add: system_roles_def)
    show "other_grants rid (st v') = other_grants rid (st v)"
      using setPermissions_other_grants [OF 2] g r0 by (simp add: other_grants_def)
    show "r_ID r' \<noteq> rid" if "r' \<in> set (system_roles (st v))" for r'
      using that r0 wf_role_unique [OF wf] by (auto simp: system_roles_def)
  qed
qed

lemma system_operations [keeps_intro]:
  "system.keeps x T (UpdateOrganization uid org name)"
  "system.keeps x T (CreateRole uid org name descr perms)"
  "system.keeps x T (UpdateRole uid org rid name descr perms)"
  "system.keeps x T (DeleteRole uid org rid)"
  "system.keeps x T (AssignMemberRole uid org mid rid)"
proof -
  have reads: "system.keeps x T (ResolveTenant uid org)" "system.keeps x T (requirePermission org r p)" for r p
    unfolding organization_reads by (intro keeps_intro)+
  have create: "system.keeps x T (WithTenantTx org (io_try (CreateRole_q org name descr False) role_name_taken
      (\<lambda>role. io_try (setPermissions (r_ID role) perms) id (\<lambda>_. io_return role))))"
    by (rule system.tenant_tx) (intro keeps_intro, simp add: create_role_body)
  have update: "system.keeps x T (WithTenantTx org (io_try (GetRoleByID rid org) missing_is_not_found (\<lambda>current.
      if r_IsSystem current then
        io_throw (NewAPIError 409 ''SYSTEM_ROLE_IMMUTABLE'' ''System roles cannot be changed'' None)
      else io_try (UpdateRole_q rid org name descr) role_name_taken (\<lambda>role.
           io_try (setPermissions (r_ID role) perms) id (\<lambda>_. io_return role)))))"
  proof (rule system.tenant_tx)
    show "system_part (st v') = x"
      if wf: "wf_ids (st v) (fresh v)" and P: "system_part (st v) = x"
        and run: "io_try (GetRoleByID rid org) missing_is_not_found (\<lambda>current.
          if r_IsSystem current then
            io_throw (NewAPIError 409 ''SYSTEM_ROLE_IMMUTABLE'' ''System roles cannot be changed'' None)
          else io_try (UpdateRole_q rid org name descr) role_name_taken (\<lambda>role.
               io_try (setPermissions (r_ID role) perms) id (\<lambda>_. io_return role))) v = (Inr y, v')" for v v' y
    proof -
      have "io_try (UpdateRole_q rid org name descr) role_name_taken (\<lambda>role.
           io_try (setPermissions (r_ID role) perms) id (\<lambda>_. io_return role)) (drop_fault v) = (Inr y, v')"
        using run unfolding io_try_Inr [of "GetRoleByID rid org"]
        by (auto simp: GetRoleByID_def db_read_Inr io_throw_def split: if_splits)
      from update_role_body [OF _ this] wf P show ?thesis by simp
    qed
  qed (unfold identity_reads, intro keeps_intro)
  show "system.keeps x T (UpdateOrganization uid org name)" "system.keeps x T (DeleteRole uid org rid)"
    "system.keeps x T (AssignMemberRole uid org mid rid)"
    unfolding UpdateOrganization_def DeleteRole_def AssignMemberRole_def assign_checks_def assign_update_def
      organization_reads by (intro keeps_intro)+
  show "system.keeps x T (CreateRole uid org name descr perms)" "system.keeps x T (UpdateRole uid org rid name descr perms)"
    unfolding CreateRole_def UpdateRole_def withOrgTx_def
    by (rule system.keeps_io_try reads create update system.keeps_return)+
qed

text \<open>
  C27: the system roles of an existing organization are immutable. None of the five operations that
  change an organization (rename it, create, update or delete a role, assign a role to a member),
  whatever identifiers, names and permission lists it is given, changes, deletes or adds a system role
  of any organization, and none changes the permissions granted to one. The system roles of a new
  organization come from \<open>CreateOrganization\<close> and \<open>Register\<close>, which are not among the five.
\<close>

theorem system_roles_immutable:
  assumes "wf_ids (st w) (fresh w)"
  shows "system_part (st (snd (UpdateOrganization uid org name w))) = system_part (st w) \<and>
         system_part (st (snd (CreateRole uid org name descr perms w))) = system_part (st w) \<and>
         system_part (st (snd (UpdateRole uid org rid name descr perms w))) = system_part (st w) \<and>
         system_part (st (snd (DeleteRole uid org rid w))) = system_part (st w) \<and>
         system_part (st (snd (AssignMemberRole uid org mid rid w))) = system_part (st w)"
proof -
  have *: "system_part (st (snd (m w))) = system_part (st w)"
    if "system.keeps (system_part (st w)) (\<lambda>_. True) m" for m :: "'x io"
    using system.kept [OF that assms] by simp
  show ?thesis
    by (intro conjI *) (rule keeps_intro)+
qed

theorem system_roles_immutable_witness:
  "system_part (st (snd (UpdateRole 1 10 13 ''Viewer2'' None [MembersManage] demo_world))) = system_part (st demo_world) \<and>
   \<not> isl (fst (UpdateRole 1 10 13 ''Viewer2'' None [MembersManage] demo_world)) \<and>
   isl (fst (UpdateRole 1 10 12 ''Viewer2'' None [MembersManage] demo_world))"
proof -
  have "\<not> isl (fst (UpdateRole 1 10 13 ''Viewer2'' None [MembersManage] demo_world))"
    "isl (fst (UpdateRole 1 10 12 ''Viewer2'' None [MembersManage] demo_world))"
    by code_simp+
  then show ?thesis
    using system_roles_immutable [OF demo_wf, of 1 10] by blast
qed

section \<open>Seeding\<close>

text \<open>The grants a run of \<open>setPermissions\<close> leaves behind, outside a tenant transaction.\<close>

lemma role_permission_eta: "\<lparr>rp_RoleID = rp_RoleID rp, rp_PermissionID = rp_PermissionID rp\<rparr> = rp"
  by simp

lemma AddRolePermission_success:
  assumes "AddRolePermission rid pid w = (Inr u, w')"
  shows "permissions (st w') = permissions (st w) \<and> tenant w' = tenant w \<and>
         (\<forall>rp. rp \<in> set (role_permissions (st w')) \<longleftrightarrow>
            rp \<in> set (role_permissions (st w)) \<or> rp_RoleID rp = rid \<and> rp_PermissionID rp = pid)"
  using assms
  by (auto simp: AddRolePermission_def io_success Let_def guards_Inr role_permission_eta split: if_splits)

abbreviation grant_step :: "uuid \<Rightarrow> string \<Rightarrow> unit io" where
  "grant_step rid key \<equiv> io_try (GetPermissionByKey key)
     (\<lambda>e. if errors_Is e ErrNoRows
          then NewAPIError 400 ''UNKNOWN_PERMISSION'' ''Unknown permission'' None else e)
     (\<lambda>permission. AddRolePermission rid (p_ID permission))"

definition grant_of :: "Permission list \<Rightarrow> uuid \<Rightarrow> string \<Rightarrow> RolePermission \<Rightarrow> bool" where
  "grant_of ps rid key rp \<longleftrightarrow>
     (case find (\<lambda>p. p_Key p = key) ps of
        None \<Rightarrow> False | Some p \<Rightarrow> rp_RoleID rp = rid \<and> rp_PermissionID rp = p_ID p)"

definition known_key :: "Permission list \<Rightarrow> string \<Rightarrow> bool" where
  "known_key ps key \<longleftrightarrow> find (\<lambda>p. p_Key p = key) ps \<noteq> None"

lemma grant_step_success:
  assumes "grant_step rid key w = (Inr u, w')"
  shows "known_key (permissions (st w)) key \<and> permissions (st w') = permissions (st w) \<and> tenant w' = tenant w \<and>
         (\<forall>rp. rp \<in> set (role_permissions (st w')) \<longleftrightarrow>
            rp \<in> set (role_permissions (st w)) \<or> grant_of (permissions (st w)) rid key rp)"
proof -
  from assms obtain p w1 where
    1: "GetPermissionByKey key w = (Inr p, w1)" and 2: "AddRolePermission rid (p_ID p) w1 = (Inr u, w')"
    unfolding io_try_Inr by blast
  have "find (\<lambda>p. p_Key p = key) (permissions (st w)) = Some p" "st w1 = st w" "tenant w1 = tenant w"
    using 1 by (auto simp: GetPermissionByKey_def db_read_Inr one_row_def split: option.splits)
  with AddRolePermission_success [OF 2] show ?thesis by (simp add: grant_of_def known_key_def)
qed

lemma grant_loop_success:
  "io_each (grant_step rid) keys w = (Inr u, w') \<Longrightarrow>
     permissions (st w') = permissions (st w) \<and> tenant w' = tenant w \<and>
     (\<forall>key\<in>set keys. known_key (permissions (st w)) key) \<and>
     (\<forall>rp. rp \<in> set (role_permissions (st w')) \<longleftrightarrow>
        rp \<in> set (role_permissions (st w)) \<or> (\<exists>key\<in>set keys. grant_of (permissions (st w)) rid key rp))"
proof (induction keys arbitrary: w)
  case (Cons key keys)
  then obtain u1 w1 where 1: "grant_step rid key w = (Inr u1, w1)" and
    2: "io_each (grant_step rid) keys w1 = (Inr u, w')"
    unfolding io_each.simps io_try_Inr [of "grant_step rid key"] by blast
  from grant_step_success [OF 1] Cons.IH [OF 2] show ?case by simp
qed (simp add: io_return_Inr)

lemma setPermissions_granted:
  assumes run: "setPermissions rid perms w = (Inr u, w')" and t: "tenant w = None"
    and keys: "distinct (map p_ID (permissions (st w)))"
  shows "permissions (st w') = permissions (st w)" "tenant w' = None"
    "granted (st w') rid key \<longleftrightarrow> key \<in> set perms"
    "rid' \<noteq> rid \<Longrightarrow> granted (st w') rid' key \<longleftrightarrow> granted (st w) rid' key"
proof -
  define w1 where "w1 = (drop_fault w)\<lparr>st := (st w)\<lparr>role_permissions :=
      filter (\<lambda>rp. rp_RoleID rp \<noteq> rid) (role_permissions (st w))\<rparr>\<rparr>"
  have 1: "permissions (st w1) = permissions (st w)" "tenant w1 = None"
    "role_permissions (st w1) = filter (\<lambda>rp. rp_RoleID rp \<noteq> rid) (role_permissions (st w))"
    using t by (simp_all add: w1_def)
  have 2: "io_each (grant_step rid) perms w1 = (Inr u, w')"
    using run t unfolding setPermissions_def io_try_Inr [of "SetRolePermissions rid"]
    by (auto simp: SetRolePermissions_def db_write_Inr Let_def rp_visible_def w1_def)
  note g = grant_loop_success [OF 2]
  show p: "permissions (st w') = permissions (st w)" and "tenant w' = None"
    using g 1 by simp_all
  have same: "p = q" if "p \<in> set (permissions (st w))" "q \<in> set (permissions (st w))" "p_ID p = p_ID q" for p q
    using keys that by (auto simp: distinct_map inj_on_def)
  have mem: "rp \<in> set (role_permissions (st w')) \<longleftrightarrow>
      rp \<in> set (role_permissions (st w)) \<and> rp_RoleID rp \<noteq> rid \<or>
      (\<exists>key\<in>set perms. grant_of (permissions (st w)) rid key rp)" for rp
    using g 1 by simp
  show "granted (st w') rid key \<longleftrightarrow> key \<in> set perms"
  proof
    assume "granted (st w') rid key"
    then obtain rp p where rp: "rp \<in> set (role_permissions (st w'))" "rp_RoleID rp = rid"
      "p \<in> set (permissions (st w))" "p_ID p = rp_PermissionID rp" "p_Key p = key"
      by (auto simp: granted_def p)
    then obtain k where k: "k \<in> set perms" "grant_of (permissions (st w)) rid k rp"
      using mem by blast
    then obtain q where "q \<in> set (permissions (st w))" "p_Key q = k" "p_ID q = p_ID p"
      using rp(4) by (auto simp: grant_of_def split: option.splits dest!: find_SomeD)
    then show "key \<in> set perms"
      using same [of p q] rp k by auto
  next
    assume key: "key \<in> set perms"
    then obtain q where q: "find (\<lambda>p. p_Key p = key) (permissions (st w)) = Some q"
      using g 1 by (auto simp: known_key_def)
    let ?rp = "\<lparr>rp_RoleID = rid, rp_PermissionID = p_ID q\<rparr>"
    have "grant_of (permissions (st w)) rid key ?rp"
      using q by (simp add: grant_of_def)
    then have "?rp \<in> set (role_permissions (st w'))"
      using mem key by blast
    moreover have "q \<in> set (permissions (st w'))" "p_Key q = key"
      using find_SomeD [OF q] p by simp_all
    ultimately show "granted (st w') rid key"
      unfolding granted_def by force
  qed
  have "set (other_grants rid (st w')) = set (other_grants rid (st w))"
    using setPermissions_other_grants [OF run] by simp
  then show "granted (st w') rid' key \<longleftrightarrow> granted (st w) rid' key" if "rid' \<noteq> rid"
    using that p unfolding granted_def other_grants_def by (auto simp: set_eq_iff)
qed

text \<open>The role of a given name was seeded: a system role with exactly the default grants.\<close>

definition seeded :: "store \<Rightarrow> uuid \<Rightarrow> string \<Rightarrow> Role \<Rightarrow> bool" where
  "seeded s org name r \<longleftrightarrow>
     r \<in> set (roles s) \<and> r_OrganizationID r = org \<and> r_Name r = name \<and> r_IsSystem r \<and>
     (\<forall>key\<in>set (map p_Key (permissions s)) \<union> set (DefaultForRole name).
        granted s (r_ID r) key \<longleftrightarrow> key \<in> set (DefaultForRole name))"

lemma granted_known: "granted s rid key \<Longrightarrow> key \<in> set (map p_Key (permissions s))"
  by (auto simp: granted_def)

lemma seed_roles_seeds:
  "seed_roles org rs owner w = (Inr own, w') \<Longrightarrow> tenant w = None \<Longrightarrow> wf_ids (st w) (fresh w) \<Longrightarrow>
   distinct (map p_ID (permissions (st w))) \<Longrightarrow>
     tenant w' = None \<and> permissions (st w') = permissions (st w) \<and> set (roles (st w)) \<subseteq> set (roles (st w')) \<and>
     (\<forall>rid key. rid < fresh w \<longrightarrow> (granted (st w') rid key \<longleftrightarrow> granted (st w) rid key)) \<and>
     (\<forall>name\<in>fst ` set rs. \<exists>r. seeded (st w') org name r)"
proof (induction rs arbitrary: owner w)
  case (Cons p rs)
  obtain name desc where p: "p = (name, desc)" by (cases p)
  from Cons.prems(1) obtain r w1 u w2 where
    1: "CreateRole_q org name (Some desc) True w = (Inr r, w1)" and
    2: "setPermissions (r_ID r) (DefaultForRole name) w1 = (Inr u, w2)" and
    3: "seed_roles org rs (if name = ''Owner'' then r_ID r else owner) w2 = (Inr own, w')"
    unfolding p seed_roles.simps io_success by blast
  note c = CreateRole_q_success [OF 1]
  have w1: "permissions (st w1) = permissions (st w)" "role_permissions (st w1) = role_permissions (st w)"
    "tenant w1 = None" "fresh w1 = Suc (fresh w)"
    using 1 Cons.prems(2) by (auto simp: CreateRole_q_def io_success Let_def guards_Inr)
  have wf1: "wf_ids (st w1) (fresh w1)"
    using ids.keepsD(3) [OF ids_writes(9) [of "\<lambda>_. True"] TrueI Cons.prems(3)] 1 by (metis snd_conv)
  note g = setPermissions_granted [OF 2 w1(3), unfolded w1, OF Cons.prems(4)]
  have k2: "ids.keeps (\<lambda>_. True) (setPermissions (r_ID r) (DefaultForRole name))"
    by (rule keeps_intro)
  have wf2: "wf_ids (st w2) (fresh w2)" "fresh w1 \<le> fresh w2"
    using ids.keepsD(2,3) [OF k2 TrueI, of w1] wf1 2 by simp_all
  have roles2: "roles (st w2) = roles (st w) @ [r]"
    using setPermissions_ownership [OF 2] c by simp
  note IH = Cons.IH [OF 3 g(2) wf2(1), unfolded g(1), OF Cons.prems(4)]
  have old: "granted (st w') rid key \<longleftrightarrow> granted (st w) rid key" if "rid < fresh w" for rid key
  proof -
    have "granted (st w') rid key \<longleftrightarrow> granted (st w2) rid key"
      using IH that wf2(2) w1(4) by simp
    also have "... \<longleftrightarrow> granted (st w1) rid key"
      using g(4) [of rid] that c(4) by simp
    finally show ?thesis by (simp add: granted_def w1)
  qed
  have "granted (st w') (r_ID r) key \<longleftrightarrow> key \<in> set (DefaultForRole name)" for key
    using IH g(3) c(4) wf2(2) w1(4) by simp
  then have "seeded (st w') org name r"
    using IH roles2 c by (auto simp: seeded_def)
  with IH old show ?case
    unfolding p roles2 by auto
qed (simp add: io_return_Inr)

lemma uniqueSlug_frame:
  assumes "uniqueSlug e name w = (r, w')"
  shows "st w' = st w" "tenant w' = tenant w" "fresh w \<le> fresh w'"
proof -
  have f: "store_invariant.keeps (unchanged id y) (\<lambda>_. True) (uniqueSlug_loop e n base c)" for y n base c
    by (induction n arbitrary: c) (auto simp: identity_reads intro!: keeps_intro)
  have k: "uniqueSlug_loop e 5 (org_slugify (unicode_lower e) name) (org_slugify (unicode_lower e) name) w = (r, w')"
    using assms by (simp add: uniqueSlug_def Let_def)
  show "st w' = st w"
    using frame_same [OF f TrueI k] by simp
  show "tenant w' = tenant w" "fresh w \<le> fresh w'"
    using ids.keepsD(1,2) [OF ids_organizations(2) [of "\<lambda>_. True"] TrueI, where w = w] k
    by (metis snd_conv)+
qed

text \<open>
  C28: a created organization is complete. When \<open>CreateOrganization\<close> succeeds, the organization is
  new and active, each of the five default roles exists in it as a system role that is granted
  exactly the default permissions of its name, and the caller is an active member with the role
  Owner.
\<close>

theorem create_organization_seeds:
  assumes run: "CreateOrganization e uid name w = (Inr d, w')" and t: "tenant w = None"
    and wf: "wf_ids (st w) (fresh w)" and ps: "distinct (map p_ID (permissions (st w)))"
  shows "od_ID d \<notin> o_ID ` set (organizations (st w)) \<and>
         (\<exists>x\<in>set (organizations (st w')). o_ID x = od_ID d \<and> o_Name x = name \<and> o_Status x = ''active'') \<and>
         (\<forall>rn\<in>fst ` set defaultRoles. \<exists>r. seeded (st w') (od_ID d) rn r) \<and>
         (\<exists>m r. owner_of (st w') (od_ID d) m r \<and> m_UserID m = uid)"
proof -
  from run obtain slug w0 org v1 own v2 m v3 where
    0: "uniqueSlug e name w = (Inr slug, w0)" and
    1: "CreateOrganization_q name slug ''active'' (drop_fault w0) = (Inr org, v1)" and
    2: "seed_roles (o_ID org) defaultRoles uuid_Nil v1 = (Inr own, v2)" and
    3: "CreateMembership (o_ID org) uid own ''active'' (Some (clock v2)) v2 = (Inr m, v3)" and
    4: "d = organizationDTO org ''Owner''" "st w' = st v3"
    unfolding CreateOrganization_def WithTx_def io_success by auto
  note f = uniqueSlug_frame [OF 0]
  have v1: "o_ID org = fresh w0" "o_Name org = name" "o_Status org = ''active''"
      "organizations (st v1) = organizations (st w) @ [org]" "permissions (st v1) = permissions (st w)" "tenant v1 = None"
    using 1 f t by (auto simp: CreateOrganization_q_def io_success Let_def guards_Inr)
  have "wf_ids (st w0) (fresh w0)"
    using wf f wf_ids_later by simp
  then have wf1: "wf_ids (st v1) (fresh v1)"
    using ids.keepsD(3) [OF ids_writes(8) [of "\<lambda>_. True"] TrueI, of "drop_fault w0" name slug "''active''"] 1
    by simp
  have v3: "memberships (st v3) = memberships (st v2) @ [m]" "organizations (st v3) = organizations (st v2)"
      "roles (st v3) = roles (st v2)" "role_permissions (st v3) = role_permissions (st v2)"
      "permissions (st v3) = permissions (st v2)"
      "m_OrganizationID m = o_ID org" "m_Status m = ''active''" "m_RoleID m = own" "m_UserID m = uid"
    using 3 by (auto simp: CreateMembership_def io_success Let_def guards_Inr)
  note seeds = seed_roles_seeds [OF 2 v1(6) wf1, unfolded v1, OF ps]
  note ok = seed_roles_success [OF 2]
  have "''Owner'' \<in> fst ` set defaultRoles" by (simp add: defaultRoles_def)
  then obtain r where "r \<in> set (roles (st v2))" "r_ID r = own" "r_OrganizationID r = o_ID org"
      "r_Name r = ''Owner''" "r_IsSystem r"
    using ok by auto
  then have "owner_of (st w') (o_ID org) m r"
    using v3 4 by (auto simp: owner_of_def)
  moreover have "seeded (st w') = seeded (st v2)"
    by (intro ext) (simp add: seeded_def granted_def v3 4)
  then have "\<forall>rn\<in>fst ` set defaultRoles. \<exists>r. seeded (st w') (o_ID org) rn r"
    using seeds v1(1) by metis
  moreover have "fresh w0 \<notin> o_ID ` set (organizations (st w))"
    using wf_fresh_organization [OF wf] f(3) by fastforce
  moreover have "org \<in> set (organizations (st w'))"
    using v1 v3 4 ok by simp
  ultimately show ?thesis
    using 4(1) v1 v3(9) by (auto simp: organizationDTO_def)
qed

definition seeding_world :: world where
  "seeding_world = demo_world\<lparr>st := demo_store\<lparr>permissions :=
     map (\<lambda>(i, k). \<lparr>p_ID = i, p_Key = k, p_Description = k, p_CreatedAt = 0\<rparr>) (zip [41..<60] All)\<rparr>\<rparr>"

theorem create_organization_seeds_witness:
  "\<exists>d w'. CreateOrganization demo_env 1 ''Acme Inc'' seeding_world = (Inr d, w') \<and>
     (\<exists>r. seeded (st w') (od_ID d) ''Viewer'' r) \<and> (\<exists>m r. owner_of (st w') (od_ID d) m r \<and> m_UserID m = 1)"
proof -
  let ?r = "CreateOrganization demo_env 1 ''Acme Inc'' seeding_world"
  have "\<not> isl (fst ?r)" by code_simp
  then obtain d where d: "?r = (Inr d, snd ?r)" by (metis not_isl_Inr prod.collapse)
  have "tenant seeding_world = None" "wf_ids (st seeding_world) (fresh seeding_world)"
    "distinct (map p_ID (permissions (st seeding_world)))"
    by code_simp+
  note t = create_organization_seeds [OF d this]
  have "''Viewer'' \<in> fst ` set defaultRoles" by (simp add: defaultRoles_def)
  then show ?thesis
    using t d by (intro exI [of _ d] exI [of _ "snd ?r"]) blast
qed

end
