(* ===== verification/Audit_Trail.thy ===== *)
theory Audit_Trail
  imports Organizations "HOL-Library.Product_Lexorder"
begin

text \<open>
  The security audit log: \<open>internal/audit/audit.go\<close>, \<open>internal/audit/service.go\<close> and the statements of
  \<open>internal/db/audit.sql.go\<close>. An event is built with the copying setters of the source, turned into a
  row by \<open>params\<close>, and written on its own (\<open>Record\<close>, which never fails its caller) or inside a
  transaction (\<open>RecordTx\<close>).
\<close>

section \<open>Actions and events\<close>

definition OutcomeSuccess :: string where "OutcomeSuccess = ''success''"
definition OutcomeFailure :: string where "OutcomeFailure = ''failure''"
definition OutcomeDenied :: string where "OutcomeDenied = ''denied''"

definition TargetUser :: string where "TargetUser = ''user''"
definition TargetSession :: string where "TargetSession = ''session''"
definition TargetRefreshToken :: string where "TargetRefreshToken = ''refresh_token''"
definition TargetOrganization :: string where "TargetOrganization = ''organization''"
definition TargetMembership :: string where "TargetMembership = ''membership''"
definition TargetRole :: string where "TargetRole = ''role''"
definition TargetInvitation :: string where "TargetInvitation = ''invitation''"
definition TargetAPIKey :: string where "TargetAPIKey = ''api_key''"

definition AuthRegistered :: string where "AuthRegistered = ''auth.registered''"
definition AuthLoginSucceeded :: string where "AuthLoginSucceeded = ''auth.login.succeeded''"
definition AuthLoginFailed :: string where "AuthLoginFailed = ''auth.login.failed''"
definition AuthTokensRefreshed :: string where "AuthTokensRefreshed = ''auth.tokens.refreshed''"
definition AuthTokenReuseDetected :: string where "AuthTokenReuseDetected = ''auth.token.reuse_detected''"
definition AuthLoggedOut :: string where "AuthLoggedOut = ''auth.logged_out''"
definition AuthLoggedOutAll :: string where "AuthLoggedOutAll = ''auth.logged_out_all''"
definition OrganizationCreated :: string where "OrganizationCreated = ''organization.created''"
definition OrganizationRenamed :: string where "OrganizationRenamed = ''organization.updated''"
definition RoleCreated :: string where "RoleCreated = ''role.created''"
definition RoleUpdated :: string where "RoleUpdated = ''role.updated''"
definition RoleDeleted :: string where "RoleDeleted = ''role.deleted''"
definition MemberRoleAssigned :: string where "MemberRoleAssigned = ''member.role_assigned''"
definition InvitationCreated :: string where "InvitationCreated = ''invitation.created''"
definition InvitationSent :: string where "InvitationSent = ''invitation.sent''"
definition InvitationResent :: string where "InvitationResent = ''invitation.resent''"
definition InvitationRevoked :: string where "InvitationRevoked = ''invitation.revoked''"
definition InvitationAccepted :: string where "InvitationAccepted = ''invitation.accepted''"
definition APIKeyCreated :: string where "APIKeyCreated = ''apikey.created''"
definition APIKeyRevoked :: string where "APIKeyRevoked = ''apikey.revoked''"

definition KnownActions :: "string list" where
  "KnownActions =
     [AuthRegistered, AuthLoginSucceeded, AuthLoginFailed, AuthTokensRefreshed, AuthTokenReuseDetected,
      AuthLoggedOut, AuthLoggedOutAll, OrganizationCreated, OrganizationRenamed, RoleCreated, RoleUpdated,
      RoleDeleted, MemberRoleAssigned, InvitationCreated, InvitationSent, InvitationResent,
      InvitationRevoked, InvitationAccepted, APIKeyCreated, APIKeyRevoked]"

fun IsKnownAction_loop :: "string \<Rightarrow> string list \<Rightarrow> bool" where
  "IsKnownAction_loop action [] = False"
| "IsKnownAction_loop action (known # rest) = (if known = action then True else IsKnownAction_loop action rest)"

definition IsKnownAction :: "string \<Rightarrow> bool" where
  "IsKnownAction action = IsKnownAction_loop action KnownActions"

record Event =
  ev_OrganizationID :: "uuid option"
  ev_ActorUserID :: "uuid option"
  ev_Action :: string
  ev_Outcome :: string
  ev_TargetType :: string
  ev_TargetID :: string
  ev_IPAddress :: string
  ev_UserAgent :: string
  ev_RequestID :: string
  ev_TraceID :: string
  ev_Metadata :: "metadata option"

text \<open>The zero value of the struct, with which the source's literals start.\<close>

definition Event0 :: Event where
  "Event0 = \<lparr>ev_OrganizationID = None, ev_ActorUserID = None, ev_Action = [], ev_Outcome = [],
     ev_TargetType = [], ev_TargetID = [], ev_IPAddress = [], ev_UserAgent = [], ev_RequestID = [],
     ev_TraceID = [], ev_Metadata = None\<rparr>"

definition WithOrganization :: "Event \<Rightarrow> uuid \<Rightarrow> Event" where
  "WithOrganization e orgID = e\<lparr>ev_OrganizationID := Some orgID\<rparr>"

definition WithActor :: "Event \<Rightarrow> uuid \<Rightarrow> Event" where
  "WithActor e userID = e\<lparr>ev_ActorUserID := Some userID\<rparr>"

definition WithRequest :: "Event \<Rightarrow> string \<Rightarrow> string \<Rightarrow> string \<Rightarrow> string \<Rightarrow> Event" where
  "WithRequest e ip userAgent requestID traceID =
     e\<lparr>ev_IPAddress := ip, ev_UserAgent := userAgent, ev_RequestID := requestID, ev_TraceID := traceID\<rparr>"

definition WithTarget :: "Event \<Rightarrow> string \<Rightarrow> string \<Rightarrow> Event" where
  "WithTarget e targetType targetID = e\<lparr>ev_TargetType := targetType, ev_TargetID := targetID\<rparr>"

definition WithMetadata :: "Event \<Rightarrow> metadata \<Rightarrow> Event" where
  "WithMetadata e metadata = e\<lparr>ev_Metadata := Some metadata\<rparr>"

definition Failed :: "Event \<Rightarrow> Event" where
  "Failed e = e\<lparr>ev_Outcome := OutcomeFailure\<rparr>"

definition normalize :: "Event \<Rightarrow> Event" where
  "normalize e =
     (let e1 = if ev_Outcome e = [] then e\<lparr>ev_Outcome := OutcomeSuccess\<rparr> else e
      in if ev_Action e1 = [] then e1\<lparr>ev_Outcome := OutcomeFailure\<rparr> else e1)"

definition maxMetadataLength :: nat where
  "maxMetadataLength = 4000"

definition optional :: "string \<Rightarrow> string option" where
  "optional value = (if value = [] then None else Some value)"

record CreateAuditLogParams =
  ap_OrganizationID :: "uuid option"
  ap_ActorUserID :: "uuid option"
  ap_Action :: string
  ap_Outcome :: string
  ap_TargetType :: "string option"
  ap_TargetID :: "string option"
  ap_IpAddress :: "string option"
  ap_UserAgent :: "string option"
  ap_RequestID :: "string option"
  ap_TraceID :: "string option"
  ap_Metadata :: string

definition params :: "env \<Rightarrow> Event \<Rightarrow> err + CreateAuditLogParams" where
  "params e ev =
     (let event = normalize ev in
      if ev_Action event = [] then Inl (Message ''audit: an action is required'')
      else
        let metadata = (case ev_Metadata event of None \<Rightarrow> [] | Some m \<Rightarrow> m);
            raw = json_Marshal e metadata;
            raw' = (if length raw > maxMetadataLength
                    then json_Marshal e [(''truncated'', JBool True), (''bytes'', JInt (int (length raw)))] else raw)
        in Inr \<lparr>ap_OrganizationID = ev_OrganizationID event, ap_ActorUserID = ev_ActorUserID event,
                ap_Action = ev_Action event, ap_Outcome = ev_Outcome event,
                ap_TargetType = optional (ev_TargetType event), ap_TargetID = optional (ev_TargetID event),
                ap_IpAddress = optional (ev_IPAddress event), ap_UserAgent = optional (ev_UserAgent event),
                ap_RequestID = optional (ev_RequestID event), ap_TraceID = optional (ev_TraceID event),
                ap_Metadata = raw'\<rparr>)"

section \<open>Statements\<close>

text \<open>
  The policy of migration 18: a row without an organization may be written under any tenant, but
  \<open>RETURNING\<close> also asks for the row to be readable.
\<close>

definition audit_readable :: "world \<Rightarrow> uuid option \<Rightarrow> bool" where
  "audit_readable w org \<longleftrightarrow> (case tenant w of None \<Rightarrow> True | Some t \<Rightarrow> org = Some t)"

definition insert_audit_log :: "env \<Rightarrow> CreateAuditLogParams \<Rightarrow> AuditLog io" where
  "insert_audit_log e p = db_write (\<lambda>w.
     let s = st w;
         row = \<lparr>al_ID = fresh w, al_OrganizationID = ap_OrganizationID p, al_ActorUserID = ap_ActorUserID p,
                al_Action = ap_Action p, al_Outcome = ap_Outcome p, al_TargetType = ap_TargetType p,
                al_TargetID = ap_TargetID p, al_IpAddress = ap_IpAddress p, al_UserAgent = ap_UserAgent p,
                al_RequestID = ap_RequestID p, al_TraceID = ap_TraceID p, al_Metadata = ap_Metadata p,
                al_CreatedAt = clock w\<rparr>
     in guards
          [(case ap_IpAddress p of None \<Rightarrow> True | Some ip \<Rightarrow> inet_valid e ip, PgError ''22P02'' []),
           (audit_readable w (ap_OrganizationID p), rls_violation),
           (not_blank (ap_Action p), check_violation ''audit_logs_action_check''),
           (ap_Outcome p \<in> {''success'', ''failure'', ''denied''}, check_violation ''audit_logs_outcome_check''),
           (case ap_ActorUserID p of None \<Rightarrow> True | Some a \<Rightarrow> (\<exists>u\<in>set (users s). u_ID u = a),
            foreign_key_violation ''audit_logs_actor_user_id_fkey'')]
          (Inr (row, s\<lparr>audit_logs := audit_logs s @ [row]\<rparr>, Suc (fresh w))))"

text \<open>
  The generated method scans the returned row: a column of type \<open>INET\<close> that is not null goes into a
  Go string, which is the driver's business (\<open>pgx_scans_inet\<close>). The row is in the table already.
\<close>

definition CreateAuditLog :: "env \<Rightarrow> CreateAuditLogParams \<Rightarrow> AuditLog io" where
  "CreateAuditLog e p =
     io_try (insert_audit_log e p) id (\<lambda>row.
       if al_IpAddress row \<noteq> None \<and> \<not> pgx_scans_inet e
       then io_throw (Message ''cannot scan inet in binary format into string'')
       else io_return row)"

record ListFilter =
  lf_Action :: "string option"
  lf_Outcome :: "string option"
  lf_ActorUserID :: "uuid option"
  lf_Since :: "time option"

definition narg :: "'a option \<Rightarrow> ('a \<Rightarrow> bool) \<Rightarrow> bool" where
  "narg x P \<longleftrightarrow> (case x of None \<Rightarrow> True | Some v \<Rightarrow> P v)"

definition audit_match :: "world \<Rightarrow> uuid \<Rightarrow> ListFilter \<Rightarrow> AuditLog \<Rightarrow> bool" where
  "audit_match w org f r \<longleftrightarrow>
     audit_readable w (al_OrganizationID r) \<and> al_OrganizationID r = Some org \<and>
     narg (lf_Action f) (\<lambda>a. al_Action r = a) \<and> narg (lf_Outcome f) (\<lambda>a. al_Outcome r = a) \<and>
     narg (lf_ActorUserID f) (\<lambda>a. al_ActorUserID r = Some a) \<and> narg (lf_Since f) (\<lambda>t. t \<le> al_CreatedAt r)"

definition CountAuditLogs :: "uuid \<Rightarrow> ListFilter \<Rightarrow> int io" where
  "CountAuditLogs org f = db_read (\<lambda>w. Inr (int (length (filter (audit_match w org f) (audit_logs (st w))))))"

definition page_rows :: "int \<Rightarrow> int \<Rightarrow> 'r list \<Rightarrow> err + 'r list" where
  "page_rows page_limit page_offset rows =
     guards [(0 \<le> page_limit, PgError ''2201W'' []), (0 \<le> page_offset, PgError ''2201X'' [])]
       (Inr (take (nat page_limit) (drop (nat page_offset) rows)))"

definition ListAuditLogs :: "uuid \<Rightarrow> ListFilter \<Rightarrow> int \<Rightarrow> int \<Rightarrow> AuditLog list io" where
  "ListAuditLogs org f page_limit page_offset = db_read (\<lambda>w.
     page_rows page_limit page_offset
       (sort_key (\<lambda>r. (- al_CreatedAt r, - int (al_ID r))) (filter (audit_match w org f) (audit_logs (st w)))))"

section \<open>Recording\<close>

definition Record :: "env \<Rightarrow> Event \<Rightarrow> unit io" where
  "Record e ev =
     (let event = normalize ev in
      case params e event of
        Inl _ \<Rightarrow> io_return ()
      | Inr p \<Rightarrow> io_case (CreateAuditLog e p) (\<lambda>_. io_return ()) (\<lambda>_. io_return ()))"

definition RecordTx :: "env \<Rightarrow> Event \<Rightarrow> unit io" where
  "RecordTx e event =
     (case params e event of
        Inl er \<Rightarrow> io_throw er
      | Inr p \<Rightarrow> io_try (CreateAuditLog e p) (wrap (''audit: record '' @ ev_Action event)) (\<lambda>_. io_return ()))"

section \<open>Reading\<close>

record Entry =
  en_ID :: uuid
  en_Action :: string
  en_Outcome :: string
  en_ActorUserID :: "uuid option"
  en_TargetType :: "string option"
  en_TargetID :: "string option"
  en_IPAddress :: "string option"
  en_UserAgent :: "string option"
  en_RequestID :: "string option"
  en_TraceID :: "string option"
  en_Metadata :: string
  en_CreatedAt :: time

definition ToEntry :: "AuditLog \<Rightarrow> Entry" where
  "ToEntry row =
     \<lparr>en_ID = al_ID row, en_Action = al_Action row, en_Outcome = al_Outcome row,
      en_ActorUserID = al_ActorUserID row, en_TargetType = al_TargetType row, en_TargetID = al_TargetID row,
      en_IPAddress = optional (case al_IpAddress row of None \<Rightarrow> [] | Some ip \<Rightarrow> ip),
      en_UserAgent = al_UserAgent row, en_RequestID = al_RequestID row, en_TraceID = al_TraceID row,
      en_Metadata = al_Metadata row, en_CreatedAt = al_CreatedAt row\<rparr>"

definition ListAudit :: "uuid \<Rightarrow> uuid \<Rightarrow> ListFilter \<Rightarrow> PageRequest \<Rightarrow> (Entry list \<times> Pagination) io" where
  "ListAudit userID orgID flt page =
     io_try (Authorize userID orgID AuditRead) id (\<lambda>_.
     io_try (WithTenantTx orgID
         (io_try (CountAuditLogs orgID flt) id (\<lambda>count.
          io_try (ListAuditLogs orgID flt (Limit page) (Offset page)) id (\<lambda>rows.
          io_return (count, rows)))))
       (wrap ''list audit logs'') (\<lambda>(count, rows).
     io_return (map ToEntry rows, NewPagination page count)))"

section \<open>Properties\<close>

lemma ids_insert_audit_log: "ids.keeps T (insert_audit_log e p)"
  unfolding insert_audit_log_def by (rule ids.keeps_db_write) (auto simp: write_simps)

lemma owners_insert_audit_log: "owners.keeps T (insert_audit_log e p)"
  unfolding insert_audit_log_def
  by (rule owners.statement [OF ids_insert_audit_log [unfolded insert_audit_log_def]])
    (auto simp: Let_def guards_Inr elim!: owned_mono)

lemma ids_Record [keeps_intro]: "ids.keeps T (Record e ev)"
  and owners_Record [keeps_intro]: "owners.keeps T (Record e ev)"
  unfolding Record_def CreateAuditLog_def
  by (intro keeps_intro ids_insert_audit_log owners_insert_audit_log)+

lemma insert_audit_log_effect:
  "\<exists>rows. length rows \<le> 1 \<and>
     st (snd (insert_audit_log e p w)) = (st w)\<lparr>audit_logs := audit_logs (st w) @ rows\<rparr>"
proof (cases rule: next_fault_cases [of w])
  case 1
  then show ?thesis
    by (auto simp: insert_audit_log_def db_write_def Let_def guards_Inr split: sum.splits
        intro: exI [of _ "[]"] exI [of _ "[_]"])
next
  case (2 f)
  then show ?thesis
    by (auto simp: insert_audit_log_def db_write_def intro: exI [of _ "[]"])
qed

lemma CreateAuditLog_store: "st (snd (CreateAuditLog e p w)) = st (snd (insert_audit_log e p w))"
  by (simp add: CreateAuditLog_def io_try_def io_case_def io_return_def io_throw_def
      split: prod.split sum.split)

lemma Record_effect:
  "fst (Record e ev w) = Inr () \<and>
   (\<exists>rows. length rows \<le> 1 \<and> st (snd (Record e ev w)) = (st w)\<lparr>audit_logs := audit_logs (st w) @ rows\<rparr>)"
proof (cases "params e (normalize ev)")
  case (Inl er)
  then show ?thesis
    by (auto simp: Record_def io_return_def intro: exI [of _ "[]"])
next
  case (Inr p)
  have "Record e ev w = (Inr (), snd (CreateAuditLog e p w))"
    using Inr by (simp add: Record_def io_case_def io_return_def split: prod.split sum.split)
  then show ?thesis
    using insert_audit_log_effect [of e p w] by (simp add: CreateAuditLog_store)
qed

text \<open>
  Recording an event never fails the operation it describes and is append-only. Whatever the
  event, the fault and the driver do, \<open>Record\<close> returns normally, every table except the audit log
  is as it was, and the audit log is the old one with at most one row appended.
\<close>

theorem record_append_only:
  "fst (Record e ev w) = Inr () \<and>
   (\<exists>rows. length rows \<le> 1 \<and> st (snd (Record e ev w)) = (st w)\<lparr>audit_logs := audit_logs (st w) @ rows\<rparr>)"
  by (rule Record_effect)

definition audit_selected :: "uuid \<Rightarrow> ListFilter \<Rightarrow> AuditLog \<Rightarrow> bool" where
  "audit_selected org f r \<longleftrightarrow>
     al_OrganizationID r = Some org \<and>
     narg (lf_Action f) (\<lambda>a. al_Action r = a) \<and> narg (lf_Outcome f) (\<lambda>a. al_Outcome r = a) \<and>
     narg (lf_ActorUserID f) (\<lambda>a. al_ActorUserID r = Some a) \<and> narg (lf_Since f) (\<lambda>t. t \<le> al_CreatedAt r)"

text \<open>
  The audit API shows a tenant its own log and nothing else. When \<open>List\<close> answers, the caller is
  entitled to \<open>audit.read\<close>, every entry is a stored row of that organization that satisfies the
  filter, the entries are a page of the matching rows in order of creation, newest first, and the
  reported number is the number of matching rows.
\<close>

theorem audit_list_scoped:
  assumes run: "ListAudit uid org f page w = (Inr (entries, pg), w')"
  shows "entitled (st w) uid org AuditRead \<and>
         (\<exists>rows. entries = map ToEntry (take (nat (Limit page)) (drop (nat (Offset page)) rows)) \<and>
            set rows = {r \<in> set (audit_logs (st w)). audit_selected org f r} \<and>
            sorted_wrt (\<lambda>a b. al_CreatedAt b \<le> al_CreatedAt a) rows \<and>
            pg = NewPagination page (int (length rows))) \<and>
         st w' = st w"
proof -
  from run obtain t w1 where a: "Authorize uid org AuditRead w = (Inr t, w1)"
    unfolding ListAudit_def io_try_Inr [of "Authorize uid org AuditRead"] by blast
  note facts = authorize_facts [OF a]
  have match: "audit_match v org f = audit_selected org f" if "tenant v = Some org" for v
    using that by (auto simp: audit_match_def audit_selected_def audit_readable_def)
  let ?key = "\<lambda>r. (- al_CreatedAt r, - int (al_ID r))"
  let ?rows = "sort_key ?key (filter (audit_selected org f) (audit_logs (st w)))"
  have "sorted (map ?key ?rows)" by simp
  then have "sorted_wrt (\<lambda>a b. al_CreatedAt b \<le> al_CreatedAt a) ?rows"
    unfolding sorted_map by (rule sorted_wrt_mono_rel [rotated]) (auto simp: less_eq_prod_def)
  moreover have "entries = map ToEntry (take (nat (Limit page)) (drop (nat (Offset page)) ?rows)) \<and>
      pg = NewPagination page (int (length ?rows)) \<and> st w' = st w"
    using run facts unfolding ListAudit_def io_try_Inr [of "Authorize uid org AuditRead"] a
    by (auto simp: CountAuditLogs_def ListAuditLogs_def page_rows_def io_success match guards_Inr
        split: prod.splits)
  moreover have "entitled (st w) uid org AuditRead"
    using facts unfolding entitled_def by (elim conjE exE) (rule bexI, auto)
  ultimately show ?thesis by (intro conjI exI [of _ ?rows]) auto
qed

definition audit_demo_world :: world where
  "audit_demo_world = demo_world\<lparr>st := demo_store\<lparr>
     permissions := permissions demo_store @ [\<lparr>p_ID = 44, p_Key = AuditRead, p_Description = AuditRead, p_CreatedAt = 0\<rparr>],
     role_permissions := role_permissions demo_store @ [\<lparr>rp_RoleID = 11, rp_PermissionID = 44\<rparr>],
     audit_logs := map (\<lambda>(i, org, t). \<lparr>al_ID = i, al_OrganizationID = org, al_ActorUserID = Some 1, al_Action = RoleCreated,
        al_Outcome = OutcomeSuccess, al_TargetType = None, al_TargetID = None, al_IpAddress = None, al_UserAgent = None,
        al_RequestID = None, al_TraceID = None, al_Metadata = ''{}'', al_CreatedAt = t\<rparr>)
        [(51, Some 10, 5), (52, Some 20, 6), (53, Some 10, 9), (54, None, 7)]\<rparr>\<rparr>"

definition no_filter :: ListFilter where
  "no_filter = \<lparr>lf_Action = None, lf_Outcome = None, lf_ActorUserID = None, lf_Since = None\<rparr>"

theorem audit_list_scoped_witness:
  "entitled (st audit_demo_world) 1 10 AuditRead \<and>
   (\<exists>entries pg w'. ListAudit 1 10 no_filter \<lparr>Page = 1, PageSize = 20\<rparr> audit_demo_world = (Inr (entries, pg), w') \<and>
      map en_ID entries = [53, 51])"
proof -
  let ?r = "ListAudit 1 10 no_filter \<lparr>Page = 1, PageSize = 20\<rparr> audit_demo_world"
  have ok: "\<not> isl (fst ?r)" and ids: "map en_ID (fst (projr (fst ?r))) = [53, 51]" by code_simp+
  from ok obtain entries pg where e: "?r = (Inr (entries, pg), snd ?r)"
    by (metis not_isl_Inr prod.collapse surj_pair)
  then have m: "map en_ID entries = [53, 51]"
    using ids by (metis fst_conv sum.sel(2))
  show ?thesis
    by (rule conjI [OF conjunct1 [OF audit_list_scoped [OF e]]]) (rule exI, rule exI, rule exI, rule conjI [OF e m])
qed

end
