(* ===== verification/Auth.thy ===== *)
theory Auth
  imports Audit_Trail Validation
begin

text \<open>
  Authentication: \<open>internal/auth/\<close> (service, tokens, JWT, passwords, DTOs). Access tokens are signed
  by a third-party library, a parameter of the model (\<open>jwt_lib\<close>); refresh tokens, their families,
  rotation and reuse detection are the program's own and are modelled over the store.
\<close>

section \<open>Data\<close>

definition ownerRoleName :: string where "ownerRoleName = ''Owner''"
definition maxSlugAttempts :: nat where "maxSlugAttempts = 5"
definition activeUserStatus :: string where "activeUserStatus = ''active''"
definition refreshTokenBytes :: nat where "refreshTokenBytes = 32"
definition accessTokenType :: string where "accessTokenType = ''access''"

record RegisterInput =
  ri_Email :: string
  ri_Password :: string
  ri_FirstName :: string
  ri_LastName :: string
  ri_OrganizationName :: string

record LoginInput =
  li_Email :: string
  li_Password :: string

record RequestMeta =
  rm_UserAgent :: string
  rm_IPAddress :: string

record TokenPair =
  tp_AccessToken :: string
  tp_RefreshToken :: string
  tp_ExpiresIn :: int
  tp_ExpiresAt :: time

record UserDTO =
  ud_ID :: uuid
  ud_Email :: string
  ud_FirstName :: string
  ud_LastName :: string
  ud_AvatarURL :: "string option"
  ud_Status :: string
  ud_EmailVerifiedAt :: "time option"
  ud_LastLoginAt :: "time option"
  ud_CreatedAt :: time

record AuthResult =
  ar_Tokens :: TokenPair
  ar_User :: UserDTO

definition NewUserDTO :: "User \<Rightarrow> UserDTO" where
  "NewUserDTO u =
     \<lparr>ud_ID = u_ID u, ud_Email = u_Email u, ud_FirstName = u_FirstName u, ud_LastName = u_LastName u,
      ud_AvatarURL = u_AvatarUrl u, ud_Status = u_Status u, ud_EmailVerifiedAt = u_EmailVerifiedAt u,
      ud_LastLoginAt = u_LastLoginAt u, ud_CreatedAt = u_CreatedAt u\<rparr>"

text \<open>The claims of an access token; the dates are seconds, as \<open>jwt.NewNumericDate\<close> truncates them.\<close>

record AccessClaims =
  ac_Type :: string
  ac_Subject :: string
  ac_ID :: string
  ac_Issuer :: string
  ac_IssuedAt :: int
  ac_NotBefore :: int
  ac_ExpiresAt :: int

text \<open>
  The JWT library: signing with HS256 under a secret, and \<open>ParseWithClaims\<close> with the options of the
  source (HS256 only, the issuer, an expiry is required), at an instant.
\<close>

record jwt_lib =
  jwt_SignedString :: "string \<Rightarrow> AccessClaims \<Rightarrow> err + string"
  jwt_ParseWithClaims :: "string \<Rightarrow> string \<Rightarrow> time \<Rightarrow> string \<Rightarrow> err + AccessClaims"

record JWTService =
  js_secret :: string
  js_issuer :: string
  js_accessTTL :: duration
  js_lib :: jwt_lib

record auth_service =
  as_env :: env
  as_jwt :: JWTService
  as_refreshTTL :: duration

section \<open>Tokens and passwords\<close>

definition generateRefreshToken :: "string io" where
  "generateRefreshToken =
     io_try (rand_Read refreshTokenBytes) (wrap ''generate refresh token'') (\<lambda>buf. io_return (base64_encode buf))"

definition hashToken :: "env \<Rightarrow> string \<Rightarrow> string" where
  "hashToken e raw = hex_encode (sha256 e raw)"

definition HashPassword :: "env \<Rightarrow> string \<Rightarrow> string io" where
  "HashPassword e plaintext =
     io_try (rand_Read 16) (wrap ''hash password'') (\<lambda>salt.
       case bcrypt_hash e salt plaintext of
         Inl er \<Rightarrow> io_throw (wrap ''hash password'' er)
       | Inr h \<Rightarrow> io_return h)"

definition VerifyPassword :: "env \<Rightarrow> string \<Rightarrow> string \<Rightarrow> bool" where
  "VerifyPassword e hash plaintext = bcrypt_compare e hash plaintext"

definition GenerateAccessToken :: "JWTService \<Rightarrow> uuid \<Rightarrow> uuid \<Rightarrow> env \<Rightarrow> (string \<times> time) io" where
  "GenerateAccessToken s userID tokenID e =
     io_try time_Now id (\<lambda>now.
       let expiresAt = now + js_accessTTL s;
           claims = \<lparr>ac_Type = accessTokenType, ac_Subject = uuid_string e userID, ac_ID = uuid_string e tokenID,
                     ac_Issuer = js_issuer s, ac_IssuedAt = now div Second, ac_NotBefore = now div Second,
                     ac_ExpiresAt = expiresAt div Second\<rparr>
       in case jwt_SignedString (js_lib s) (js_secret s) claims of
            Inl er \<Rightarrow> io_throw (wrap ''sign access token'' er)
          | Inr signed \<Rightarrow> io_return (signed, expiresAt))"

definition ParseAccessToken :: "JWTService \<Rightarrow> time \<Rightarrow> string \<Rightarrow> err + AccessClaims" where
  "ParseAccessToken s now tokenString =
     (case jwt_ParseWithClaims (js_lib s) (js_secret s) (js_issuer s) now tokenString of
        Inl er \<Rightarrow> Inl (Wrapped (error_text er) (Sentinel ErrInvalidToken))
      | Inr claims \<Rightarrow>
          if ac_Type claims \<noteq> accessTokenType then Inl (Wrapped ''wrong token type'' (Sentinel ErrInvalidToken))
          else Inr claims)"

definition randomSuffix :: "string io" where
  "randomSuffix = io_case (rand_Read 3) (\<lambda>_. io_return ''x'') (\<lambda>b. io_return (hex_encode b))"

section \<open>The service\<close>

definition invalidCredentials :: err where
  "invalidCredentials =
     NewAPIError 401 ''INVALID_CREDENTIALS'' ''Invalid email or password'' (Some (Sentinel ErrUnauthorized))"

fun auth_uniqueSlug_loop :: "nat \<Rightarrow> string \<Rightarrow> string \<Rightarrow> string io" where
  "auth_uniqueSlug_loop 0 base candidate = io_return candidate"
| "auth_uniqueSlug_loop (Suc i) base candidate =
     io_try (OrganizationSlugExists candidate) (wrap ''check slug'') (\<lambda>exists.
       if \<not> exists then io_return candidate
       else io_try randomSuffix id (\<lambda>suffix. auth_uniqueSlug_loop i base (base @ ''-'' @ suffix)))"

definition auth_uniqueSlug :: "env \<Rightarrow> string \<Rightarrow> string io" where
  "auth_uniqueSlug e name =
     (let base = auth_slugify (unicode_lower e) name in auth_uniqueSlug_loop maxSlugAttempts base base)"

definition seedRolePermissions :: "uuid \<Rightarrow> string \<Rightarrow> unit io" where
  "seedRolePermissions roleID roleName =
     io_each (\<lambda>key.
       io_try (GetPermissionByKey key) id (\<lambda>permission. AddRolePermission roleID (p_ID permission)))
       (DefaultForRole roleName)"

record issuedRefresh =
  ir_id :: uuid
  ir_raw :: string

definition createRefreshToken :: "auth_service \<Rightarrow> uuid \<Rightarrow> uuid \<Rightarrow> RequestMeta \<Rightarrow> issuedRefresh io" where
  "createRefreshToken s userID familyID meta =
     io_try generateRefreshToken id (\<lambda>raw.
     io_try time_Now id (\<lambda>now.
     io_try (CreateRefreshToken userID familyID (hashToken (as_env s) raw) (now + as_refreshTTL s)
               (optional (rm_UserAgent meta)) (optional (rm_IPAddress meta)))
       (wrap ''create refresh token'') (\<lambda>row.
     io_return \<lparr>ir_id = t_ID row, ir_raw = raw\<rparr>)))"

definition token_pair :: "string \<Rightarrow> string \<Rightarrow> time \<Rightarrow> time \<Rightarrow> TokenPair" where
  "token_pair access refresh now expiresAt =
     \<lparr>tp_AccessToken = access, tp_RefreshToken = refresh,
      tp_ExpiresIn = go_quotient (expiresAt - now) Second, tp_ExpiresAt = expiresAt\<rparr>"

definition issueSession :: "auth_service \<Rightarrow> uuid \<Rightarrow> uuid \<Rightarrow> RequestMeta \<Rightarrow> TokenPair io" where
  "issueSession s userID familyID meta =
     io_try (createRefreshToken s userID familyID meta) id (\<lambda>refresh.
     io_try uuid_New id (\<lambda>jti.
     io_try (GenerateAccessToken (as_jwt s) userID jti (as_env s)) id (\<lambda>(access, expiresAt).
     io_try time_Now id (\<lambda>now.
     io_return (token_pair access (ir_raw refresh) now expiresAt)))))"

definition IssueSession :: "auth_service \<Rightarrow> uuid \<Rightarrow> RequestMeta \<Rightarrow> TokenPair io" where
  "IssueSession s userID meta = io_try uuid_New id (\<lambda>family. issueSession s userID family meta)"

definition extraRoles :: "(string \<times> string) list" where
  "extraRoles =
     [(''Admin'', ''Manage organization resources and members''),
      (''Manager'', ''Manage teams, projects and tasks''),
      (''Member'', ''Work on assigned projects and tasks''),
      (''Viewer'', ''Read-only access'')]"

definition seed_extra_role :: "uuid \<Rightarrow> string \<times> string \<Rightarrow> unit io" where
  "seed_extra_role org extra =
     io_try (CreateRole_q org (fst extra) (Some (snd extra)) True) (wrap (''create role '' @ fst extra)) (\<lambda>role.
     io_try (seedRolePermissions (r_ID role) (fst extra))
       (wrap (''seed permissions for role '' @ fst extra)) (\<lambda>_. io_return ()))"

definition conflict_as :: "string \<Rightarrow> string \<Rightarrow> string \<Rightarrow> err \<Rightarrow> err" where
  "conflict_as code message what e =
     (if isUniqueViolation e then NewAPIError 409 code message (Some e) else wrap what e)"

definition register_tx :: "RegisterInput \<Rightarrow> string \<Rightarrow> string \<Rightarrow> (User \<times> Organization) io" where
  "register_tx inp passwordHash slug =
     io_try (CreateUser (ri_Email inp) passwordHash (ri_FirstName inp) (ri_LastName inp) activeUserStatus)
       (conflict_as ''EMAIL_TAKEN'' ''An account with this email already exists'' ''create user'') (\<lambda>user.
     io_try (CreateOrganization_q (ri_OrganizationName inp) slug activeUserStatus)
       (conflict_as ''SLUG_TAKEN'' ''Organization name is unavailable'' ''create organization'') (\<lambda>org.
     io_try (CreateRole_q (o_ID org) ownerRoleName (Some ''Full control over the organization'') True)
       (wrap ''create owner role'') (\<lambda>role.
     io_try (seedRolePermissions (r_ID role) ownerRoleName) (wrap ''seed owner permissions'') (\<lambda>_.
     io_try (io_each (seed_extra_role (o_ID org)) extraRoles) id (\<lambda>_.
     io_try time_Now id (\<lambda>now.
     io_try (CreateMembership (o_ID org) (u_ID user) (r_ID role) activeUserStatus (Some now))
       (wrap ''create membership'') (\<lambda>_.
     io_return (user, org))))))))"

definition request_event :: "Event \<Rightarrow> RequestMeta \<Rightarrow> Event" where
  "request_event ev meta = WithRequest ev (rm_IPAddress meta) (rm_UserAgent meta) [] []"

definition Register :: "auth_service \<Rightarrow> RegisterInput \<Rightarrow> RequestMeta \<Rightarrow> AuthResult io" where
  "Register s inp meta =
     io_try (HashPassword (as_env s) (ri_Password inp)) id (\<lambda>passwordHash.
     io_try (auth_uniqueSlug (as_env s) (ri_OrganizationName inp)) id (\<lambda>slug.
     io_try (WithTx (register_tx inp passwordHash slug)) id (\<lambda>(user, org).
     io_try (Record (as_env s)
         (WithMetadata (request_event
            (Event0\<lparr>ev_Action := AuthRegistered, ev_ActorUserID := Some (u_ID user), ev_TargetType := TargetUser,
                    ev_TargetID := uuid_string (as_env s) (u_ID user), ev_OrganizationID := Some (o_ID org)\<rparr>) meta)
            [(''email'', JString (u_Email user))])) id (\<lambda>_.
     io_try uuid_New id (\<lambda>family.
     io_try (issueSession s (u_ID user) family meta) id (\<lambda>tokens.
     io_return \<lparr>ar_Tokens = tokens, ar_User = NewUserDTO user\<rparr>))))))"

definition Login :: "auth_service \<Rightarrow> LoginInput \<Rightarrow> RequestMeta \<Rightarrow> AuthResult io" where
  "Login s inp meta =
     (let denied = request_event
            (Event0\<lparr>ev_Action := AuthLoginFailed, ev_Outcome := OutcomeFailure, ev_TargetType := TargetUser\<rparr>) meta;
          deny = (\<lambda>ev. io_try (Record (as_env s) ev) id (\<lambda>_. io_throw invalidCredentials))
      in io_case (GetUserByEmail (li_Email inp))
           (\<lambda>e. if errors_Is e ErrNoRows then deny denied else io_throw (wrap ''get user by email'' e))
           (\<lambda>user.
              if u_Status user \<noteq> activeUserStatus then deny denied
              else if \<not> VerifyPassword (as_env s) (u_PasswordHash user) (li_Password inp) then
                deny (WithTarget (WithActor denied (u_ID user)) TargetUser (uuid_string (as_env s) (u_ID user)))
              else
                io_try (UpdateUserLastLogin (u_ID user)) (wrap ''update last login'') (\<lambda>_.
                io_try (Record (as_env s) (request_event
                    (Event0\<lparr>ev_Action := AuthLoginSucceeded, ev_ActorUserID := Some (u_ID user),
                            ev_TargetType := TargetUser, ev_TargetID := uuid_string (as_env s) (u_ID user)\<rparr>) meta)) id (\<lambda>_.
                io_try uuid_New id (\<lambda>family.
                io_try (issueSession s (u_ID user) family meta) id (\<lambda>tokens.
                io_return \<lparr>ar_Tokens = tokens, ar_User = NewUserDTO user\<rparr>))))))"

text \<open>
  The transaction of \<open>Refresh\<close> commits in two cases: a replayed token, whose family it revoked, and a
  rotation. Every other way out rolls back.
\<close>

datatype refresh_outcome = Reused RefreshToken | Rotated User issuedRefresh

definition refresh_tx :: "auth_service \<Rightarrow> string \<Rightarrow> RequestMeta \<Rightarrow> refresh_outcome io" where
  "refresh_tx s rawToken meta =
     io_try (GetRefreshTokenByHashForUpdate (hashToken (as_env s) rawToken))
       (\<lambda>e. if errors_Is e ErrNoRows then Sentinel ErrUnauthorized else wrap ''get refresh token'' e) (\<lambda>stored.
     if t_RevokedAt stored \<noteq> None then
       io_try (RevokeRefreshTokenFamily (t_FamilyID stored)) (wrap ''revoke token family on reuse'') (\<lambda>_.
       io_return (Reused stored))
     else
       io_try time_Now id (\<lambda>now.
       if now > t_ExpiresAt stored then io_throw (Sentinel ErrUnauthorized)
       else
         io_try (GetUserByID (t_UserID stored)) (wrap ''get user'') (\<lambda>user.
         if u_Status user \<noteq> activeUserStatus then io_throw (Sentinel ErrUnauthorized)
         else
           io_try (createRefreshToken s (u_ID user) (t_FamilyID stored) meta) id (\<lambda>newRefresh.
           io_try (RevokeRefreshToken (t_ID stored) (Some (ir_id newRefresh)))
             (wrap ''revoke old refresh token'') (\<lambda>_.
           io_return (Rotated user newRefresh))))))"

fun refresh_commit_text :: "refresh_outcome \<Rightarrow> string" where
  "refresh_commit_text (Reused _) = ''commit token family revocation''"
| "refresh_commit_text (Rotated _ _) = ''commit tx''"

text \<open>What follows the commit.\<close>

fun refresh_finish :: "auth_service \<Rightarrow> RequestMeta \<Rightarrow> refresh_outcome \<Rightarrow> AuthResult io" where
  "refresh_finish s meta (Reused stored) =
     io_try (Record (as_env s)
       (WithMetadata (request_event
          (Event0\<lparr>ev_Action := AuthTokenReuseDetected, ev_Outcome := OutcomeDenied,
                  ev_ActorUserID := Some (t_UserID stored), ev_TargetType := TargetRefreshToken,
                  ev_TargetID := uuid_string (as_env s) (t_ID stored)\<rparr>) meta)
          [(''family_id'', JString (uuid_string (as_env s) (t_FamilyID stored)))])) id (\<lambda>_.
     io_throw (Sentinel ErrUnauthorized))"
| "refresh_finish s meta (Rotated user newRefresh) =
     io_try uuid_New id (\<lambda>jti.
     io_try (GenerateAccessToken (as_jwt s) (u_ID user) jti (as_env s)) id (\<lambda>(access, expiresAt).
     io_try (Record (as_env s) (request_event
         (Event0\<lparr>ev_Action := AuthTokensRefreshed, ev_ActorUserID := Some (u_ID user),
                 ev_TargetType := TargetRefreshToken,
                 ev_TargetID := uuid_string (as_env s) (ir_id newRefresh)\<rparr>) meta)) id (\<lambda>_.
     io_try time_Now id (\<lambda>now.
     io_return \<lparr>ar_Tokens = token_pair access (ir_raw newRefresh) now expiresAt,
                ar_User = NewUserDTO user\<rparr>))))"

definition Refresh :: "auth_service \<Rightarrow> string \<Rightarrow> RequestMeta \<Rightarrow> AuthResult io" where
  "Refresh s rawToken meta =
     io_try (WithTxAs refresh_commit_text (refresh_tx s rawToken meta)) id (refresh_finish s meta)"

definition Logout :: "auth_service \<Rightarrow> string \<Rightarrow> unit io" where
  "Logout s rawToken =
     io_case (GetRefreshTokenByHash (hashToken (as_env s) rawToken))
       (\<lambda>e. if errors_Is e ErrNoRows then io_return () else io_throw (wrap ''get refresh token'' e))
       (\<lambda>stored. io_try (RevokeRefreshTokenFamily (t_FamilyID stored)) (wrap ''revoke token family'') io_return)"

definition LogoutAll :: "auth_service \<Rightarrow> uuid \<Rightarrow> unit io" where
  "LogoutAll s userID =
     io_try (RevokeAllUserRefreshTokens userID) (wrap ''revoke all refresh tokens'') (\<lambda>_.
     Record (as_env s) (Event0\<lparr>ev_Action := AuthLoggedOutAll, ev_ActorUserID := Some userID,
        ev_TargetType := TargetUser, ev_TargetID := uuid_string (as_env s) userID\<rparr>))"

definition CurrentUser :: "uuid \<Rightarrow> UserDTO io" where
  "CurrentUser userID =
     io_try (GetUserByID userID)
       (\<lambda>e. if errors_Is e ErrNoRows then Sentinel ErrNotFound else wrap ''get user'' e)
       (\<lambda>user. io_return (NewUserDTO user))"

section \<open>Keys and ownership\<close>

lemma owners_token_statements [keeps_intro]:
  "owners.keeps T (UpdateUserLastLogin uid)"
  "owners.keeps T (CreateRefreshToken uid family hash expires ua ip)"
  "owners.keeps T (RevokeRefreshToken tid replaced)"
  "owners.keeps T (RevokeRefreshTokenFamily family)"
  "owners.keeps T (RevokeAllUserRefreshTokens uid)"
  unfolding identity_writes
  by (rule owners.statement; (rule unfolded_ids_writes)?; auto simp: Let_def guards_Inr elim!: owned_mono)+

lemmas session_defs = createRefreshToken_def generateRefreshToken_def issueSession_def GenerateAccessToken_def
  HashPassword_def randomSuffix_def

lemma auth_session_keeps [keeps_intro]:
  "ids.keeps T (issueSession s uid family meta)"
  "owners.keeps T (issueSession s uid family meta)"
  "ids.keeps T (createRefreshToken s uid family meta)"
  "owners.keeps T (createRefreshToken s uid family meta)"
  unfolding session_defs by (intro keeps_intro)+

lemma auth_uniqueSlug_keeps [keeps_intro]:
  "ids.keeps T (auth_uniqueSlug_loop n base candidate)"
  "owners.keeps T (auth_uniqueSlug_loop n base candidate)"
  by (induction n arbitrary: candidate) (auto simp: identity_reads randomSuffix_def intro!: keeps_intro)

lemma refresh_finish_keeps [keeps_intro]:
  "ids.keeps T (refresh_finish s meta oc)" "owners.keeps T (refresh_finish s meta oc)"
  by (cases oc; simp add: session_defs; intro keeps_intro)+

lemma ids_register_tx [keeps_intro]: "ids.keeps T (register_tx inp hash slug)"
  unfolding register_tx_def seed_extra_role_def seedRolePermissions_def identity_reads
  by (intro keeps_intro)

lemma ids_refresh_tx [keeps_intro]: "ids.keeps T (refresh_tx s raw meta)"
  unfolding refresh_tx_def session_defs identity_reads by (intro keeps_intro)

lemma ids_auth_operations [keeps_intro]:
  "ids.keeps T (Register s inp meta)" "ids.keeps T (Login s linp meta)" "ids.keeps T (Refresh s raw meta)"
  "ids.keeps T (Logout s raw)" "ids.keeps T (LogoutAll s uid)" "ids.keeps T (IssueSession s uid meta)"
  unfolding Register_def HashPassword_def auth_uniqueSlug_def Login_def Refresh_def Logout_def LogoutAll_def
    IssueSession_def identity_reads Let_def
  by (intro keeps_intro)+

lemma seedRolePermissions_ownership:
  assumes "seedRolePermissions rid name w = (r, w')"
  shows "ownership (st w') = ownership (st w)"
proof -
  have "store_invariant.keeps (unchanged ownership x) (\<lambda>_. True) (seedRolePermissions rid name)" for x
    unfolding seedRolePermissions_def identity_reads by (intro keeps_intro)
  from frame_same [where f = ownership, OF this TrueI assms] show ?thesis .
qed

lemma seed_extra_roles_success:
  "io_each (seed_extra_role org) rs w = (Inr u, w') \<Longrightarrow>
     set (roles (st w)) \<subseteq> set (roles (st w')) \<and> memberships (st w') = memberships (st w) \<and>
     organizations (st w') = organizations (st w)"
proof (induction rs arbitrary: w)
  case (Cons x rs)
  then obtain r w1 u1 w2 where
    1: "CreateRole_q org (fst x) (Some (snd x)) True w = (Inr r, w1)" and
    2: "seedRolePermissions (r_ID r) (fst x) w1 = (Inr u1, w2)" and
    3: "io_each (seed_extra_role org) rs w2 = (Inr u, w')"
    unfolding io_each.simps seed_extra_role_def io_success by blast
  show ?case
    using Cons.IH [OF 3] seedRolePermissions_ownership [OF 2] CreateRole_q_success [OF 1] by auto
qed (simp add: io_success)

lemma register_tx_owned:
  assumes own: "owned (st v)" and run: "register_tx inp hash slug v = (Inr x, v')"
  shows "owned (st v')"
proof -
  from run obtain user v1 org v2 r v3 u4 v4 u5 v5 m v6 where
    1: "CreateUser (ri_Email inp) hash (ri_FirstName inp) (ri_LastName inp) activeUserStatus v = (Inr user, v1)" and
    2: "CreateOrganization_q (ri_OrganizationName inp) slug activeUserStatus v1 = (Inr org, v2)" and
    3: "CreateRole_q (o_ID org) ownerRoleName (Some ''Full control over the organization'') True v2 = (Inr r, v3)" and
    4: "seedRolePermissions (r_ID r) ownerRoleName v3 = (Inr u4, v4)" and
    5: "io_each (seed_extra_role (o_ID org)) extraRoles v4 = (Inr u5, v5)" and
    6: "CreateMembership (o_ID org) (u_ID user) (r_ID r) activeUserStatus (Some (clock v5)) v5 = (Inr m, v6)" "v' = v6"
    unfolding register_tx_def io_success by blast
  have 1: "ownership (st v1) = ownership (st v)"
    using 1 by (auto simp: CreateUser_def io_success Let_def guards_Inr)
  have 2: "organizations (st v2) = organizations (st v1) @ [org]" "memberships (st v2) = memberships (st v1)"
      "roles (st v2) = roles (st v1)"
    using 2 by (auto simp: CreateOrganization_q_def io_success Let_def guards_Inr)
  note 3 = CreateRole_q_success [OF 3, unfolded ownerRoleName_def]
  note 4 = seedRolePermissions_ownership [OF 4]
  note 5 = seed_extra_roles_success [OF 5]
  have 6: "memberships (st v') = memberships (st v5) @ [m]" "organizations (st v') = organizations (st v5)"
      "roles (st v') = roles (st v5)" "m_OrganizationID m = o_ID org" "m_Status m = ''active''" "m_RoleID m = r_ID r"
    using 6 by (auto simp: CreateMembership_def io_success Let_def guards_Inr activeUserStatus_def)
  have "owner_of (st v') (o_ID org) m r"
    using 3 4 5 6 by (auto simp: owner_of_def)
  moreover have "owner_of (st v') oid m' r'" if "owner_of (st v) oid m' r'" for oid m' r'
    using that 1 2 3 4 5 6 by (auto simp: owner_of_def)
  ultimately show ?thesis
    using own 1 2 3 4 5 6 unfolding owned_iff by auto blast
qed

lemma owners_register_tx [keeps_intro]: "owners.keeps T (WithTx (register_tx inp hash slug))"
  by (rule owners.plain_tx [OF ids_register_tx]) (rule register_tx_owned)

lemma owners_refresh_tx [keeps_intro]: "owners.keeps T (refresh_tx s raw meta)"
  unfolding refresh_tx_def session_defs identity_reads by (intro keeps_intro)

lemma owners_Register [keeps_intro]: "owners.keeps T (Register s inp meta)"
  unfolding Register_def HashPassword_def auth_uniqueSlug_def Let_def
  by (rule owners_register_tx owners.keeps_io_try owners.keeps_prod owners.keeps_sum keeps_intro)+

lemma owners_auth_operations [keeps_intro]:
  "owners.keeps T (Login s linp meta)" "owners.keeps T (Refresh s raw meta)"
  "owners.keeps T (Logout s raw)" "owners.keeps T (LogoutAll s uid)" "owners.keeps T (IssueSession s uid meta)"
  unfolding Login_def Refresh_def Logout_def LogoutAll_def IssueSession_def identity_reads Let_def
  by (intro keeps_intro)+

end
