(* ===== verification/Sessions.thy ===== *)
theory Sessions
  imports Auth
begin

text \<open>
  Refresh token families: at most one token of a family is active, rotation hands the family on to
  the new token, a replayed token revokes its whole family, and logging out ends it.
\<close>

section \<open>The invariant\<close>

definition one_active :: "RefreshToken list \<Rightarrow> bool" where
  "one_active ts \<longleftrightarrow>
     (\<forall>t\<in>set ts. \<forall>t'\<in>set ts. t_RevokedAt t = None \<and> t_RevokedAt t' = None \<and> t_FamilyID t = t_FamilyID t' \<longrightarrow> t = t')"

definition sessions_ok :: "store \<Rightarrow> nat \<Rightarrow> bool" where
  "sessions_ok s n \<longleftrightarrow>
     wf_ids s n \<and> (\<forall>t\<in>set (refresh_tokens s). t_FamilyID t < n) \<and> one_active (refresh_tokens s)"

interpretation sessions: store_invariant sessions_ok
  by unfold_locales (auto simp: sessions_ok_def intro: wf_ids_later)

text \<open>Revoking tokens cannot create a second active one.\<close>

definition derived :: "RefreshToken list \<Rightarrow> RefreshToken \<Rightarrow> bool" where
  "derived ts t' \<longleftrightarrow> (\<exists>t\<in>set ts. t_FamilyID t' = t_FamilyID t \<and> (t' = t \<or> t_RevokedAt t' \<noteq> None))"

lemma derived_same [intro]: "t \<in> set ts \<Longrightarrow> derived ts t"
  by (auto simp: derived_def)

lemma derived_revoked [simp]:
  "t \<in> set ts \<Longrightarrow> derived ts (t\<lparr>t_RevokedAt := Some now\<rparr>)"
  "t \<in> set ts \<Longrightarrow> derived ts (t\<lparr>t_RevokedAt := Some now, t_ReplacedBy := rep\<rparr>)"
  by (auto simp: derived_def)

lemma one_active_revoked:
  assumes "one_active ts" and "\<And>t'. t' \<in> set ts' \<Longrightarrow> derived ts t'"
  shows "one_active ts'"
  using assms unfolding one_active_def derived_def by metis

lemma sessions_statement:
  assumes wf: "ids.keeps T (db_write q)"
    and ok: "\<And>w x s n t'. q w = Inr (x, s, n) \<Longrightarrow> t' \<in> set (refresh_tokens s) \<Longrightarrow> derived (refresh_tokens (st w)) t'"
  shows "sessions.keeps T (db_write q)"
proof (rule sessions.keepsI)
  fix w :: world
  assume T: "T (tenant w)"
  note k = ids.keepsD [OF wf T]
  show "tenant (snd (db_write q w)) = tenant w" "fresh w \<le> fresh (snd (db_write q w))"
    by (rule k)+
  assume I: "sessions_ok (st w) (fresh w)"
  have old: "derived (refresh_tokens (st w)) t'"
    if "t' \<in> set (refresh_tokens (st (snd (db_write q w))))" for t'
  proof (cases rule: next_fault_cases [of w])
    case 1
    then show ?thesis
      using that ok [of "drop_fault w"] by (auto simp: db_write_def split: sum.splits)
  qed (use that in \<open>auto simp: db_write_def\<close>)
  have "\<forall>t\<in>set (refresh_tokens (st (snd (db_write q w)))). t_FamilyID t < fresh (snd (db_write q w))"
    using old k(2) I unfolding sessions_ok_def derived_def by (metis order_less_le_trans)
  then show "sessions_ok (st (snd (db_write q w))) (fresh (snd (db_write q w)))"
    using k(3) I one_active_revoked [OF _ old] by (simp add: sessions_ok_def)
qed

lemma sessions_statements [keeps_intro]:
  "sessions.keeps T (CreateUser email hash first_name last_name status)"
  "sessions.keeps T (UpdateUserLastLogin uid)"
  "sessions.keeps T (RevokeRefreshTokenFamily family)"
  "sessions.keeps T (RevokeAllUserRefreshTokens uid)"
  "sessions.keeps T (CreateOrganization_q name slug status)"
  "sessions.keeps T (rename_organization oid name)"
  "sessions.keeps T (CreateRole_q org name descr sys)"
  "sessions.keeps T (UpdateRole_q rid org name descr)"
  "sessions.keeps T (SetRolePermissions rid)"
  "sessions.keeps T (AddRolePermission rid pid)"
  "sessions.keeps T (CreateMembership org uid role status joined)"
  "sessions.keeps T (UpdateMembershipRole mid org role)"
  unfolding identity_writes
  by (rule sessions_statement; (rule unfolded_ids_writes)?;
      auto simp: Let_def guards_Inr one_row_def revoke_where_def set_update_where split: option.splits if_splits)+

lemma sessions_DeleteRole [keeps_intro]: "sessions.keeps T (DeleteRole_q rid org)"
  unfolding identity_writes
  by (rule sessions_statement [OF ids_DeleteRole [unfolded identity_writes]])
    (elim delete_role_rows_cases; auto)

lemma sessions_insert_audit_log [keeps_intro]: "sessions.keeps T (insert_audit_log e p)"
  unfolding insert_audit_log_def
  by (rule sessions_statement [OF ids_insert_audit_log [unfolded insert_audit_log_def]])
    (auto simp: Let_def guards_Inr)

lemma sessions_Record [keeps_intro]: "sessions.keeps T (Record e ev)"
  unfolding Record_def CreateAuditLog_def by (intro keeps_intro)

section \<open>New tokens\<close>

lemma CreateRefreshToken_success:
  assumes "CreateRefreshToken uid family hash expires ua ip w = (Inr t, w')"
  shows "t_ID t = fresh w" "t_UserID t = uid" "t_FamilyID t = family" "t_TokenHash t = hash" "t_ExpiresAt t = expires"
    "t_RevokedAt t = None" "t_ReplacedBy t = None" "fresh w' = Suc (fresh w)" "clock w' = clock w"
    "st w' = (st w)\<lparr>refresh_tokens := refresh_tokens (st w) @ [t]\<rparr>"
  using assms by (auto simp: CreateRefreshToken_def io_success Let_def guards_Inr)

text \<open>A token in a family that no token belongs to yet.\<close>

lemma CreateRefreshToken_new_family:
  assumes I: "sessions_ok (st w) (fresh w)" and f: "family < fresh w"
    and new: "\<And>t. t \<in> set (refresh_tokens (st w)) \<Longrightarrow> t_FamilyID t \<noteq> family"
    and run: "CreateRefreshToken uid family hash expires ua ip w = (Inr t, w')"
  shows "sessions_ok (st w') (fresh w')"
proof -
  note s = CreateRefreshToken_success [OF run]
  have "wf_ids (st w') (fresh w')"
    using ids.keepsD(3) [OF ids_writes(3) [of "\<lambda>_. True"] TrueI, of w uid family hash expires ua ip] I run
    by (simp add: sessions_ok_def)
  moreover have "one_active (refresh_tokens (st w'))"
    using I s by (auto simp: one_active_def sessions_ok_def dest: new)
  ultimately show ?thesis
    using I f s by (auto simp: sessions_ok_def less_Suc_eq)
qed

lemma generateRefreshToken_Inr:
  assumes "generateRefreshToken w = (Inr raw, w')"
  shows "st w' = st w" "fresh w' = fresh w" "tenant w' = tenant w" "clock w' = clock w"
  using assms unfolding generateRefreshToken_def io_success
  by (auto simp: rand_Read_def io_success dest!: next_fault_frameD split: prod.splits option.splits)

lemma createRefreshToken_cases:
  assumes "createRefreshToken s uid family meta w = (r, w')"
  obtains (none) er where "r = Inl er" "st w' = st w" "fresh w' = fresh w"
  | (issued) raw v t where "r = Inr \<lparr>ir_id = t_ID t, ir_raw = raw\<rparr>" "st v = st w" "fresh v = fresh w" "clock v = clock w"
      "CreateRefreshToken uid family (hashToken (as_env s) raw) (clock w + as_refreshTTL s)
         (optional (rm_UserAgent meta)) (optional (rm_IPAddress meta)) v = (Inr t, w')"
proof (cases r)
  case (Inl er)
  have frame: "st w' = st w" "fresh w' = fresh w"
    using assms Inl
    by (auto simp: createRefreshToken_def generateRefreshToken_def CreateRefreshToken_def io_try_def io_case_def
        io_throw_def io_return_def time_Now_def rand_Read_def db_write_def
        dest!: next_fault_frameD split: prod.splits option.splits sum.splits)
  with Inl show ?thesis by (rule none)
next
  case (Inr x)
  from assms [unfolded Inr createRefreshToken_def] obtain raw v t where
    1: "generateRefreshToken w = (Inr raw, v)" and
    2: "CreateRefreshToken uid family (hashToken (as_env s) raw) (clock v + as_refreshTTL s)
         (optional (rm_UserAgent meta)) (optional (rm_IPAddress meta)) v = (Inr t, w')"
       "x = \<lparr>ir_id = t_ID t, ir_raw = raw\<rparr>"
    unfolding io_success by blast
  from generateRefreshToken_Inr [OF 1] 2 Inr show ?thesis by (intro issued) auto
qed

lemma sessions_IssueSession [keeps_intro]: "sessions.keeps T (IssueSession s uid meta)"
proof -
  let ?rest = "\<lambda>refresh. io_try uuid_New id (\<lambda>jti.
     io_try (GenerateAccessToken (as_jwt s) uid jti (as_env s)) id (\<lambda>(access, expiresAt).
     io_try time_Now id (\<lambda>now. io_return (token_pair access (ir_raw refresh) now expiresAt))))"
  have rest: "sessions.keeps T (?rest r)" for r
    unfolding GenerateAccessToken_def by (intro keeps_intro)
  have "sessions.keeps T (io_try uuid_New id (\<lambda>family. createRefreshToken s uid family meta))"
  proof (rule sessions.keepsI)
    fix w :: world
    let ?m = "io_try uuid_New id (\<lambda>family. createRefreshToken s uid family meta)"
    let ?w = "w\<lparr>fresh := Suc (fresh w)\<rparr>"
    have "ids.keeps (\<lambda>_. True) ?m" by (intro keeps_intro)
    note k = ids.keepsD [OF this TrueI, of w]
    show "tenant (snd (?m w)) = tenant w" "fresh w \<le> fresh (snd (?m w))" by (rule k)+
    assume I: "sessions_ok (st w) (fresh w)"
    obtain r w' where r: "createRefreshToken s uid (fresh w) meta ?w = (r, w')"
      by (cases "createRefreshToken s uid (fresh w) meta ?w")
    then have m: "snd (?m w) = w'"
      by (cases r) (simp_all add: io_try_def io_case_def uuid_New_def io_throw_def)
    from r have "sessions_ok (st w') (fresh w')"
    proof (cases rule: createRefreshToken_cases)
      case none
      then show ?thesis using sessions.later [OF I, of "fresh w'"] by simp
    next
      case (issued raw v t)
      show ?thesis
      proof (rule CreateRefreshToken_new_family [OF _ _ _ issued(5)])
        show "sessions_ok (st v) (fresh v)" using sessions.later [OF I, of "fresh v"] issued by simp
        show "t_FamilyID t \<noteq> fresh w" if "t \<in> set (refresh_tokens (st v))" for t
          using I that issued by (auto simp: sessions_ok_def)
      qed (simp add: issued)
    qed
    then show "sessions_ok (st (snd (?m w))) (fresh (snd (?m w)))" by (simp add: m)
  qed
  then have "sessions.keeps T (io_try (io_try uuid_New id (\<lambda>family. createRefreshToken s uid family meta)) id ?rest)"
    using rest by (rule sessions.keeps_io_try)
  then show ?thesis
    by (simp add: IssueSession_def issueSession_def io_try_assoc)
qed

section \<open>Rotation and reuse\<close>

lemma refresh_tx_cases:
  assumes run: "refresh_tx s raw meta w = (Inr oc, w')"
  obtains (reused) t where "oc = Reused t" "t \<in> set (refresh_tokens (st w))"
      "t_TokenHash t = hashToken (as_env s) raw" "t_RevokedAt t \<noteq> None" "clock w' = clock w"
      "st w' = (st w)\<lparr>refresh_tokens :=
         revoke_where (\<lambda>x. t_FamilyID x = t_FamilyID t) (clock w) (refresh_tokens (st w))\<rparr>" "fresh w' = fresh w"
  | (rotated) t user raw' new where "oc = Rotated user \<lparr>ir_id = t_ID new, ir_raw = raw'\<rparr>"
      "t \<in> set (refresh_tokens (st w))" "t_TokenHash t = hashToken (as_env s) raw" "t_RevokedAt t = None"
      "clock w \<le> t_ExpiresAt t" "user \<in> set (users (st w))" "u_ID user = t_UserID t" "u_Status user = ''active''"
      "t_FamilyID new = t_FamilyID t" "t_UserID new = t_UserID t" "t_TokenHash new = hashToken (as_env s) raw'"
      "t_RevokedAt new = None" "t_ID new = fresh w" "t_ExpiresAt new = clock w + as_refreshTTL s" "clock w' = clock w"
      "st w' = (st w)\<lparr>refresh_tokens := update_where (\<lambda>x. t_ID x = t_ID t \<and> t_RevokedAt x = None)
         (\<lambda>x. x\<lparr>t_RevokedAt := Some (clock w), t_ReplacedBy := Some (t_ID new)\<rparr>) (refresh_tokens (st w) @ [new])\<rparr>"
      "fresh w' = Suc (fresh w)"
proof -
  from run obtain t w1 where get: "GetRefreshTokenByHashForUpdate (hashToken (as_env s) raw) w = (Inr t, w1)"
    unfolding refresh_tx_def io_try_Inr [of "GetRefreshTokenByHashForUpdate _"] by blast
  then have t: "t \<in> set (refresh_tokens (st w))" "t_TokenHash t = hashToken (as_env s) raw"
    and w1: "st w1 = st w" "fresh w1 = fresh w" "clock w1 = clock w"
    by (auto simp: GetRefreshTokenByHashForUpdate_def io_success one_row_def split: option.splits dest!: find_SomeD)
  note run' = run [unfolded refresh_tx_def io_try_Inr [of "GetRefreshTokenByHashForUpdate _"] get, simplified]
  show ?thesis
  proof (cases "t_RevokedAt t")
    case (Some r)
    then show ?thesis
      using run' t w1
      by (intro reused) (auto simp: io_success RevokeRefreshTokenFamily_def Let_def)
  next
    case None
    with run' obtain user w2 where
      2: "clock w \<le> t_ExpiresAt t" "GetUserByID (t_UserID t) w1 = (Inr user, w2)" "u_Status user = activeUserStatus" and
      r: "io_try (createRefreshToken s (u_ID user) (t_FamilyID t) meta) id (\<lambda>newRefresh.
           io_try (RevokeRefreshToken (t_ID t) (Some (ir_id newRefresh))) (wrap ''revoke old refresh token'') (\<lambda>_.
           io_return (Rotated user newRefresh))) w2 = (Inr oc, w')"
      by (auto simp: io_try_Inr time_Now_Inr io_throw_Inr w1 split: if_splits)
    have w2: "st w2 = st w" "fresh w2 = fresh w" "clock w2 = clock w"
      and user: "user \<in> set (users (st w))" "u_ID user = t_UserID t"
      using 2(2) w1 by (auto simp: GetUserByID_def io_success one_row_def split: option.splits dest!: find_SomeD)
    from r obtain ir w3 u where 3: "createRefreshToken s (u_ID user) (t_FamilyID t) meta w2 = (Inr ir, w3)" and
      4: "RevokeRefreshToken (t_ID t) (Some (ir_id ir)) w3 = (Inr u, w')" "oc = Rotated user ir"
      unfolding io_success by blast
    from 3 show ?thesis
    proof (cases rule: createRefreshToken_cases)
      case (issued raw' v new)
      note c = CreateRefreshToken_success [OF issued(5)]
      show ?thesis
        using None t user 2 w2 4 issued c
        by (intro rotated [of user new raw' t])
          (auto simp: activeUserStatus_def RevokeRefreshToken_def io_success Let_def guards_Inr)
    qed auto
  qed
qed

lemma rotation_keeps_one_active:
  assumes wf: "wf_ids s n" and one: "one_active (refresh_tokens s)" and t: "t \<in> set (refresh_tokens s)" "t_RevokedAt t = None"
    and new: "t_FamilyID new = t_FamilyID t" "t_ID new \<noteq> t_ID t"
  shows "one_active (update_where (\<lambda>x. t_ID x = t_ID t \<and> t_RevokedAt x = None)
           (\<lambda>x. x\<lparr>t_RevokedAt := Some now, t_ReplacedBy := rep\<rparr>) (refresh_tokens s @ [new]))"
proof -
  have old: "x \<in> set (refresh_tokens s) \<Longrightarrow> t_RevokedAt x = None \<Longrightarrow> t_FamilyID x = t_FamilyID t \<Longrightarrow> x = t" for x
    using one t by (auto simp: one_active_def)
  show ?thesis
    unfolding one_active_def
  proof (intro ballI impI, elim conjE)
    fix a b
    assume a: "a \<in> set (update_where (\<lambda>x. t_ID x = t_ID t \<and> t_RevokedAt x = None)
           (\<lambda>x. x\<lparr>t_RevokedAt := Some now, t_ReplacedBy := rep\<rparr>) (refresh_tokens s @ [new]))" "t_RevokedAt a = None"
      and b: "b \<in> set (update_where (\<lambda>x. t_ID x = t_ID t \<and> t_RevokedAt x = None)
           (\<lambda>x. x\<lparr>t_RevokedAt := Some now, t_ReplacedBy := rep\<rparr>) (refresh_tokens s @ [new]))" "t_RevokedAt b = None"
      and f: "t_FamilyID a = t_FamilyID b"
    have cl: "(x \<in> set (refresh_tokens s) \<and> t_ID x \<noteq> t_ID t) \<or> x = new"
      if "x \<in> set (update_where (\<lambda>x. t_ID x = t_ID t \<and> t_RevokedAt x = None)
           (\<lambda>x. x\<lparr>t_RevokedAt := Some now, t_ReplacedBy := rep\<rparr>) (refresh_tokens s @ [new]))" "t_RevokedAt x = None" for x
      using that by (auto simp: set_update_where split: if_splits)
    have other: "t_FamilyID x \<noteq> t_FamilyID t" if "x \<in> set (refresh_tokens s)" "t_ID x \<noteq> t_ID t" "t_RevokedAt x = None" for x
      using old [of x] that by blast
    have both: "a = b" if "a \<in> set (refresh_tokens s)" "b \<in> set (refresh_tokens s)"
      using one that a(2) b(2) f unfolding one_active_def by blast
    from cl [OF a] show "a = b"
    proof
      assume A: "a \<in> set (refresh_tokens s) \<and> t_ID a \<noteq> t_ID t"
      have "b \<noteq> new" using other [of a] A a(2) f new(1) by auto
      then show "a = b" using cl [OF b] A both by blast
    next
      assume A: "a = new"
      have "b \<in> set (refresh_tokens s) \<Longrightarrow> t_ID b \<noteq> t_ID t \<Longrightarrow> False"
        using other [of b] A b(2) f new(1) by auto
      then show "a = b" using cl [OF b] A by blast
    qed
  qed
qed

lemma sessions_refresh_tx [keeps_intro]: "sessions.keeps T (WithTxAs c (refresh_tx s raw meta))"
proof (rule sessions.keeps_WithTxAs_success)
  show "tenant (snd (refresh_tx s raw meta v)) = tenant v \<and> fresh v \<le> fresh (snd (refresh_tx s raw meta v))" for v
    using ids.keepsD(1,2) [OF ids_refresh_tx [of "\<lambda>_. True"] TrueI] by blast
  fix v oc v'
  assume I: "sessions_ok (st v) (fresh v)" and run: "refresh_tx s raw meta v = (Inr oc, v')"
  have wf: "wf_ids (st v') (fresh v')"
    using ids.keepsD(3) [OF ids_refresh_tx [of "\<lambda>_. True"] TrueI, of v s raw meta] I run
    by (simp add: sessions_ok_def)
  from run show "sessions_ok (st v') (fresh v')"
  proof (cases rule: refresh_tx_cases)
    case (reused t)
    define ts where "ts = refresh_tokens (st v)"
    have toks: "refresh_tokens (st v') = revoke_where (\<lambda>x. t_FamilyID x = t_FamilyID t) (clock v) ts"
      using reused by (simp add: ts_def)
    have d: "derived ts x" if "x \<in> set (refresh_tokens (st v'))" for x
      using that unfolding toks by (auto simp: revoke_where_def set_update_where)
    have "one_active (refresh_tokens (st v'))"
    proof (rule one_active_revoked [of ts])
      show "one_active ts" using I by (simp add: sessions_ok_def ts_def)
    qed (rule d)
    moreover have "\<forall>x\<in>set (refresh_tokens (st v')). t_FamilyID x < fresh v'"
    proof
      fix x
      assume "x \<in> set (refresh_tokens (st v'))"
      from d [OF this] obtain y where "y \<in> set ts" "t_FamilyID x = t_FamilyID y"
        by (auto simp: derived_def)
      then show "t_FamilyID x < fresh v'"
        using I reused(7) by (simp add: sessions_ok_def ts_def)
    qed
    ultimately show ?thesis
      using wf by (simp add: sessions_ok_def)
  next
    case (rotated t user raw' new)
    have "t_ID new \<noteq> t_ID t"
      using wf_fresh_token [of "st v" "fresh v" t] I rotated by (auto simp: sessions_ok_def)
    then have "one_active (refresh_tokens (st v'))"
      using I rotated rotation_keeps_one_active [of "st v" "fresh v" t new] by (simp add: sessions_ok_def)
    moreover have "t_FamilyID x < fresh v'" if "x \<in> set (refresh_tokens (st v'))" for x
      using that I rotated by (auto simp: sessions_ok_def set_update_where less_Suc_eq split: if_splits)
    ultimately show ?thesis
      using wf by (simp add: sessions_ok_def)
  qed
qed

lemma session_assoc:
  "io_try uuid_New id (\<lambda>family. io_try (issueSession s uid family meta) id k) = io_try (IssueSession s uid meta) id k"
  by (simp add: IssueSession_def io_try_assoc)

lemma sessions_setPermissions [keeps_intro]: "sessions.keeps T (setPermissions rid perms)"
  unfolding setPermissions_def identity_reads by (intro keeps_intro)

lemma sessions_loops [keeps_intro]:
  "sessions.keeps T (auth_uniqueSlug_loop n base candidate)"
  "sessions.keeps T (uniqueSlug_loop e n base candidate)"
  "sessions.keeps T (seed_roles org rs owner)"
  subgoal by (induction n arbitrary: candidate) (auto simp: identity_reads randomSuffix_def intro!: keeps_intro)
  subgoal by (induction n arbitrary: candidate) (auto simp: identity_reads intro!: keeps_intro)
  subgoal by (induction rs arbitrary: owner) (auto intro!: keeps_intro)
  done

lemma sessions_register_tx [keeps_intro]: "sessions.keeps T (register_tx inp hash slug)"
  unfolding register_tx_def seed_extra_role_def seedRolePermissions_def identity_reads
  by (intro keeps_intro)

lemma sessions_refresh_finish [keeps_intro]: "sessions.keeps T (refresh_finish s meta oc)"
  by (cases oc; simp add: session_defs; intro keeps_intro)

lemma sessions_auth_operations [keeps_intro]:
  "sessions.keeps T (Register s inp meta)" "sessions.keeps T (Login s linp meta)"
  "sessions.keeps T (Logout s raw)" "sessions.keeps T (LogoutAll s uid)"
  unfolding Register_def HashPassword_def auth_uniqueSlug_def Login_def Logout_def LogoutAll_def identity_reads Let_def
    session_assoc
  by (intro keeps_intro)+

lemma sessions_Refresh [keeps_intro]: "sessions.keeps T (Refresh s raw meta)"
  unfolding Refresh_def
  by (rule sessions.keeps_io_try sessions_refresh_tx sessions_refresh_finish)+

lemma sessions_organization_operations [keeps_intro]:
  "sessions.keeps T (CreateOrganization e uid name)"
  "sessions.keeps T (UpdateOrganization uid org name)"
  "sessions.keeps T (CreateRole uid org name descr perms)"
  "sessions.keeps T (UpdateRole uid org rid name descr perms)"
  "sessions.keeps T (DeleteRole uid org rid)"
  "sessions.keeps T (AssignMemberRole uid org mid rid)"
  unfolding CreateOrganization_def uniqueSlug_def organization_writes organization_reads
  by (intro keeps_intro)+

section \<open>Properties\<close>

definition family_revoked :: "uuid \<Rightarrow> store \<Rightarrow> bool" where
  "family_revoked family s \<longleftrightarrow> (\<forall>t\<in>set (refresh_tokens s). t_FamilyID t = family \<longrightarrow> t_RevokedAt t \<noteq> None)"

lemma revoke_family_revoked:
  assumes "refresh_tokens s' = revoke_where (\<lambda>x. t_FamilyID x = family) now ts"
  shows "family_revoked family s'"
  unfolding family_revoked_def assms
proof (intro ballI impI)
  fix t
  assume "t \<in> set (revoke_where (\<lambda>x. t_FamilyID x = family) now ts)" and f: "t_FamilyID t = family"
  then have "t \<in> (\<lambda>x. if t_FamilyID x = family \<and> t_RevokedAt x = None then x\<lparr>t_RevokedAt := Some now\<rparr> else x) ` set ts"
    by (simp only: revoke_where_def set_update_where)
  then obtain x where "t = (if t_FamilyID x = family \<and> t_RevokedAt x = None then x\<lparr>t_RevokedAt := Some now\<rparr> else x)"
    by (rule imageE)
  with f show "t_RevokedAt t \<noteq> None" by (cases "t_RevokedAt x") (auto split: if_splits)
qed

lemma Record_run:
  obtains w' where "Record e ev w = (Inr (), w')" "refresh_tokens (st w') = refresh_tokens (st w)"
proof
  show "Record e ev w = (Inr (), snd (Record e ev w))"
    using Record_effect [of e ev w] by (simp add: prod_eq_iff)
  obtain rows where "st (snd (Record e ev w)) = (st w)\<lparr>audit_logs := audit_logs (st w) @ rows\<rparr>"
    using Record_effect [of e ev w] by blast
  then show "refresh_tokens (st (snd (Record e ev w))) = refresh_tokens (st w)" by simp
qed

lemma Record_tokens: "Record e ev w = (r, w') \<Longrightarrow> refresh_tokens (st w') = refresh_tokens (st w)"
  by (rule Record_run [of e ev w]) simp

lemma reuse_run:
  assumes wf: "wf_ids (st w) (fresh w)" and nf: "faults w = []"
    and t: "t \<in> set (refresh_tokens (st w))" "t_TokenHash t = hashToken (as_env s) raw" "t_RevokedAt t \<noteq> None"
  shows "fst (Refresh s raw meta w) = Inl (Sentinel ErrUnauthorized) \<and>
         family_revoked (t_FamilyID t) (st (snd (Refresh s raw meta w)))"
proof -
  let ?h = "hashToken (as_env s) raw"
  define v where "v = w\<lparr>st := (st w)\<lparr>refresh_tokens :=
      revoke_where (\<lambda>x. t_FamilyID x = t_FamilyID t) (clock w) (refresh_tokens (st w))\<rparr>\<rparr>"
  have "find (\<lambda>x. t_TokenHash x = ?h) (refresh_tokens (st w)) = Some t"
    using t wf_token_hash [OF wf] by (intro find_unique) auto
  then have get: "GetRefreshTokenByHashForUpdate ?h w = (Inr t, w)"
    by (simp add: GetRefreshTokenByHashForUpdate_def io_simps nf one_row_def)
  have rev: "RevokeRefreshTokenFamily (t_FamilyID t) w = (Inr (), v)"
    by (simp add: RevokeRefreshTokenFamily_def db_write_def next_fault_def nf Let_def v_def)
  have "refresh_tx s raw meta w = (Inr (Reused t), v)"
    using t(3) by (simp add: refresh_tx_def io_try_def io_case_def get rev io_return_def)
  then have tx: "WithTxAs refresh_commit_text (refresh_tx s raw meta) w = (Inr (Reused t), v)"
    by (rule WithTxAs_ok [OF nf]) (simp add: v_def nf)
  have fam: "family_revoked (t_FamilyID t) (st v)"
    by (rule revoke_family_revoked) (simp add: v_def)
  obtain w' where "Record (as_env s)
       (WithMetadata (request_event
          (Event0\<lparr>ev_Action := AuthTokenReuseDetected, ev_Outcome := OutcomeDenied,
                  ev_ActorUserID := Some (t_UserID t), ev_TargetType := TargetRefreshToken,
                  ev_TargetID := uuid_string (as_env s) (t_ID t)\<rparr>) meta)
          [(''family_id'', JString (uuid_string (as_env s) (t_FamilyID t)))]) v = (Inr (), w')"
      "refresh_tokens (st w') = refresh_tokens (st v)"
    by (rule Record_run)
  then show ?thesis
    using fam by (simp add: Refresh_def io_try_def io_case_def tx io_throw_def family_revoked_def)
qed

text \<open>
  C8: replaying a refresh token ends the session. When a token that has been revoked (by rotation or
  logout) is presented again, the request is rejected as unauthorized and, although it fails, the
  revocation of every token of that family has been committed.
\<close>

theorem replayed_token_revokes_family:
  assumes "wf_ids (st w) (fresh w)" and "faults w = []"
    and "t \<in> set (refresh_tokens (st w))" "t_TokenHash t = hashToken (as_env s) raw" "t_RevokedAt t \<noteq> None"
  shows "fst (Refresh s raw meta w) = Inl (Sentinel ErrUnauthorized) \<and>
         family_revoked (t_FamilyID t) (st (snd (Refresh s raw meta w)))"
  using assms by (rule reuse_run)

lemma Refresh_success:
  assumes run: "Refresh s raw meta w = (Inr r, w')" and wf: "wf_ids (st w) (fresh w)"
  obtains t user raw' new where
    "t \<in> set (refresh_tokens (st w))" "t_TokenHash t = hashToken (as_env s) raw" "t_RevokedAt t = None"
    "clock w \<le> t_ExpiresAt t" "user \<in> set (users (st w))" "u_ID user = t_UserID t" "u_Status user = ''active''"
    "ar_User r = NewUserDTO user" "tp_RefreshToken (ar_Tokens r) = raw'"
    "new \<in> set (refresh_tokens (st w'))" "t_TokenHash new = hashToken (as_env s) raw'" "t_RevokedAt new = None"
    "t_FamilyID new = t_FamilyID t" "t_UserID new = t_UserID t"
    "t\<lparr>t_RevokedAt := Some (clock w), t_ReplacedBy := Some (t_ID new)\<rparr> \<in> set (refresh_tokens (st w'))"
proof -
  from run obtain oc w1 where tx: "WithTxAs refresh_commit_text (refresh_tx s raw meta) w = (Inr oc, w1)"
    and fin: "refresh_finish s meta oc w1 = (Inr r, w')"
    unfolding Refresh_def io_try_Inr by blast
  from tx obtain w2 where 2: "refresh_tx s raw meta (drop_fault w) = (Inr oc, w2)" "w1 = drop_fault w2"
    unfolding WithTxAs_Inr by blast
  from 2(1) show ?thesis
  proof (cases rule: refresh_tx_cases)
    case (reused t)
    with fin show ?thesis by (auto simp: io_success)
  next
    case (rotated t user raw' new)
    have "t_ID new \<noteq> t_ID t"
      using wf_fresh_token [OF wf, of t] rotated by auto
    then have toks: "new \<in> set (refresh_tokens (st w1))"
        "t\<lparr>t_RevokedAt := Some (clock w), t_ReplacedBy := Some (t_ID new)\<rparr> \<in> set (refresh_tokens (st w1))"
      using 2(2) rotated by (auto simp: set_update_where image_iff)
    from fin rotated(1) obtain access ex ev w3 where
      r: "r = \<lparr>ar_Tokens = token_pair access raw' (clock w3) ex, ar_User = NewUserDTO user\<rparr>" and
      rec: "Record (as_env s) ev (w1\<lparr>fresh := Suc (fresh w1)\<rparr>) = (Inr (), w3)" "w' = w3"
      by (auto simp: io_success GenerateAccessToken_def Let_def split: sum.splits)
    have "refresh_tokens (st w') = refresh_tokens (st w1)"
      using Record_tokens [OF rec(1)] rec(2) by simp
    with toks rotated r show ?thesis
      by (intro that [of t user raw' new]) (simp_all add: token_pair_def)
  qed
qed

text \<open>
  \<open>Logout\<close> with a known token revokes every token of its family; an unknown token is not an error and
  changes nothing.
\<close>

lemma logout_run:
  assumes wf: "wf_ids (st w) (fresh w)" and nf: "faults w = []"
  shows "fst (Logout s raw w) = Inr ()"
    and "t \<in> set (refresh_tokens (st w)) \<Longrightarrow> t_TokenHash t = hashToken (as_env s) raw \<Longrightarrow>
           st (snd (Logout s raw w)) = (st w)\<lparr>refresh_tokens :=
             revoke_where (\<lambda>x. t_FamilyID x = t_FamilyID t) (clock w) (refresh_tokens (st w))\<rparr>"
    and "\<forall>t\<in>set (refresh_tokens (st w)). t_TokenHash t \<noteq> hashToken (as_env s) raw \<Longrightarrow> st (snd (Logout s raw w)) = st w"
proof -
  let ?db = "\<lambda>t. (st w)\<lparr>refresh_tokens := revoke_where (\<lambda>x. t_FamilyID x = t_FamilyID t) (clock w) (refresh_tokens (st w))\<rparr>"
  have "fst (Logout s raw w) = Inr () \<and> st (snd (Logout s raw w)) =
      (case find (\<lambda>x. t_TokenHash x = hashToken (as_env s) raw) (refresh_tokens (st w)) of None \<Rightarrow> st w | Some t \<Rightarrow> ?db t)"
    by (simp add: Logout_def GetRefreshTokenByHash_def RevokeRefreshTokenFamily_def io_case_def io_try_def db_read_def db_write_def
        next_fault_def nf one_row_def io_return_def Let_def split: option.split)
  moreover have "find (\<lambda>x. t_TokenHash x = hashToken (as_env s) raw) (refresh_tokens (st w)) = Some t"
    if "t \<in> set (refresh_tokens (st w))" "t_TokenHash t = hashToken (as_env s) raw" for t
    using that wf_token_hash [OF wf] by (intro find_unique) auto
  moreover have "find (\<lambda>x. t_TokenHash x = hashToken (as_env s) raw) (refresh_tokens (st w)) = None"
    if "\<forall>t\<in>set (refresh_tokens (st w)). t_TokenHash t \<noteq> hashToken (as_env s) raw"
    using that by (simp add: find_eq_None)
  ultimately show "fst (Logout s raw w) = Inr ()"
    "t \<in> set (refresh_tokens (st w)) \<Longrightarrow> t_TokenHash t = hashToken (as_env s) raw \<Longrightarrow> st (snd (Logout s raw w)) = ?db t"
    "\<forall>t\<in>set (refresh_tokens (st w)). t_TokenHash t \<noteq> hashToken (as_env s) raw \<Longrightarrow> st (snd (Logout s raw w)) = st w"
    by simp_all
qed

text \<open>The accounts that may log in: an active user of that email whose password verifies.\<close>

definition valid_credentials :: "env \<Rightarrow> store \<Rightarrow> LoginInput \<Rightarrow> User \<Rightarrow> bool" where
  "valid_credentials e s inp u \<longleftrightarrow>
     u \<in> set (users s) \<and> citext_eq (u_Email u) (li_Email inp) \<and> u_Status u = ''active'' \<and>
     VerifyPassword e (u_PasswordHash u) (li_Password inp)"

text \<open>
  C14: login is granted only for valid credentials. When \<open>Login\<close> returns tokens, whatever faults
  occurred, the user is stored, active, has the given email and the given password verifies against
  the stored hash, and the response describes that user.
\<close>

theorem login_sound:
  assumes "Login s inp meta w = (Inr r, w')"
  shows "\<exists>u. valid_credentials (as_env s) (st w) inp u \<and> ar_User r = NewUserDTO u"
  using assms
  by (auto simp: Login_def Let_def io_success GetUserByEmail_def one_row_def valid_credentials_def activeUserStatus_def
      split: option.splits if_splits dest!: find_SomeD)

text \<open>
  C34: a rejected login does not tell why. Without infrastructure faults, an unknown email, an account
  that is not active and a wrong password all produce the same error value, and nothing is written
  but at most one row of the audit log.
\<close>

theorem login_uniform_rejection:
  assumes nf: "faults w = []"
    and bad: "\<not> (\<exists>u. valid_credentials (as_env s) (st w) inp u)"
  shows "fst (Login s inp meta w) = Inl invalidCredentials \<and>
         (\<exists>rows. length rows \<le> 1 \<and>
            st (snd (Login s inp meta w)) = (st w)\<lparr>audit_logs := audit_logs (st w) @ rows\<rparr>)"
proof -
  have deny: "fst (io_try (Record (as_env s) ev) id (\<lambda>_. io_throw invalidCredentials) w) = (Inl invalidCredentials :: err + AuthResult) \<and>
      (\<exists>rows. length rows \<le> 1 \<and> st (snd (io_try (Record (as_env s) ev) id (\<lambda>_. io_throw invalidCredentials :: AuthResult io) w)) =
         (st w)\<lparr>audit_logs := audit_logs (st w) @ rows\<rparr>)" for ev
    using Record_effect [of "as_env s" ev w]
    by (cases "Record (as_env s) ev w") (auto simp: io_try_def io_case_def io_throw_def)
  show ?thesis
  proof (cases "find (\<lambda>u. citext_eq (u_Email u) (li_Email inp)) (users (st w))")
    case None
    then show ?thesis
      using deny by (simp add: Login_def Let_def io_case_def GetUserByEmail_def db_read_def next_fault_def nf one_row_def)
  next
    case (Some u)
    then have "u_Status u \<noteq> activeUserStatus \<or> \<not> VerifyPassword (as_env s) (u_PasswordHash u) (li_Password inp)"
      using bad find_SomeD [OF Some] by (auto simp: valid_credentials_def activeUserStatus_def)
    then show ?thesis
      using Some deny
      by (auto simp: Login_def Let_def io_case_def GetUserByEmail_def db_read_def next_fault_def nf one_row_def)
  qed
qed

section \<open>Witnesses\<close>

definition demo_auth :: auth_service where
  "demo_auth = \<lparr>as_env = demo_env,
     as_jwt = \<lparr>js_secret = ''k'', js_issuer = ''tf'', js_accessTTL = 15 * Minute,
       js_lib = \<lparr>jwt_SignedString = (\<lambda>k c. Inr (k @ ac_Subject c)),
         jwt_ParseWithClaims = (\<lambda>k i n t. Inl (Message ''bad''))\<rparr>\<rparr>,
     as_refreshTTL = 24 * Hour\<rparr>"

definition demo_token :: "nat \<Rightarrow> string \<Rightarrow> time option \<Rightarrow> RefreshToken" where
  "demo_token i raw revoked = \<lparr>t_ID = i, t_UserID = 1, t_FamilyID = 60, t_TokenHash = hashToken demo_env raw,
     t_ExpiresAt = 100, t_RevokedAt = revoked, t_ReplacedBy = None, t_UserAgent = None, t_IpAddress = None, t_CreatedAt = 0\<rparr>"

definition token_world :: world where
  "token_world = demo_world\<lparr>st := demo_store\<lparr>refresh_tokens := [demo_token 61 ''old'' (Some 1), demo_token 62 ''live'' None]\<rparr>\<rparr>"

definition demo_meta :: RequestMeta where
  "demo_meta = \<lparr>rm_UserAgent = [], rm_IPAddress = ''10.0.0.1''\<rparr>"

lemma token_world_facts:
  "wf_ids (st token_world) (fresh token_world)" "faults token_world = []"
  "demo_token 61 ''old'' (Some 1) \<in> set (refresh_tokens (st token_world))"
  by code_simp+

theorem replayed_token_revokes_family_witness:
  "fst (Refresh demo_auth ''old'' demo_meta token_world) = Inl (Sentinel ErrUnauthorized) \<and>
   family_revoked 60 (st (snd (Refresh demo_auth ''old'' demo_meta token_world)))"
  using replayed_token_revokes_family [OF token_world_facts, of demo_auth "''old''" demo_meta]
  by (simp add: demo_token_def demo_auth_def)

theorem login_sound_witness:
  "\<exists>u. valid_credentials demo_env (st demo_world) \<lparr>li_Email = ''A@x'', li_Password = ''h''\<rparr> u"
proof -
  let ?r = "Login demo_auth \<lparr>li_Email = ''A@x'', li_Password = ''h''\<rparr> demo_meta demo_world"
  have "\<not> isl (fst ?r)" by code_simp
  then obtain r where "?r = (Inr r, snd ?r)" by (metis not_isl_Inr prod.collapse)
  from login_sound [OF this] show ?thesis by (auto simp: demo_auth_def)
qed

theorem login_uniform_rejection_witness:
  "fst (Login demo_auth \<lparr>li_Email = ''a@x'', li_Password = ''wrong''\<rparr> demo_meta demo_world) = Inl invalidCredentials \<and>
   fst (Login demo_auth \<lparr>li_Email = ''nobody'', li_Password = ''h''\<rparr> demo_meta demo_world) = Inl invalidCredentials"
proof -
  have "faults demo_world = []" by (simp add: demo_world_def empty_world_def)
  moreover have
    "\<not> (\<exists>u\<in>set (users (st demo_world)). valid_credentials demo_env (st demo_world) \<lparr>li_Email = ''a@x'', li_Password = ''wrong''\<rparr> u)"
    "\<not> (\<exists>u\<in>set (users (st demo_world)). valid_credentials demo_env (st demo_world) \<lparr>li_Email = ''nobody'', li_Password = ''h''\<rparr> u)"
    by code_simp+
  ultimately show ?thesis
    using login_uniform_rejection [of demo_world demo_auth] by (auto simp: demo_auth_def valid_credentials_def)
qed

end
