(* ===== verification/Floats.thy ===== *)
theory Floats
  imports Complex_Main
begin

text \<open>
  Machine floating point. A number is a rational and every operation is the exact one followed by a
  rounding \<open>rd\<close> to the nearest number of the machine. \<open>rounding rd\<close> collects what IEEE 754
  doubles promise and the proofs use: rounding is monotone, exact on integers up to 2^53, and off by
  a relative error of at most 2^-53 on the normal range (here from 2^-1000 to 2^1000).
\<close>


definition eps :: rat where
  "eps = 1 / 2 ^ 53"

definition tiny :: rat where
  "tiny = 1 / 2 ^ 1000"

definition huge :: rat where
  "huge = 2 ^ 1000"

definition rounding :: "(rat \<Rightarrow> rat) \<Rightarrow> bool" where
  "rounding rd \<longleftrightarrow>
     (\<forall>x y. x \<le> y \<longrightarrow> rd x \<le> rd y) \<and>
     (\<forall>i. \<bar>i\<bar> \<le> 2 ^ 53 \<longrightarrow> rd (of_int i) = of_int i) \<and>
     (\<forall>x. tiny \<le> \<bar>x\<bar> \<and> \<bar>x\<bar> \<le> huge \<longrightarrow> \<bar>rd x - x\<bar> \<le> eps * \<bar>x\<bar>)"

lemma constants_pos [simp]: "0 < eps" "0 < tiny" "0 < huge"
  by (simp_all add: eps_def tiny_def huge_def)

lemma tiny_small: "tiny * 2 ^ 150 \<le> eps" "2 ^ 113 * tiny \<le> eps" "4 * tiny \<le> eps / 2 ^ 20"
  by (simp_all add: tiny_def eps_def)

lemma rd_mono: "rounding rd \<Longrightarrow> x \<le> y \<Longrightarrow> rd x \<le> rd y"
  by (simp add: rounding_def)

lemma rd_int: "rounding rd \<Longrightarrow> \<bar>i\<bar> \<le> 2 ^ 53 \<Longrightarrow> rd (of_int i) = of_int i"
  by (simp add: rounding_def)

lemma rd_zero [simp]: "rounding rd \<Longrightarrow> rd 0 = 0"
  using rd_int [of rd 0] by simp

lemma rd_nonneg: "rounding rd \<Longrightarrow> 0 \<le> x \<Longrightarrow> 0 \<le> rd x"
  using rd_mono [of rd 0 x] by simp

lemma rd_error:
  assumes "rounding rd" "tiny \<le> x" "x \<le> huge"
  shows "\<bar>rd x - x\<bar> \<le> eps * x"
proof -
  have "0 < x" using less_le_trans [OF constants_pos(2) assms(2)] .
  then have "tiny \<le> \<bar>x\<bar> \<and> \<bar>x\<bar> \<le> huge" using assms by simp
  then have "\<bar>rd x - x\<bar> \<le> eps * \<bar>x\<bar>" using assms(1) unfolding rounding_def by blast
  then show ?thesis using \<open>0 < x\<close> by simp
qed

lemma rd_upper:
  assumes "rounding rd" "0 \<le> x" "x \<le> huge"
  shows "rd x \<le> x * (1 + eps) + 2 * tiny"
proof -
  have near: "rd y \<le> y * (1 + eps)" if "tiny \<le> y" "y \<le> huge" for y
    using rd_error [OF assms(1) that] by (simp add: algebra_simps)
  show ?thesis
  proof (cases "tiny \<le> x")
    case True
    then show ?thesis using near [of x] assms(3) less_imp_le [OF constants_pos(2)] by linarith
  next
    case False
    have "rd x \<le> rd tiny" using False rd_mono [OF assms(1)] by simp
    also have "\<dots> \<le> tiny * (1 + eps)" by (rule near) (simp_all add: tiny_def huge_def)
    also have "\<dots> \<le> 2 * tiny" by (simp add: eps_def)
    finally show ?thesis
      using mult_nonneg_nonneg [OF assms(2), of "1 + eps"] less_imp_le [OF constants_pos(1)] by linarith
  qed
qed

lemma rd_lower:
  assumes "rounding rd" "tiny \<le> x" "x \<le> huge"
  shows "x * (1 - eps) \<le> rd x"
  using rd_error [OF assms] by (simp add: algebra_simps)

lemma rd_lower0:
  assumes "rounding rd" "0 \<le> x" "x \<le> huge"
  shows "x * (1 - eps) - tiny \<le> rd x"
proof (cases "tiny \<le> x")
  case True
  then show ?thesis
    using rd_lower [OF assms(1) True assms(3)] less_imp_le [OF constants_pos(2)] by linarith
next
  case False
  then show ?thesis
    using rd_nonneg [OF assms(1,2)] mult_nonneg_nonneg [OF assms(2) less_imp_le [OF constants_pos(1)]]
    by (simp add: algebra_simps)
qed

lemma rounding_exact: "rounding (\<lambda>x. x)"
  by (simp add: rounding_def less_imp_le)

end
