(* ===== verification/RateLimit.thy ===== *)
theory RateLimit
  imports Floats Authctx Store
begin

text \<open>
  Rate limiting: \<open>internal/ratelimit/ratelimit.go\<close> and \<open>middleware.go\<close>. A token bucket per caller
  lives in Redis; the Lua script \<open>bucketScript\<close> refills it and takes a token in one step, and the
  middleware turns the decision into headers and a response.

  The numbers of the script and of \<open>float64\<close> are rationals on which every operation rounds: the
  parameter \<open>rd\<close> maps an exact result to the nearest number of the machine. \<open>rounding rd\<close> states
  what the theorems use of it: it is monotone, exact on integers up to 2^53 and off by at most a
  relative 2^-53. The SHA-256 digest is the parameter \<open>sha256\<close> of the environment.
\<close>

section \<open>Policies\<close>

definition keyPrefix :: string where
  "keyPrefix = ''teamflow:ratelimit:''"

record Policy =
  pol_Name :: string
  pol_Limit :: int
  pol_Period :: duration

record Policies =
  ps_Auth :: Policy
  ps_User :: Policy
  ps_APIKey :: Policy

definition Capacity :: "Policy \<Rightarrow> int" where
  "Capacity p = pol_Limit p"

text \<open>\<open>time.Duration.Seconds\<close>: whole seconds plus the fraction.\<close>

definition duration_Seconds :: "(rat \<Rightarrow> rat) \<Rightarrow> duration \<Rightarrow> rat" where
  "duration_Seconds rd d =
     (let sec = go_quotient d Second in
      rd (rd (of_int sec) + rd (rd (of_int (d - sec * Second)) / 1000000000)))"

definition RefillPerSecond :: "(rat \<Rightarrow> rat) \<Rightarrow> Policy \<Rightarrow> rat" where
  "RefillPerSecond rd p =
     (if pol_Period p \<le> 0 then 0 else rd (rd (of_int (pol_Limit p)) / duration_Seconds rd (pol_Period p)))"

definition TTL :: "Policy \<Rightarrow> duration" where
  "TTL p = (if pol_Period p \<le> 0 then Minute else wrap_int 64 (2 * pol_Period p))"

text \<open>The text of the first error also shows the limit and the period.\<close>

definition validate :: "Policy \<Rightarrow> err option" where
  "validate p =
     (if pol_Name p = [] then Some (Message ''ratelimit: policy has no name'')
      else if pol_Limit p < 1 then
        Some (Message (''ratelimit: policy '' @ pol_Name p @ '' must allow at least one request''))
      else if pol_Period p \<le> 0 then
        Some (Message (''ratelimit: policy '' @ pol_Name p @ '' must have a positive period''))
      else None)"

record Decision =
  de_Allowed :: bool
  de_Limit :: int
  de_Remaining :: int
  de_RetryAfter :: duration

section \<open>The bucket script\<close>

record bucket =
  bk_tokens :: rat
  bk_ts :: int

definition bucketScript :: "(rat \<Rightarrow> rat) \<Rightarrow> rat \<Rightarrow> rat \<Rightarrow> int \<Rightarrow> bucket option \<Rightarrow> bucket \<times> int \<times> int \<times> int" where
  "bucketScript rd capacity refill now state =
     (let (tokens0, ts) = (case state of None \<Rightarrow> (capacity, now) | Some b \<Rightarrow> (bk_tokens b, bk_ts b));
          elapsed = (if now - ts < 0 then 0 else now - ts);
          tokens = min capacity (rd (tokens0 + rd (rd (of_int elapsed / 1000) * refill)))
      in if tokens \<ge> 1 then
           let tokens' = rd (tokens - 1)
           in (\<lparr>bk_tokens = tokens', bk_ts = now\<rparr>, 1, \<lfloor>tokens'\<rfloor>, 0)
         else
           (\<lparr>bk_tokens = tokens, bk_ts = now\<rparr>, 0, \<lfloor>tokens\<rfloor>, \<lceil>rd (rd (rd (1 - tokens) / refill) * 1000)\<rceil>))"

text \<open>
  The keyspace: each bucket with the instant (milliseconds of the server's clock) at which it
  expires. \<open>PEXPIRE\<close> with a time to live that is not positive deletes the key.
\<close>

type_synonym keyspace = "string \<Rightarrow> (bucket \<times> int) option"

definition live_bucket :: "int \<Rightarrow> keyspace \<Rightarrow> string \<Rightarrow> bucket option" where
  "live_bucket server_ms ks key =
     (case ks key of Some (b, expires) \<Rightarrow> if server_ms < expires then Some b else None | None \<Rightarrow> None)"

text \<open>
  A call to Redis is answered, fails before the script ran, or ran the script and lost the answer.
\<close>

datatype transport = Replied | Refused err | Lost err

datatype reply = ReplyInt int | ReplyString string | ReplyOther

definition toInt64 :: "reply \<Rightarrow> err + int" where
  "toInt64 v =
     (case v of
        ReplyInt n \<Rightarrow> Inr n
      | ReplyString s \<Rightarrow> Inl (Message (''ratelimit: unexpected string result '' @ s))
      | ReplyOther \<Rightarrow> Inl (Message ''ratelimit: unexpected result type''))"

text \<open>\<open>v, _ := toInt64(x)\<close>: the error is dropped and the value is zero then.\<close>

definition toInt64_or_zero :: "reply \<Rightarrow> int" where
  "toInt64_or_zero v = (case toInt64 v of Inr n \<Rightarrow> n | Inl _ \<Rightarrow> 0)"

definition run_bucketScript ::
  "(rat \<Rightarrow> rat) \<Rightarrow> int \<Rightarrow> transport \<Rightarrow> string \<Rightarrow> rat \<Rightarrow> rat \<Rightarrow> int \<Rightarrow> int \<Rightarrow> keyspace \<Rightarrow> (err + reply list) \<times> keyspace" where
  "run_bucketScript rd server_ms tr key capacity refill now ttl ks =
     (let (b, allowed, remaining, retry) = bucketScript rd capacity refill now (live_bucket server_ms ks key);
          ks' = ks(key := if ttl \<le> 0 then None else Some (b, server_ms + ttl))
      in case tr of
           Replied \<Rightarrow> (Inr [ReplyInt allowed, ReplyInt remaining, ReplyInt retry], ks')
         | Refused e \<Rightarrow> (Inl e, ks)
         | Lost e \<Rightarrow> (Inl e, ks'))"

definition Key :: "env \<Rightarrow> Policy \<Rightarrow> string \<Rightarrow> string" where
  "Key e p identifier = keyPrefix @ pol_Name p @ '':'' @ hex_encode (take 16 (sha256 e identifier))"

definition decide :: "Policy \<Rightarrow> reply list \<Rightarrow> err + Decision" where
  "decide p result =
     (if length result \<noteq> 3 then Inl (Message ''ratelimit: unexpected script result'')
      else
        let allowed = toInt64_or_zero (result ! 0) = 1;
            remaining = toInt64_or_zero (result ! 1);
            retryMS = toInt64_or_zero (result ! 2)
        in Inr \<lparr>de_Allowed = allowed, de_Limit = Capacity p,
                de_Remaining = (if remaining < 0 then 0 else remaining),
                de_RetryAfter = (if \<not> allowed \<and> retryMS > 0 then wrap_int 64 (retryMS * Millisecond) else 0)\<rparr>)"

definition UnixMilli :: "time \<Rightarrow> int" where
  "UnixMilli t = t div Millisecond"

definition Allow ::
  "(rat \<Rightarrow> rat) \<Rightarrow> env \<Rightarrow> int \<Rightarrow> transport \<Rightarrow> time \<Rightarrow> Policy \<Rightarrow> string \<Rightarrow> keyspace \<Rightarrow> (err + Decision) \<times> keyspace" where
  "Allow rd e server_ms tr now p identifier ks =
     (case validate p of
        Some er \<Rightarrow> (Inl er, ks)
      | None \<Rightarrow>
          (case run_bucketScript rd server_ms tr (Key e p identifier) (rd (of_int (Capacity p))) (RefillPerSecond rd p)
                  (UnixMilli now) (go_quotient (TTL p) Millisecond) ks of
             (Inl er, ks') \<Rightarrow> (Inl (wrap ''ratelimit: evaluate bucket'' er), ks')
           | (Inr result, ks') \<Rightarrow> (decide p result, ks')))"

section \<open>The middleware\<close>

definition HeaderLimit :: string where "HeaderLimit = ''X-RateLimit-Limit''"
definition HeaderRemaining :: string where "HeaderRemaining = ''X-RateLimit-Remaining''"
definition HeaderReset :: string where "HeaderReset = ''X-RateLimit-Reset''"
definition HeaderRetryAfter :: string where "HeaderRetryAfter = ''Retry-After''"

text \<open>
  What becomes of a request: it goes on to the next handler with these response headers set, or it
  is answered with the headers and an error.
\<close>

datatype verdict = Forward details | Reject details err

definition resetAt :: "time \<Rightarrow> Decision \<Rightarrow> int" where
  "resetAt now d = (if de_Allowed d then now div Second else (now + de_RetryAfter d) div Second)"

text \<open>\<open>int(d.Seconds())\<close>, which drops the fraction of a second.\<close>

definition retry_seconds :: "Decision \<Rightarrow> int" where
  "retry_seconds d = (let s = go_quotient (de_RetryAfter d) Second in if s < 1 then 1 else s)"

definition serve_limited :: "bool \<Rightarrow> time \<Rightarrow> (err + Decision) \<Rightarrow> verdict" where
  "serve_limited failOpen now outcome =
     (case outcome of
        Inl e \<Rightarrow> if failOpen then Forward [] else Reject [] (Sentinel ErrRateLimited)
      | Inr d \<Rightarrow>
          let headers = [(HeaderLimit, Itoa (de_Limit d)), (HeaderRemaining, Itoa (de_Remaining d)),
                         (HeaderReset, Itoa (resetAt now d))]
          in if de_Allowed d then Forward headers
             else Reject (headers @ [(HeaderRetryAfter, Itoa (retry_seconds d))]) (Sentinel ErrRateLimited))"

text \<open>
  The limiter as the middleware sees it (the interface \<open>Limiter\<close>): a decision for a policy and an
  identifier, changing a state of its own.
\<close>

type_synonym 's limiter = "Policy \<Rightarrow> string \<Rightarrow> 's \<Rightarrow> (err + Decision) \<times> 's"

definition serve_policy :: "bool \<Rightarrow> time \<Rightarrow> 's limiter \<Rightarrow> Policy \<Rightarrow> string \<Rightarrow> 's \<Rightarrow> verdict \<times> 's" where
  "serve_policy failOpen now limiter p identifier s =
     (let (outcome, s') = limiter p identifier s in (serve_limited failOpen now outcome, s'))"

definition LimitByIP :: "bool \<Rightarrow> time \<Rightarrow> 's limiter \<Rightarrow> Policy \<Rightarrow> string \<Rightarrow> 's \<Rightarrow> verdict \<times> 's" where
  "LimitByIP failOpen now limiter p ip s = (if ip = [] then (Forward [], s) else serve_policy failOpen now limiter p ip s)"

definition LimitAuthenticated ::
  "env \<Rightarrow> bool \<Rightarrow> time \<Rightarrow> 's limiter \<Rightarrow> Policy \<Rightarrow> Policy \<Rightarrow> request_context \<Rightarrow> 's \<Rightarrow> verdict \<times> 's" where
  "LimitAuthenticated e failOpen now limiter userPolicy apiKeyPolicy ctx s =
     (case PrincipalFromContext ctx of
        None \<Rightarrow> (Forward [], s)
      | Some caller \<Rightarrow>
          if IsAPIKey caller
          then serve_policy failOpen now limiter apiKeyPolicy (uuid_string e (APIKeyID caller)) s
          else serve_policy failOpen now limiter userPolicy (uuid_string e (UserID caller)) s)"

definition noopLimiter :: "'s limiter" where
  "noopLimiter p identifier s =
     (Inr \<lparr>de_Allowed = True, de_Limit = 0, de_Remaining = 0, de_RetryAfter = 0\<rparr>, s)"

section \<open>The bucket\<close>

lemma bucketScript_fresh:
  assumes "rounding rd" "1 \<le> cap" "cap \<le> 2 ^ 53"
  shows "bucketScript rd (of_int cap) refill now None = (\<lparr>bk_tokens = of_int (cap - 1), bk_ts = now\<rparr>, 1, cap - 1, 0)"
proof -
  have "rd (of_int cap) = of_int cap" "rd (of_int (cap - 1)) = of_int (cap - 1)"
    by (rule rd_int; use assms in simp)+
  then show ?thesis using assms by (simp add: bucketScript_def Let_def)
qed

definition refilled :: "(rat \<Rightarrow> rat) \<Rightarrow> rat \<Rightarrow> rat \<Rightarrow> int \<Rightarrow> bucket \<Rightarrow> rat" where
  "refilled rd capacity refill now b =
     min capacity (rd (bk_tokens b + rd (rd (of_int (max 0 (now - bk_ts b)) / 1000) * refill)))"

lemma bucketScript_Some:
  "bucketScript rd capacity refill now (Some b) =
     (let t = refilled rd capacity refill now b in
      if 1 \<le> t then (\<lparr>bk_tokens = rd (t - 1), bk_ts = now\<rparr>, 1, \<lfloor>rd (t - 1)\<rfloor>, 0)
      else (\<lparr>bk_tokens = t, bk_ts = now\<rparr>, 0, \<lfloor>t\<rfloor>, \<lceil>rd (rd (rd (1 - t) / refill) * 1000)\<rceil>))"
proof -
  have "(if now - bk_ts b < 0 then 0 else now - bk_ts b) = max 0 (now - bk_ts b)" by simp
  then show ?thesis
    unfolding bucketScript_def refilled_def Let_def option.case prod.case by (simp only:)
qed

lemma refilled_nonneg:
  "rounding rd \<Longrightarrow> 0 \<le> capacity \<Longrightarrow> 0 \<le> refill \<Longrightarrow> 0 \<le> bk_tokens b \<Longrightarrow> 0 \<le> refilled rd capacity refill now b"
  by (simp add: refilled_def rd_nonneg)

text \<open>One request against a bucket: bounds, and how its level changes.\<close>

lemma bucketScript_bounds:
  assumes rd: "rounding rd" and cap: "1 \<le> cap" "cap \<le> 2 ^ 53"
    and refill: "0 \<le> refill" and tok: "0 \<le> bk_tokens b"
    and run: "bucketScript rd (of_int cap) refill now (Some b) = (b', a, remaining, retry)"
  shows "0 \<le> bk_tokens b' \<and> of_int a + bk_tokens b' \<le> of_int cap \<and> bk_ts b' = now \<and> 0 \<le> a \<and>
         remaining = \<lfloor>bk_tokens b'\<rfloor>"
proof -
  define t where "t = refilled rd (of_int cap) refill now b"
  have t: "0 \<le> t" "t \<le> of_int cap"
    using refilled_nonneg [OF rd _ refill tok] cap by (auto simp: t_def refilled_def)
  have "rd (t - 1) \<le> rd (of_int (cap - 1))" using t by (intro rd_mono [OF rd]) simp
  moreover have "rd (of_int (cap - 1)) = of_int (cap - 1)" by (rule rd_int [OF rd]) (use cap in simp)
  moreover have "1 \<le> t \<Longrightarrow> 0 \<le> rd (t - 1)" by (rule rd_nonneg [OF rd]) simp
  ultimately show ?thesis
    using run t unfolding bucketScript_Some Let_def t_def [symmetric]
    by (auto split: if_splits)
qed

text \<open>Upper bounds with rounding: what a refill adds, the refilled level, and what a token costs.\<close>

lemma eps_bounds: "eps \<le> 1" "0 \<le> eps"
  by (simp_all add: eps_def)

lemma gain_upper:
  assumes rd: "rounding rd" and refill: "0 \<le> refill" "refill \<le> 2 ^ 90" and x: "0 \<le> x" "x \<le> 2 ^ 64"
  shows "0 \<le> rd (rd x * refill)" "rd (rd x * refill) \<le> (1 + eps)\<^sup>2 * refill * x + eps / 2 ^ 20"
proof -
  note e = eps_bounds
  have big: "(2::rat) ^ 64 \<le> huge" "(2::rat) ^ 157 \<le> huge" by (simp_all add: huge_def)
  have rx: "rd x \<le> x * (1 + eps) + 2 * tiny" "0 \<le> rd x"
    using rd_upper [OF rd x(1)] x big rd_nonneg [OF rd x(1)] by auto
  have "rd x \<le> 2 ^ 67"
    using rx(1) x e mult_mono [of x "2 ^ 64" "1 + eps" 2] tiny_small by (simp add: eps_def)
  then have "rd x * refill \<le> 2 ^ 67 * 2 ^ 90" by (intro mult_mono) (use refill rx in auto)
  then have prod: "0 \<le> rd x * refill" "rd x * refill \<le> huge"
    using rx refill big by simp_all
  show "0 \<le> rd (rd x * refill)" by (rule rd_nonneg [OF rd prod(1)])
  have "rd (rd x * refill) \<le> rd x * refill * (1 + eps) + 2 * tiny"
    by (rule rd_upper [OF rd prod])
  also have "\<dots> \<le> (x * (1 + eps) + 2 * tiny) * refill * (1 + eps) + 2 * tiny"
    using rx refill e by (intro add_right_mono mult_right_mono) auto
  also have "\<dots> = (1 + eps)\<^sup>2 * refill * x + (2 * refill * (1 + eps) + 2) * tiny"
    by (simp add: power2_eq_square algebra_simps)
  also have "(2 * refill * (1 + eps) + 2) * tiny \<le> 2 ^ 93 * tiny"
    using mult_mono [of refill "2 ^ 90" "1 + eps" 2] refill e
    by (intro mult_right_mono) (auto simp: less_imp_le)
  also have "2 ^ 93 * tiny \<le> eps / 2 ^ 20" using tiny_small(2) by simp
  finally show "rd (rd x * refill) \<le> (1 + eps)\<^sup>2 * refill * x + eps / 2 ^ 20" by simp
qed

lemma capped_sum_upper:
  assumes rd: "rounding rd" and "1 \<le> c" "c \<le> 2 ^ 53" "0 \<le> y"
  shows "min c (rd y) \<le> y + 2 * (eps * c) + 2 * tiny"
proof (cases "y \<le> 2 * c")
  case True
  have "y \<le> huge" using True assms(3) order_trans [of y "2 ^ 54" huge] by (simp add: huge_def)
  then have "rd y \<le> y * (1 + eps) + 2 * tiny" by (rule rd_upper [OF rd assms(4)])
  then have "rd y \<le> y + eps * y + 2 * tiny" by (simp add: algebra_simps)
  moreover have "eps * y \<le> eps * (2 * c)" using True eps_bounds by (intro mult_left_mono) auto
  ultimately show ?thesis by (intro min.coboundedI2) linarith
next
  case False
  moreover have "0 \<le> 2 * (eps * c) + 2 * tiny"
    using eps_bounds assms(2) less_imp_le [OF constants_pos(2)] by simp
  ultimately show ?thesis using assms(2) by linarith
qed

lemma spend_upper:
  assumes rd: "rounding rd" and "1 \<le> t" "t \<le> c" "c \<le> 2 ^ 53"
  shows "1 + rd (t - 1) \<le> t + eps * c + 2 * tiny"
proof -
  have "t - 1 \<le> huge" using assms(3,4) order_trans [of "t - 1" "2 ^ 53" huge] by (simp add: huge_def)
  then have "rd (t - 1) \<le> (t - 1) * (1 + eps) + 2 * tiny" using assms(2) by (intro rd_upper [OF rd]) auto
  then have "rd (t - 1) \<le> t - 1 + eps * (t - 1) + 2 * tiny" by (simp add: algebra_simps)
  moreover have "eps * (t - 1) \<le> eps * c" using assms eps_bounds by (intro mult_left_mono) auto
  ultimately show ?thesis by linarith
qed

lemma bucketScript_level:
  assumes rd: "rounding rd" and cap: "1 \<le> cap" "cap \<le> 2 ^ 53"
    and refill: "0 \<le> refill" "refill \<le> 2 ^ 90" and tok: "0 \<le> bk_tokens b"
    and time: "bk_ts b \<le> now" "now - bk_ts b \<le> 2 ^ 64"
    and run: "bucketScript rd (of_int cap) refill now (Some b) = (b', a, remaining, retry)"
  shows "of_int a + bk_tokens b' \<le>
     bk_tokens b + (1 + eps)\<^sup>2 * refill * of_int (now - bk_ts b) / 1000 + 4 * (eps * of_int cap)"
proof -
  define x where "x = (of_int (max 0 (now - bk_ts b)) / 1000 :: rat)"
  define c where "c = (of_int cap :: rat)"
  define t where "t = refilled rd c refill now b"
  define K where "K = (1 + eps)\<^sup>2 * refill * x"
  define E where "E = eps * c"
  have c: "1 \<le> c" "c \<le> 2 ^ 53" using cap by (simp_all add: c_def)
  have x: "0 \<le> x" "x \<le> 2 ^ 64" using time by (simp_all add: x_def)
  note gain = gain_upper [OF rd refill x, folded K_def]
  have "t \<le> bk_tokens b + rd (rd x * refill) + 2 * E + 2 * tiny"
    unfolding t_def refilled_def x_def [symmetric] E_def
    by (rule capped_sum_upper [OF rd c]) (use tok gain in simp)
  moreover have "of_int a + bk_tokens b' \<le> t + E + 2 * tiny"
    using run spend_upper [OF rd _ _ c(2), of t] eps_bounds c less_imp_le [OF constants_pos(2)]
    unfolding bucketScript_Some Let_def c_def [symmetric] t_def [symmetric] E_def
    by (auto simp: refilled_def t_def split: if_splits)
  moreover have "eps \<le> E" using c eps_bounds mult_left_mono [of 1 c eps] by (simp add: E_def)
  ultimately have "of_int a + bk_tokens b' \<le> bk_tokens b + K + 4 * E"
    using gain tiny_small(3) eps_bounds by (simp add: field_simps)
  then show ?thesis using time by (simp add: K_def E_def x_def c_def)
qed

section \<open>Policies and their buckets\<close>

text \<open>
  A policy whose numbers are in the range the program is configured with: a limit that a
  \<open>float64\<close> holds and a period from a millisecond to 146 years, so that doubling it does not wrap.
\<close>

definition policy_ok :: "Policy \<Rightarrow> bool" where
  "policy_ok p \<longleftrightarrow>
     validate p = None \<and> pol_Limit p \<le> 2 ^ 53 \<and> Millisecond \<le> pol_Period p \<and> pol_Period p < 2 ^ 62"

lemma policy_okD:
  assumes "policy_ok p"
  shows "validate p = None" "1 \<le> pol_Limit p" "pol_Limit p \<le> 2 ^ 53" "Millisecond \<le> pol_Period p" "pol_Period p < 2 ^ 62"
  using assms by (auto simp: policy_ok_def validate_def split: if_splits)

lemma duration_arith:
  fixes z y d t :: rat
  assumes "y * (15 / 16) \<le> d" "d \<le> y * (33 / 32) + 2 * t" "z * (15 / 16) \<le> y" "y \<le> z * (17 / 16)"
    "1 / 1000 \<le> z" "t \<le> 1 / 1000000"
  shows "z * (7 / 8) \<le> d" "d \<le> z * (9 / 8)"
  using assms by linarith+

lemma duration_Seconds_near:
  assumes rd: "rounding rd" and P: "Millisecond \<le> P" "P < 2 ^ 62"
  shows "of_int P / 10 ^ 9 * (7 / 8) \<le> duration_Seconds rd P" "duration_Seconds rd P \<le> of_int P / 10 ^ 9 * (9 / 8)"
proof -
  define q where "q = P div Second"
  define r where "r = P mod Second"
  define x where "x = (of_int r / 10 ^ 9 :: rat)"
  have r: "0 \<le> r" "r < Second" and q: "0 \<le> q" "q \<le> 2 ^ 40" and P_eq: "P = q * Second + r"
    using P by (simp_all add: q_def r_def)
  have x: "0 \<le> x" "x \<le> 1" using r by (simp_all add: x_def)
  have s: "(of_int P / 10 ^ 9 :: rat) = of_int q + x" by (simp add: P_eq x_def)
  have s_ge: "1 / 1000 \<le> of_int q + x" using P unfolding s [symmetric] by simp
  have rx: "0 \<le> rd x" "rd x \<le> x * (1 + eps) + 2 * tiny" "x * (1 - eps) - tiny \<le> rd x"
    using rd_nonneg [OF rd x(1)] rd_upper [OF rd x(1)] rd_lower0 [OF rd x(1)] x by (auto simp: huge_def)
  define y where "y = of_int q + rd x"
  have small: "eps \<le> 1 / 1000000" "tiny \<le> 1 / 1000000" "eps * x \<le> 1 / 1000000"
    using x mult_left_mono [OF x(2) eps_bounds(2)] by (simp_all add: eps_def tiny_def)
  have y: "(of_int q + x) * (15 / 16) \<le> y" "y \<le> (of_int q + x) * (17 / 16)"
    using rx s_ge small unfolding y_def by (simp_all add: algebra_simps)
  have y_range: "0 \<le> y" "tiny \<le> y" "y \<le> huge"
    using y s_ge q x order_trans [of y "2 ^ 50" huge] by (simp_all add: tiny_def huge_def)
  have "rd (of_int q) = of_int q" "rd (of_int r) = of_int r"
    using q r by (auto intro!: rd_int [OF rd])
  moreover have "go_quotient P Second = q" "P - q * Second = r"
    using P by (simp_all add: go_quotient_nonneg q_def r_def minus_div_mult_eq_mod)
  ultimately have secs: "duration_Seconds rd P = rd y"
    by (simp del: of_int_diff add: duration_Seconds_def Let_def y_def x_def)
  have "y * (15 / 16) \<le> y * (1 - eps)" "y * (1 + eps) \<le> y * (33 / 32)"
    using y_range(1) by (auto intro!: mult_left_mono simp: eps_def)
  then have "y * (15 / 16) \<le> rd y" "rd y \<le> y * (33 / 32) + 2 * tiny"
    using rd_lower [OF rd y_range(2,3)] rd_upper [OF rd y_range(1,3)] by linarith+
  then show "of_int P / 10 ^ 9 * (7 / 8) \<le> duration_Seconds rd P" "duration_Seconds rd P \<le> of_int P / 10 ^ 9 * (9 / 8)"
    using duration_arith [OF _ _ y s_ge small(2), of "rd y"] unfolding s secs by blast+
qed

lemma RefillPerSecond_bounds:
  assumes rd: "rounding rd" and p: "policy_ok p"
  shows "0 \<le> RefillPerSecond rd p" "RefillPerSecond rd p \<le> 2 ^ 90"
    "of_int (pol_Limit p) / (of_int (pol_Period p) / 10 ^ 9) * (7 / 8) \<le> RefillPerSecond rd p"
proof -
  note ok = policy_okD [OF p]
  define L where "L = (of_int (pol_Limit p) :: rat)"
  define S where "S = (of_int (pol_Period p) / 10 ^ 9 :: rat)"
  define D where "D = duration_Seconds rd (pol_Period p)"
  have L: "1 \<le> L" "L \<le> 2 ^ 53" using ok by (simp_all add: L_def)
  have S: "1 / 1000 \<le> S" "S \<le> 2 ^ 33" using ok by (simp_all add: S_def)
  have D: "S * (7 / 8) \<le> D" "D \<le> S * (9 / 8)"
    using duration_Seconds_near [OF rd ok(4,5)] by (simp_all add: D_def S_def)
  have pos: "0 < S" "0 < D" using S D by simp_all
  have refill: "RefillPerSecond rd p = rd (L / D)"
    using rd_int [OF rd, of "pol_Limit p"] ok by (simp add: RefillPerSecond_def L_def D_def)
  have upper: "L / D \<le> 2 ^ 53 * 2000"
    using L D S pos by (simp add: field_simps)
  have lower: "L / S * (8 / 9) \<le> L / D"
    using L D pos by (simp add: field_simps mult_left_mono)
  have "1 / (2 ^ 40) \<le> L / D"
    using L D S pos by (simp add: field_simps)
  then have tiny: "tiny \<le> L / D" by (rule order_trans [rotated]) (simp add: tiny_def)
  have huge: "L / D \<le> huge" using upper by (rule order_trans) (simp add: huge_def)
  show "0 \<le> RefillPerSecond rd p"
    unfolding refill using L pos by (intro rd_nonneg [OF rd]) simp
  have "rd (L / D) \<le> L / D * (1 + eps) + 2 * tiny"
    using L pos huge by (intro rd_upper [OF rd]) simp_all
  also have "\<dots> \<le> (2 ^ 53 * 2000) * 2 + 1"
    using upper L pos eps_bounds by (intro add_mono mult_mono) (simp_all add: tiny_def)
  finally show "RefillPerSecond rd p \<le> 2 ^ 90" unfolding refill by simp
  have "L / S * (8 / 9) * (1 - eps) \<le> L / D * (1 - eps)"
    using lower eps_bounds by (intro mult_right_mono) auto
  also have "\<dots> \<le> rd (L / D)" by (rule rd_lower [OF rd tiny huge])
  finally have "L / S * ((8 / 9) * (1 - eps)) \<le> rd (L / D)" by (simp only: mult.assoc)
  moreover have "L / S * (7 / 8) \<le> L / S * ((8 / 9) * (1 - eps))"
    using L pos by (intro mult_left_mono) (simp_all add: eps_def)
  ultimately show "of_int (pol_Limit p) / (of_int (pol_Period p) / 10 ^ 9) * (7 / 8) \<le> RefillPerSecond rd p"
    unfolding refill L_def [symmetric] S_def [symmetric] by (rule order_trans [rotated])
qed

text \<open>The time to live is long enough that a bucket which expires would be full.\<close>

definition ttl_ms :: "Policy \<Rightarrow> int" where
  "ttl_ms p = go_quotient (TTL p) Millisecond"

lemma ttl_ms_eq: "policy_ok p \<Longrightarrow> ttl_ms p = 2 * pol_Period p div Millisecond"
  using policy_okD [of p] by (simp add: ttl_ms_def TTL_def wrap_int_id go_quotient_nonneg)

lemma ttl_refills:
  assumes rd: "rounding rd" and p: "policy_ok p"
  shows "2 \<le> ttl_ms p" "of_int (pol_Limit p) \<le> RefillPerSecond rd p * of_int (ttl_ms p) / 1000"
proof -
  note ok = policy_okD [OF p]
  define L where "L = (of_int (pol_Limit p) :: rat)"
  define P where "P = (of_int (pol_Period p) :: rat)"
  define k where "k = ttl_ms p"
  have k_eq: "k = 2 * pol_Period p div Millisecond" using ttl_ms_eq [OF p] by (simp add: k_def)
  have k_lt: "2 * pol_Period p < (k + 1) * Millisecond" unfolding k_eq by simp
  have k2: "2 \<le> k" using k_lt ok(4) by simp
  then show "2 \<le> ttl_ms p" by (simp add: k_def)
  have "4 * pol_Period p \<le> 3 * k * Millisecond" using k2 k_lt by simp
  then have "(of_int (4 * pol_Period p) :: rat) \<le> of_int (3 * k * Millisecond)" by (simp only: of_int_le_iff)
  then have k: "4 * P \<le> 3 * of_int k * 10 ^ 6" by (simp add: P_def)
  have pos: "0 < P" "1 \<le> L" using ok by (simp_all add: P_def L_def)
  have "L \<le> L / (P / 10 ^ 9) * (7 / 8) * (of_int k / 1000)"
    using k pos by (simp add: field_simps)
  also have "\<dots> \<le> RefillPerSecond rd p * (of_int k / 1000)"
    using RefillPerSecond_bounds(3) [OF rd p] k2 by (intro mult_right_mono) (simp_all add: L_def P_def)
  finally show "of_int (pol_Limit p) \<le> RefillPerSecond rd p * of_int (ttl_ms p) / 1000"
    by (simp add: L_def k_def)
qed

section \<open>Runs\<close>

text \<open>
  A call of the limiter: when, how the transport behaved, for which policy and caller. The clocks
  of the API processes and of Redis agree in these runs.
\<close>

record limiter_call =
  lc_time :: time
  lc_transport :: transport
  lc_policy :: Policy
  lc_identifier :: string

definition limiter_step :: "(rat \<Rightarrow> rat) \<Rightarrow> env \<Rightarrow> limiter_call \<Rightarrow> keyspace \<Rightarrow> (err + Decision) \<times> keyspace" where
  "limiter_step rd e c = Allow rd e (UnixMilli (lc_time c)) (lc_transport c) (lc_time c) (lc_policy c) (lc_identifier c)"

fun limiter_run :: "(rat \<Rightarrow> rat) \<Rightarrow> env \<Rightarrow> limiter_call list \<Rightarrow> keyspace \<Rightarrow> keyspace" where
  "limiter_run rd e [] ks = ks"
| "limiter_run rd e (c # cs) ks = limiter_run rd e cs (snd (limiter_step rd e c ks))"

text \<open>How many of the calls for a key the limiter allows.\<close>

definition allows :: "err + Decision \<Rightarrow> bool" where
  "allows r \<longleftrightarrow> (case r of Inr d \<Rightarrow> de_Allowed d | Inl _ \<Rightarrow> False)"


text \<open>The invariant of the bucket of a policy at an instant, and its level then.\<close>

definition bucket_ok :: "Policy \<Rightarrow> string \<Rightarrow> int \<Rightarrow> keyspace \<Rightarrow> bool" where
  "bucket_ok p key now ks \<longleftrightarrow>
     (case ks key of
        None \<Rightarrow> True
      | Some (b, expires) \<Rightarrow>
          0 \<le> bk_tokens b \<and> bk_tokens b \<le> of_int (pol_Limit p) \<and> 0 \<le> bk_ts b \<and> bk_ts b \<le> now \<and>
          expires = bk_ts b + ttl_ms p)"

definition level :: "(rat \<Rightarrow> rat) \<Rightarrow> Policy \<Rightarrow> string \<Rightarrow> int \<Rightarrow> keyspace \<Rightarrow> rat" where
  "level rd p key now ks =
     (case ks key of
        None \<Rightarrow> of_int (pol_Limit p)
      | Some (b, _) \<Rightarrow> bk_tokens b + (1 + eps)\<^sup>2 * RefillPerSecond rd p * of_int (now - bk_ts b) / 1000)"

lemma limiter_step_other:
  "Key e (lc_policy c) (lc_identifier c) \<noteq> key \<Longrightarrow> snd (limiter_step rd e c ks) key = ks key"
  by (auto simp: limiter_step_def Allow_def run_bucketScript_def Let_def split: option.splits prod.splits
      transport.splits sum.splits)

lemma limiter_step_own:
  assumes p: "policy_ok (lc_policy c)" and rd: "rounding rd"
  obtains (refused) "\<not> allows (fst (limiter_step rd e c ks))" "snd (limiter_step rd e c ks) = ks"
  | (ran) b a remaining retry where
      "bucketScript rd (of_int (pol_Limit (lc_policy c))) (RefillPerSecond rd (lc_policy c)) (UnixMilli (lc_time c))
         (live_bucket (UnixMilli (lc_time c)) ks (Key e (lc_policy c) (lc_identifier c))) = (b, a, remaining, retry)"
      "snd (limiter_step rd e c ks) =
         ks(Key e (lc_policy c) (lc_identifier c) \<mapsto> (b, UnixMilli (lc_time c) + ttl_ms (lc_policy c)))"
      "allows (fst (limiter_step rd e c ks)) \<Longrightarrow> a = 1"
proof -
  note ok = policy_okD [OF p]
  have cap: "rd (of_int (Capacity (lc_policy c))) = of_int (pol_Limit (lc_policy c))"
    using ok by (simp add: Capacity_def rd_int [OF rd])
  have ttl: "\<not> ttl_ms (lc_policy c) \<le> 0" using ttl_refills(1) [OF rd p] by simp
  obtain b a remaining retry where script:
    "bucketScript rd (of_int (pol_Limit (lc_policy c))) (RefillPerSecond rd (lc_policy c)) (UnixMilli (lc_time c))
         (live_bucket (UnixMilli (lc_time c)) ks (Key e (lc_policy c) (lc_identifier c))) = (b, a, remaining, retry)"
    by (metis prod_cases4)
  show thesis
  proof (cases "lc_transport c")
    case Replied
    then show ?thesis
      using script ttl ok(1) cap
      by (intro ran [OF script]) (auto simp: limiter_step_def Allow_def run_bucketScript_def ttl_ms_def [symmetric]
          allows_def decide_def toInt64_or_zero_def toInt64_def Let_def)
  next
    case (Refused er)
    then show ?thesis
      using script ok(1)
      by (intro refused) (auto simp: limiter_step_def Allow_def run_bucketScript_def allows_def Let_def split: prod.splits)
  next
    case (Lost er)
    then show ?thesis
      using script ttl ok(1) cap
      by (intro ran [OF script]) (auto simp: limiter_step_def Allow_def run_bucketScript_def ttl_ms_def [symmetric]
          allows_def Let_def)
  qed
qed

text \<open>A bucket that is absent or expired has refilled to the limit.\<close>

lemma expired_level:
  assumes rd: "rounding rd" and p: "policy_ok p" and ok: "bucket_ok p key now ks"
    and gone: "live_bucket now ks key = None"
  shows "of_int (pol_Limit p) \<le> level rd p key now ks"
proof (cases "ks key")
  case (Some be)
  obtain b x where be: "be = (b, x)" by (cases be)
  have b: "0 \<le> bk_tokens b" "bk_ts b + ttl_ms p \<le> now"
    using ok gone Some be by (auto simp: bucket_ok_def live_bucket_def split: if_splits)
  have "of_int (pol_Limit p) \<le> 1 * RefillPerSecond rd p * of_int (ttl_ms p) / 1000"
    using ttl_refills(2) [OF rd p] by simp
  also have "\<dots> \<le> (1 + eps)\<^sup>2 * RefillPerSecond rd p * of_int (now - bk_ts b) / 1000"
    using b(2) ttl_refills(1) [OF rd p] RefillPerSecond_bounds(1) [OF rd p] eps_bounds
    by (intro divide_right_mono mult_mono mult_nonneg_nonneg) (auto simp: power2_eq_square algebra_simps)
  finally show ?thesis using b Some be by (simp add: level_def)
qed (simp add: level_def)

text \<open>One run of the script on the key: the bucket stays well formed and pays for the admission.\<close>

lemma script_accounts:
  assumes rd: "rounding rd" and p: "policy_ok p" and ok: "bucket_ok p key now ks" and t: "0 \<le> now" "now \<le> 2 ^ 63"
    and script: "bucketScript rd (of_int (pol_Limit p)) (RefillPerSecond rd p) now (live_bucket now ks key) = (b', a, remaining, retry)"
  shows "0 \<le> bk_tokens b' \<and> 0 \<le> a \<and> bk_ts b' = now \<and> of_int a + bk_tokens b' \<le> of_int (pol_Limit p) \<and>
         of_int a + bk_tokens b' \<le> level rd p key now ks + 4 * (eps * of_int (pol_Limit p))"
proof -
  note lim = policy_okD [OF p]
  have e0: "0 \<le> 4 * (eps * (of_int (pol_Limit p) :: rat))" using lim(2) eps_bounds by simp
  show ?thesis
  proof (cases "live_bucket now ks key")
    case None
    then show ?thesis
      using script expired_level [OF rd p ok None] e0 lim(2)
      by (auto simp: bucketScript_fresh [OF rd lim(2,3)])
  next
    case (Some b)
    then obtain x where b: "ks key = Some (b, x)" by (auto simp: live_bucket_def split: option.splits if_splits prod.splits)
    then have w: "0 \<le> bk_tokens b" "bk_ts b \<le> now" "now - bk_ts b \<le> 2 ^ 64"
      using ok t by (auto simp: bucket_ok_def)
    note run = script [unfolded Some]
    show ?thesis
      using bucketScript_bounds [OF rd lim(2,3) RefillPerSecond_bounds(1) [OF rd p] w(1) run]
        bucketScript_level [OF rd lim(2,3) RefillPerSecond_bounds(1,2) [OF rd p] w run] b
      by (auto simp: level_def)
  qed
qed

lemma limiter_step_accounts:
  fixes rd e c ks
  defines "p \<equiv> lc_policy c" and "now \<equiv> UnixMilli (lc_time c)"
    and "key \<equiv> Key e (lc_policy c) (lc_identifier c)"
    and "ks' \<equiv> snd (limiter_step rd e c ks)"
    and "paid \<equiv> (if allows (fst (limiter_step rd e c ks)) then 1 else 0 :: rat)"
  assumes rd: "rounding rd" and p: "policy_ok p" and ok: "bucket_ok p key now ks" and t: "0 \<le> now" "now \<le> 2 ^ 63"
  shows "bucket_ok p key now ks' \<and>
    paid + level rd p key now ks' \<le> level rd p key now ks + 4 * (eps * of_int (pol_Limit p)) \<and>
    (paid = 0 \<and> ks' = ks \<or> paid + level rd p key now ks' \<le> of_int (pol_Limit p))"
proof (cases rule: limiter_step_own [OF p [unfolded p_def] rd, of e ks])
  case 1
  have "0 \<le> 4 * (eps * (of_int (pol_Limit p) :: rat))" using policy_okD [OF p] eps_bounds by simp
  then show ?thesis using 1 ok by (auto simp: paid_def ks'_def)
next
  case (2 b a remaining retry)
  note run = 2(1) [folded p_def key_def now_def]
  have ks': "ks' key = Some (b, now + ttl_ms p)" using 2(2) by (simp add: ks'_def key_def now_def p_def)
  note acc = script_accounts [OF rd p ok t run]
  have "paid \<le> of_int a" using 2(3) acc by (auto simp: paid_def)
  then show ?thesis using acc ks' by (auto simp: bucket_ok_def level_def t)
qed



lemma bucket_ok_later: "bucket_ok p key t ks \<Longrightarrow> t \<le> t' \<Longrightarrow> bucket_ok p key t' ks"
  by (auto simp: bucket_ok_def split: option.splits)

lemma bucket_ok_cong: "ks key = ks' key \<Longrightarrow> bucket_ok p key t ks \<longleftrightarrow> bucket_ok p key t ks'"
  by (simp add: bucket_ok_def)




text \<open>The calls of a run in a time window; a call for the key is one of the policy.\<close>

definition calls_within :: "env \<Rightarrow> Policy \<Rightarrow> string \<Rightarrow> int \<Rightarrow> int \<Rightarrow> limiter_call list \<Rightarrow> bool" where
  "calls_within e p key t t' cs \<longleftrightarrow>
     sorted (map lc_time cs) \<and> 0 \<le> t \<and> t' \<le> 2 ^ 63 \<and>
     (\<forall>c\<in>set cs. t \<le> UnixMilli (lc_time c) \<and> UnixMilli (lc_time c) \<le> t' \<and>
        (Key e (lc_policy c) (lc_identifier c) = key \<longrightarrow> lc_policy c = p))"

lemma calls_within_Cons:
  assumes "calls_within e p key t t' (c # cs)"
  shows "calls_within e p key (UnixMilli (lc_time c)) t' cs" "t \<le> UnixMilli (lc_time c)" "UnixMilli (lc_time c) \<le> t'"
    "0 \<le> UnixMilli (lc_time c)" "UnixMilli (lc_time c) \<le> 2 ^ 63"
    "Key e (lc_policy c) (lc_identifier c) = key \<Longrightarrow> lc_policy c = p"
  using assms by (auto simp: calls_within_def UnixMilli_def intro: zdiv_mono1)


lemma bucket_ok_run:
  assumes rd: "rounding rd" and p: "policy_ok p"
  shows "calls_within e p key t t' cs \<Longrightarrow> t \<le> t' \<Longrightarrow> bucket_ok p key t ks \<Longrightarrow> bucket_ok p key t' (limiter_run rd e cs ks)"
proof (induction cs arbitrary: t ks)
  case Nil
  then show ?case by (auto elim: bucket_ok_later)
next
  case (Cons c cs)
  note c = calls_within_Cons [OF Cons(2)]
  let ?now = "UnixMilli (lc_time c)" and ?ks = "snd (limiter_step rd e c ks)"
  have ok: "bucket_ok p key ?now ks" using Cons(4) c(2) by (rule bucket_ok_later)
  have "bucket_ok p key ?now ?ks"
  proof (cases "Key e (lc_policy c) (lc_identifier c) = key")
    case True
    then show ?thesis using limiter_step_accounts [of rd c e ks] rd p ok c(4-6) by auto
  next
    case False
    show ?thesis using ok bucket_ok_cong [of ?ks key ks, OF limiter_step_other [OF False]] by simp
  qed
  then show ?case using Cons.IH [OF c(1) c(3)] by simp
qed



definition demo_policy :: Policy where
  "demo_policy = \<lparr>pol_Name = ''user'', pol_Limit = 2, pol_Period = 3 * Second\<rparr>"

definition demo_digests :: env where
  "demo_digests = \<lparr>unicode_lower = id, collate = id, uuid_string = Itoa \<circ> int, uuid_Parse = (\<lambda>_. None),
     sha256 = (\<lambda>s. take 32 (s @ replicate 32 CHR ''x'')), bcrypt_hash = (\<lambda>_ p. Inr p), bcrypt_compare = (\<lambda>h p. h = p),
     json_Marshal = (\<lambda>_. []), inet_valid = (\<lambda>_. True), pgx_scans_inet = True\<rparr>"

definition demo_call :: "time \<Rightarrow> limiter_call" where
  "demo_call t = \<lparr>lc_time = t, lc_transport = Replied, lc_policy = demo_policy, lc_identifier = ''ann''\<rparr>"


text \<open>A wait that earns a token with a margin of a quarter admits the caller, under any rounding.\<close>

lemma refilled_token:
  assumes rd: "rounding rd" and p: "policy_ok p" and b: "0 \<le> bk_tokens b" and ms: "0 \<le> ms" "ms \<le> 2 ^ 64"
    and wait: "5 * pol_Period p \<le> 4 * (pol_Limit p * ms * Millisecond)" and now: "now - bk_ts b = ms"
  shows "1 \<le> refilled rd (of_int (pol_Limit p)) (RefillPerSecond rd p) now b"
proof -
  note ok = policy_okD [OF p] and R = RefillPerSecond_bounds [OF rd p]
  define x where "x = (of_int ms / 1000 :: rat)"
  define refill where "refill = RefillPerSecond rd p"
  define P where "P = (of_int (pol_Period p) :: rat)"
  define L where "L = (of_int (pol_Limit p) :: rat)"
  have x: "0 \<le> x" "x \<le> huge" using ms order_trans [of x "2 ^ 64" huge] by (simp_all add: x_def huge_def)
  have P: "0 < P" using ok(4) by (simp add: P_def)
  have "(of_int (5 * pol_Period p) :: rat) \<le> of_int (4 * (pol_Limit p * ms * Millisecond))" using wait by (simp only: of_int_le_iff)
  then have "5 * P \<le> 4 * (L * x * 10 ^ 9)" by (simp add: P_def L_def x_def)
  then have "35 / 32 \<le> L / (P / 10 ^ 9) * (7 / 8) * x" using P by (simp add: field_simps)
  also have "\<dots> \<le> refill * x" using R(3) x unfolding refill_def P_def L_def by (intro mult_right_mono)
  finally have earned: "35 / 32 \<le> refill * x" .
  have "refill * (x * (1 - eps) - tiny) \<le> refill * rd x"
    using rd_lower0 [OF rd x] R(1) unfolding refill_def by (intro mult_left_mono)
  moreover have "refill * (x * (1 - eps) - tiny) = (refill * x) * (1 - eps) - refill * tiny" by (simp add: algebra_simps)
  moreover have "35 / 32 * (1 - eps) \<le> (refill * x) * (1 - eps)" using earned eps_bounds by (intro mult_right_mono) simp_all
  moreover have "refill * tiny \<le> 2 ^ 90 * tiny" using R(2) unfolding refill_def by (intro mult_right_mono) (simp_all add: less_imp_le)
  moreover have "(2::rat) ^ 90 * tiny \<le> 1 / 64" "35 / 32 * (1 - eps) \<ge> 17 / 16" by (simp_all add: tiny_def eps_def)
  ultimately have "1 \<le> refill * rd x" by linarith
  then have "1 \<le> rd x * refill" by (simp only: mult.commute)
  from rd_mono [OF rd this] have "1 \<le> bk_tokens b + rd (rd x * refill)" using rd_int [OF rd, of 1] b by simp
  from rd_mono [OF rd this] show ?thesis
    using rd_int [OF rd, of 1] ok(2) ms now by (simp add: refilled_def x_def refill_def)
qed

lemma limiter_run_append: "limiter_run rd e (cs @ ds) ks = limiter_run rd e ds (limiter_run rd e cs ks)"
  by (induction cs arbitrary: ks) simp_all

lemma limiter_run_other:
  "\<forall>c\<in>set cs. Key e (lc_policy c) (lc_identifier c) \<noteq> key \<Longrightarrow> limiter_run rd e cs ks key = ks key"
  by (induction cs arbitrary: ks) (simp_all add: limiter_step_other)

lemma rested_bucket_admits:
  assumes rd: "rounding rd" and p: "policy_ok p" and ok: "bucket_ok p (Key e p identifier) t ks"
    and c: "lc_policy c = p" "lc_identifier c = identifier" "lc_transport c = Replied" "UnixMilli (lc_time c) \<le> 2 ^ 63"
    and wait: "5 * pol_Period p \<le> 4 * (pol_Limit p * (UnixMilli (lc_time c) - t) * Millisecond)"
  shows "allows (fst (limiter_step rd e c ks))"
proof -
  note pol = policy_okD [OF p]
  let ?now = "UnixMilli (lc_time c)" and ?cap = "of_int (pol_Limit p) :: rat" and ?refill = "RefillPerSecond rd p"
  obtain b a remaining retry where script:
    "bucketScript rd ?cap ?refill ?now (live_bucket ?now ks (Key e p identifier)) = (b, a, remaining, retry)"
    by (metis prod_cases4)
  have "0 < pol_Limit p * (?now - t) * Millisecond" using wait pol(4) by simp
  then have elapsed: "t < ?now" using pol(2) by (simp add: zero_less_mult_iff)
  have "a = 1"
  proof (cases "live_bucket ?now ks (Key e p identifier)")
    case None
    then show ?thesis using script bucketScript_fresh [OF rd pol(2,3)] by simp
  next
    case (Some b0)
    then have b0: "0 \<le> bk_tokens b0" "0 \<le> bk_ts b0" "bk_ts b0 \<le> t"
      using ok by (auto simp: live_bucket_def bucket_ok_def split: option.splits if_splits)
    have "pol_Limit p * (?now - t) * Millisecond \<le> pol_Limit p * (?now - bk_ts b0) * Millisecond"
      using b0 pol(2) by (intro mult_right_mono mult_left_mono) simp_all
    then have "1 \<le> refilled rd ?cap ?refill ?now b0"
      using wait elapsed b0 c(4) by (intro refilled_token [OF rd p b0(1) _ _ _ refl]) simp_all
    then show ?thesis using script unfolding Some bucketScript_Some Let_def by simp
  qed
  then show ?thesis
    using script c pol(1) rd_int [OF rd, of "pol_Limit p"] pol(2,3)
    by (simp add: limiter_step_def Allow_def run_bucketScript_def Capacity_def allows_def decide_def toInt64_or_zero_def toInt64_def Let_def)
qed

text \<open>
  C24: a caller who waits is admitted. Take any run of the limiter from an empty keyspace, with any losses
  of the transport, in which a caller makes no call after \<open>t\<close>, whatever the others do. A call that
  reaches Redis once five quarters of a refill interval (the period over the limit) have passed is
  allowed, under any correct rounding, whether the caller was refused before or its bucket has expired.
\<close>

theorem waiting_caller_admitted:
  assumes "rounding rd" and "policy_ok p" and "0 \<le> t" and "calls_within e p (Key e p identifier) 0 t before"
    and "\<forall>x\<in>set others. Key e (lc_policy x) (lc_identifier x) \<noteq> Key e p identifier"
    and "lc_policy c = p" "lc_identifier c = identifier" "lc_transport c = Replied" "UnixMilli (lc_time c) \<le> 2 ^ 63"
    and "5 * pol_Period p \<le> 4 * (pol_Limit p * (UnixMilli (lc_time c) - t) * Millisecond)"
  shows "allows (fst (limiter_step rd e c (limiter_run rd e (before @ others) (\<lambda>_. None))))"
proof (rule rested_bucket_admits [OF assms(1,2) _ assms(6-10)])
  have "bucket_ok p (Key e p identifier) 0 (\<lambda>_. None)" by (simp add: bucket_ok_def)
  then have "bucket_ok p (Key e p identifier) t (limiter_run rd e before (\<lambda>_. None))"
    using assms(1-4) by (intro bucket_ok_run)
  then show "bucket_ok p (Key e p identifier) t (limiter_run rd e (before @ others) (\<lambda>_. None))"
    unfolding bucket_ok_def limiter_run_append limiter_run_other [OF assms(5)] .
qed

theorem waiting_caller_admitted_witness:
  "\<not> allows (fst (limiter_step (\<lambda>x. x) demo_digests (demo_call 0) (limiter_run (\<lambda>x. x) demo_digests (map demo_call [0, 0]) (\<lambda>_. None)))) \<and>
   allows (fst (limiter_step (\<lambda>x. x) demo_digests (demo_call (2 * Second))
     (limiter_run (\<lambda>x. x) demo_digests (map demo_call [0, 0, 0] @ []) (\<lambda>_. None))))"
proof -
  have "policy_ok demo_policy" by (simp add: policy_ok_def demo_policy_def validate_def)
  moreover have "calls_within demo_digests demo_policy (Key demo_digests demo_policy ''ann'') 0 0 (map demo_call [0, 0, 0])"
    by (simp add: calls_within_def demo_call_def UnixMilli_def)
  ultimately have "allows (fst (limiter_step (\<lambda>x. x) demo_digests (demo_call (2 * Second))
      (limiter_run (\<lambda>x. x) demo_digests (map demo_call [0, 0, 0] @ []) (\<lambda>_. None))))"
    by (intro waiting_caller_admitted [OF rounding_exact, of demo_policy 0 _ "''ann''"])
      (simp_all add: demo_call_def demo_policy_def UnixMilli_def)
  moreover have "\<not> allows (fst (limiter_step (\<lambda>x. x) demo_digests (demo_call 0)
      (limiter_run (\<lambda>x. x) demo_digests (map demo_call [0, 0]) (\<lambda>_. None))))"
    by code_simp
  ultimately show ?thesis by blast
qed

text \<open>
  The header \<open>Retry-After\<close> is too early. For a policy of 2 requests in 3 seconds, the third
  request at an instant is refused with a wait of 1.5 seconds, the header says 1 second, and a
  request 1 second later is refused again.
\<close>

theorem retry_after_header_too_early:
  "let step = (\<lambda>t ks. limiter_step (\<lambda>x. x) demo_digests (demo_call t) ks);
       ks2 = limiter_run (\<lambda>x. x) demo_digests [demo_call 0, demo_call 0] (\<lambda>_. None);
       refused = projr (fst (step 0 ks2))
   in \<not> de_Allowed refused \<and> de_RetryAfter refused = 1500 * Millisecond \<and> retry_seconds refused = 1 \<and>
      \<not> allows (fst (step (retry_seconds refused * Second) (snd (step 0 ks2))))"
  by code_simp

text \<open>
  Callers of different surfaces do not share a budget. Whatever the limiter does for a policy
  and a caller, the bucket of any caller under a policy of another name is untouched, so an API key
  cannot spend a user's budget; digests are 32 bytes long.
\<close>

theorem budgets_separate:
  assumes "\<forall>s. length (sha256 e s) = 32" and "pol_Name p \<noteq> pol_Name q"
  shows "snd (Allow rd e server_ms tr now p identifier ks) (Key e q other) = ks (Key e q other)"
proof -
  have "Key e q other \<noteq> Key e p identifier"
    using assms by (auto simp: Key_def length_hex_encode dest: arg_cong [where f = length])
  then show ?thesis
    by (auto simp: Allow_def run_bucketScript_def Let_def split: option.splits prod.splits transport.splits sum.splits)
qed

theorem budgets_separate_witness:
  "snd (Allow (\<lambda>x. x) demo_digests 0 Replied 0 demo_policy ''ann'' (\<lambda>_. None)) (Key demo_digests (demo_policy\<lparr>pol_Name := ''api''\<rparr>) ''ann'') = None"
proof (rule budgets_separate)
  show "\<forall>s. length (sha256 demo_digests s) = 32" by (auto simp: demo_digests_def min_def)
qed (simp add: demo_policy_def)

end
