(* ===== verification/Base64.thy ===== *)
theory Base64
  imports TF_Prelude
begin

text \<open>
  \<open>base64.RawURLEncoding.DecodeString\<close>, the inverse of \<open>base64_encode\<close>: line breaks are skipped, a
  character outside the alphabet or a dangling single digit is an error, and the unused low bits of
  the last digit are ignored, as Go does without its strict mode.
\<close>

definition base64_value :: "char \<Rightarrow> nat option" where
  "base64_value c =
     (let n = nat_of_byte c in
      if 65 \<le> n \<and> n \<le> 90 then Some (n - 65)
      else if 97 \<le> n \<and> n \<le> 122 then Some (n - 97 + 26)
      else if 48 \<le> n \<and> n \<le> 57 then Some (n - 48 + 52)
      else if c = CHR ''-'' then Some 62
      else if c = CHR ''_'' then Some 63
      else None)"

fun base64_values :: "string \<Rightarrow> nat list option" where
  "base64_values [] = Some []"
| "base64_values (c # s) =
     (case base64_value c of
        None \<Rightarrow> None
      | Some v \<Rightarrow> (case base64_values s of None \<Rightarrow> None | Some vs \<Rightarrow> Some (v # vs)))"

fun base64_bytes :: "nat list \<Rightarrow> string option" where
  "base64_bytes [] = Some []"
| "base64_bytes [a] = None"
| "base64_bytes [a, b] = Some [char_of (a * 4 + b div 16)]"
| "base64_bytes [a, b, c] = Some [char_of (a * 4 + b div 16), char_of (b mod 16 * 16 + c div 4)]"
| "base64_bytes (a # b # c # d # vs) =
     (case base64_bytes vs of
        None \<Rightarrow> None
      | Some s \<Rightarrow>
          Some (char_of (a * 4 + b div 16) # char_of (b mod 16 * 16 + c div 4) # char_of (c mod 4 * 64 + d) # s))"

definition base64_decode :: "string \<Rightarrow> string option" where
  "base64_decode s =
     (case base64_values (filter (\<lambda>c. c \<noteq> CHR 0x0A \<and> c \<noteq> CHR 0x0D) s) of
        None \<Rightarrow> None
      | Some vs \<Rightarrow> base64_bytes vs)"

lemma nat_of_byte_char_of [simp]: "k < 256 \<Longrightarrow> nat_of_byte (char_of k) = k"
  by (simp add: nat_of_byte_def)

lemma base64_value_digit: "n < 64 \<Longrightarrow> base64_value (base64_digit n) = Some n"
proof -
  assume "n < 64"
  then consider "n < 26" | "26 \<le> n" "n < 52" | "52 \<le> n" "n < 62" | "n = 62" | "n = 63" by linarith
  then show ?thesis
    by cases (auto simp: base64_digit_def base64_value_def Let_def nat_of_byte_def)
qed

lemma byte_split:
  "nat_of_byte c div 4 < 64" "nat_of_byte c mod 4 * 16 < 64" "nat_of_byte c mod 16 * 4 < 64" "nat_of_byte c mod 64 < 64"
  "nat_of_byte a mod 4 * 16 + nat_of_byte b div 16 < 64" "nat_of_byte b mod 16 * 4 + nat_of_byte c div 64 < 64"
proof -
  have "nat_of_byte x div 16 < 16" "nat_of_byte x div 64 < 4" "nat_of_byte x div 4 < 64"
    "nat_of_byte x mod 4 < 4" "nat_of_byte x mod 16 < 16" "nat_of_byte x mod 64 < 64" for x
    using nat_of_byte_less [of x] by (simp_all add: less_mult_imp_div_less)
  from this [of a] this [of b] this [of c] show
    "nat_of_byte c div 4 < 64" "nat_of_byte c mod 4 * 16 < 64" "nat_of_byte c mod 16 * 4 < 64" "nat_of_byte c mod 64 < 64"
    "nat_of_byte a mod 4 * 16 + nat_of_byte b div 16 < 64" "nat_of_byte b mod 16 * 4 + nat_of_byte c div 64 < 64"
    by linarith+
qed

lemma char_of_nat_of_byte [simp]: "char_of (nat_of_byte c) = c"
  by (simp add: nat_of_byte_def)

lemma base64_bytes_split:
  "x div 4 * 4 + (x mod 4 * 16 + y div 16) div 16 = x" if "y < 256" for x y :: nat
proof -
  have "(x mod 4 * 16 + y div 16) div 16 = x mod 4" using that by (simp add: less_mult_imp_div_less)
  then show ?thesis by simp
qed

lemma base64_bytes_split2:
  "(x mod 4 * 16 + y div 16) mod 16 * 16 + (y mod 16 * 4 + z div 64) div 4 = y" if "y < 256" "z < 256" for x y z :: nat
proof -
  have "(y mod 16 * 4 + z div 64) div 4 = y mod 16" using that by (simp add: less_mult_imp_div_less)
  moreover have "(x mod 4 * 16 + y div 16) mod 16 = y div 16" using that by (simp add: less_mult_imp_div_less)
  ultimately show ?thesis by simp
qed

lemma base64_bytes_split3:
  "(y mod 16 * 4 + z div 64) mod 4 * 64 + z mod 64 = z" if "z < 256" for y z :: nat
proof -
  have "(y mod 16 * 4 + z div 64) mod 4 = z div 64" using that by (simp add: less_mult_imp_div_less)
  then show ?thesis by simp
qed

lemma base64_decode_values:
  "\<exists>vs. base64_values (base64_encode s) = Some vs \<and> base64_bytes vs = Some s"
proof (induction s rule: base64_encode.induct)
  case (2 a)
  then show ?case
    using base64_bytes_split [of 0 "nat_of_byte a"] by (simp add: Let_def base64_value_digit byte_split)
next
  case (3 a b)
  then show ?case
    using base64_bytes_split [of "nat_of_byte b" "nat_of_byte a"] base64_bytes_split2 [of "nat_of_byte b" 0 "nat_of_byte a"]
    by (simp add: Let_def base64_value_digit byte_split)
next
  case (4 a b c s)
  then obtain vs where "base64_values (base64_encode s) = Some vs" "base64_bytes vs = Some s" by blast
  then show ?case
    using base64_bytes_split [of "nat_of_byte b" "nat_of_byte a"]
      base64_bytes_split2 [of "nat_of_byte b" "nat_of_byte c" "nat_of_byte a"]
      base64_bytes_split3 [of "nat_of_byte c" "nat_of_byte b"]
    by (simp add: Let_def base64_value_digit byte_split)
qed simp

lemma base64_digits_no_break: "filter (\<lambda>c. c \<noteq> CHR 0x0A \<and> c \<noteq> CHR 0x0D) (base64_encode s) = base64_encode s"
proof -
  have "is_base64url_char c \<Longrightarrow> c \<noteq> CHR 0x0A \<and> c \<noteq> CHR 0x0D" for c
    by (auto simp: is_base64url_char_def is_upper_ascii_def is_lower_ascii_def is_digit_def)
  then show ?thesis using base64_encode_alphabet [of s] by (auto simp: list_all_iff)
qed

lemma base64_roundtrip: "base64_decode (base64_encode s) = Some s"
  using base64_decode_values [of s] by (auto simp: base64_decode_def base64_digits_no_break)

end
