(* ===== verification/Jobs.thy ===== *)
theory Jobs
  imports Store Base64 Floats
begin

text \<open>
  The job queue, \<open>internal/jobs/jobs.go\<close>: jobs are sealed envelopes in a Redis stream with a
  consumer group, failed jobs wait in a sorted set for their next attempt, and jobs that cannot
  succeed end in a dead-letter stream.

  The Redis commands the queue uses act on \<open>jobs_redis\<close> as their documentation says (XADD, XACK,
  XDEL, XREADGROUP, XAUTOCLAIM, ZADD, ZREM, ZRANGEBYSCORE). AES-GCM and the JSON form of a job are
  parameters (\<open>queue_lib\<close>), as is the number of entries an approximate trim drops and the
  random number \<open>rand.Int\<close> draws. Every call of Redis may fail before or after it took effect
  and a pipeline may be cut between two commands.
\<close>

section \<open>Data\<close>

definition deadStreamMaxLen :: nat where "deadStreamMaxLen = 10000"
definition maxErrorLength :: nat where "maxErrorLength = 500"

record Job =
  jb_ID :: string
  jb_Type :: string
  jb_Payload :: "string option"
  jb_Attempts :: int
  jb_MaxAttempts :: int
  jb_EnqueuedAt :: time
  jb_LastError :: string

definition Job0 :: Job where
  "Job0 = \<lparr>jb_ID = [], jb_Type = [], jb_Payload = None, jb_Attempts = 0, jb_MaxAttempts = 0, jb_EnqueuedAt = 0,
           jb_LastError = []\<rparr>"

record Delivery =
  dl_ID :: nat
  dl_Job :: Job

definition Permanent :: "err option \<Rightarrow> err option" where
  "Permanent e = (case e of None \<Rightarrow> None | Some er \<Rightarrow> Some (PermanentError er))"

fun IsPermanent :: "err \<Rightarrow> bool" where
  "IsPermanent (PermanentError e) \<longleftrightarrow> True"
| "IsPermanent (Wrapped t e) \<longleftrightarrow> IsPermanent e"
| "IsPermanent (APIError n c m d (Some e)) \<longleftrightarrow> IsPermanent e"
| "IsPermanent _ \<longleftrightarrow> False"

record queue_lib =
  aead_Seal :: "string \<Rightarrow> string \<Rightarrow> string \<Rightarrow> string"
  aead_Open :: "string \<Rightarrow> string \<Rightarrow> string \<Rightarrow> string option"
  job_Marshal :: "Job \<Rightarrow> err + string"
  job_Unmarshal :: "string \<Rightarrow> err + Job"
  redis_trims :: "nat \<Rightarrow> nat"
  rand_Int :: "nat \<Rightarrow> int \<Rightarrow> int"
  float_rd :: "rat \<Rightarrow> rat"

definition NonceSize :: nat where "NonceSize = 12"

record Options =
  op_EncryptionKey :: string
  op_MaxAttempts :: int
  op_RetryBaseDelay :: duration
  op_RetryMaxDelay :: duration

record Queue =
  q_lib :: queue_lib
  q_aead :: string
  q_maxAttempts :: int
  q_baseDelay :: duration
  q_maxDelay :: duration

definition newAEAD :: "env \<Rightarrow> string \<Rightarrow> err + string" where
  "newAEAD e keyMaterial =
     (if keyMaterial = [] then Inl (Message ''jobs: an encryption key is required for job payloads'')
      else
        let sum = sha256 e (''teamflow/jobs/v1'' @ [CHR 0x00] @ keyMaterial)
        in if length sum \<in> {16, 24, 32} then Inr sum
           else Inl (wrap ''jobs: build cipher'' (Message ''crypto/aes: invalid key size'')))"

definition NewQueue :: "env \<Rightarrow> queue_lib \<Rightarrow> bool \<Rightarrow> Options \<Rightarrow> err + Queue" where
  "NewQueue e lib rdb_nil opts =
     (if rdb_nil then Inl (Message ''jobs: redis client is required'')
      else
        (case newAEAD e (op_EncryptionKey opts) of
           Inl er \<Rightarrow> Inl er
         | Inr aead \<Rightarrow>
             let maxAttempts = (if op_MaxAttempts opts < 1 then 1 else op_MaxAttempts opts);
                 baseDelay = (if op_RetryBaseDelay opts \<le> 0 then 30 * Second else op_RetryBaseDelay opts);
                 maxDelay = (if op_RetryMaxDelay opts < baseDelay then baseDelay else op_RetryMaxDelay opts)
             in Inr \<lparr>q_lib = lib, q_aead = aead, q_maxAttempts = maxAttempts, q_baseDelay = baseDelay,
                     q_maxDelay = maxDelay\<rparr>))"

section \<open>Envelopes\<close>

definition seal :: "Queue \<Rightarrow> Job \<Rightarrow> string io" where
  "seal q job =
     (case job_Marshal (q_lib q) job of
        Inl e \<Rightarrow> io_throw (wrap ''jobs: encode job'' e)
      | Inr raw \<Rightarrow>
          io_try (rand_Read NonceSize) (wrap ''jobs: generate nonce'') (\<lambda>nonce.
            io_return (base64_encode (nonce @ aead_Seal (q_lib q) (q_aead q) nonce raw))))"

definition open_job :: "Queue \<Rightarrow> string \<Rightarrow> err + Job" where
  "open_job q sealed =
     (case base64_decode sealed of
        None \<Rightarrow> Inl (wrap ''jobs: decode payload'' (Message ''illegal base64 data''))
      | Some blob \<Rightarrow>
          if length blob < NonceSize then Inl (Message ''jobs: payload is truncated'')
          else
            (case aead_Open (q_lib q) (q_aead q) (take NonceSize blob) (drop NonceSize blob) of
               None \<Rightarrow> Inl (Message ''jobs: payload failed authentication'')
             | Some raw \<Rightarrow>
                 (case job_Unmarshal (q_lib q) raw of
                    Inl e \<Rightarrow> Inl (wrap ''jobs: decode job'' e)
                  | Inr job \<Rightarrow> Inr job)))"

section \<open>Redis commands\<close>

definition xadd :: "string \<Rightarrow> jobs_redis \<Rightarrow> jobs_redis" where
  "xadd sealed r = r\<lparr>jr_stream := jr_stream r @ [(jr_next r, Some sealed)], jr_next := Suc (jr_next r)\<rparr>"

definition xadd_dead :: "(nat \<Rightarrow> nat) \<Rightarrow> string \<Rightarrow> jobs_redis \<Rightarrow> jobs_redis" where
  "xadd_dead trims sealed r =
     (let dead = jr_dead r @ [sealed] in r\<lparr>jr_dead := drop (trims (length dead)) dead\<rparr>)"

definition xack :: "nat \<Rightarrow> jobs_redis \<Rightarrow> jobs_redis" where
  "xack entry r = r\<lparr>jr_pending := filter (\<lambda>(i, _). i \<noteq> entry) (jr_pending r)\<rparr>"

definition xdel :: "nat \<Rightarrow> jobs_redis \<Rightarrow> jobs_redis" where
  "xdel entry r = r\<lparr>jr_stream := filter (\<lambda>(i, _). i \<noteq> entry) (jr_stream r)\<rparr>"

definition zadd :: "string \<Rightarrow> int \<Rightarrow> jobs_redis \<Rightarrow> jobs_redis" where
  "zadd member score r = r\<lparr>jr_retry := filter (\<lambda>(x, _). x \<noteq> member) (jr_retry r) @ [(member, score)]\<rparr>"

definition zrem :: "string \<Rightarrow> jobs_redis \<Rightarrow> jobs_redis" where
  "zrem member r = r\<lparr>jr_retry := filter (\<lambda>(x, _). x \<noteq> member) (jr_retry r)\<rparr>"

definition zrange_due :: "int \<Rightarrow> nat \<Rightarrow> jobs_redis \<Rightarrow> string list" where
  "zrange_due now_ms n r =
     take n (map fst (sort_key (\<lambda>(x, s). s) (sort_key fst (filter (\<lambda>(_, s). s \<le> now_ms) (jr_retry r)))))"

definition limit_count :: "int \<Rightarrow> 'a list \<Rightarrow> 'a list" where
  "limit_count n xs = (if n > 0 then take (nat n) xs else xs)"

definition xreadgroup :: "string \<Rightarrow> int \<Rightarrow> int \<Rightarrow> jobs_redis \<Rightarrow> err + ((nat \<times> string option) list \<times> jobs_redis)" where
  "xreadgroup consumer n now_ms r =
     (if \<not> jr_group r then Inl (Message ''NOGROUP No such key or consumer group'')
      else
        let new = limit_count n (filter (\<lambda>(i, _). i > jr_delivered r) (jr_stream r))
        in if new = [] then throw_sentinel ErrRedisNil
           else Inr (new, r\<lparr>jr_delivered := fst (List.last new),
                            jr_pending := jr_pending r @ map (\<lambda>(i, _). (i, consumer, now_ms)) new\<rparr>))"

text \<open>
  XAUTOCLAIM from the start of the pending entries: an entry deleted from the stream leaves the
  list, one idle long enough goes to the new consumer; deleted and claimed ones count towards the
  limit, and at most ten times as many entries are scanned.
\<close>

fun autoclaim_scan ::
  "nat \<Rightarrow> nat \<Rightarrow> int \<Rightarrow> string \<Rightarrow> int \<Rightarrow> (nat \<times> string option) list \<Rightarrow> (nat \<times> string \<times> int) list \<Rightarrow>
   (nat \<times> string option) list \<times> (nat \<times> string \<times> int) list" where
  "autoclaim_scan (Suc a) (Suc n) minIdle consumer now_ms stream ((i, c, t) # pel) =
     (case map_of stream i of
        None \<Rightarrow> autoclaim_scan a n minIdle consumer now_ms stream pel
      | Some v \<Rightarrow>
          if now_ms - t < minIdle then
            (let (got, rest) = autoclaim_scan a (Suc n) minIdle consumer now_ms stream pel in (got, (i, c, t) # rest))
          else
            (let (got, rest) = autoclaim_scan a n minIdle consumer now_ms stream pel
             in ((i, v) # got, (i, consumer, now_ms) # rest)))"
| "autoclaim_scan a n minIdle consumer now_ms stream pel = ([], pel)"

definition xautoclaim :: "string \<Rightarrow> int \<Rightarrow> int \<Rightarrow> int \<Rightarrow> jobs_redis \<Rightarrow> err + ((nat \<times> string option) list \<times> jobs_redis)" where
  "xautoclaim consumer minIdle_ms n now_ms r =
     (if \<not> jr_group r then Inl (Message ''NOGROUP No such key or consumer group'')
      else
        let (got, pel) = autoclaim_scan (10 * nat n) (nat n) minIdle_ms consumer now_ms (jr_stream r) (jr_pending r)
        in Inr (got, r\<lparr>jr_pending := pel\<rparr>))"

text \<open>
  A context may be cancelled or past its deadline; a Redis call with such a context returns its
  error and sends nothing.
\<close>

record ctx =
  cx_cancelled :: bool
  cx_deadline :: "time option"

definition Background :: ctx where
  "Background = \<lparr>cx_cancelled = False, cx_deadline = None\<rparr>"

definition ctx_Err :: "ctx \<Rightarrow> time \<Rightarrow> err option" where
  "ctx_Err c now =
     (if cx_cancelled c then Some (Sentinel ErrCanceled)
      else
        (case cx_deadline c of
           None \<Rightarrow> None
         | Some d \<Rightarrow> if d \<le> now then Some (Timeout ''context deadline exceeded'') else None))"

definition with_ctx :: "ctx \<Rightarrow> 'a io \<Rightarrow> 'a io" where
  "with_ctx c m w = (case ctx_Err c (clock w) of Some e \<Rightarrow> (Inl e, w) | None \<Rightarrow> m w)"

text \<open>Durations go to Redis in whole milliseconds, at least one.\<close>

definition format_ms :: "duration \<Rightarrow> int" where
  "format_ms d = (if 0 < d \<and> d < Millisecond then 1 else d div Millisecond)"

definition now_ms :: "world \<Rightarrow> int" where
  "now_ms w = clock w div Millisecond"

section \<open>The queue\<close>

definition enqueue :: "env \<Rightarrow> Queue \<Rightarrow> ctx \<Rightarrow> string \<Rightarrow> (err + string) option \<Rightarrow> duration \<Rightarrow> Job io" where
  "enqueue e q c jobType payload delay =
     (if jobType = [] then io_throw (Message ''jobs: a job type is required'')
      else
        io_try uuid_New id (\<lambda>jid.
        io_try time_Now id (\<lambda>now.
        let job0 = Job0\<lparr>jb_ID := uuid_string e jid, jb_Type := jobType, jb_MaxAttempts := q_maxAttempts q, jb_EnqueuedAt := now\<rparr>
        in case (case payload of None \<Rightarrow> Inr None | Some (Inl er) \<Rightarrow> Inl er | Some (Inr raw) \<Rightarrow> Inr (Some raw)) of
             Inl er \<Rightarrow> io_throw (wrap ''jobs: encode job payload'' er)
           | Inr raw \<Rightarrow>
               let job = job0\<lparr>jb_Payload := raw\<rparr>
               in io_try (seal q job) id (\<lambda>sealed.
                  if delay > 0 then
                    io_try time_Now id (\<lambda>now'.
                    io_try (with_ctx c (redis_call (\<lambda>w. Inr ((), zadd sealed ((now' + delay) div Millisecond) (redis w)))))
                      (wrap ''jobs: schedule job'') (\<lambda>_. io_return job))
                  else
                    io_try (with_ctx c (redis_call (\<lambda>w. Inr ((), xadd sealed (redis w))))) (wrap ''jobs: enqueue'') (\<lambda>_.
                    io_return job)))))"

definition Enqueue :: "env \<Rightarrow> Queue \<Rightarrow> ctx \<Rightarrow> string \<Rightarrow> (err + string) option \<Rightarrow> Job io" where
  "Enqueue e q c jobType payload = enqueue e q c jobType payload 0"

definition EnqueueIn :: "env \<Rightarrow> Queue \<Rightarrow> ctx \<Rightarrow> duration \<Rightarrow> string \<Rightarrow> (err + string) option \<Rightarrow> Job io" where
  "EnqueueIn e q c delay jobType payload = enqueue e q c jobType payload (if delay < 0 then 0 else delay)"

definition isBusyGroup :: "err \<Rightarrow> bool" where
  "isBusyGroup e = contains_text (error_text e) ''BUSYGROUP''"

definition xgroup_create :: "jobs_redis \<Rightarrow> err + (unit \<times> jobs_redis)" where
  "xgroup_create r =
     (if jr_group r then Inl (Message ''BUSYGROUP Consumer Group name already exists'')
      else Inr ((), r\<lparr>jr_group := True, jr_delivered := 0\<rparr>))"

definition EnsureGroup :: "ctx \<Rightarrow> unit io" where
  "EnsureGroup c =
     io_case (with_ctx c (redis_call (\<lambda>w. xgroup_create (redis w))))
       (\<lambda>e. if isBusyGroup e then io_return () else io_throw (wrap ''jobs: create consumer group'' e)) io_return"

definition to_delivery :: "Queue \<Rightarrow> nat \<times> string option \<Rightarrow> Delivery option" where
  "to_delivery q message =
     (case snd message of
        None \<Rightarrow> None
      | Some sealed \<Rightarrow>
          (case open_job q sealed of
             Inl e \<Rightarrow> Some \<lparr>dl_ID = fst message, dl_Job = Job0\<lparr>jb_LastError := error_text e\<rparr>\<rparr>
           | Inr job \<Rightarrow> Some \<lparr>dl_ID = fst message, dl_Job = job\<rparr>))"

definition Read :: "Queue \<Rightarrow> ctx \<Rightarrow> string \<Rightarrow> int \<Rightarrow> Delivery list io" where
  "Read q c consumer n =
     io_case (with_ctx c (redis_call (\<lambda>w. xreadgroup consumer n (now_ms w) (redis w))))
       (\<lambda>e. if errors_Is e ErrRedisNil then io_return [] else io_throw e)
       (\<lambda>messages. io_return (List.map_filter (to_delivery q) messages))"

definition RecoverStale :: "Queue \<Rightarrow> ctx \<Rightarrow> string \<Rightarrow> duration \<Rightarrow> int \<Rightarrow> Delivery list io" where
  "RecoverStale q c consumer minIdle n =
     io_case (with_ctx c (redis_call (\<lambda>w. xautoclaim consumer (format_ms minIdle) n (now_ms w) (redis w))))
       (\<lambda>e. if errors_Is e ErrRedisNil then io_return [] else io_throw e)
       (\<lambda>messages. io_return (List.map_filter (to_delivery q) messages))"

definition Ack :: "ctx \<Rightarrow> Delivery \<Rightarrow> unit io" where
  "Ack c d = io_try (with_ctx c (redis_pipeline [xack (dl_ID d), xdel (dl_ID d)])) (wrap ''jobs: acknowledge job'') io_return"

definition truncate_text :: "string \<Rightarrow> nat \<Rightarrow> string" where
  "truncate_text s n = (if length s \<le> n then s else take n s)"

text \<open>
  The delay before an attempt. The product is a \<open>float64\<close>; its conversion to an \<open>int64\<close> that does
  not fit gives the smallest one on amd64, which the guard replaces.
\<close>

definition backoff_delay :: "Queue \<Rightarrow> int \<Rightarrow> duration" where
  "backoff_delay q attempt =
     (let attempt' = (if attempt < 1 then 1 else attempt);
          shift = nat (min (attempt' - 1) 32);
          product = float_rd (q_lib q) (of_int (q_baseDelay q)) * 2 ^ shift;
          delay = (if product < 2 ^ 63 then \<lfloor>product\<rfloor> else - (2 ^ 63))
      in if delay > q_maxDelay q \<or> delay \<le> 0 then q_maxDelay q else delay)"

definition backoff :: "Queue \<Rightarrow> int \<Rightarrow> duration io" where
  "backoff q attempt =
     (let delay = backoff_delay q attempt;
          jitterMax = delay div 2
      in if jitterMax \<le> 0 then io_return delay
         else
           io_case (rand_Read 8) (\<lambda>_. io_return delay) (\<lambda>_ w.
             (Inr (delay + rand_Int (q_lib q) (entropy_pos w) jitterMax), w)))"

definition exhausted :: "Job \<Rightarrow> err \<Rightarrow> bool" where
  "exhausted job cause \<longleftrightarrow> IsPermanent cause \<or> jb_MaxAttempts job \<le> 0 \<or> jb_Attempts job \<ge> jb_MaxAttempts job"

definition failed_job :: "Delivery \<Rightarrow> err \<Rightarrow> Job" where
  "failed_job d cause =
     (dl_Job d)\<lparr>jb_Attempts := jb_Attempts (dl_Job d) + 1,
               jb_LastError := truncate_text (error_text cause) maxErrorLength\<rparr>"

text \<open>The first command of the pipeline of \<open>Fail\<close>: bury the job or schedule its next attempt.\<close>

definition failure_command :: "Queue \<Rightarrow> Job \<Rightarrow> err \<Rightarrow> string \<Rightarrow> (jobs_redis \<Rightarrow> jobs_redis) io" where
  "failure_command q job cause sealed =
     (if exhausted job cause then io_return (xadd_dead (redis_trims (q_lib q)) sealed)
      else
        io_try time_Now id (\<lambda>now.
        io_try (backoff q (jb_Attempts job)) id (\<lambda>delay.
        io_return (zadd sealed ((now + delay) div Millisecond)))))"

definition Fail :: "Queue \<Rightarrow> ctx \<Rightarrow> Delivery \<Rightarrow> err \<Rightarrow> unit io" where
  "Fail q c d cause =
     (let job = failed_job d cause
      in io_try (seal q job) id (\<lambda>sealed.
         io_try (failure_command q job cause sealed) id (\<lambda>record_failure.
         io_try (with_ctx c (redis_pipeline [record_failure, xack (dl_ID d), xdel (dl_ID d)]))
           (wrap ''jobs: record job failure'') io_return)))"

definition promote_commands :: "string list \<Rightarrow> (jobs_redis \<Rightarrow> jobs_redis) list" where
  "promote_commands due = concat (map (\<lambda>sealed. [xadd sealed, zrem sealed]) due)"

definition read_due :: "ctx \<Rightarrow> int \<Rightarrow> string list io" where
  "read_due c n = with_ctx c (redis_call (\<lambda>w. Inr (zrange_due (now_ms w) (nat n) (redis w), redis w)))"

definition PromoteDue :: "ctx \<Rightarrow> int \<Rightarrow> int io" where
  "PromoteDue c n0 =
     (let n = (if n0 \<le> 0 then 100 else n0)
      in io_try (read_due c n) (wrap ''jobs: read retry schedule'') (\<lambda>due.
         if due = [] then io_return 0
         else io_try (with_ctx c (redis_pipeline (promote_commands due))) (wrap ''jobs: promote retries'') (\<lambda>_.
           io_return (int (length due)))))"

record Stats =
  ss_StreamLength :: int
  ss_Pending :: int
  ss_RetryDue :: int
  ss_DeadLength :: int

definition queue_Stats :: "ctx \<Rightarrow> Stats io" where
  "queue_Stats c =
     io_try (with_ctx c (redis_call (\<lambda>w. let r = redis w in
        if \<not> jr_group r then Inl (Message ''NOGROUP No such key or consumer group'')
        else Inr (\<lparr>ss_StreamLength = int (length (jr_stream r)), ss_Pending = int (length (jr_pending r)),
              ss_RetryDue = int (length (filter (\<lambda>(_, s). s \<le> now_ms w) (jr_retry r))),
              ss_DeadLength = int (length (jr_dead r))\<rparr>, r))))
       (wrap ''jobs: queue stats'') io_return"

definition PendingFor :: "Queue \<Rightarrow> ctx \<Rightarrow> string \<Rightarrow> nat option io" where
  "PendingFor q c jobID =
     io_try (with_ctx c (redis_call (\<lambda>w. Inr (jr_stream (redis w), redis w)))) (wrap ''jobs: scan stream'') (\<lambda>entries.
       io_return (map_option fst (find (\<lambda>(i, v). case v of None \<Rightarrow> False
          | Some sealed \<Rightarrow> (case open_job q sealed of Inr job \<Rightarrow> jb_ID job = jobID | Inl _ \<Rightarrow> False)) entries)))"

end
