(* ===== verification/Job_Safety.thy ===== *)
theory Job_Safety
  imports Jobs
begin

text \<open>
  Correctness of the job queue. The round trip of the envelope; an abstract queue that may only
  forget a job that was acknowledged, and the refinement of it by the Redis operations under every
  fault; the bounds of the backoff.
\<close>

section \<open>Envelopes\<close>

text \<open>
  What the queue relies on: decryption inverts encryption, and JSON decoding inverts encoding. The
  second holds for jobs whose strings are valid UTF-8; \<open>encoding/json\<close> replaces other bytes, which may
  end the text of the last error when it is cut to its maximum length. Identifier, type, payload and
  counters are not affected.
\<close>

definition faithful_lib :: "queue_lib \<Rightarrow> bool" where
  "faithful_lib lib \<longleftrightarrow>
     (\<forall>k n x. aead_Open lib k n (aead_Seal lib k n x) = Some x) \<and>
     (\<forall>job raw. job_Marshal lib job = Inr raw \<longrightarrow> job_Unmarshal lib raw = Inr job)"

lemma rand_Read_Inr: "rand_Read n w = (Inr b, w') \<Longrightarrow> length b = n"
  by (auto simp: rand_Read_def split: prod.splits option.splits)

lemma rand_Read_frame: "rand_Read n w = (r, w') \<Longrightarrow> redis w' = redis w \<and> clock w' = clock w \<and> st w' = st w"
  by (auto simp: rand_Read_def dest!: next_fault_frameD split: prod.splits option.splits)

lemma seal_frame:
  assumes "seal q job w = (r, w')"
  shows "redis w' = redis w \<and> clock w' = clock w \<and> st w' = st w"
proof (cases "job_Marshal (q_lib q) job")
  case (Inl e)
  then show ?thesis using assms by (simp add: seal_def io_throw_def)
next
  case (Inr raw)
  obtain b v where b: "rand_Read NonceSize w = (b, v)" by (cases "rand_Read NonceSize w")
  then have "w' = v" using assms Inr by (auto simp: seal_def io_try_def io_case_def io_throw_def io_return_def split: sum.splits)
  then show ?thesis using rand_Read_frame [OF b] by simp
qed

lemma seal_open:
  assumes "faithful_lib (q_lib q)" and "seal q job w = (Inr sealed, w')"
  shows "open_job q sealed = Inr job"
proof -
  obtain raw where raw: "job_Marshal (q_lib q) job = Inr raw"
    using assms(2) by (auto simp: seal_def io_throw_def split: sum.splits)
  obtain nonce v where nonce: "rand_Read NonceSize w = (Inr nonce, v)"
      "sealed = base64_encode (nonce @ aead_Seal (q_lib q) (q_aead q) nonce raw)"
    using assms(2) raw by (auto simp: seal_def io_success)
  show ?thesis
    using assms(1) raw rand_Read_Inr [OF nonce(1)]
    by (simp add: open_job_def nonce(2) base64_roundtrip faithful_lib_def)
qed

text \<open>
  The envelope round trip. A job that \<open>seal\<close> wrote is the job that \<open>open\<close> reads, whatever the
  nonce, through the encoding, the split of the nonce and the decoding.
\<close>

theorem envelope_roundtrip:
  assumes "faithful_lib (q_lib q)" and "seal q job w = (Inr sealed, w')"
  shows "open_job q sealed = Inr job"
  using assms by (rule seal_open)

section \<open>Faults\<close>

lemma redis_call_cases:
  assumes "redis_call f w = (r, w')"
  obtains (unchanged) e where "r = Inl e" "redis w' = redis w" "clock w' = clock w"
  | (ran) v x r' where "redis v = redis w" "clock v = clock w" "f v = Inr (x, r')" "redis w' = r'" "clock w' = clock w"
      "r = Inr x \<or> (\<exists>e. r = Inl e)"
proof (cases rule: next_fault_cases [of w])
  case 1
  show ?thesis
  proof (cases "f (drop_fault w)")
    case (Inl e)
    then show ?thesis using assms 1 by (intro unchanged [of e]) (auto simp: redis_call_def)
  next
    case (Inr p)
    obtain x r' where p: "p = (x, r')" by (cases p)
    show ?thesis
      by (cases rule: next_fault_cases [of "(drop_fault w)\<lparr>redis := r'\<rparr>"])
        (use assms 1 Inr p in \<open>intro ran [of "drop_fault w" x r']; auto simp: redis_call_def\<close>)+
  qed
next
  case (2 e)
  then show ?thesis using assms by (intro unchanged [of e]) (auto simp: redis_call_def)
qed

lemma redis_pipeline_prefix:
  assumes "redis_pipeline cs w = (r, w')"
  shows "\<exists>k \<le> length cs. redis w' = fold (\<lambda>c x. c x) (take k cs) (redis w) \<and> (r = Inr () \<longrightarrow> k = length cs)"
  using assms
proof (induction cs arbitrary: w)
  case Nil
  then show ?case by (cases rule: next_fault_cases [of w]) auto
next
  case (Cons c cs)
  show ?case
  proof (cases rule: next_fault_cases [of w])
    case 1
    then have "redis_pipeline cs ((drop_fault w)\<lparr>redis := c (redis w)\<rparr>) = (r, w')" using Cons.prems by simp
    from Cons.IH [OF this] obtain k where "k \<le> length cs"
      "redis w' = fold (\<lambda>c x. c x) (take k cs) (c (redis w))" "r = Inr () \<longrightarrow> k = length cs" by auto
    then show ?thesis by (intro exI [of _ "Suc k"]) auto
  next
    case (2 e)
    then show ?thesis using Cons.prems by (intro exI [of _ 0]) auto
  qed
qed

section \<open>The abstract queue\<close>

text \<open>
  The envelopes a worker can still get: those in the retry set, and the stream entries that were not
  delivered yet or are pending. An entry that is neither is garbage a cut pipeline left.
\<close>

definition waiting :: "jobs_redis \<Rightarrow> string set" where
  "waiting r = fst ` set (jr_retry r) \<union>
     {s. \<exists>i. (i, Some s) \<in> set (jr_stream r) \<and> (jr_delivered r < i \<or> i \<in> fst ` set (jr_pending r))}"

definition ids_of :: "Queue \<Rightarrow> string \<Rightarrow> string set" where
  "ids_of q sealed = (case open_job q sealed of Inr job \<Rightarrow> {jb_ID job} | Inl _ \<Rightarrow> {})"

definition outstanding :: "Queue \<Rightarrow> jobs_redis \<Rightarrow> string set" where
  "outstanding q r = (\<Union>s\<in>waiting r. ids_of q s)"

definition buried :: "Queue \<Rightarrow> jobs_redis \<Rightarrow> string set" where
  "buried q r = (\<Union>s\<in>set (jr_dead r). ids_of q s)"

text \<open>The shape of the stream and its group, and of the deliveries workers hold.\<close>

definition stream_ok :: "jobs_redis \<Rightarrow> bool" where
  "stream_ok r \<longleftrightarrow>
     sorted_wrt (<) (map fst (jr_stream r)) \<and> (\<forall>i\<in>fst ` set (jr_stream r). 0 < i \<and> i < jr_next r) \<and>
     jr_delivered r < jr_next r \<and> (\<forall>i\<in>fst ` set (jr_pending r). i \<le> jr_delivered r) \<and>
     (\<not> jr_group r \<longrightarrow> jr_delivered r = 0 \<and> jr_pending r = [])"

definition held_ok :: "Queue \<Rightarrow> jobs_redis \<Rightarrow> Delivery \<Rightarrow> bool" where
  "held_ok q r d \<longleftrightarrow>
     dl_ID d < jr_next r \<and> (\<forall>v. (dl_ID d, v) \<in> set (jr_stream r) \<longrightarrow> to_delivery q (dl_ID d, v) = Some d)"

lemma waiting_simps:
  "stream_ok r \<Longrightarrow> waiting (xadd s r) = insert s (waiting r)"
  "waiting (zadd s t r) = insert s (waiting r)"
  "waiting (xadd_dead f s r) = waiting r"
  by (auto simp: waiting_def xadd_def zadd_def xadd_dead_def stream_ok_def Let_def image_iff)

lemma stream_ok_commands:
  "stream_ok r \<Longrightarrow> stream_ok (xadd s r)" "stream_ok (zadd s t r) = stream_ok r" "stream_ok (zrem s r) = stream_ok r"
  "stream_ok (xadd_dead f s r) = stream_ok r" "stream_ok r \<Longrightarrow> stream_ok (xack i r)" "stream_ok r \<Longrightarrow> stream_ok (xdel i r)"
  by (auto simp: stream_ok_def xadd_def zadd_def zrem_def xadd_dead_def xack_def xdel_def Let_def sorted_wrt_append
      less_Suc_eq sorted_wrt_filter sorted_wrt_map filter_map o_def)

lemma held_ok_commands:
  "stream_ok r \<Longrightarrow> held_ok q r d \<Longrightarrow> held_ok q (xadd s r) d" "held_ok q (zadd s t r) d = held_ok q r d"
  "held_ok q (zrem s r) d = held_ok q r d"
  "held_ok q (xadd_dead f s r) d = held_ok q r d" "held_ok q r d \<Longrightarrow> held_ok q (xack i r) d" "held_ok q r d \<Longrightarrow> held_ok q (xdel i r) d"
  by (auto simp: held_ok_def xadd_def zadd_def zrem_def xadd_dead_def xack_def xdel_def Let_def)

text \<open>Acknowledging and deleting an entry takes only its envelope out.\<close>

lemma waiting_acked:
  assumes "stream_ok r"
  shows "waiting (xack i r) \<subseteq> waiting r" "waiting (xdel i r) \<subseteq> waiting r"
    "waiting r \<subseteq> waiting (xack i r) \<union> {s. (i, Some s) \<in> set (jr_stream r)}"
    "waiting r \<subseteq> waiting (xdel i r) \<union> {s. (i, Some s) \<in> set (jr_stream r)}"
proof -
  have "j \<in> fst ` set (jr_pending (xack i r)) \<longleftrightarrow> j \<in> fst ` set (jr_pending r) \<and> j \<noteq> i" for j
    by (force simp: xack_def)
  then show "waiting (xack i r) \<subseteq> waiting r" "waiting r \<subseteq> waiting (xack i r) \<union> {s. (i, Some s) \<in> set (jr_stream r)}"
    by (auto simp: waiting_def xack_def)
qed (auto simp: waiting_def xdel_def)

lemma outstanding_acked:
  assumes "stream_ok r" and held: "held_ok q r d" and i: "i = dl_ID d"
  shows "outstanding q (xack i r) \<subseteq> outstanding q r" "outstanding q (xdel i r) \<subseteq> outstanding q r"
    "outstanding q r - {jb_ID (dl_Job d)} \<subseteq> outstanding q (xack i r)"
    "outstanding q r - {jb_ID (dl_Job d)} \<subseteq> outstanding q (xdel i r)"
proof -
  have own: "ids_of q s \<subseteq> {jb_ID (dl_Job d)}" if "(i, Some s) \<in> set (jr_stream r)" for s
  proof -
    have "to_delivery q (i, Some s) = Some d" using held that i by (auto simp: held_ok_def)
    then show ?thesis by (auto simp: to_delivery_def ids_of_def split: sum.splits)
  qed
  note w = waiting_acked [OF assms(1), of i]
  show "outstanding q (xack i r) \<subseteq> outstanding q r" "outstanding q (xdel i r) \<subseteq> outstanding q r"
    using w(1,2) by (auto simp: outstanding_def)
  show "outstanding q r - {jb_ID (dl_Job d)} \<subseteq> outstanding q (xack i r)"
    "outstanding q r - {jb_ID (dl_Job d)} \<subseteq> outstanding q (xdel i r)"
    using w(3,4) own by (fastforce simp: outstanding_def)+
qed

lemma buried_commands:
  "buried q (xadd s r) = buried q r" "buried q (zadd s t r) = buried q r" "buried q (zrem s r) = buried q r"
  "buried q (xack i r) = buried q r" "buried q (xdel i r) = buried q r"
  by (simp_all add: buried_def xadd_def zadd_def zrem_def xack_def xdel_def)

lemma buried_dead:
  assumes "f (Suc (length (jr_dead r))) \<le> length (jr_dead r)"
  shows "buried q (xadd_dead f s r) \<subseteq> ids_of q s \<union> buried q r" "ids_of q s \<subseteq> buried q (xadd_dead f s r)"
  using assms by (auto simp: buried_def xadd_dead_def Let_def dest: in_set_dropD)

lemma outstanding_simps:
  "stream_ok r \<Longrightarrow> outstanding q (xadd s r) = ids_of q s \<union> outstanding q r"
  "outstanding q (zadd s t r) = ids_of q s \<union> outstanding q r"
  "outstanding q (xadd_dead f s r) = outstanding q r"
  by (auto simp: outstanding_def waiting_simps)

lemma stream_entry_unique:
  assumes "stream_ok r" "(i, v) \<in> set (jr_stream r)" "(i, v') \<in> set (jr_stream r)"
  shows "v = v'"
proof -
  have "distinct (map fst (jr_stream r))"
    using assms(1) by (simp add: stream_ok_def strict_sorted_iff)
  then show ?thesis using assms(2,3) by (metis map_of_eq_Some_iff option.inject)
qed

text \<open>
  A relation between the Redis state before and after a queue operation on behalf of the job \<open>j\<close>:
  the shape is kept, what workers hold stays valid, and only the job \<open>j\<close> may leave the queue.
\<close>

definition releases :: "Queue \<Rightarrow> string \<Rightarrow> jobs_redis \<Rightarrow> jobs_redis \<Rightarrow> bool" where
  "releases q j r r' \<longleftrightarrow>
     stream_ok r' \<and> (\<forall>d. held_ok q r d \<longrightarrow> held_ok q r' d) \<and>
     outstanding q r - {j} \<subseteq> outstanding q r' \<and> outstanding q r' \<subseteq> outstanding q r \<and> buried q r' = buried q r"

lemma releases_refl: "stream_ok r \<Longrightarrow> releases q j r r"
  by (auto simp: releases_def)

lemma releases_trans: "releases q j r r' \<Longrightarrow> releases q j r' r'' \<Longrightarrow> releases q j r r''"
  by (auto simp: releases_def)

lemma releases_ack:
  assumes "stream_ok r" "held_ok q r d"
  shows "releases q (jb_ID (dl_Job d)) r (xack (dl_ID d) r)" "releases q (jb_ID (dl_Job d)) r (xdel (dl_ID d) r)"
  using outstanding_acked [OF assms refl] assms
  by (auto simp: releases_def stream_ok_commands held_ok_commands buried_commands)

lemma releases_ack_prefix:
  assumes "stream_ok r" "held_ok q r d" "k \<le> 2"
  shows "releases q (jb_ID (dl_Job d)) r (fold (\<lambda>c x. c x) (take k [xack (dl_ID d), xdel (dl_ID d)]) r)"
proof -
  have 1: "releases q (jb_ID (dl_Job d)) r (xack (dl_ID d) r)" by (rule releases_ack(1) [OF assms(1,2)])
  have 2: "releases q (jb_ID (dl_Job d)) (xack (dl_ID d) r) (xdel (dl_ID d) (xack (dl_ID d) r))"
    using assms by (intro releases_ack(2) stream_ok_commands held_ok_commands)
  consider "k = 0" | "k = 1" | "k = 2" using assms(3) by linarith
  then show ?thesis
    by cases (use releases_refl [OF assms(1)] 1 releases_trans [OF 1 2] in simp_all)
qed

lemma retry_untouched: "fst ` set (jr_retry r) \<subseteq> waiting r"
  "jr_retry (fold (\<lambda>c x. c x) (take k [xack i, xdel i]) r) = jr_retry r"
  by (simp_all add: waiting_def take_Cons' xack_def xdel_def)

section \<open>The effect of each operation\<close>

lemma with_ctx_cases:
  assumes "with_ctx c m w = (r, w')"
  obtains e where "r = Inl e" "w' = w" | "m w = (r, w')"
  using assms by (auto simp: with_ctx_def split: option.splits)

lemma Ack_effect:
  assumes "stream_ok (redis w)" "held_ok q (redis w) d" "Ack c d w = (r, w')"
  shows "releases q (jb_ID (dl_Job d)) (redis w) (redis w')"
proof -
  obtain r1 w1 where run: "with_ctx c (redis_pipeline [xack (dl_ID d), xdel (dl_ID d)]) w = (r1, w1)"
    by (cases "with_ctx c (redis_pipeline [xack (dl_ID d), xdel (dl_ID d)]) w")
  have w': "w' = w1" using assms(3) run
    by (auto simp: Ack_def io_try_def io_case_def io_return_def io_throw_def split: sum.splits)
  from run show ?thesis
  proof (cases rule: with_ctx_cases)
    case (1 e)
    then show ?thesis using w' releases_refl [OF assms(1)] by simp
  next
    case 2
    from redis_pipeline_prefix [OF 2] obtain k where "k \<le> length [xack (dl_ID d), xdel (dl_ID d)]"
      "redis w1 = fold (\<lambda>c x. c x) (take k [xack (dl_ID d), xdel (dl_ID d)]) (redis w)" by blast
    then show ?thesis using w' releases_ack_prefix [OF assms(1,2), of k] by simp
  qed
qed

lemma backoff_frame: "backoff q n w = (r, w') \<Longrightarrow> redis w' = redis w"
  by (auto simp: backoff_def Let_def io_return_def io_case_def dest: rand_Read_frame split: if_splits prod.splits sum.splits)

text \<open>What \<open>Fail\<close> does: it records the job under its identifier, then releases the entry.\<close>

definition failure_record :: "Queue \<Rightarrow> Delivery \<Rightarrow> err \<Rightarrow> string \<Rightarrow> (jobs_redis \<Rightarrow> jobs_redis) \<Rightarrow> bool" where
  "failure_record q d cause sealed rec \<longleftrightarrow>
     (if exhausted (failed_job d cause) cause then rec = xadd_dead (redis_trims (q_lib q)) sealed else \<exists>t. rec = zadd sealed t)"

lemma Fail_cases:
  assumes "Fail q c d cause w = (r, w')"
  obtains "redis w' = redis w" "\<exists>e. r = Inl e"
  | sealed rec k where "open_job q sealed = Inr (failed_job d cause) \<or> \<not> faithful_lib (q_lib q)"
      "failure_record q d cause sealed rec" "k \<le> 2" "r = Inr () \<longrightarrow> k = 2"
      "redis w' = fold (\<lambda>c x. c x) (take k [xack (dl_ID d), xdel (dl_ID d)]) (rec (redis w))"
proof -
  let ?job = "failed_job d cause"
  let ?choose = "failure_command q ?job cause"
  let ?pipe = "\<lambda>rec. [rec, xack (dl_ID d), xdel (dl_ID d)]"
  obtain s1 w1 where s1: "seal q ?job w = (s1, w1)" by (cases "seal q ?job w")
  note frame1 = seal_frame [OF s1]
  have run: "io_try (seal q ?job) id (\<lambda>sealed. io_try (?choose sealed) id (\<lambda>rec.
      io_try (with_ctx c (redis_pipeline (?pipe rec))) (wrap ''jobs: record job failure'') io_return)) w = (r, w')"
    using assms by (simp add: Fail_def Let_def)
  show thesis
  proof (cases s1)
    case (Inl e)
    then show ?thesis using run s1 frame1 by (intro that(1)) (auto simp: io_simps)
  next
    case (Inr sealed)
    obtain c2 w2 where c2: "?choose sealed w1 = (c2, w2)" by (cases "?choose sealed w1")
    have frame2: "redis w2 = redis w1"
      using c2 by (auto simp: failure_command_def io_return_def io_try_def io_case_def io_throw_def time_Now_def
          dest: backoff_frame split: if_splits prod.splits sum.splits)
    show ?thesis
    proof (cases c2)
      case (Inl e)
      then show ?thesis using run s1 Inr c2 frame1 frame2 by (intro that(1)) (auto simp: io_simps)
    next
      case rec: (Inr rec)
      have choice: "failure_record q d cause sealed rec"
        using c2 rec by (auto simp: failure_command_def failure_record_def io_return_def io_try_def io_case_def io_throw_def time_Now_def
            split: if_splits prod.splits sum.splits)
      obtain r3 w3 where r3: "with_ctx c (redis_pipeline (?pipe rec)) w2 = (r3, w3)"
        by (cases "with_ctx c (redis_pipeline (?pipe rec)) w2")
      have end_state: "w' = w3" "r = Inr () \<longrightarrow> r3 = Inr ()" "isl r3 \<Longrightarrow> isl r"
        using run s1 Inr c2 rec r3 by (auto simp: io_simps io_try_def io_case_def io_return_def io_throw_def split: sum.splits)
      from r3 show ?thesis
      proof (cases rule: with_ctx_cases)
        case (1 e)
        then show ?thesis using end_state frame1 frame2 by (intro that(1)) (auto simp: isl_def)
      next
        case 2
        from redis_pipeline_prefix [OF 2] obtain k where k: "k \<le> length (?pipe rec)"
          "redis w3 = fold (\<lambda>c x. c x) (take k (?pipe rec)) (redis w2)" "r3 = Inr () \<longrightarrow> k = length (?pipe rec)" by blast
        show ?thesis
        proof (cases k)
          case 0
          then show ?thesis using k end_state frame1 frame2 by (intro that(1)) (cases r3; auto simp: isl_def)+
        next
          case (Suc k')
          then show ?thesis
            using k end_state frame1 frame2 choice seal_open [of q ?job w sealed w1] s1 Inr
            by (intro that(2) [of sealed rec k']) auto
        qed
      qed
    qed
  qed
qed

text \<open>The abstract queue: who may leave it under which operation.\<close>

datatype queue_label =
    LInternal
  | LEnqueue string bool
  | LAck string
  | LFail string

fun spec_step :: "queue_label \<Rightarrow> string set \<times> string set \<Rightarrow> string set \<times> string set \<Rightarrow> bool" where
  "spec_step LInternal (P, D) (P', D') \<longleftrightarrow> P' = P \<and> D' = D"
| "spec_step (LEnqueue j accepted) (P, D) (P', D') \<longleftrightarrow>
     P \<subseteq> P' \<and> P' \<subseteq> insert j P \<and> (accepted \<longrightarrow> j \<in> P') \<and> D' = D"
| "spec_step (LAck j) (P, D) (P', D') \<longleftrightarrow> P - {j} \<subseteq> P' \<and> P' \<subseteq> P \<and> D' = D"
| "spec_step (LFail j) (P, D) (P', D') \<longleftrightarrow>
     P - {j} \<subseteq> P' \<and> P' \<subseteq> insert j P \<and> D' \<subseteq> insert j D \<and> (j \<in> P \<longrightarrow> j \<in> P' \<union> D')"

definition abs_queue :: "Queue \<Rightarrow> jobs_redis \<Rightarrow> string set \<times> string set" where
  "abs_queue q r = (outstanding q r, buried q r)"

definition keeps_shape :: "Queue \<Rightarrow> jobs_redis \<Rightarrow> jobs_redis \<Rightarrow> bool" where
  "keeps_shape q r r' \<longleftrightarrow> stream_ok r' \<and> (\<forall>d. held_ok q r d \<longrightarrow> held_ok q r' d)"

definition trims_old :: "queue_lib \<Rightarrow> bool" where
  "trims_old lib \<longleftrightarrow> (\<forall>n. redis_trims lib n \<le> n - deadStreamMaxLen)"

lemma Fail_effect:
  assumes lib: "faithful_lib (q_lib q)" "trims_old (q_lib q)" and ok: "stream_ok (redis w)" "held_ok q (redis w) d"
    and run: "Fail q c d cause w = (r, w')"
  shows "keeps_shape q (redis w) (redis w') \<and>
         spec_step (LFail (jb_ID (dl_Job d))) (abs_queue q (redis w)) (abs_queue q (redis w'))"
  using run
proof (cases rule: Fail_cases)
  case 1
  then show ?thesis using ok by (auto simp: keeps_shape_def abs_queue_def)
next
  case (2 sealed rec k)
  let ?j = "jb_ID (dl_Job d)" and ?r1 = "rec (redis w)"
  have ids: "ids_of q sealed = {?j}" using 2(1) lib(1) by (simp add: ids_of_def failed_job_def)
  have r1: "stream_ok ?r1" "\<And>d'. held_ok q (redis w) d' \<Longrightarrow> held_ok q ?r1 d'"
    using 2(2) ok by (auto simp: failure_record_def stream_ok_commands held_ok_commands split: if_splits)
  note rel = releases_ack_prefix [OF r1(1) r1(2) [OF ok(2)] 2(3), folded 2(5)]
  have shape: "keeps_shape q (redis w) (redis w')" using rel r1 by (auto simp: releases_def keeps_shape_def)
  show ?thesis
  proof (cases "exhausted (failed_job d cause) cause")
    case True
    then have rec: "rec = xadd_dead (redis_trims (q_lib q)) sealed" using 2(2) by (simp add: failure_record_def)
    have "redis_trims (q_lib q) (Suc (length (jr_dead (redis w)))) \<le> length (jr_dead (redis w))"
      using lib(2) unfolding trims_old_def deadStreamMaxLen_def
      by (metis diff_Suc_Suc diff_le_self le_trans numeral_eq_Suc)
    from buried_dead [of "redis_trims (q_lib q)", OF this, of q sealed] show ?thesis
      using shape rel rec ids by (auto simp: releases_def abs_queue_def outstanding_simps)
  next
    case False
    then obtain t where rec: "rec = zadd sealed t" using 2(2) by (auto simp: failure_record_def)
    have "sealed \<in> waiting (redis w')"
      using retry_untouched(1) [of "redis w'"] unfolding 2(5) retry_untouched(2) rec by (auto simp: zadd_def)
    then have "?j \<in> outstanding q (redis w')" using ids by (auto simp: outstanding_def)
    then show ?thesis
      using shape rel rec ids by (auto simp: releases_def abs_queue_def outstanding_simps buried_commands)
  qed
qed

text \<open>Promotion copies an envelope to the stream before it leaves the retry set.\<close>

lemma promote_prefix:
  assumes "stream_ok r" "\<forall>s\<in>set due. ids_of q s \<subseteq> outstanding q r"
  shows "keeps_shape q r (fold (\<lambda>c x. c x) (take k (promote_commands due)) r) \<and>
         abs_queue q (fold (\<lambda>c x. c x) (take k (promote_commands due)) r) = abs_queue q r"
  using assms
proof (induction due arbitrary: r k)
  case Nil
  then show ?case by (simp add: promote_commands_def keeps_shape_def)
next
  case (Cons s due)
  have add: "stream_ok (xadd s r)" "\<And>d. held_ok q r d \<Longrightarrow> held_ok q (xadd s r) d"
    "abs_queue q (xadd s r) = abs_queue q r"
    using Cons.prems by (auto simp: stream_ok_commands held_ok_commands abs_queue_def outstanding_simps buried_commands)
  let ?r2 = "zrem s (xadd s r)"
  have "waiting ?r2 = waiting (xadd s r)"
    using Cons.prems(1) by (force simp: waiting_def zrem_def xadd_def stream_ok_def image_iff)
  then have both: "stream_ok ?r2" "\<And>d. held_ok q r d \<Longrightarrow> held_ok q ?r2 d" "abs_queue q ?r2 = abs_queue q r"
    using add by (auto simp: stream_ok_commands held_ok_commands abs_queue_def outstanding_def buried_commands)
  then have "\<forall>s\<in>set due. ids_of q s \<subseteq> outstanding q ?r2" using Cons.prems(2) by (auto simp: abs_queue_def)
  note IH = Cons.IH [OF both(1) this, of "k - 2"]
  consider "k = 0" | "k = 1" | k' where "k = Suc (Suc k')" by (metis One_nat_def not0_implies_Suc)
  then show ?case
    by cases (use Cons.prems(1) add both IH in \<open>auto simp: promote_commands_def keeps_shape_def\<close>)
qed

lemma zrange_due_subset: "set (zrange_due t n r) \<subseteq> fst ` set (jr_retry r)"
  by (auto simp: zrange_due_def dest!: in_set_takeD)

lemma PromoteDue_effect:
  assumes ok: "stream_ok (redis w)" and run: "PromoteDue c n w = (r, w')"
  shows "keeps_shape q (redis w) (redis w') \<and> abs_queue q (redis w') = abs_queue q (redis w)"
proof -
  let ?n = "if n \<le> 0 then 100 else n"
  have same: "keeps_shape q (redis w) (redis w) \<and> abs_queue q (redis w) = abs_queue q (redis w)"
    using ok by (simp add: keeps_shape_def)
  obtain r1 w1 where r1: "read_due c ?n w = (r1, w1)" by (cases "read_due c ?n w")
  have f1: "redis w1 = redis w" "\<And>due. r1 = Inr due \<Longrightarrow> set due \<subseteq> fst ` set (jr_retry (redis w))"
    using r1 unfolding read_due_def
    by (auto elim!: with_ctx_cases redis_call_cases dest: subsetD [OF zrange_due_subset])
  show ?thesis
  proof (cases "\<exists>due. r1 = Inr due \<and> due \<noteq> []")
    case True
    then obtain due where due: "r1 = Inr due" "due \<noteq> []" by blast
    obtain r2 w2 where r2: "with_ctx c (redis_pipeline (promote_commands due)) w1 = (r2, w2)"
      by (cases "with_ctx c (redis_pipeline (promote_commands due)) w1")
    have w': "w' = w2"
      using run r1 due r2 by (auto simp: PromoteDue_def Let_def io_simps io_try_def io_case_def io_return_def io_throw_def split: sum.splits)
    have ids: "\<forall>s\<in>set due. ids_of q s \<subseteq> outstanding q (redis w)"
      using f1(2) [OF due(1)] retry_untouched(1) [of "redis w"] by (auto simp: outstanding_def)
    from r2 show ?thesis
    proof (cases rule: with_ctx_cases)
      case (1 e)
      then show ?thesis using same f1 w' by simp
    next
      case 2
      from redis_pipeline_prefix [OF 2] obtain k where
        "redis w2 = fold (\<lambda>c x. c x) (take k (promote_commands due)) (redis w1)" by blast
      then show ?thesis using promote_prefix [OF ok ids, of k] w' f1 by simp
    qed
  next
    case False
    then have "w' = w1"
      using run r1 by (cases r1) (auto simp: PromoteDue_def Let_def io_simps io_try_def io_case_def io_return_def io_throw_def)
    then show ?thesis using same f1 by simp
  qed
qed

lemma redis_call_unchanged:
  assumes "with_ctx c (redis_call f) w = (r, w')" "\<And>v x r'. redis v = redis w \<Longrightarrow> f v = Inr (x, r') \<Longrightarrow> P r'" "P (redis w)"
  shows "P (redis w')"
  using assms(1)
proof (cases rule: with_ctx_cases)
  case 2
  then show ?thesis by (cases rule: redis_call_cases) (use assms(2,3) in auto)
qed (use assms(3) in simp)

lemma EnsureGroup_effect:
  assumes ok: "stream_ok (redis w)" and run: "EnsureGroup c w = (r, w')"
  shows "keeps_shape q (redis w) (redis w') \<and> abs_queue q (redis w') = abs_queue q (redis w)"
proof -
  let ?P = "\<lambda>r'. keeps_shape q (redis w) r' \<and> abs_queue q r' = abs_queue q (redis w)"
  obtain r1 w1 where r1: "with_ctx c (redis_call (\<lambda>w. xgroup_create (redis w))) w = (r1, w1)"
    by (cases "with_ctx c (redis_call (\<lambda>w. xgroup_create (redis w))) w")
  have "?P (redis w1)"
  proof (rule redis_call_unchanged [OF r1])
    fix v x r'
    assume "redis v = redis w" "xgroup_create (redis v) = Inr (x, r')"
    then have "r' = (redis w)\<lparr>jr_group := True, jr_delivered := 0\<rparr>" "\<not> jr_group (redis w)"
      by (auto simp: xgroup_create_def split: if_splits)
    then show "?P r'"
      using ok by (auto simp: keeps_shape_def abs_queue_def stream_ok_def held_ok_def outstanding_def waiting_def buried_def)
  qed (use ok in \<open>simp add: keeps_shape_def\<close>)
  moreover have "w' = w1"
    using run r1 by (auto simp: EnsureGroup_def io_case_def io_return_def io_throw_def split: sum.splits if_splits)
  ultimately show ?thesis by simp
qed

lemma waiting_cong:
  assumes "jr_retry r' = jr_retry r" "jr_stream r' = jr_stream r"
    and "\<And>i v. (i, v) \<in> set (jr_stream r) \<Longrightarrow>
      (jr_delivered r' < i \<or> i \<in> fst ` set (jr_pending r')) = (jr_delivered r < i \<or> i \<in> fst ` set (jr_pending r))"
  shows "waiting r' = waiting r"
  unfolding waiting_def assms(1,2)
  by (intro arg_cong2 [where f = "(\<union>)"] refl Collect_cong ex_cong1 conj_cong assms(3))

text \<open>Delivery moves entries from new to pending; reclaiming only changes who holds them.\<close>

lemma xreadgroup_effect:
  assumes ok: "stream_ok r" and run: "xreadgroup consumer n t r = Inr (got, r')"
  shows "stream_ok r'" "waiting r' = waiting r" "jr_stream r' = jr_stream r" "jr_next r' = jr_next r" "jr_dead r' = jr_dead r"
    "set got \<subseteq> set (jr_stream r)"
proof -
  let ?new = "filter (\<lambda>(i, _). i > jr_delivered r) (jr_stream r)"
  have got: "got = limit_count n ?new" "got \<noteq> []" "jr_group r"
    and r': "r' = r\<lparr>jr_delivered := fst (List.last got), jr_pending := jr_pending r @ map (\<lambda>(i, _). (i, consumer, t)) got\<rparr>"
    using run by (auto simp: xreadgroup_def Let_def split: if_splits)
  have "?new = got @ (if n > 0 then drop (nat n) ?new else [])" by (simp add: got(1) limit_count_def)
  then obtain rest where split: "?new = got @ rest" by blast
  obtain init m v0 where last: "got = init @ [(m, v0)]" using got(2) by (metis rev_exhaust surj_pair)
  have m: "fst (List.last got) = m" by (simp add: last)
  have "sorted_wrt (<) (map fst (got @ rest))"
    unfolding split [symmetric] using ok by (auto simp: stream_ok_def sorted_wrt_map sorted_wrt_filter)
  then have order: "\<And>i v. (i, v) \<in> set got \<Longrightarrow> i \<le> m" "\<And>i v. (i, v) \<in> set rest \<Longrightarrow> m < i"
    unfolding last by (auto simp: sorted_wrt_append less_imp_le)
  have in_new: "(i, v) \<in> set (jr_stream r) \<and> jr_delivered r < i \<longleftrightarrow> (i, v) \<in> set got \<or> (i, v) \<in> set rest" for i v
    using arg_cong [OF split, of set] by auto
  have m_new: "(m, v0) \<in> set (jr_stream r)" "jr_delivered r < m" using in_new [of m v0] last by auto
  have pend: "fst ` set (jr_pending r') = fst ` set (jr_pending r) \<union> fst ` set got" by (force simp: r')
  show "stream_ok r'"
    using ok m_new order(1) got(3) unfolding stream_ok_def pend
    by (fastforce simp: r' m)
  show "waiting r' = waiting r"
  proof -
    have "m < i \<or> i \<in> fst ` set (jr_pending r) \<union> fst ` set got \<longleftrightarrow> jr_delivered r < i \<or> i \<in> fst ` set (jr_pending r)"
      if "(i, v) \<in> set (jr_stream r)" for i v
    proof -
      have "jr_delivered r < i \<longleftrightarrow> (i, v) \<in> set got \<or> (i, v) \<in> set rest" using in_new [of i v] that by simp
      moreover have "(i, v) \<in> set got \<longleftrightarrow> i \<in> fst ` set got"
      proof
        assume "i \<in> fst ` set got"
        then obtain v' where v': "(i, v') \<in> set got" by auto
        then have "(i, v') \<in> set (jr_stream r)" using in_new [of i v'] by blast
        then show "(i, v) \<in> set got" using stream_entry_unique [OF ok that] v' by blast
      qed force
      moreover have "m < i \<Longrightarrow> jr_delivered r < i" using m_new(2) by simp
      ultimately show ?thesis using order(2) [of i v] by blast
    qed
    then show ?thesis unfolding pend [symmetric] by (intro waiting_cong) (auto simp: r' m)
  qed
  show "jr_stream r' = jr_stream r" "jr_next r' = jr_next r" "jr_dead r' = jr_dead r" using r' by simp_all
  show "set got \<subseteq> set (jr_stream r)" using in_new by auto
qed

lemma autoclaim_scan_facts:
  assumes "autoclaim_scan a n idle consumer t stream pel = (got, rest)"
  shows "set got \<subseteq> set stream" "fst ` set rest \<subseteq> fst ` set pel"
    "\<And>i. i \<in> fst ` set pel \<Longrightarrow> i \<in> fst ` set stream \<Longrightarrow> i \<in> fst ` set rest"
proof -
  have "set got \<subseteq> set stream \<and> fst ` set rest \<subseteq> fst ` set pel \<and>
      (\<forall>i. i \<in> fst ` set pel \<longrightarrow> i \<in> fst ` set stream \<longrightarrow> i \<in> fst ` set rest)"
    using assms
  proof (induction a n idle consumer t stream pel arbitrary: got rest rule: autoclaim_scan.induct)
    case (1 a n idle consumer t stream i c t' pel)
    show ?case
    proof (cases "map_of stream i")
      case None
      then have "i \<notin> fst ` set stream" by (simp add: map_of_eq_None_iff)
      then show ?thesis using 1(1) [OF None, of got rest] 1(4) None by auto
    next
      case (Some v)
      then have v: "(i, v) \<in> set stream" by (rule map_of_SomeD)
      show ?thesis
      proof (cases "t - t' < idle")
        case True
        obtain g r where gr: "autoclaim_scan a (Suc n) idle consumer t stream pel = (g, r)" by fastforce
        have "got = g" "rest = (i, c, t') # r" using 1(4) Some True gr by auto
        then show ?thesis using 1(2) [OF Some True gr] by simp blast
      next
        case False
        obtain g r where gr: "autoclaim_scan a n idle consumer t stream pel = (g, r)" by fastforce
        have "got = (i, v) # g" "rest = (i, consumer, t) # r" using 1(4) Some False gr by auto
        then show ?thesis using 1(3) [OF Some False gr] v by simp blast
      qed
    qed
  qed auto
  then show "set got \<subseteq> set stream" "fst ` set rest \<subseteq> fst ` set pel"
    "\<And>i. i \<in> fst ` set pel \<Longrightarrow> i \<in> fst ` set stream \<Longrightarrow> i \<in> fst ` set rest" by blast+
qed

lemma xautoclaim_effect:
  assumes ok: "stream_ok r" and run: "xautoclaim consumer idle n t r = Inr (got, r')"
  shows "stream_ok r'" "waiting r' = waiting r" "jr_stream r' = jr_stream r" "jr_next r' = jr_next r" "jr_dead r' = jr_dead r"
    "set got \<subseteq> set (jr_stream r)"
proof -
  obtain pel where scan: "autoclaim_scan (10 * nat n) (nat n) idle consumer t (jr_stream r) (jr_pending r) = (got, pel)"
    and r': "r' = r\<lparr>jr_pending := pel\<rparr>" and g: "jr_group r"
    using run by (auto simp: xautoclaim_def Let_def split: if_splits prod.splits)
  note f = autoclaim_scan_facts [OF scan]
  have "\<forall>i\<in>fst ` set pel. i \<le> jr_delivered r"
    using ok subsetD [OF f(2)] unfolding stream_ok_def by blast
  then show "stream_ok r'" using ok g by (simp add: stream_ok_def r')
  have "(i, v) \<in> set (jr_stream r) \<Longrightarrow> i \<in> fst ` set pel \<longleftrightarrow> i \<in> fst ` set (jr_pending r)" for i v
    using subsetD [OF f(2), of i] f(3) [of i] imageI [of "(i, v)" "set (jr_stream r)" fst] by auto
  then show "waiting r' = waiting r" by (intro waiting_cong) (simp_all add: r')
qed (use run autoclaim_scan_facts(1) in \<open>auto simp: xautoclaim_def Let_def split: if_splits prod.splits\<close>)

text \<open>Both ways to get jobs: nothing leaves the queue and every delivery is genuine.\<close>

definition delivers :: "Queue \<Rightarrow> jobs_redis \<Rightarrow> err + Delivery list \<Rightarrow> jobs_redis \<Rightarrow> bool" where
  "delivers q r res r' \<longleftrightarrow> keeps_shape q r r' \<and> abs_queue q r' = abs_queue q r \<and>
     (\<forall>ds. res = Inr ds \<longrightarrow> (\<forall>d\<in>set ds. held_ok q r' d))"

lemma delivery_held:
  assumes "stream_ok r" "m \<in> set (jr_stream r)" "to_delivery q m = Some d"
  shows "held_ok q r d"
proof -
  obtain i v where m: "m = (i, v)" by (cases m)
  then have i: "dl_ID d = i" using assms(3) by (auto simp: to_delivery_def split: option.splits sum.splits)
  then show ?thesis
    using assms m stream_entry_unique [OF assms(1)] by (fastforce simp: held_ok_def stream_ok_def)
qed

lemma delivers_messages:
  assumes ok: "stream_ok r" and r': "stream_ok r'" "waiting r' = waiting r" "jr_stream r' = jr_stream r" "jr_next r' = jr_next r" "jr_dead r' = jr_dead r"
    and got: "set got \<subseteq> set (jr_stream r)" and res: "res = Inr (List.map_filter (to_delivery q) got) \<or> (\<exists>e. res = Inl e) \<or> res = Inr []"
  shows "delivers q r res r'"
proof -
  have "held_ok q r' d" if "d \<in> set (List.map_filter (to_delivery q) got)" for d
    using that got r'(1,3) by (auto simp: List.map_filter_def intro!: delivery_held [OF r'(1)])
  then show ?thesis
    using res r' by (auto simp: delivers_def keeps_shape_def abs_queue_def outstanding_def buried_def held_ok_def)
qed

lemma redis_fetch_effect:
  assumes ok: "stream_ok (redis w)"
    and fetch: "\<And>v got r'. redis v = redis w \<Longrightarrow> f v = Inr (got, r') \<Longrightarrow>
      stream_ok r' \<and> waiting r' = waiting (redis w) \<and> jr_stream r' = jr_stream (redis w) \<and>
      jr_next r' = jr_next (redis w) \<and> jr_dead r' = jr_dead (redis w) \<and> set got \<subseteq> set (jr_stream (redis w))"
    and run: "io_case (with_ctx c (redis_call f)) (\<lambda>e. if errors_Is e ErrRedisNil then io_return [] else io_throw e)
       (\<lambda>messages. io_return (List.map_filter (to_delivery q) messages)) w = (res, w')"
  shows "delivers q (redis w) res (redis w')"
proof -
  obtain r1 w1 where r1: "with_ctx c (redis_call f) w = (r1, w1)" by (cases "with_ctx c (redis_call f) w")
  have w': "w' = w1" and res: "(\<exists>e. r1 = Inl e \<and> (res = Inr [] \<or> (\<exists>e. res = Inl e))) \<or>
      (\<exists>got. r1 = Inr got \<and> res = Inr (List.map_filter (to_delivery q) got))"
    using run r1 by (auto simp: io_case_def io_return_def io_throw_def split: sum.splits if_splits)
  have same: "delivers q (redis w) res (redis w)" if "res = Inr [] \<or> (\<exists>e. res = Inl e)"
    using that ok by (intro delivers_messages [where got = "[]"]) auto
  from r1 show ?thesis
  proof (cases rule: with_ctx_cases)
    case (1 e)
    then show ?thesis using same res w' by auto
  next
    case 2
    then show ?thesis
    proof (cases rule: redis_call_cases)
      case (unchanged e)
      then show ?thesis using same res w' by auto
    next
      case (ran v x r')
      note facts = fetch [OF ran(1,3)]
      have "res = Inr (List.map_filter (to_delivery q) x) \<or> (\<exists>e. res = Inl e) \<or> res = Inr []"
        using res ran(6) by auto
      then show ?thesis
        unfolding w' ran(4) by (intro delivers_messages [where got = x] ok) (use facts in auto)
    qed
  qed
qed

lemma Read_effect:
  assumes "stream_ok (redis w)" "Read q c consumer n w = (res, w')"
  shows "delivers q (redis w) res (redis w')"
  by (rule redis_fetch_effect [OF assms(1) _ assms(2) [unfolded Read_def]])
    (use xreadgroup_effect [OF assms(1)] in auto)

lemma RecoverStale_effect:
  assumes "stream_ok (redis w)" "RecoverStale q c consumer idle n w = (res, w')"
  shows "delivers q (redis w) res (redis w')"
  by (rule redis_fetch_effect [OF assms(1) _ assms(2) [unfolded RecoverStale_def]])
    (use xautoclaim_effect [OF assms(1)] in auto)

text \<open>Enqueuing adds the new job and nothing else.\<close>

lemma store_command:
  assumes "with_ctx c (redis_call (\<lambda>w. Inr ((), cmd (redis w)))) w = (r, w')"
  shows "redis w' = redis w \<and> isl r \<or> redis w' = cmd (redis w)"
  using assms by (auto elim!: with_ctx_cases redis_call_cases)

lemma enqueue_cases:
  assumes "enqueue e q c jt payload delay w = (res, w')"
  obtains "isl res" "redis w' = redis w"
  | job sealed cmd v v' where "jb_ID job = uuid_string e (fresh w)" "seal q job v = (Inr sealed, v')"
      "cmd = xadd sealed \<or> (\<exists>t. cmd = zadd sealed t)" "redis w' = redis w \<and> isl res \<or> redis w' = cmd (redis w)"
proof -
  let ?w = "w\<lparr>fresh := Suc (fresh w)\<rparr>"
  let ?job0 = "Job0\<lparr>jb_ID := uuid_string e (fresh w), jb_Type := jt, jb_MaxAttempts := q_maxAttempts q, jb_EnqueuedAt := clock w\<rparr>"
  show thesis
  proof (cases "jt = [] \<or> (\<exists>er. payload = Some (Inl er))")
    case True
    then show ?thesis
      using assms by (intro that(1)) (auto simp: enqueue_def io_simps split: if_splits)
  next
    case False
    then obtain raw where raw: "(case payload of None \<Rightarrow> Inr None | Some (Inl er) \<Rightarrow> Inl er | Some (Inr raw) \<Rightarrow> Inr (Some raw)) = (Inr raw :: err + string option)"
      by (cases payload; cases "the payload") auto
    let ?job = "?job0\<lparr>jb_Payload := raw\<rparr>"
    obtain s1 w1 where s1: "seal q ?job ?w = (s1, w1)" by (cases "seal q ?job ?w")
    have f1: "redis w1 = redis w" using seal_frame [OF s1] by simp
    let ?cmd = "\<lambda>sealed. if delay > 0 then zadd sealed ((clock w1 + delay) div Millisecond) else xadd sealed"
    obtain r2 w2 where r2: "with_ctx c (redis_call (\<lambda>w. Inr ((), ?cmd (projr s1) (redis w)))) w1 = (r2, w2)"
      by (cases "with_ctx c (redis_call (\<lambda>w. Inr ((), ?cmd (projr s1) (redis w)))) w1")
    show ?thesis
    proof (cases s1)
      case (Inl er)
      then show ?thesis
        using assms False raw s1 f1 by (intro that(1)) (auto simp: enqueue_def io_simps Let_def split: if_splits)
    next
      case (Inr sealed)
      have "w' = w2" "isl r2 \<Longrightarrow> isl res"
        using assms False raw s1 Inr r2
        by (cases r2; auto simp: enqueue_def io_simps Let_def split: if_splits)+
      then show ?thesis
        using store_command [OF r2] s1 Inr f1 by (intro that(2) [of ?job ?w sealed w1 "?cmd sealed"]) auto
    qed
  qed
qed

lemma enqueue_effect:
  assumes lib: "faithful_lib (q_lib q)" and ok: "stream_ok (redis w)" and run: "enqueue e q c jt payload delay w = (res, w')"
  shows "keeps_shape q (redis w) (redis w') \<and>
         spec_step (LEnqueue (uuid_string e (fresh w)) (\<not> isl res)) (abs_queue q (redis w)) (abs_queue q (redis w'))"
  using run
proof (cases rule: enqueue_cases)
  case 1
  then show ?thesis using ok by (auto simp: keeps_shape_def abs_queue_def)
next
  case (2 job sealed cmd v v')
  have ids: "ids_of q sealed = {uuid_string e (fresh w)}"
    using seal_open [OF lib 2(2)] 2(1) by (simp add: ids_of_def)
  have "keeps_shape q (redis w) (cmd (redis w)) \<and> outstanding q (cmd (redis w)) = insert (uuid_string e (fresh w)) (outstanding q (redis w)) \<and>
      buried q (cmd (redis w)) = buried q (redis w)"
    using 2(3) by (elim disjE exE)
      (simp_all add: ok ids keeps_shape_def stream_ok_commands held_ok_commands outstanding_simps buried_commands)
  then show ?thesis
    using 2(4) ok by (elim disjE) (auto simp: keeps_shape_def abs_queue_def)
qed

section \<open>Refinement\<close>

text \<open>
  The system: the world and the deliveries that workers hold. Producers and workers call the
  operations in any order, with any contexts; between the calls the clock, the random source and the
  faults are arbitrary. A worker acknowledges or fails only what it was given.
\<close>

inductive queue_step ::
  "env \<Rightarrow> Queue \<Rightarrow> world \<times> Delivery set \<Rightarrow> queue_label \<Rightarrow> world \<times> Delivery set \<Rightarrow> bool" for e q where
  qs_enqueue: "enqueue e q c jt payload delay w = (res, w') \<Longrightarrow>
     queue_step e q (w, H) (LEnqueue (uuid_string e (fresh w)) (\<not> isl res)) (w', H)"
| qs_group: "EnsureGroup c w = (res, w') \<Longrightarrow> queue_step e q (w, H) LInternal (w', H)"
| qs_read: "Read q c consumer n w = (res, w') \<Longrightarrow>
     queue_step e q (w, H) LInternal (w', H \<union> (case res of Inr ds \<Rightarrow> set ds | Inl _ \<Rightarrow> {}))"
| qs_recover: "RecoverStale q c consumer idle n w = (res, w') \<Longrightarrow>
     queue_step e q (w, H) LInternal (w', H \<union> (case res of Inr ds \<Rightarrow> set ds | Inl _ \<Rightarrow> {}))"
| qs_promote: "PromoteDue c n w = (res, w') \<Longrightarrow> queue_step e q (w, H) LInternal (w', H)"
| qs_ack: "d \<in> H \<Longrightarrow> Ack c d w = (res, w') \<Longrightarrow> queue_step e q (w, H) (LAck (jb_ID (dl_Job d))) (w', H)"
| qs_fail: "d \<in> H \<Longrightarrow> Fail q c d cause w = (res, w') \<Longrightarrow> queue_step e q (w, H) (LFail (jb_ID (dl_Job d))) (w', H)"
| qs_environment: "redis w' = redis w \<Longrightarrow> queue_step e q (w, H) LInternal (w', H)"

inductive queue_reachable :: "env \<Rightarrow> Queue \<Rightarrow> world \<times> Delivery set \<Rightarrow> bool" for e q where
  qr_start: "redis w = redis empty_world \<Longrightarrow> queue_reachable e q (w, {})"
| qr_step: "queue_reachable e q s \<Longrightarrow> queue_step e q s l s' \<Longrightarrow> queue_reachable e q s'"

definition system_ok :: "Queue \<Rightarrow> world \<times> Delivery set \<Rightarrow> bool" where
  "system_ok q s \<longleftrightarrow> stream_ok (redis (fst s)) \<and> (\<forall>d\<in>snd s. held_ok q (redis (fst s)) d)"

lemma queue_step_refines:
  assumes lib: "faithful_lib (q_lib q)" "trims_old (q_lib q)" and "queue_step e q s l s'" "system_ok q s"
  shows "system_ok q s' \<and> spec_step l (abs_queue q (redis (fst s))) (abs_queue q (redis (fst s')))"
  using assms(3,4)
proof (cases rule: queue_step.cases)
  case (qs_enqueue c jt payload delay w res w' H)
  then show ?thesis
    using enqueue_effect [OF lib(1) _ qs_enqueue(4)] assms(4) by (auto simp: system_ok_def keeps_shape_def)
next
  case (qs_group c w res w' H)
  then show ?thesis
    using EnsureGroup_effect [OF _ qs_group(4), of q] assms(4) by (auto simp: system_ok_def keeps_shape_def abs_queue_def)
next
  case (qs_read c consumer n w res w' H)
  then show ?thesis
    using Read_effect [OF _ qs_read(4)] assms(4)
    by (auto simp: system_ok_def delivers_def keeps_shape_def abs_queue_def split: sum.splits)
next
  case (qs_recover c consumer idle n w res w' H)
  then show ?thesis
    using RecoverStale_effect [OF _ qs_recover(4)] assms(4)
    by (auto simp: system_ok_def delivers_def keeps_shape_def abs_queue_def split: sum.splits)
next
  case (qs_promote c n w res w' H)
  then show ?thesis
    using PromoteDue_effect [OF _ qs_promote(4), of q] assms(4) by (auto simp: system_ok_def keeps_shape_def abs_queue_def)
next
  case (qs_ack d H c w res w')
  then show ?thesis
    using Ack_effect [OF _ _ qs_ack(5), of q] assms(4) by (auto simp: system_ok_def releases_def abs_queue_def)
next
  case (qs_fail d H c cause w res w')
  then show ?thesis
    using Fail_effect [OF lib _ _ qs_fail(5)] assms(4) by (auto simp: system_ok_def keeps_shape_def)
qed (auto simp: system_ok_def abs_queue_def)

lemma reachable_system_ok:
  assumes "faithful_lib (q_lib q)" "trims_old (q_lib q)"
  shows "queue_reachable e q s \<Longrightarrow> system_ok q s"
proof (induction rule: queue_reachable.induct)
  case (qr_start w)
  then show ?case by (simp add: system_ok_def stream_ok_def empty_world_def)
next
  case (qr_step s l s')
  then show ?case using queue_step_refines [OF assms] by blast
qed

text \<open>
  C1: no job is lost. The Redis queue refines the abstract one: in every reachable state and under
  every fault (a lost reply, a pipeline cut between two commands, an expired context), an accepted
  job enters the set of outstanding jobs, delivery, recovery and promotion change nothing, a failed
  job stays outstanding or is in the dead-letter stream, and only an acknowledged job may leave.
\<close>

theorem queue_refines_specification:
  assumes "faithful_lib (q_lib q)" and "trims_old (q_lib q)"
    and "queue_reachable e q s" and "queue_step e q s l s'"
  shows "spec_step l (abs_queue q (redis (fst s))) (abs_queue q (redis (fst s')))"
  using queue_step_refines [OF assms(1,2,4) reachable_system_ok [OF assms(1,2,3)]] by blast

end
