(* ===== verification/Job_Retries.thy ===== *)
theory Job_Retries
  imports Job_Safety
begin

text \<open>
  Retries of the job queue: the bounds of the backoff, and the budget of attempts that every failure
  uses up until the job is buried.
\<close>

section \<open>Backoff\<close>

text \<open>\<open>crypto/rand.Int\<close> returns a number from 0 up to, and excluding, its bound.\<close>

definition rand_Int_ok :: "queue_lib \<Rightarrow> bool" where
  "rand_Int_ok lib \<longleftrightarrow> (\<forall>p m. 0 < m \<longrightarrow> 0 \<le> rand_Int lib p m \<and> rand_Int lib p m < m)"

text \<open>The delays \<open>NewQueue\<close> leaves: positive, ordered, and an \<open>int64\<close>; the base fits a \<open>float64\<close>.\<close>

definition delays_ok :: "Queue \<Rightarrow> bool" where
  "delays_ok q \<longleftrightarrow> rounding (float_rd (q_lib q)) \<and> 0 < q_baseDelay q \<and> q_baseDelay q \<le> 2 ^ 53 \<and>
     q_baseDelay q \<le> q_maxDelay q \<and> q_maxDelay q < 2 ^ 63"

lemma backoff_delay_exact:
  assumes "delays_ok q" "1 \<le> n"
  shows "backoff_delay q n = min (q_baseDelay q * 2 ^ nat (min (n - 1) 32)) (q_maxDelay q)"
proof -
  let ?d = "q_baseDelay q * 2 ^ nat (min (n - 1) 32)"
  have "float_rd (q_lib q) (of_int (q_baseDelay q)) = of_int (q_baseDelay q)"
    using assms(1) by (intro rd_int) (auto simp: delays_ok_def)
  then have product: "float_rd (q_lib q) (of_int (q_baseDelay q)) * 2 ^ nat (min (n - 1) 32) = of_int ?d" by simp
  have "(of_int ?d < (2 ^ 63 :: rat)) \<longleftrightarrow> ?d < 2 ^ 63"
    by (metis of_int_less_iff of_int_numeral of_int_power)
  then have delay: "(if float_rd (q_lib q) (of_int (q_baseDelay q)) * 2 ^ nat (min (n - 1) 32) < 2 ^ 63
      then \<lfloor>float_rd (q_lib q) (of_int (q_baseDelay q)) * 2 ^ nat (min (n - 1) 32)\<rfloor> else - (2 ^ 63)) =
      (if ?d < 2 ^ 63 then ?d else - (2 ^ 63))"
    unfolding product by (simp only: floor_of_int)
  have n: "(if n < 1 then 1 else n) = n" using assms(2) by simp
  have cap: "(if x > m \<or> x \<le> 0 then m else x) = min d m"
    if "x = (if d < 2 ^ 63 then d else - (2 ^ 63))" "0 < d" "m < 2 ^ 63" "0 < m" for x d m :: int
    using that by (auto simp: min_def)
  show ?thesis
    unfolding backoff_delay_def Let_def n delay
    by (rule cap [OF refl]) (use assms(1) in \<open>simp_all add: delays_ok_def\<close>)
qed

text \<open>
  The backoff is exponential, capped and jittered. Whatever the random source does, the delay
  before attempt n+1 is at least the capped exponential delay min(base 2^(n-1), max) and less than
  one and a half times of it, and computing it never fails.
\<close>

theorem backoff_bounds:
  assumes "delays_ok q" and "rand_Int_ok (q_lib q)" and "1 \<le> n"
  shows "\<exists>delay w'. backoff q n w = (Inr delay, w') \<and>
           min (q_baseDelay q * 2 ^ nat (min (n - 1) 32)) (q_maxDelay q) \<le> delay \<and>
           2 * delay < 3 * min (q_baseDelay q * 2 ^ nat (min (n - 1) 32)) (q_maxDelay q)"
proof -
  let ?d = "min (q_baseDelay q * 2 ^ nat (min (n - 1) 32)) (q_maxDelay q)"
  have d: "backoff_delay q n = ?d" by (rule backoff_delay_exact [OF assms(1,3)])
  have pos: "0 < ?d" using assms(1) by (simp add: delays_ok_def)
  have jitter: "0 \<le> rand_Int (q_lib q) p (?d div 2) \<and> rand_Int (q_lib q) p (?d div 2) < ?d div 2" if "0 < ?d div 2" for p
    using assms(2) that by (simp add: rand_Int_ok_def)
  show ?thesis
  proof (cases "?d div 2 \<le> 0")
    case True
    then show ?thesis using pos unfolding backoff_def d Let_def by (simp add: io_return_def)
  next
    case False
    obtain b w1 where b: "rand_Read 8 w = (b, w1)" by (cases "rand_Read 8 w")
    show ?thesis
    proof (cases b)
      case (Inl e)
      then show ?thesis using False b pos unfolding backoff_def d Let_def by (simp add: io_simps)
    next
      case (Inr bytes)
      define x where "x = rand_Int (q_lib q) (entropy_pos w1) (?d div 2)"
      have x: "0 \<le> x" "x < ?d div 2" using jitter False unfolding x_def by auto
      have "backoff q n w = (Inr (?d + x), w1)"
        using False b Inr unfolding backoff_def d Let_def x_def by (simp add: io_simps)
      moreover have "2 * (D + y) < 3 * D" if "y < D div 2" "0 < D" for D y :: int using that by presburger
      note this [OF x(2) pos]
      ultimately show ?thesis using x by (intro exI [of _ "?d + x"] exI [of _ w1]) simp
    qed
  qed
qed

section \<open>The budget of attempts\<close>

text \<open>Runs without faults.\<close>

definition marshals :: "queue_lib \<Rightarrow> bool" where
  "marshals lib \<longleftrightarrow> (\<forall>job. \<exists>raw. job_Marshal lib job = Inr raw)"

lemma with_Background [simp]: "with_ctx Background m = m"
  by (rule ext) (simp add: with_ctx_def ctx_Err_def Background_def)

lemma redis_pipeline_run [io_simps]:
  "faults w = [] \<Longrightarrow> redis_pipeline cs w = (Inr (), w\<lparr>redis := fold (\<lambda>c x. c x) cs (redis w)\<rparr>)"
  by (induction cs arbitrary: w) (simp_all add: next_fault_def)

lemma redis_call_run [io_simps]:
  "faults w = [] \<Longrightarrow> f w = Inr (x, r) \<Longrightarrow> redis_call f w = (Inr x, w\<lparr>redis := r\<rparr>)"
  "faults w = [] \<Longrightarrow> f w = Inl e \<Longrightarrow> redis_call f w = (Inl e, w)"
  by (simp_all add: redis_call_def next_fault_def)

lemma seal_run:
  assumes "faults w = []" "marshals (q_lib q)"
  shows "\<exists>s. seal q job w = (Inr s, w\<lparr>entropy_pos := entropy_pos w + NonceSize\<rparr>)"
proof -
  obtain raw where "job_Marshal (q_lib q) job = Inr raw" using assms(2) by (auto simp: marshals_def)
  then show ?thesis using assms(1) by (simp add: seal_def io_simps)
qed

text \<open>Without faults and with a live context, recording a failure succeeds.\<close>

lemma backoff_faults: "backoff q n w = (r, w') \<Longrightarrow> faults w = [] \<Longrightarrow> faults w' = []"
  by (auto simp: backoff_def Let_def io_return_def io_case_def rand_Read_def next_fault_def split: if_splits)

lemma Fail_returns:
  assumes "marshals (q_lib q)" "delays_ok q" "rand_Int_ok (q_lib q)" and f: "faults w = []" and n: "0 \<le> jb_Attempts (dl_Job d)"
  shows "fst (Fail q Background d cause w) = Inr ()"
proof -
  let ?w1 = "w\<lparr>entropy_pos := entropy_pos w + NonceSize\<rparr>"
  obtain sealed where s: "seal q (failed_job d cause) w = (Inr sealed, ?w1)"
    using seal_run [OF f assms(1)] by blast
  have "1 \<le> jb_Attempts (failed_job d cause)" using n by (simp add: failed_job_def)
  from backoff_bounds [OF assms(2,3) this, of ?w1] obtain delay w2 where
    b: "backoff q (jb_Attempts (failed_job d cause)) ?w1 = (Inr delay, w2)" by blast
  have "faults w2 = []" using backoff_faults [OF b] f by simp
  then show ?thesis using s b f
    by (cases "exhausted (failed_job d cause) cause") (simp_all add: Fail_def Let_def failure_command_def io_simps)
qed

text \<open>A failure uses up an attempt; when none is left, or the failure is permanent, the job is buried.\<close>

definition budget_spent :: "Job \<Rightarrow> err \<Rightarrow> bool" where
  "budget_spent job cause \<longleftrightarrow> IsPermanent cause \<or> jb_MaxAttempts job \<le> max 0 (jb_Attempts job + 1)"

lemma budget_spent_exhausted: "budget_spent (dl_Job d) cause \<longleftrightarrow> exhausted (failed_job d cause) cause"
  by (auto simp: budget_spent_def exhausted_def failed_job_def)

text \<open>The same job with one attempt more.\<close>

definition next_attempt :: "Job \<Rightarrow> Job \<Rightarrow> bool" where
  "next_attempt job job' \<longleftrightarrow> jb_ID job' = jb_ID job \<and> jb_Type job' = jb_Type job \<and> jb_Payload job' = jb_Payload job \<and>
     jb_MaxAttempts job' = jb_MaxAttempts job \<and> jb_Attempts job' = jb_Attempts job + 1"

lemma next_attempt_failed: "next_attempt (dl_Job d) (failed_job d cause)"
  by (simp add: next_attempt_def failed_job_def)

lemma released_entry:
  assumes "k \<le> (2::nat)"
  shows "jr_retry (fold (\<lambda>c x. c x) (take k [xack i, xdel i]) r) = jr_retry r"
    "jr_dead (fold (\<lambda>c x. c x) (take k [xack i, xdel i]) r) = jr_dead r"
    "k = 2 \<Longrightarrow> i \<notin> fst ` set (jr_stream (fold (\<lambda>c x. c x) (take k [xack i, xdel i]) r))"
proof -
  consider "k = 0" | "k = 1" | "k = 2" using assms by linarith
  then show "jr_retry (fold (\<lambda>c x. c x) (take k [xack i, xdel i]) r) = jr_retry r"
    "jr_dead (fold (\<lambda>c x. c x) (take k [xack i, xdel i]) r) = jr_dead r"
    "k = 2 \<Longrightarrow> i \<notin> fst ` set (jr_stream (fold (\<lambda>c x. c x) (take k [xack i, xdel i]) r))"
    by (cases; force simp: xack_def xdel_def numeral_2_eq_2)+
qed

lemma xadd_dead_kept:
  assumes "trims_old lib"
  shows "sealed \<in> set (jr_dead (xadd_dead (redis_trims lib) sealed r))"
proof -
  have "redis_trims lib (Suc (length (jr_dead r))) \<le> length (jr_dead r)"
    using assms [unfolded trims_old_def, rule_format, of "Suc (length (jr_dead r))"] by (simp add: deadStreamMaxLen_def)
  then show ?thesis by (simp add: xadd_dead_def Let_def)
qed

text \<open>
  C40: retries come to an end. Whatever the context, the queue and the faults are, a failure puts into
  the schedule of retries at most the same job with one attempt more, and only while that is less than
  its maximum, so the attempts left strictly decrease; and when \<open>Fail\<close> returns without an error, the
  delivery is gone from the stream and the job is in the schedule, or, when its attempts are used up or
  the failure is permanent, in the dead-letter stream.
\<close>

theorem retries_bounded:
  assumes "faithful_lib (q_lib q)" and "trims_old (q_lib q)" and "Fail q c d cause w = (r, w')"
  shows "(\<forall>x\<in>set (jr_retry (redis w')) - set (jr_retry (redis w)).
            \<not> budget_spent (dl_Job d) cause \<and>
            (\<exists>job. open_job q (fst x) = Inr job \<and> next_attempt (dl_Job d) job \<and> jb_Attempts job < jb_MaxAttempts job)) \<and>
         (r = Inr () \<longrightarrow>
            dl_ID d \<notin> fst ` set (jr_stream (redis w')) \<and>
            (\<exists>sealed job. open_job q sealed = Inr job \<and> next_attempt (dl_Job d) job \<and>
               (if budget_spent (dl_Job d) cause then sealed \<in> set (jr_dead (redis w'))
                else sealed \<in> fst ` set (jr_retry (redis w')))))"
  using assms(3)
proof (cases rule: Fail_cases)
  case 1
  then show ?thesis by auto
next
  case (2 sealed rec k)
  note fr = released_entry [OF 2(3), where i = "dl_ID d" and r = "rec (redis w)", folded 2(5)]
  have open_sealed: "open_job q sealed = Inr (failed_job d cause)" using 2(1) assms(1) by simp
  show ?thesis
  proof (cases "budget_spent (dl_Job d) cause")
    case True
    then have rec: "rec = xadd_dead (redis_trims (q_lib q)) sealed"
      using 2(2) by (simp add: failure_record_def budget_spent_exhausted)
    have "jr_retry (redis w') = jr_retry (redis w)" "sealed \<in> set (jr_dead (redis w'))"
      using fr xadd_dead_kept [OF assms(2)] by (simp_all add: rec xadd_dead_def Let_def)
    then show ?thesis using True 2(4) fr(3) open_sealed next_attempt_failed [of d cause] by auto
  next
    case False
    then obtain t where "rec = zadd sealed t" using 2(2) by (auto simp: failure_record_def budget_spent_exhausted)
    then have retry: "jr_retry (redis w') = filter (\<lambda>(x, _). x \<noteq> sealed) (jr_retry (redis w)) @ [(sealed, t)]"
      using fr by (simp add: zadd_def)
    have left: "jb_Attempts (failed_job d cause) < jb_MaxAttempts (failed_job d cause)"
      using False by (auto simp: budget_spent_def failed_job_def)
    have "x = (sealed, t)" if "x \<in> set (jr_retry (redis w')) - set (jr_retry (redis w))" for x
      using that unfolding retry by auto
    moreover have "sealed \<in> fst ` set (jr_retry (redis w'))" unfolding retry by force
    ultimately show ?thesis
      using False 2(4) fr(3) open_sealed next_attempt_failed [of d cause] left by auto
  qed
qed

section \<open>A concrete codec\<close>

text \<open>
  An instance of the parameters for which the hypotheses hold: no encryption, and jobs as strings
  with length prefixes.
\<close>

definition enc_str :: "string \<Rightarrow> string" where
  "enc_str s = replicate (length s) CHR ''x'' @ CHR ''y'' # s"

definition dec_str :: "string \<Rightarrow> string \<times> string" where
  "dec_str t = (let n = length (takeWhile (\<lambda>c. c = CHR ''x'') t); u = drop (Suc n) t in (take n u, drop n u))"

lemma dec_enc_str [simp]: "dec_str (enc_str s @ r) = (s, r)"
proof -
  have "takeWhile (\<lambda>c. c = CHR ''x'') (replicate n CHR ''x'' @ CHR ''y'' # t) = replicate n CHR ''x''" for n t
    by (induction n) simp_all
  then have "takeWhile (\<lambda>c. c = CHR ''x'') (enc_str s @ r) = replicate (length s) CHR ''x''"
    by (simp add: enc_str_def)
  then show ?thesis by (simp add: dec_str_def enc_str_def Let_def)
qed

definition enc_int :: "int \<Rightarrow> string" where
  "enc_int i = enc_str (replicate (nat i) CHR ''a'') @ enc_str (replicate (nat (- i)) CHR ''a'')"

definition dec_int :: "string \<Rightarrow> int \<times> string" where
  "dec_int t = (let (p, u) = dec_str t; (n, v) = dec_str u in (int (length p) - int (length n), v))"

lemma dec_enc_int [simp]: "dec_int (enc_int i @ r) = (i, r)"
  by (simp add: dec_int_def enc_int_def)

definition enc_job :: "Job \<Rightarrow> string" where
  "enc_job j = enc_str (jb_ID j) @ enc_str (jb_Type j) @ enc_str (case jb_Payload j of None \<Rightarrow> [] | Some p \<Rightarrow> CHR ''s'' # p) @
     enc_int (jb_Attempts j) @ enc_int (jb_MaxAttempts j) @ enc_int (jb_EnqueuedAt j) @ enc_str (jb_LastError j) @ []"

definition dec_job :: "string \<Rightarrow> Job" where
  "dec_job t0 =
     (let (i, t1) = dec_str t0; (ty, t2) = dec_str t1; (p, t3) = dec_str t2; (a, t4) = dec_int t3;
          (m, t5) = dec_int t4; (e, t6) = dec_int t5; (l, t7) = dec_str t6
      in \<lparr>jb_ID = i, jb_Type = ty, jb_Payload = (case p of [] \<Rightarrow> None | _ # q \<Rightarrow> Some q), jb_Attempts = a,
          jb_MaxAttempts = m, jb_EnqueuedAt = e, jb_LastError = l\<rparr>)"

lemma dec_enc_job: "dec_job (enc_job j) = j"
  by (cases j) (simp add: dec_job_def enc_job_def dec_enc_str dec_enc_int del: append_Nil2 split: option.split)

definition demo_lib :: queue_lib where
  "demo_lib = \<lparr>aead_Seal = (\<lambda>k n x. x), aead_Open = (\<lambda>k n x. Some x), job_Marshal = (\<lambda>j. Inr (enc_job j)),
     job_Unmarshal = (\<lambda>t. Inr (dec_job t)), redis_trims = (\<lambda>n. n - deadStreamMaxLen), rand_Int = (\<lambda>_ _. 0), float_rd = (\<lambda>x. x)\<rparr>"

definition demo_queue :: Queue where
  "demo_queue = \<lparr>q_lib = demo_lib, q_aead = ''key'', q_maxAttempts = 3, q_baseDelay = 30 * Second, q_maxDelay = Hour\<rparr>"

definition demo_job :: Job where
  "demo_job = Job0\<lparr>jb_ID := ''j1'', jb_Type := ''invitation.send'', jb_Payload := Some ''{}'', jb_MaxAttempts := 3\<rparr>"

lemma demo_queue_ok:
  "faithful_lib (q_lib demo_queue)" "marshals (q_lib demo_queue)" "trims_old (q_lib demo_queue)"
  "rand_Int_ok (q_lib demo_queue)" "delays_ok demo_queue"
  by (simp_all add: demo_queue_def demo_lib_def faithful_lib_def marshals_def trims_old_def rand_Int_ok_def delays_ok_def
      dec_enc_job rounding_exact)

theorem backoff_bounds_witness:
  "\<exists>delay w'. backoff demo_queue 3 empty_world = (Inr delay, w') \<and> 120 * Second \<le> delay \<and> delay < 180 * Second"
proof -
  have "min (q_baseDelay demo_queue * 2 ^ nat (min (3 - 1) 32)) (q_maxDelay demo_queue) = 120 * Second"
    by (simp add: demo_queue_def)
  then show ?thesis using backoff_bounds [OF demo_queue_ok(5,4), of 3 empty_world] by auto
qed

definition demo_delivered :: world where
  "demo_delivered = empty_world\<lparr>redis := \<lparr>jr_stream = [(1, Some [])], jr_group = True, jr_delivered = 1,
     jr_pending = [(1, ''consumer'', 0)], jr_retry = [], jr_dead = [], jr_next = 2\<rparr>\<rparr>"

abbreviation demo_failure :: "int \<Rightarrow> (err + unit) \<times> world" where
  "demo_failure n \<equiv> Fail demo_queue Background \<lparr>dl_ID = 1, dl_Job = demo_job\<lparr>jb_Attempts := n\<rparr>\<rparr> (Message ''down'') demo_delivered"

lemma demo_failure_eval: "fst (demo_failure 2) = Inr ()" "fst (demo_failure 0) = Inr ()"
  by (rule Fail_returns [OF demo_queue_ok(2,5,4)]; simp add: demo_delivered_def empty_world_def demo_job_def Job0_def)+

theorem retries_bounded_witness:
  "(\<exists>sealed job. sealed \<in> set (jr_dead (redis (snd (demo_failure 2)))) \<and> open_job demo_queue sealed = Inr job \<and>
      jb_ID job = ''j1'' \<and> jb_Attempts job = 3) \<and>
   (\<exists>sealed job. sealed \<in> fst ` set (jr_retry (redis (snd (demo_failure 0)))) \<and> open_job demo_queue sealed = Inr job \<and>
      jb_ID job = ''j1'' \<and> jb_Attempts job = 1)"
proof -
  have run: "demo_failure n = (fst (demo_failure n), snd (demo_failure n))" for n by simp
  note two = retries_bounded [OF demo_queue_ok(1,3) run [of 2]]
  note zero = retries_bounded [OF demo_queue_ok(1,3) run [of 0]]
  have "budget_spent (demo_job\<lparr>jb_Attempts := 2\<rparr>) (Message ''down'')" "\<not> budget_spent (demo_job\<lparr>jb_Attempts := 0\<rparr>) (Message ''down'')"
    by (simp_all add: budget_spent_def demo_job_def Job0_def)
  moreover have "next_attempt (demo_job\<lparr>jb_Attempts := n\<rparr>) job \<Longrightarrow> jb_ID job = ''j1'' \<and> jb_Attempts job = n + 1" for n job
    by (simp add: next_attempt_def demo_job_def Job0_def)
  ultimately show ?thesis
    using two [THEN conjunct2, THEN mp, OF demo_failure_eval(1)] zero [THEN conjunct2, THEN mp, OF demo_failure_eval(2)] by fastforce
qed

theorem envelope_roundtrip_witness:
  "\<exists>sealed w'. seal demo_queue demo_job empty_world = (Inr sealed, w') \<and> open_job demo_queue sealed = Inr demo_job"
proof -
  obtain sealed w' where s: "seal demo_queue demo_job empty_world = (Inr sealed, w')"
    using seal_run [OF _ demo_queue_ok(2), of empty_world demo_job] by (auto simp: empty_world_def)
  then show ?thesis using envelope_roundtrip [OF demo_queue_ok(1) s] by blast
qed

theorem queue_refines_specification_witness:
  "\<forall>e. spec_step (LEnqueue (uuid_string e 1) (\<not> isl (fst (Enqueue e demo_queue Background ''mail'' None empty_world))))
      (abs_queue demo_queue (redis empty_world))
      (abs_queue demo_queue (redis (snd (Enqueue e demo_queue Background ''mail'' None empty_world))))"
proof
  fix e :: env
  let ?r = "Enqueue e demo_queue Background ''mail'' None empty_world"
  have "queue_step e demo_queue (empty_world, {}) (LEnqueue (uuid_string e (fresh empty_world)) (\<not> isl (fst ?r))) (snd ?r, {})"
    by (rule qs_enqueue [of _ _ Background "''mail''" None 0]) (simp add: Enqueue_def)
  then show "spec_step (LEnqueue (uuid_string e 1) (\<not> isl (fst ?r))) (abs_queue demo_queue (redis empty_world)) (abs_queue demo_queue (redis (snd ?r)))"
    using queue_refines_specification [OF demo_queue_ok(1,3) qr_start [OF refl]] by (fastforce simp: empty_world_def)
qed

section \<open>Concurrent promotion\<close>

text \<open>
  Concurrent promotion runs a job twice. Two workers that read the retry schedule before either
  pipeline runs both copy the due envelope to the stream: it is delivered twice, although nothing
  failed.
\<close>

theorem concurrent_promotion_duplicates:
  "let w = empty_world\<lparr>redis := (redis empty_world)\<lparr>jr_group := True, jr_retry := [(''sealed'', 0)]\<rparr>\<rparr>;
       due1 = projr (fst (read_due Background 100 w));
       due2 = projr (fst (read_due Background 100 w));
       w1 = snd (redis_pipeline (promote_commands due1) w);
       w2 = snd (redis_pipeline (promote_commands due2) w1)
   in jr_stream (redis w2) = [(1, Some ''sealed''), (2, Some ''sealed'')]"
  by (simp add: Let_def empty_world_def read_due_def io_simps zrange_due_def now_ms_def promote_commands_def xadd_def zrem_def)

end
