(* ===== verification/Worker.thy ===== *)
theory Worker
  imports Job_Retries
begin

text \<open>
  The job worker, \<open>internal/jobs/worker.go\<close>: dispatch of deliveries to handlers, the consumer loop
  and the maintenance tick. The worker depends on the interface \<open>Backend\<close>; the record
  \<open>backend\<close> holds its methods and \<open>queue_backend\<close> is the Redis queue behind it. The locale
  \<open>job_backend\<close> states what the worker relies on, and its lemmas show that handling a delivery
  loses no job; the Redis queue is its interpretation.

  A consumer and the maintenance run in goroutines that interleave at their calls of the backend;
  the loops are modelled by their iterations, each with the state of the context at its start. The
  metrics a job is counted under are the result of \<open>handle\<close>; logging is left out.
\<close>

section \<open>Options\<close>

definition defaultPromoteInterval :: duration where "defaultPromoteInterval = 5 * Second"

record WorkerOptions =
  wo_Concurrency :: int
  wo_BlockTimeout :: duration
  wo_StaleAfter :: duration
  wo_ShutdownTimeout :: duration
  wo_ConsumerName :: string
  wo_PromoteInterval :: duration

text \<open>\<open>os.Hostname\<close> may fail; the process number is an argument.\<close>

definition defaultConsumerName :: "string option \<Rightarrow> int \<Rightarrow> string" where
  "defaultConsumerName hostname pid =
     (let host = (case hostname of None \<Rightarrow> ''worker'' | Some h \<Rightarrow> if h = [] then ''worker'' else h)
      in host @ ''-'' @ Itoa pid)"

definition normalized :: "string \<Rightarrow> WorkerOptions \<Rightarrow> WorkerOptions" where
  "normalized default_name opts =
     \<lparr>wo_Concurrency = (if wo_Concurrency opts < 1 then 1 else wo_Concurrency opts),
      wo_BlockTimeout = (if wo_BlockTimeout opts \<le> 0 then 2 * Second else wo_BlockTimeout opts),
      wo_StaleAfter = (if wo_StaleAfter opts \<le> 0 then 5 * Minute else wo_StaleAfter opts),
      wo_ShutdownTimeout = (if wo_ShutdownTimeout opts \<le> 0 then 15 * Second else wo_ShutdownTimeout opts),
      wo_ConsumerName = (if wo_ConsumerName opts = [] then default_name else wo_ConsumerName opts),
      wo_PromoteInterval = (if wo_PromoteInterval opts \<le> 0 then defaultPromoteInterval else wo_PromoteInterval opts)\<rparr>"

section \<open>The interface\<close>

record backend =
  be_EnsureGroup :: "ctx \<Rightarrow> unit io"
  be_Read :: "ctx \<Rightarrow> string \<Rightarrow> int \<Rightarrow> Delivery list io"
  be_RecoverStale :: "ctx \<Rightarrow> string \<Rightarrow> duration \<Rightarrow> int \<Rightarrow> Delivery list io"
  be_Ack :: "ctx \<Rightarrow> Delivery \<Rightarrow> unit io"
  be_Fail :: "ctx \<Rightarrow> Delivery \<Rightarrow> err \<Rightarrow> unit io"
  be_PromoteDue :: "ctx \<Rightarrow> int \<Rightarrow> int io"

definition queue_backend :: "Queue \<Rightarrow> backend" where
  "queue_backend q = \<lparr>be_EnsureGroup = EnsureGroup, be_Read = Read q, be_RecoverStale = RecoverStale q,
     be_Ack = Ack, be_Fail = Fail q, be_PromoteDue = PromoteDue\<rparr>"

type_synonym handler = "ctx \<Rightarrow> Job \<Rightarrow> unit io"

record worker =
  wk_queue :: backend
  wk_handlers :: "string \<Rightarrow> handler option"
  wk_opts :: WorkerOptions

definition NewWorker :: "backend \<Rightarrow> string \<Rightarrow> WorkerOptions \<Rightarrow> worker" where
  "NewWorker queue default_name opts = \<lparr>wk_queue = queue, wk_handlers = (\<lambda>_. None), wk_opts = normalized default_name opts\<rparr>"

definition worker_Register :: "worker \<Rightarrow> string \<Rightarrow> handler \<Rightarrow> worker" where
  "worker_Register wk jobType h = wk\<lparr>wk_handlers := (wk_handlers wk)(jobType \<mapsto> h)\<rparr>"

section \<open>Dispatch\<close>

text \<open>The error of \<open>Fail\<close> or \<open>Ack\<close> is only logged; the result is the label the job is counted under.\<close>

definition handle :: "worker \<Rightarrow> ctx \<Rightarrow> Delivery \<Rightarrow> (string \<times> string) option io" where
  "handle wk c d =
     (let job = dl_Job d in
      if jb_Type job = [] then
        io_case (be_Fail (wk_queue wk) c d (PermanentError (Message ''job payload is unreadable'')))
          (\<lambda>_. io_return (Some (''unreadable'', ''dead_lettered''))) (\<lambda>_. io_return (Some (''unreadable'', ''dead_lettered'')))
      else
        (case wk_handlers wk (jb_Type job) of
           None \<Rightarrow>
             io_case (be_Fail (wk_queue wk) c d (PermanentError (Message (''no handler for '' @ jb_Type job))))
               (\<lambda>_. io_return (Some (jb_Type job, ''unhandled''))) (\<lambda>_. io_return (Some (jb_Type job, ''unhandled'')))
         | Some h \<Rightarrow>
             io_case (h c job)
               (\<lambda>e. let result = (if IsPermanent e \<or> jb_Attempts job + 1 \<ge> jb_MaxAttempts job then ''dead_lettered'' else ''failed'')
                    in io_case (be_Fail (wk_queue wk) c d e)
                         (\<lambda>_. io_return (Some (jb_Type job, result))) (\<lambda>_. io_return (Some (jb_Type job, result))))
               (\<lambda>_. io_case (be_Ack (wk_queue wk) c d) (\<lambda>_. io_return None)
                      (\<lambda>_. io_return (Some (jb_Type job, ''completed''))))))"

fun errors_As_timeout :: "err \<Rightarrow> bool" where
  "errors_As_timeout (Timeout t) \<longleftrightarrow> True"
| "errors_As_timeout (Wrapped t e) \<longleftrightarrow> errors_As_timeout e"
| "errors_As_timeout (PermanentError e) \<longleftrightarrow> errors_As_timeout e"
| "errors_As_timeout (APIError s c m d (Some e)) \<longleftrightarrow> errors_As_timeout e"
| "errors_As_timeout _ \<longleftrightarrow> False"

definition isRedisUnavailable :: "env \<Rightarrow> err \<Rightarrow> bool" where
  "isRedisUnavailable e er \<longleftrightarrow>
     errors_As_timeout er \<or>
     (\<exists>marker\<in>set [''connection refused'', ''connection reset'', ''i/o timeout'', ''no such host'', ''broken pipe'', ''eof'',
        ''context deadline exceeded'']. contains_text (to_lower (unicode_lower e) (error_text er)) marker)"

text \<open>Waiting lets the clock advance; a context that ends first cuts the wait.\<close>

definition sleepCtx :: "ctx \<Rightarrow> duration \<Rightarrow> bool io" where
  "sleepCtx c d w =
     (if ctx_Err c (clock w + d) \<noteq> None then (Inr False, w) else (Inr True, w\<lparr>clock := clock w + d\<rparr>))"

datatype loop = Continue | Stop "err option"

fun handle_all :: "worker \<Rightarrow> ctx \<Rightarrow> Delivery list \<Rightarrow> unit io" where
  "handle_all wk c [] = io_return ()"
| "handle_all wk c (d # ds) = io_case (handle wk c d) (\<lambda>_. handle_all wk c ds) (\<lambda>_. handle_all wk c ds)"

text \<open>One iteration of \<open>consume\<close>.\<close>

definition consume_step :: "env \<Rightarrow> worker \<Rightarrow> ctx \<Rightarrow> ctx \<Rightarrow> string \<Rightarrow> loop io" where
  "consume_step e wk loopCtx jobCtx consumer =
     io_try time_Now id (\<lambda>now.
     case ctx_Err loopCtx now of
       Some er \<Rightarrow> io_return (Stop (Some er))
     | None \<Rightarrow>
         io_case (be_Read (wk_queue wk) loopCtx consumer 1)
           (\<lambda>er. io_try time_Now id (\<lambda>now'.
              case ctx_Err loopCtx now' of
                Some er' \<Rightarrow> io_return (Stop (Some er'))
              | None \<Rightarrow>
                  if isRedisUnavailable e er then
                    io_try (sleepCtx loopCtx Second) id (\<lambda>ok. io_return (if ok then Continue else Stop (ctx_Err loopCtx (now' + Second))))
                  else io_return (Stop (Some (wrap ''read jobs'' er)))))
           (\<lambda>ds. io_try (handle_all wk jobCtx ds) id (\<lambda>_. io_return Continue)))"

text \<open>The consumer loop along the states of its context; it returns when an iteration stops it.\<close>

fun consume :: "env \<Rightarrow> worker \<Rightarrow> ctx list \<Rightarrow> ctx \<Rightarrow> string \<Rightarrow> loop io" where
  "consume e wk [] jobCtx consumer = io_return Continue"
| "consume e wk (c # cs) jobCtx consumer =
     io_try (consume_step e wk c jobCtx consumer) id (\<lambda>r.
       case r of Stop er \<Rightarrow> io_return (Stop er) | Continue \<Rightarrow> consume e wk cs jobCtx consumer)"

text \<open>One tick of \<open>maintain\<close>: promote what is due, then reclaim and handle what others abandoned.\<close>

definition maintain_tick :: "worker \<Rightarrow> ctx \<Rightarrow> ctx \<Rightarrow> unit io" where
  "maintain_tick wk loopCtx jobCtx =
     (let rest = io_case (be_RecoverStale (wk_queue wk) loopCtx ''reclaimer'' (wo_StaleAfter (wk_opts wk)) 50)
                   (\<lambda>_. io_return ()) (\<lambda>ds. handle_all wk jobCtx ds)
      in io_case (be_PromoteDue (wk_queue wk) loopCtx 100) (\<lambda>_. rest) (\<lambda>_. rest))"

text \<open>
  What \<open>Run\<close> sets up: the group, and the context of the jobs, a deadline of the shutdown timeout that
  starts with the worker.
\<close>

definition job_context :: "worker \<Rightarrow> time \<Rightarrow> ctx" where
  "job_context wk started = \<lparr>cx_cancelled = False, cx_deadline = Some (started + wo_ShutdownTimeout (wk_opts wk))\<rparr>"

definition consumer_names :: "worker \<Rightarrow> string list" where
  "consumer_names wk = map (\<lambda>i. wo_ConsumerName (wk_opts wk) @ ''-'' @ Itoa (int i)) [0..<nat (wo_Concurrency (wk_opts wk))]"

definition Run_setup :: "worker \<Rightarrow> ctx \<Rightarrow> (ctx \<times> string list) io" where
  "Run_setup wk c =
     io_try (be_EnsureGroup (wk_queue wk) c) id (\<lambda>_.
     io_try time_Now id (\<lambda>started. io_return (job_context wk started, consumer_names wk)))"

section \<open>Handling loses no job\<close>

text \<open>
  What the worker relies on: \<open>valid w d\<close> is a delivery it was given, \<open>out\<close> and \<open>dead\<close> are the
  jobs in the queue and in the dead-letter stream. Acknowledging may only take the job itself out;
  recording a failure keeps the job in one of the two; both keep every delivery valid.
\<close>

locale job_backend =
  fixes B :: backend
    and out :: "world \<Rightarrow> string set"
    and dead :: "world \<Rightarrow> string set"
    and valid :: "world \<Rightarrow> Delivery \<Rightarrow> bool"
  assumes ack_law: "valid w d \<Longrightarrow> be_Ack B c d w = (r, w') \<Longrightarrow>
      out w - {jb_ID (dl_Job d)} \<subseteq> out w' \<and> (\<forall>d'. valid w d' \<longrightarrow> valid w' d')"
    and fail_law: "valid w d \<Longrightarrow> be_Fail B c d cause w = (r, w') \<Longrightarrow>
      out w - {jb_ID (dl_Job d)} \<subseteq> out w' \<and> (jb_ID (dl_Job d) \<in> out w \<longrightarrow> jb_ID (dl_Job d) \<in> out w' \<union> dead w') \<and>
      (\<forall>d'. valid w d' \<longrightarrow> valid w' d')"
begin

text \<open>A handler may add jobs, not take them, and does not touch what workers hold.\<close>

definition well_behaved :: "handler \<Rightarrow> bool" where
  "well_behaved h \<longleftrightarrow>
     (\<forall>c job w r w'. h c job w = (r, w') \<longrightarrow> out w \<subseteq> out w' \<and> (\<forall>d. valid w d \<longrightarrow> valid w' d))"

text \<open>The job succeeded: its handler ran on the delivered job and returned no error.\<close>

definition succeeds :: "worker \<Rightarrow> ctx \<Rightarrow> Delivery \<Rightarrow> world \<Rightarrow> bool" where
  "succeeds wk c d w \<longleftrightarrow>
     jb_Type (dl_Job d) \<noteq> [] \<and>
     (case wk_handlers wk (jb_Type (dl_Job d)) of None \<Rightarrow> False | Some h \<Rightarrow> \<not> isl (fst (h c (dl_Job d) w)))"

lemma fail_then_return:
  assumes "valid w d" and "io_case (be_Fail B c d cause) (\<lambda>_. io_return x) (\<lambda>_. io_return x) w = (r, w')"
    and "j \<in> out w"
  shows "j \<in> out w' \<or> j \<in> dead w'"
proof -
  obtain r1 w1 where f: "be_Fail B c d cause w = (r1, w1)" by (cases "be_Fail B c d cause w")
  then have "w' = w1" using assms(2) by (auto simp: io_case_def io_return_def split: sum.splits)
  then show ?thesis using fail_law [OF assms(1) f] assms(3) by (cases "j = jb_ID (dl_Job d)") auto
qed

lemma handle_loses_nothing:
  assumes B: "wk_queue wk = B" and d: "valid w d"
    and h: "\<And>h. wk_handlers wk (jb_Type (dl_Job d)) = Some h \<Longrightarrow> well_behaved h"
    and run: "handle wk c d w = (r, w')" and j: "j \<in> out w"
  shows "j \<in> out w' \<or> j \<in> dead w' \<or> (j = jb_ID (dl_Job d) \<and> succeeds wk c d w)"
proof (cases "jb_Type (dl_Job d) = []")
  case True
  then have "\<exists>cause x. io_case (be_Fail B c d cause) (\<lambda>_. io_return x) (\<lambda>_. io_return x) w = (r, w')"
    using run B by (auto simp: handle_def Let_def)
  then obtain cause x where io: "io_case (be_Fail B c d cause) (\<lambda>_. io_return x) (\<lambda>_. io_return x) w = (r, w')" by blast
  show ?thesis using fail_then_return [OF d io j] by blast
next
  case False
  show ?thesis
  proof (cases "wk_handlers wk (jb_Type (dl_Job d))")
    case None
    then have "\<exists>cause x. io_case (be_Fail B c d cause) (\<lambda>_. io_return x) (\<lambda>_. io_return x) w = (r, w')"
      using run B False by (auto simp: handle_def Let_def)
    then obtain cause x where io: "io_case (be_Fail B c d cause) (\<lambda>_. io_return x) (\<lambda>_. io_return x) w = (r, w')" by blast
    show ?thesis using fail_then_return [OF d io j] by blast
  next
    case (Some f)
    obtain r1 w1 where r1: "f c (dl_Job d) w = (r1, w1)" by (cases "f c (dl_Job d) w")
    have "out w \<subseteq> out w1 \<and> (\<forall>d. valid w d \<longrightarrow> valid w1 d)"
      using h [OF Some] r1 unfolding well_behaved_def by blast
    then have w1: "j \<in> out w1" "valid w1 d" using d j by auto
    show ?thesis
    proof (cases r1)
      case (Inl e)
      then have "\<exists>cause x. io_case (be_Fail B c d cause) (\<lambda>_. io_return x) (\<lambda>_. io_return x) w1 = (r, w')"
        using run B False Some r1 by (auto simp: handle_def Let_def io_simps)
      then obtain cause x where io: "io_case (be_Fail B c d cause) (\<lambda>_. io_return x) (\<lambda>_. io_return x) w1 = (r, w')" by blast
      show ?thesis using fail_then_return [OF w1(2) io w1(1)] by blast
    next
      case (Inr u)
      obtain r2 w2 where r2: "be_Ack B c d w1 = (r2, w2)" by (cases "be_Ack B c d w1")
      have "w' = w2"
        using run B False Some r1 Inr r2 by (auto simp: handle_def Let_def io_case_def io_return_def split: sum.splits)
      then show ?thesis
        using ack_law [OF w1(2) r2] w1(1) False Some r1 Inr by (auto simp: succeeds_def)
    qed
  qed
qed

end

text \<open>The Redis queue provides the interface; its parameters behave as their documentation says.\<close>

definition valid_delivery :: "Queue \<Rightarrow> world \<Rightarrow> Delivery \<Rightarrow> bool" where
  "valid_delivery q w d \<longleftrightarrow>
     faithful_lib (q_lib q) \<and> trims_old (q_lib q) \<and> stream_ok (redis w) \<and> held_ok q (redis w) d"

interpretation rq: job_backend "queue_backend q" "\<lambda>w. outstanding q (redis w)" "\<lambda>w. buried q (redis w)" "valid_delivery q" for q
proof
  fix w d c r w' cause
  show "outstanding q (redis w) - {jb_ID (dl_Job d)} \<subseteq> outstanding q (redis w') \<and> (\<forall>d'. valid_delivery q w d' \<longrightarrow> valid_delivery q w' d')"
    if "valid_delivery q w d" "be_Ack (queue_backend q) c d w = (r, w')"
    using that Ack_effect [of w q d c r w'] by (auto simp: valid_delivery_def queue_backend_def releases_def)
  show "outstanding q (redis w) - {jb_ID (dl_Job d)} \<subseteq> outstanding q (redis w') \<and>
       (jb_ID (dl_Job d) \<in> outstanding q (redis w) \<longrightarrow> jb_ID (dl_Job d) \<in> outstanding q (redis w') \<union> buried q (redis w')) \<and>
       (\<forall>d'. valid_delivery q w d' \<longrightarrow> valid_delivery q w' d')"
    if "valid_delivery q w d" "be_Fail (queue_backend q) c d cause w = (r, w')"
    using that Fail_effect [of q w d c cause r w']
    by (auto simp: valid_delivery_def queue_backend_def keeps_shape_def abs_queue_def)
qed

text \<open>
  C2: the worker drops a job only after its handler succeeded. When a worker over the Redis queue
  handles a delivery, with handlers that may enqueue but not remove jobs and under any faults, every
  job that was outstanding is still outstanding or in the dead-letter stream afterwards, except the
  delivered one when its handler returned without an error.
\<close>

theorem worker_loses_no_job:
  assumes "wk_queue wk = queue_backend q" and "valid_delivery q w d"
    and "\<And>h. wk_handlers wk (jb_Type (dl_Job d)) = Some h \<Longrightarrow> rq.well_behaved q h"
    and "handle wk c d w = (r, w')" and "j \<in> outstanding q (redis w)"
  shows "j \<in> outstanding q (redis w') \<or> j \<in> buried q (redis w') \<or> (j = jb_ID (dl_Job d) \<and> rq.succeeds wk c d w)"
  using assms by (rule rq.handle_loses_nothing)




section \<open>Witnesses\<close>

definition quiet_handler :: handler where
  "quiet_handler c job = io_return ()"

definition demo_worker :: worker where
  "demo_worker = worker_Register (NewWorker (queue_backend demo_queue) ''host-1''
     \<lparr>wo_Concurrency = 0, wo_BlockTimeout = 0, wo_StaleAfter = 0, wo_ShutdownTimeout = 0, wo_ConsumerName = [], wo_PromoteInterval = 0\<rparr>)
     ''invitation.send'' quiet_handler"

definition demo_delivery :: Delivery where
  "demo_delivery = \<lparr>dl_ID = 1, dl_Job = demo_job\<rparr>"

lemma demo_worker_queue: "wk_queue demo_worker = queue_backend demo_queue"
  by (simp add: demo_worker_def worker_Register_def NewWorker_def)


definition demo_pending :: world where
  "demo_pending = demo_delivered\<lparr>redis := (redis demo_delivered)\<lparr>
     jr_stream := [(1, Some (base64_encode (replicate 12 CHR ''n'' @ enc_job demo_job))), (2, Some (base64_encode (replicate 12 CHR ''n'' @ enc_job (demo_job\<lparr>jb_ID := ''j2''\<rparr>))))],
     jr_next := 3\<rparr>\<rparr>"

lemma demo_open: "open_job demo_queue (base64_encode (replicate 12 CHR ''n'' @ enc_job job)) = Inr job"
  by (simp add: open_job_def base64_roundtrip NonceSize_def demo_queue_def demo_lib_def dec_enc_job)

lemma demo_pending_valid: "valid_delivery demo_queue demo_pending demo_delivery"
  unfolding valid_delivery_def
  by (auto simp: demo_queue_ok stream_ok_def held_ok_def demo_pending_def demo_delivered_def demo_delivery_def to_delivery_def demo_open)

theorem worker_loses_no_job_witness:
  "''j2'' \<in> outstanding demo_queue (redis (snd (handle demo_worker Background demo_delivery demo_pending))) \<or>
   ''j2'' \<in> buried demo_queue (redis (snd (handle demo_worker Background demo_delivery demo_pending)))"
proof -
  have "''j2'' \<in> outstanding demo_queue (redis demo_pending)"
    unfolding outstanding_def
    by (rule UN_I [of "base64_encode (replicate 12 CHR ''n'' @ enc_job (demo_job\<lparr>jb_ID := ''j2''\<rparr>))"])
      (auto simp: waiting_def demo_pending_def demo_delivered_def ids_of_def demo_open)
  moreover have "rq.well_behaved demo_queue h" if "wk_handlers demo_worker (jb_Type (dl_Job demo_delivery)) = Some h" for h
    using that by (auto simp: demo_worker_def worker_Register_def NewWorker_def rq.well_behaved_def quiet_handler_def io_return_def
        demo_delivery_def demo_job_def split: if_splits)
  ultimately show ?thesis
    using worker_loses_no_job [OF demo_worker_queue demo_pending_valid, of Background
        "fst (handle demo_worker Background demo_delivery demo_pending)" "snd (handle demo_worker Background demo_delivery demo_pending)" "''j2''"]
    by (auto simp: demo_delivery_def demo_job_def)
qed

end
