(* ===== verification/Frames.thy ===== *)
theory Frames
  imports Sessions
begin

text \<open>
  From statements to operations. The locale \<open>identity_statements\<close> is the interface between an invariant
  and the organization and authentication services: an invariant that each of their statements keeps
  is kept by every one of their operations. Invariants that a transaction breaks on the way (ownership,
  sessions) are treated on their own; all others are interpretations of this locale.

  The first interpretation is a frame: the services touch users, tokens, organizations, memberships,
  roles, grants, invitations (a deleted role takes its invitations along) and the audit log; the tables
  of the product itself and the API keys stay as they are.
\<close>

lemma update_where_hit: "r \<in> set rows \<Longrightarrow> P r \<Longrightarrow> f r \<in> set (update_where P f rows)"
  by (auto simp: set_update_where)

section \<open>Operations of the identity services\<close>

context store_invariant
begin

lemma anywhere: "keeps (\<lambda>_. True) m \<Longrightarrow> keeps T m"
  by (simp add: keeps_def)

lemma within: "keeps T0 m \<Longrightarrow> (\<And>t. T t \<Longrightarrow> T0 t) \<Longrightarrow> keeps T m"
  by (simp add: keeps_def)

end

locale identity_statements = store_invariant +
  assumes st_CreateUser: "keeps (\<lambda>_. True) (CreateUser email hash first_name last_name stat)"
    and st_UpdateUserLastLogin: "keeps (\<lambda>_. True) (UpdateUserLastLogin uid)"
    and st_CreateRefreshToken: "keeps (\<lambda>_. True) (CreateRefreshToken uid family hash expires ua ip)"
    and st_RevokeRefreshToken: "keeps (\<lambda>_. True) (RevokeRefreshToken tid replaced)"
    and st_RevokeRefreshTokenFamily: "keeps (\<lambda>_. True) (RevokeRefreshTokenFamily family)"
    and st_RevokeAllUserRefreshTokens: "keeps (\<lambda>_. True) (RevokeAllUserRefreshTokens uid)"
    and st_CreateOrganization_q: "keeps (\<lambda>_. True) (CreateOrganization_q name slug stat)"
    and st_rename_organization: "keeps (\<lambda>_. True) (rename_organization oid name)"
    and st_CreateRole_q: "keeps (\<lambda>_. True) (CreateRole_q org name descr sys)"
    and st_UpdateRole_q: "keeps (\<lambda>_. True) (UpdateRole_q rid org name descr)"
    and st_SetRolePermissions: "keeps (\<lambda>_. True) (SetRolePermissions rid)"
    and st_AddRolePermission: "keeps (\<lambda>_. True) (AddRolePermission rid pid)"
    and st_CreateMembership: "keeps (\<lambda>_. True) (CreateMembership org uid role stat joined)"
    and st_UpdateMembershipRole: "keeps (\<lambda>_. True) (UpdateMembershipRole mid org role)"
    and st_DeleteRole_q: "keeps (\<lambda>_. True) (DeleteRole_q rid org)"
    and st_insert_audit_log: "keeps (\<lambda>_. True) (insert_audit_log e p)"
begin

lemmas identity_rules [keeps_intro] = st_CreateUser [THEN anywhere] st_UpdateUserLastLogin [THEN anywhere] st_CreateRefreshToken [THEN anywhere] st_RevokeRefreshToken [THEN anywhere] st_RevokeRefreshTokenFamily [THEN anywhere] st_RevokeAllUserRefreshTokens [THEN anywhere] st_CreateOrganization_q [THEN anywhere] st_rename_organization [THEN anywhere] st_CreateRole_q [THEN anywhere] st_UpdateRole_q [THEN anywhere] st_SetRolePermissions [THEN anywhere] st_AddRolePermission [THEN anywhere] st_CreateMembership [THEN anywhere] st_UpdateMembershipRole [THEN anywhere] st_DeleteRole_q [THEN anywhere] st_insert_audit_log [THEN anywhere]

lemma keeps_Record [keeps_intro]: "keeps T (Record e ev)"
  and keeps_RecordTx [keeps_intro]: "keeps T (RecordTx e ev)"
  unfolding Record_def RecordTx_def CreateAuditLog_def by (intro keeps_intro)+

lemma keeps_loops [keeps_intro]:
  "keeps T (setPermissions rid perms)"
  "keeps T (uniqueSlug_loop e n base candidate)"
  "keeps T (auth_uniqueSlug_loop n base candidate)"
  "keeps T (seed_roles org rs owner)"
  subgoal unfolding setPermissions_def identity_reads by (intro keeps_intro)
  subgoal by (induction n arbitrary: candidate) (auto simp: identity_reads intro!: keeps_intro)
  subgoal by (induction n arbitrary: candidate) (auto simp: identity_reads randomSuffix_def intro!: keeps_intro)
  subgoal by (induction rs arbitrary: owner) (auto simp: setPermissions_def identity_reads Let_def intro!: keeps_intro)
  done

lemma keeps_session_steps [keeps_intro]:
  "keeps T (issueSession s uid family meta)"
  "keeps T (createRefreshToken s uid family meta)"
  "keeps T (register_tx inp hash slug)"
  "keeps T (refresh_tx s raw meta)"
  unfolding register_tx_def seed_extra_role_def seedRolePermissions_def refresh_tx_def session_defs identity_reads
  by (intro keeps_intro)+

lemma keeps_refresh_finish [keeps_intro]: "keeps T (refresh_finish s meta oc)"
  by (cases oc; simp add: session_defs; intro keeps_intro)

lemma identity_operations [keeps_intro]:
  "keeps T (CreateOrganization e uid name)"
  "keeps T (UpdateOrganization uid org name)"
  "keeps T (CreateRole uid org name descr perms)"
  "keeps T (UpdateRole uid org rid name descr perms)"
  "keeps T (DeleteRole uid org rid)"
  "keeps T (AssignMemberRole uid org mid rid)"
  "keeps T (Register s inp meta)"
  "keeps T (Login s linp meta)"
  "keeps T (Refresh s raw meta)"
  "keeps T (Logout s raw)"
  "keeps T (LogoutAll s uid)"
  "keeps T (IssueSession s uid meta)"
  unfolding CreateOrganization_def uniqueSlug_def organization_writes organization_reads Register_def HashPassword_def
    auth_uniqueSlug_def Login_def Refresh_def Logout_def LogoutAll_def IssueSession_def identity_reads Let_def
  by (intro keeps_intro)+

end

section \<open>The tables they leave alone\<close>

abbreviation product_tables ::
  "store \<Rightarrow> Team list \<times> TeamMember list \<times> Project list \<times> Task list \<times> ActivityLog list \<times> ApiKey list" where
  "product_tables s \<equiv> (teams s, team_members s, projects s, tasks s, activity_logs s, api_keys s)"

lemma frame_statements [keeps_intro]:
  "store_invariant.keeps (unchanged product_tables x) T (CreateUser email hash first_name last_name stat)"
  "store_invariant.keeps (unchanged product_tables x) T (UpdateUserLastLogin uid)"
  "store_invariant.keeps (unchanged product_tables x) T (CreateRefreshToken uid family hash expires ua ip)"
  "store_invariant.keeps (unchanged product_tables x) T (RevokeRefreshToken tid replaced)"
  "store_invariant.keeps (unchanged product_tables x) T (RevokeRefreshTokenFamily family)"
  "store_invariant.keeps (unchanged product_tables x) T (RevokeAllUserRefreshTokens uid)"
  "store_invariant.keeps (unchanged product_tables x) T (CreateOrganization_q name slug stat)"
  "store_invariant.keeps (unchanged product_tables x) T (rename_organization oid name)"
  "store_invariant.keeps (unchanged product_tables x) T (CreateRole_q org name descr sys)"
  "store_invariant.keeps (unchanged product_tables x) T (UpdateRole_q rid org name descr)"
  "store_invariant.keeps (unchanged product_tables x) T (SetRolePermissions rid)"
  "store_invariant.keeps (unchanged product_tables x) T (AddRolePermission rid pid)"
  "store_invariant.keeps (unchanged product_tables x) T (CreateMembership org uid role stat joined)"
  "store_invariant.keeps (unchanged product_tables x) T (UpdateMembershipRole mid org role)"
  unfolding identity_writes
  by (rule frame.keeps_db_write; auto simp: unchanged_def Let_def guards_Inr one_row_def split: option.splits if_splits)+

lemma frame_DeleteRole [keeps_intro]: "store_invariant.keeps (unchanged product_tables x) T (DeleteRole_q rid org)"
  unfolding identity_writes
  by (rule frame.keeps_db_write) (elim delete_role_rows_cases; simp add: unchanged_def)

lemma frame_audit [keeps_intro]: "store_invariant.keeps (unchanged product_tables x) T (insert_audit_log e p)"
  unfolding insert_audit_log_def by (rule frame.keeps_db_write) (auto simp: unchanged_def Let_def guards_Inr)

interpretation product: identity_statements "unchanged product_tables x" for x
  by unfold_locales (rule keeps_intro)+

text \<open>A property of the untouched tables is kept together with the keys of the schema.\<close>

context schema_property
begin

lemma framed:
  assumes ids: "ids.keeps T m" and frame: "\<And>x. store_invariant.keeps (unchanged f x) T m"
    and P: "\<And>s s'. f s = f s' \<Longrightarrow> P s \<longleftrightarrow> P s'"
  shows "keeps T m"
proof (rule keepsI)
  fix w :: world
  assume T: "T (tenant w)"
  show "tenant (snd (m w)) = tenant w" "fresh w \<le> fresh (snd (m w))"
    using ids.keepsD [OF ids T] by auto
  have "f (st (snd (m w))) = f (st w)"
    using frame_same [of f w T m "fst (m w)" "snd (m w)", OF frame T] by simp
  then show "wf_and P (st (snd (m w))) (fresh (snd (m w)))" if "wf_and P (st w) (fresh w)"
    using that ids.keepsD(3) [OF ids T] P [of "st (snd (m w))" "st w"] by (simp add: wf_and_def)
qed

lemma identity_framed:
  assumes "\<And>s s'. product_tables s = product_tables s' \<Longrightarrow> P s \<longleftrightarrow> P s'"
  shows "identity_statements (wf_and P)"
  by unfold_locales
    (rule framed [where f = product_tables], rule keeps_intro ids_insert_audit_log, rule keeps_intro, erule assms)+

end

end
