(* ===== verification/ApiKeys.thy ===== *)
theory ApiKeys
  imports Frames Worker
begin

text \<open>
  Organization API keys: \<open>internal/apikeys/\<close> (model, service and sweep job) and the statements of
  \<open>internal/db/apikeys.sql.go\<close> over the table of migration 16. A key is shown once, stored as a
  SHA-256 digest and resolved to a principal on every request; revocation and expiry are read from
  the row.
\<close>

section \<open>Model\<close>

definition keyPrefixMarker :: string where "keyPrefixMarker = ''tfk_''"
definition keySecretBytes :: nat where "keySecretBytes = 32"
definition prefixLength :: nat where "prefixLength = 12"
definition lastFourChars :: nat where "lastFourChars = 4"
definition defaultSort :: string where "defaultSort = ''created_at''"
definition StatusActive :: string where "StatusActive = ''active''"
definition StatusExpired :: string where "StatusExpired = ''expired''"
definition StatusRevoked :: string where "StatusRevoked = ''revoked''"
definition sortableFields :: "string list" where "sortableFields = [''created_at'', ''expires_at'', ''last_used_at'']"
definition oneTimeWarning :: string where
  "oneTimeWarning = ''This key is shown once. Store it now; it cannot be retrieved again.''"

record CreateInput =
  ci_Name :: string
  ci_ExpiresInDays :: int

definition key_input_validate :: "CreateInput \<Rightarrow> err option" where
  "key_input_validate inp =
     Err (Check (ci_ExpiresInDays inp \<ge> 0) ''expires_in_days'' ''must not be negative''
         (MaxLen ''name'' (ci_Name inp) 100 (Required ''name'' (ci_Name inp) New)))"

record KeyListFilter =
  kf_IncludeRevoked :: bool
  kf_Sort :: string
  kf_Desc :: bool

record APIKeyDTO =
  kd_ID :: uuid
  kd_OrganizationID :: uuid
  kd_CreatedBy :: uuid
  kd_Name :: string
  kd_KeyPrefix :: string
  kd_KeyLastFour :: string
  kd_Status :: string
  kd_ExpiresAt :: time
  kd_RevokedAt :: "time option"
  kd_LastUsedAt :: "time option"
  kd_CreatedAt :: time

record CreatedResult =
  cr_APIKey :: APIKeyDTO
  cr_Key :: string
  cr_Warning :: string

definition generateKey :: "(string \<times> string \<times> string) io" where
  "generateKey =
     io_try (rand_Read keySecretBytes) (wrap ''generate api key'') (\<lambda>buf.
       let raw = keyPrefixMarker @ base64_encode buf
       in io_return (raw, take prefixLength raw, drop (length raw - lastFourChars) raw))"

definition hashKey :: "env \<Rightarrow> string \<Rightarrow> string" where
  "hashKey e raw = hex_encode (sha256 e raw)"

text \<open>
  The loop ranges over the runes of the text. A rune outside ASCII is rejected like its bytes are, so
  the loop over the bytes decides the same.
\<close>

fun isBase64URL :: "string \<Rightarrow> bool" where
  "isBase64URL [] = True"
| "isBase64URL (r # s) =
     (if is_upper_ascii r \<or> is_lower_ascii r \<or> is_digit r \<or> r = CHR ''-'' \<or> r = CHR ''_'' then isBase64URL s
      else False)"

definition validKeyFormat :: "string \<Rightarrow> bool" where
  "validKeyFormat raw \<longleftrightarrow>
     length raw = length keyPrefixMarker + 43 \<and> has_prefix raw keyPrefixMarker \<and>
     isBase64URL (drop (length keyPrefixMarker) raw)"

definition key_status :: "ApiKey \<Rightarrow> time \<Rightarrow> string" where
  "key_status key now =
     (if k_RevokedAt key \<noteq> None then StatusRevoked
      else if now > k_ExpiresAt key then StatusExpired else StatusActive)"

definition key_toDTO :: "ApiKey \<Rightarrow> time \<Rightarrow> APIKeyDTO" where
  "key_toDTO key now =
     \<lparr>kd_ID = k_ID key, kd_OrganizationID = k_OrganizationID key, kd_CreatedBy = k_CreatedBy key,
      kd_Name = k_Name key, kd_KeyPrefix = k_KeyPrefix key, kd_KeyLastFour = k_KeyLastFour key,
      kd_Status = key_status key now, kd_ExpiresAt = k_ExpiresAt key, kd_RevokedAt = k_RevokedAt key,
      kd_LastUsedAt = k_LastUsedAt key, kd_CreatedAt = k_CreatedAt key\<rparr>"

section \<open>Statements\<close>

text \<open>The characters of a UTF-8 text, as \<open>length(text)\<close> of PostgreSQL counts them.\<close>

definition char_length :: "string \<Rightarrow> nat" where
  "char_length s = length (filter (\<lambda>c. \<not> (128 \<le> nat_of_byte c \<and> nat_of_byte c < 192)) s)"

definition key_selected :: "world \<Rightarrow> uuid \<Rightarrow> bool \<Rightarrow> ApiKey \<Rightarrow> bool" where
  "key_selected w org include_revoked k \<longleftrightarrow>
     rls w (k_OrganizationID k) \<and> k_OrganizationID k = org \<and> (include_revoked \<or> k_RevokedAt k = None)"

definition CountAPIKeys :: "uuid \<Rightarrow> bool \<Rightarrow> int io" where
  "CountAPIKeys org include_revoked = db_read (\<lambda>w.
     Inr (int (length (filter (key_selected w org include_revoked) (api_keys (st w))))))"

definition CreateAPIKey ::
  "uuid \<Rightarrow> uuid \<Rightarrow> string \<Rightarrow> string \<Rightarrow> string \<Rightarrow> string \<Rightarrow> time \<Rightarrow> ApiKey io" where
  "CreateAPIKey org creator name prefix last_four hash expires = db_write (\<lambda>w.
     let s = st w;
         k = \<lparr>k_ID = fresh w, k_OrganizationID = org, k_CreatedBy = creator, k_Name = name,
              k_KeyPrefix = prefix, k_KeyLastFour = last_four, k_KeyHash = hash, k_ExpiresAt = expires,
              k_RevokedAt = None, k_LastUsedAt = None, k_CreatedAt = clock w, k_UpdatedAt = clock w\<rparr>
     in guards
          [(rls w org, rls_violation),
           (expires > clock w, check_violation ''api_keys_expiry_after_creation''),
           (char_length last_four = 4, check_violation ''api_keys_key_last_four_check''),
           (char_length prefix > 0, check_violation ''api_keys_key_prefix_check''),
           (not_blank name \<and> char_length name \<le> 100, check_violation ''api_keys_name_check''),
           (\<not> (\<exists>x\<in>set (api_keys s). k_KeyHash x = hash), unique_violation ''api_keys_hash_unique''),
           (\<exists>x\<in>set (organizations s). o_ID x = org, foreign_key_violation ''api_keys_organization_id_fkey''),
           (\<exists>m\<in>set (memberships s). m_UserID m = creator \<and> m_OrganizationID m = org,
            foreign_key_violation ''api_keys_creator_organization_fkey'')]
          (Inr (k, s\<lparr>api_keys := api_keys s @ [k]\<rparr>, Suc (fresh w))))"

definition GetAPIKeyByHash :: "string \<Rightarrow> ApiKey io" where
  "GetAPIKeyByHash hash = db_read (\<lambda>w.
     one_row (\<lambda>k. rls w (k_OrganizationID k) \<and> k_KeyHash k = hash) (api_keys (st w)))"

definition GetAPIKeyByID :: "uuid \<Rightarrow> uuid \<Rightarrow> ApiKey io" where
  "GetAPIKeyByID kid org = db_read (\<lambda>w.
     one_row (\<lambda>k. rls w (k_OrganizationID k) \<and> k_ID k = kid \<and> k_OrganizationID k = org) (api_keys (st w)))"

definition GetAPIKeyByIDForUpdate :: "uuid \<Rightarrow> uuid \<Rightarrow> ApiKey io" where
  "GetAPIKeyByIDForUpdate kid org = db_read (\<lambda>w.
     one_row (\<lambda>k. rls w (k_OrganizationID k) \<and> k_ID k = kid \<and> k_OrganizationID k = org) (api_keys (st w)))"

text \<open>
  The fixed \<open>CASE\<close> branches of the listing: the chosen column in the chosen direction, unused keys
  last, then name and identifier.
\<close>

definition key_order :: "string \<Rightarrow> bool \<Rightarrow> ApiKey \<Rightarrow> bool \<times> int" where
  "key_order sort_by desc k =
     (let directed = (\<lambda>t :: time. if desc then - t else t) in
      if sort_by = ''created_at'' then (False, directed (k_CreatedAt k))
      else if sort_by = ''expires_at'' then (False, directed (k_ExpiresAt k))
      else if sort_by = ''last_used_at'' then
        (case k_LastUsedAt k of None \<Rightarrow> (True, 0) | Some t \<Rightarrow> (False, directed t))
      else (False, 0))"

definition ListAPIKeys :: "env \<Rightarrow> uuid \<Rightarrow> bool \<Rightarrow> string \<Rightarrow> bool \<Rightarrow> int \<Rightarrow> int \<Rightarrow> ApiKey list io" where
  "ListAPIKeys e org include_revoked sort_by desc page_limit page_offset = db_read (\<lambda>w.
     page_rows page_limit page_offset
       (sort_key (\<lambda>k. (key_order sort_by desc k, collate e (k_Name k), k_ID k))
         (filter (key_selected w org include_revoked) (api_keys (st w)))))"

definition ListExpiredAPIKeys :: "uuid \<Rightarrow> time \<Rightarrow> nat \<Rightarrow> ApiKey list io" where
  "ListExpiredAPIKeys org expired_before row_limit = db_read (\<lambda>w.
     Inr (take row_limit (sort_key k_ExpiresAt
       (filter (\<lambda>k. key_selected w org False k \<and> k_ExpiresAt k < expired_before) (api_keys (st w))))))"

definition RevokeAPIKey :: "uuid \<Rightarrow> uuid \<Rightarrow> time \<Rightarrow> ApiKey io" where
  "RevokeAPIKey kid org revoked_at = db_write (\<lambda>w.
     let s = st w;
         hit = (\<lambda>k. rls w (k_OrganizationID k) \<and> k_ID k = kid \<and> k_OrganizationID k = org \<and> k_RevokedAt k = None);
         new = (\<lambda>k. k\<lparr>k_RevokedAt := Some revoked_at, k_UpdatedAt := clock w\<rparr>)
     in (case one_row hit (api_keys s) of
           Inl e \<Rightarrow> Inl e
         | Inr k \<Rightarrow> Inr (new k, s\<lparr>api_keys := update_where hit new (api_keys s)\<rparr>, fresh w)))"

definition RevokeAPIKeyByID :: "uuid \<Rightarrow> uuid \<Rightarrow> unit io" where
  "RevokeAPIKeyByID kid org = db_write (\<lambda>w.
     let s = st w in
       Inr ((), s\<lparr>api_keys := update_where (\<lambda>k. rls w (k_OrganizationID k) \<and> k_ID k = kid \<and> k_OrganizationID k = org)
              (\<lambda>k. k\<lparr>k_RevokedAt := Some (clock w), k_UpdatedAt := clock w\<rparr>) (api_keys s)\<rparr>, fresh w))"

definition TouchAPIKey :: "uuid \<Rightarrow> unit io" where
  "TouchAPIKey kid = db_write (\<lambda>w.
     let s = st w;
         stale = (\<lambda>k. case k_LastUsedAt k of None \<Rightarrow> True | Some t \<Rightarrow> t < clock w - Minute)
     in Inr ((), s\<lparr>api_keys := update_where (\<lambda>k. rls w (k_OrganizationID k) \<and> k_ID k = kid \<and> stale k)
              (\<lambda>k. k\<lparr>k_LastUsedAt := Some (clock w), k_UpdatedAt := clock w\<rparr>) (api_keys s)\<rparr>, fresh w))"

section \<open>The service\<close>

record apikeys_service =
  ks_env :: env
  ks_defaultTTL :: duration
  ks_maxTTL :: duration

definition keyNotFound :: "err option \<Rightarrow> err" where
  "keyNotFound cause = NewAPIError 404 ''API_KEY_NOT_FOUND'' ''API key not found'' cause"

definition invalidKey :: "err option \<Rightarrow> err" where
  "invalidKey cause = NewAPIError 401 ''INVALID_API_KEY'' ''Invalid or expired API key'' cause"

definition mapWriteError :: "err \<Rightarrow> err" where
  "mapWriteError e =
     (case errors_As_pg e of
        Some (code, constraint) \<Rightarrow>
          if code = ''23503'' \<and> constraint = ''api_keys_creator_organization_fkey''
          then NewAPIError 409 ''NOT_A_MEMBER'' ''Your membership in this organization is no longer active'' (Some e)
          else e
      | None \<Rightarrow> e)"

text \<open>
  The lifetime of a key: \<open>time.Duration(days) * 24 * time.Hour\<close> in 64 bits. The number of days in the
  message is computed in floating point in the source; it is the quotient for every limit of whole hours.
\<close>

definition days_ttl :: "int \<Rightarrow> duration" where
  "days_ttl days = wrap_int 64 (wrap_int 64 (days * 24) * Hour)"

definition key_ttl :: "apikeys_service \<Rightarrow> CreateInput \<Rightarrow> err + duration" where
  "key_ttl s inp =
     (if ci_ExpiresInDays inp > 0 then
        let ttl = days_ttl (ci_ExpiresInDays inp) in
        if ttl > ks_maxTTL s then
          Inl (NewValidationError
                [(''expires_in_days'', ''must not exceed '' @ Itoa (go_quotient (ks_maxTTL s) (24 * Hour)) @ '' days'')])
        else Inr ttl
      else Inr (ks_defaultTTL s))"

definition key_event :: "apikeys_service \<Rightarrow> string \<Rightarrow> uuid \<Rightarrow> uuid \<Rightarrow> uuid \<Rightarrow> string \<Rightarrow> string \<Rightarrow> Event" where
  "key_event s action userID orgID kid name prefix =
     WithMetadata (Event0\<lparr>ev_Action := action, ev_ActorUserID := Some userID, ev_OrganizationID := Some orgID,
        ev_TargetType := TargetAPIKey, ev_TargetID := uuid_string (ks_env s) kid\<rparr>)
       [(''key_prefix'', JString prefix), (''name'', JString name)]"

definition CreateKey :: "apikeys_service \<Rightarrow> uuid \<Rightarrow> uuid \<Rightarrow> CreateInput \<Rightarrow> CreatedResult io" where
  "CreateKey s userID orgID inp =
     io_try (Authorize userID orgID APIKeysManage) id (\<lambda>_.
     case key_input_validate inp of
       Some er \<Rightarrow> io_throw er
     | None \<Rightarrow>
         (case key_ttl s inp of
            Inl er \<Rightarrow> io_throw er
          | Inr ttl \<Rightarrow>
              io_try generateKey id (\<lambda>(raw, prefix, lastFour).
              io_try time_Now id (\<lambda>now.
              io_try (withOrgTx orgID
                  (io_try (CreateAPIKey orgID userID (TrimSpace (ci_Name inp)) prefix lastFour
                             (hashKey (ks_env s) raw) (now + ttl)) mapWriteError (\<lambda>key.
                   io_try (RecordTx (ks_env s) (key_event s APIKeyCreated userID orgID (k_ID key) (k_Name key) prefix)) id (\<lambda>_.
                   io_return key))))
                (wrap ''create api key'') (\<lambda>key.
              io_return \<lparr>cr_APIKey = key_toDTO key now, cr_Key = raw, cr_Warning = oneTimeWarning\<rparr>)))))"

definition ListKeys ::
  "apikeys_service \<Rightarrow> uuid \<Rightarrow> uuid \<Rightarrow> KeyListFilter \<Rightarrow> PageRequest \<Rightarrow> (APIKeyDTO list \<times> Pagination) io" where
  "ListKeys s userID orgID flt page =
     io_try (Authorize userID orgID APIKeysManage) id (\<lambda>_.
     let sortBy = (if kf_Sort flt \<in> set sortableFields then kf_Sort flt else defaultSort) in
     io_try (withOrgTx orgID
         (io_try (CountAPIKeys orgID (kf_IncludeRevoked flt)) id (\<lambda>count.
          io_try (ListAPIKeys (ks_env s) orgID (kf_IncludeRevoked flt) sortBy (kf_Desc flt) (Limit page) (Offset page)) id
            (\<lambda>rows. io_return (count, rows)))))
       (wrap ''list api keys'') (\<lambda>(count, rows).
     io_try time_Now id (\<lambda>now.
     io_return (map (\<lambda>row. key_toDTO row now) rows, NewPagination page count))))"

definition RevokeKey :: "apikeys_service \<Rightarrow> uuid \<Rightarrow> uuid \<Rightarrow> uuid \<Rightarrow> unit io" where
  "RevokeKey s userID orgID keyID =
     io_try (Authorize userID orgID APIKeysManage) id (\<lambda>_.
     withOrgTx orgID
       (io_try (GetAPIKeyByIDForUpdate keyID orgID)
          (\<lambda>e. if errors_Is e ErrNoRows then keyNotFound (Some e) else e) (\<lambda>current.
        if k_RevokedAt current \<noteq> None then io_throw (keyNotFound None)
        else
          io_try time_Now id (\<lambda>now.
          io_try (RevokeAPIKey keyID orgID now) id (\<lambda>_.
          RecordTx (ks_env s)
            (key_event s APIKeyRevoked userID orgID keyID (k_Name current) (k_KeyPrefix current)))))))"

definition Authenticate :: "apikeys_service \<Rightarrow> string \<Rightarrow> Principal io" where
  "Authenticate s raw =
     (if \<not> validKeyFormat raw then io_throw (invalidKey None)
      else
        io_try (GetAPIKeyByHash (hashKey (ks_env s) raw))
          (\<lambda>e. if errors_Is e ErrNoRows then invalidKey (Some e) else wrap ''get api key'' e) (\<lambda>key.
        io_try time_Now id (\<lambda>now.
        if key_status key now \<noteq> StatusActive then io_throw (invalidKey None)
        else
          io_try (withOrgTx (k_OrganizationID key)
              (io_try (GetUserByID (k_CreatedBy key))
                 (\<lambda>e. if errors_Is e ErrNoRows then invalidKey (Some e) else e) (\<lambda>user.
               if u_Status user \<noteq> ''active'' then io_throw (invalidKey None) else io_return user)))
            id (\<lambda>user.
          let result = io_return \<lparr>UserID = u_ID user, TokenID = uuid_Nil, Method = MethodAPIKey,
                                  APIKeyID = k_ID key, OrganizationID = k_OrganizationID key\<rparr>
          in io_case (TouchAPIKey (k_ID key)) (\<lambda>_. result) (\<lambda>_. result)))))"

section \<open>The sweep\<close>

definition expiryGracePeriod :: duration where "expiryGracePeriod = 30 * 24 * Hour"
definition expirySweepBatchSize :: nat where "expirySweepBatchSize = 200"
definition JobTypeExpireSweep :: string where "JobTypeExpireSweep = ''api_keys.expire_sweep''"

definition revokeExpired :: "uuid \<Rightarrow> nat io" where
  "revokeExpired orgID =
     io_try (withOrgTx orgID
         (io_try time_Now id (\<lambda>now.
          io_try (ListExpiredAPIKeys orgID (now - expiryGracePeriod) expirySweepBatchSize) id (\<lambda>rows.
          io_try (io_each (\<lambda>row. RevokeAPIKeyByID (k_ID row) orgID) rows) id (\<lambda>_.
          io_return (length rows))))))
       (wrap ''revoke expired api keys'') io_return"

text \<open>
  \<open>ExpireSweepJobHandler\<close>: \<open>decode\<close> is \<open>encoding/json\<close> on the payload \<open>{"organization_id": ...}\<close>. The
  count it sums up is only logged. A context that ends shows as a fault of the next statement.
\<close>

definition ExpireSweepJobHandler :: "(string \<Rightarrow> err + uuid) \<Rightarrow> handler" where
  "ExpireSweepJobHandler decode c job =
     (let decoded = (case jb_Payload job of
                       None \<Rightarrow> Inr uuid_Nil
                     | Some raw \<Rightarrow> if length raw > 0 then decode raw else Inr uuid_Nil)
      in case decoded of
           Inl e \<Rightarrow> io_throw (PermanentError (wrap (''decode '' @ JobTypeExpireSweep @ '' payload'') e))
         | Inr only \<Rightarrow>
             ForEachActiveOrganization only (\<lambda>orgID. io_try (revokeExpired orgID) id (\<lambda>_. io_return ())))"

section \<open>Invariants\<close>

lemmas key_writes = CreateAPIKey_def RevokeAPIKey_def RevokeAPIKeyByID_def TouchAPIKey_def
lemmas key_reads = CountAPIKeys_def GetAPIKeyByHash_def GetAPIKeyByID_def GetAPIKeyByIDForUpdate_def
  ListAPIKeys_def ListExpiredAPIKeys_def

lemma owners_other_table:
  assumes "ids.keeps T (db_write q)" and "\<And>w x s n. q w = Inr (x, s, n) \<Longrightarrow> ownership s = ownership (st w)"
  shows "owners.keeps T (db_write q)"
  using assms(1) by (rule owners.statement) (metis assms(2) owned_cong)

lemma sessions_other_table:
  assumes "ids.keeps T (db_write q)" and "\<And>w x s n. q w = Inr (x, s, n) \<Longrightarrow> refresh_tokens s = refresh_tokens (st w)"
  shows "sessions.keeps T (db_write q)"
  using assms(1) by (rule sessions_statement) (use assms(2) in auto)

lemma ids_key_statements [keeps_intro]:
  "ids.keeps T (CreateAPIKey org creator name prefix lf hash expires)"
  "ids.keeps T (RevokeAPIKey kid org t)"
  "ids.keeps T (RevokeAPIKeyByID kid org)"
  "ids.keeps T (TouchAPIKey kid)"
  unfolding key_writes
  by (rule ids.keeps_db_write; auto simp: write_simps split: option.splits)+

lemmas unfolded_ids_key_statements = ids_key_statements [unfolded key_writes]

lemma owners_key_statements [keeps_intro]:
  "owners.keeps T (CreateAPIKey org creator name prefix lf hash expires)"
  "owners.keeps T (RevokeAPIKey kid org t)"
  "owners.keeps T (RevokeAPIKeyByID kid org)"
  "owners.keeps T (TouchAPIKey kid)"
  unfolding key_writes
  by (rule owners_other_table; (rule unfolded_ids_key_statements)?; auto simp: Let_def guards_Inr split: sum.splits)+

lemma sessions_key_statements [keeps_intro]:
  "sessions.keeps T (CreateAPIKey org creator name prefix lf hash expires)"
  "sessions.keeps T (RevokeAPIKey kid org t)"
  "sessions.keeps T (RevokeAPIKeyByID kid org)"
  "sessions.keeps T (TouchAPIKey kid)"
  unfolding key_writes
  by (rule sessions_other_table; (rule unfolded_ids_key_statements)?; auto simp: Let_def guards_Inr split: sum.splits)+

lemma confined_key_statements [keeps_intro]:
  "confined.keeps org y (\<lambda>t. t = Some org) (CreateAPIKey oid creator name prefix lf hash expires)"
  "confined.keeps org y (\<lambda>t. t = Some org) (RevokeAPIKey kid oid t)"
  "confined.keeps org y (\<lambda>t. t = Some org) (RevokeAPIKeyByID kid oid)"
  "confined.keeps org y (\<lambda>t. t = Some org) (TouchAPIKey kid)"
  unfolding key_writes
  by (rule confined_db_write; (rule unfolded_ids_key_statements)?;
      auto simp: Let_def guards_Inr others_def rls_tenant one_row_def intro!: filter_update_where_other split: option.splits)+

lemma confined_insert_audit_log [keeps_intro]: "confined.keeps org y (\<lambda>t. t = Some org) (insert_audit_log e p)"
  unfolding insert_audit_log_def
  by (rule confined_db_write, rule ids_insert_audit_log [unfolded insert_audit_log_def],
      auto simp: Let_def guards_Inr others_def)

text \<open>
  An invariant that the statements keep under the tenants of \<open>T0\<close> is kept by the operations. An
  operation of one organization needs \<open>T0\<close> for this organization only, which is how confinement
  to an organization is an instance as well.
\<close>

locale key_statements = store_invariant +
  fixes T0 :: "uuid option \<Rightarrow> bool"
  assumes st_audit: "keeps T0 (insert_audit_log e p)"
    and st_CreateAPIKey: "keeps T0 (CreateAPIKey org creator name prefix lf hash expires)"
    and st_RevokeAPIKey: "keeps T0 (RevokeAPIKey kid org t)"
    and st_RevokeAPIKeyByID: "keeps T0 (RevokeAPIKeyByID kid org)"
    and st_TouchAPIKey: "keeps T0 (TouchAPIKey kid)"
begin

lemmas key_rules = st_CreateAPIKey [THEN within] st_RevokeAPIKey [THEN within] st_RevokeAPIKeyByID [THEN within]
  st_TouchAPIKey [THEN within] st_audit [THEN within]

lemma audit_rules:
  assumes "\<And>t. T t \<Longrightarrow> T0 t"
  shows "keeps T (RecordTx e ev)" "keeps T (Record e ev)"
  unfolding RecordTx_def Record_def CreateAuditLog_def Let_def
  by (intro keeps_intro key_rules; simp add: assms)+

lemma keeps_Authorize: "keeps T (Authorize uid org perm)"
  unfolding organization_reads by (intro keeps_intro)

lemma organization_key_operations:
  assumes "T0 (Some org)"
  shows "keeps T (CreateKey s uid org inp)" "keeps T (RevokeKey s uid org kid)" "keeps T (revokeExpired org)"
  unfolding CreateKey_def RevokeKey_def revokeExpired_def generateKey_def withOrgTx_def key_reads Let_def
  by (intro keeps_intro key_rules audit_rules keeps_Authorize; simp add: assms)+

lemma key_operations:
  assumes "\<And>t. T0 t"
  shows "keeps T (Authenticate s raw)" "keeps T (ExpireSweepJobHandler decode c job)"
  unfolding Authenticate_def ExpireSweepJobHandler_def ForEachActiveOrganization_def key_reads identity_reads withOrgTx_def Let_def
  by (intro keeps_intro key_rules organization_key_operations; simp add: assms)+

end

interpretation ids_keys: key_statements wf_ids "\<lambda>_. True"
  by unfold_locales (rule keeps_intro ids_insert_audit_log)+

interpretation owners_keys: key_statements "wf_and owned" "\<lambda>_. True"
  by unfold_locales (rule keeps_intro owners_insert_audit_log)+

interpretation sessions_keys: key_statements sessions_ok "\<lambda>_. True"
  by unfold_locales (rule keeps_intro sessions_insert_audit_log)+

interpretation confined_keys: key_statements "wf_and (\<lambda>s. others org s = y)" "\<lambda>t. t = Some org" for org y
  by unfold_locales (rule keeps_intro)+

end
