(* ===== verification/Key_Safety.thy ===== *)
theory Key_Safety
  imports ApiKeys
begin

text \<open>
  What the API key service promises: which keys authenticate and as whom, that a minted key works
  until it expires and is recorded, its lifetime, and what a revocation and the sweep change.
\<close>

section \<open>Authentication\<close>

lemma isBase64URL_eq: "isBase64URL s \<longleftrightarrow> list_all is_base64url_char s"
  by (induction s) (simp_all add: is_base64url_char_def)

lemma generateKey_valid:
  assumes "generateKey w = (Inr (raw, prefix, lf), w')"
  shows "validKeyFormat raw" "st w' = st w" "clock w' = clock w" "tenant w' = tenant w"
proof -
  from assms obtain buf where b: "rand_Read keySecretBytes w = (Inr buf, w')" "raw = keyPrefixMarker @ base64_encode buf"
    by (auto simp: generateKey_def io_success Let_def)
  then have "length buf = 32" "st w' = st w" "clock w' = clock w" "tenant w' = tenant w"
    by (auto simp: rand_Read_def keySecretBytes_def dest!: next_fault_frameD split: prod.splits option.splits)
  then show "validKeyFormat raw" "st w' = st w" "clock w' = clock w" "tenant w' = tenant w"
    using b(2) base64_encode_alphabet
    by (simp_all add: validKeyFormat_def keyPrefixMarker_def has_prefix_def length_base64_encode isBase64URL_eq)
qed

text \<open>The documented policy: a stored key that is neither revoked nor expired, of an active user.\<close>

definition key_admits :: "apikeys_service \<Rightarrow> string \<Rightarrow> time \<Rightarrow> store \<Rightarrow> Principal \<Rightarrow> bool" where
  "key_admits s raw now db p \<longleftrightarrow>
     validKeyFormat raw \<and>
     (\<exists>k\<in>set (api_keys db). \<exists>u\<in>set (users db).
        k_KeyHash k = hashKey (ks_env s) raw \<and> k_RevokedAt k = None \<and> now \<le> k_ExpiresAt k \<and>
        u_ID u = k_CreatedBy k \<and> u_Status u = ''active'' \<and>
        p = \<lparr>UserID = u_ID u, TokenID = uuid_Nil, Method = MethodAPIKey, APIKeyID = k_ID k,
             OrganizationID = k_OrganizationID k\<rparr>)"

lemma status_active: "key_status k now = StatusActive \<longleftrightarrow> k_RevokedAt k = None \<and> now \<le> k_ExpiresAt k"
  by (auto simp: key_status_def StatusActive_def StatusExpired_def StatusRevoked_def)

lemma authenticate_facts:
  assumes "Authenticate s raw w = (Inr p, w')"
  shows "key_admits s raw (clock w) (st w) p"
  using assms unfolding Authenticate_def key_admits_def
  by (auto simp: GetAPIKeyByHash_def GetUserByID_def withOrgTx_def io_success one_row_def status_active Let_def
      dest!: find_SomeD split: option.splits if_splits)

lemma authenticate_complete:
  assumes wf: "wf_ids (st w) (fresh w)" and nf: "faults w = []" and t: "tenant w = None"
    and p: "key_admits s raw (clock w) (st w) p"
  shows "\<exists>w'. Authenticate s raw w = (Inr p, w')"
proof -
  from p obtain k u where k: "validKeyFormat raw" "k \<in> set (api_keys (st w))" "u \<in> set (users (st w))"
    "k_KeyHash k = hashKey (ks_env s) raw" "k_RevokedAt k = None" "clock w \<le> k_ExpiresAt k"
    "u_ID u = k_CreatedBy k" "u_Status u = ''active''"
    and p': "p = \<lparr>UserID = u_ID u, TokenID = uuid_Nil, Method = MethodAPIKey, APIKeyID = k_ID k,
             OrganizationID = k_OrganizationID k\<rparr>"
    by (auto simp: key_admits_def)
  have "find (\<lambda>k. rls w (k_OrganizationID k) \<and> k_KeyHash k = hashKey (ks_env s) raw) (api_keys (st w)) = Some k"
    using k t wf_key_hash [OF wf] by (intro find_unique) (auto simp: rls_def)
  moreover have "find (\<lambda>u. u_ID u = k_CreatedBy k) (users (st w)) = Some u"
    using k wf_user_unique [OF wf] by (intro find_unique) auto
  ultimately show ?thesis
    using k nf p' by (simp add: Authenticate_def GetAPIKeyByHash_def GetUserByID_def withOrgTx_def io_simps one_row_def
        status_active Let_def TouchAPIKey_def)
qed

text \<open>
  C13: an API key authenticates exactly while the documented policy admits it. In a store that
  satisfies the schema, without faults and outside a tenant, \<open>Authenticate\<close> returns the principal
  \<open>p\<close> if and only if the text has the format of a key, its digest is stored, the key is neither
  revoked nor expired, its creator is an active user, and \<open>p\<close> is that user confined to the key's
  organization.
\<close>

theorem authenticate_decides:
  assumes "wf_ids (st w) (fresh w)" and "faults w = []" and "tenant w = None"
  shows "(\<exists>w'. Authenticate s raw w = (Inr p, w')) \<longleftrightarrow> key_admits s raw (clock w) (st w) p"
  using authenticate_facts authenticate_complete [OF assms] by blast

section \<open>Minting\<close>

lemma RecordTx_success:
  assumes "RecordTx e ev w = (Inr u, w')"
  obtains row where "st w' = (st w)\<lparr>audit_logs := audit_logs (st w) @ [row]\<rparr>"
    "al_Action row = ev_Action ev" "al_OrganizationID row = ev_OrganizationID ev" "al_ActorUserID row = ev_ActorUserID ev"
    "al_TargetType row = optional (ev_TargetType ev)" "al_TargetID row = optional (ev_TargetID ev)"
    "clock w' = clock w" "tenant w' = tenant w"
proof -
  from assms obtain p row where p: "params e ev = Inr p" and r: "insert_audit_log e p w = (Inr row, w')"
    by (auto simp: RecordTx_def CreateAuditLog_def io_success split: sum.splits if_splits)
  have "ap_Action p = ev_Action ev" "ap_OrganizationID p = ev_OrganizationID ev" "ap_ActorUserID p = ev_ActorUserID ev"
    "ap_TargetType p = optional (ev_TargetType ev)" "ap_TargetID p = optional (ev_TargetID ev)"
    using p by (auto simp: params_def Audit_Trail.normalize_def Let_def split: if_splits)
  with r show ?thesis
    by (intro that [of row]) (auto simp: insert_audit_log_def io_success Let_def guards_Inr)
qed

lemma CreateAPIKey_success:
  assumes "CreateAPIKey org creator name prefix lf hash expires w = (Inr k, w')"
  shows "st w' = (st w)\<lparr>api_keys := api_keys (st w) @ [k]\<rparr>" "clock w' = clock w" "tenant w' = tenant w"
    "k = \<lparr>k_ID = fresh w, k_OrganizationID = org, k_CreatedBy = creator, k_Name = name,
          k_KeyPrefix = prefix, k_KeyLastFour = lf, k_KeyHash = hash, k_ExpiresAt = expires,
          k_RevokedAt = None, k_LastUsedAt = None, k_CreatedAt = clock w, k_UpdatedAt = clock w\<rparr>"
  using assms by (auto simp: CreateAPIKey_def io_success Let_def guards_Inr)

lemma frame_Authorize [keeps_intro]: "store_invariant.keeps (unchanged f x) T (Authorize uid org perm)"
  unfolding organization_reads by (intro keeps_intro)

lemma frame_generateKey [keeps_intro]: "store_invariant.keeps (unchanged f x) T generateKey"
  unfolding generateKey_def Let_def by (intro keeps_intro)

lemma WithTenantTx_failure: "WithTenantTx org fn w = (Inl e, w') \<Longrightarrow> st w' = st w"
  by (auto simp: WithTenantTx_def dest!: next_fault_frameD split: prod.splits option.splits sum.splits)

text \<open>The row a successful \<open>Create\<close> adds, the record of it, and everything else unchanged.\<close>

definition minted :: "apikeys_service \<Rightarrow> uuid \<Rightarrow> uuid \<Rightarrow> CreateInput \<Rightarrow> time \<Rightarrow> CreatedResult \<Rightarrow> store \<Rightarrow> store \<Rightarrow> bool" where
  "minted s uid org inp now res before after \<longleftrightarrow>
     validKeyFormat (cr_Key res) \<and>
     (\<exists>k row ttl.
        after = before\<lparr>api_keys := api_keys before @ [k], audit_logs := audit_logs before @ [row]\<rparr> \<and>
        k_ID k = kd_ID (cr_APIKey res) \<and> k_OrganizationID k = org \<and> k_CreatedBy k = uid \<and>
        k_KeyHash k = hashKey (ks_env s) (cr_Key res) \<and> k_RevokedAt k = None \<and>
        key_ttl s inp = Inr ttl \<and> k_ExpiresAt k = now + ttl \<and> kd_ExpiresAt (cr_APIKey res) = now + ttl \<and> now < k_ExpiresAt k \<and>
        al_Action row = APIKeyCreated \<and> al_OrganizationID row = Some org \<and> al_ActorUserID row = Some uid \<and>
        al_TargetID row = optional (uuid_string (ks_env s) (k_ID k)))"

lemma create_key_success:
  assumes run: "CreateKey s uid org inp w = (Inr res, w')"
  shows "minted s uid org inp (clock w) res (st w) (st w')"
proof -
  from run obtain t w1 ttl raw prefix lf w2 k u w3 w4 where
    a: "Authorize uid org APIKeysManage w = (Inr t, w1)" and ttl: "key_ttl s inp = Inr ttl" and
    g: "generateKey w1 = (Inr (raw, prefix, lf), w2)" and
    c: "CreateAPIKey org uid (TrimSpace (ci_Name inp)) prefix lf (hashKey (ks_env s) raw) (clock w2 + ttl)
          ((drop_fault (drop_fault w2))\<lparr>tenant := Some org\<rparr>) = (Inr k, w3)" and
    r: "RecordTx (ks_env s) (key_event s APIKeyCreated uid org (k_ID k) (k_Name k) prefix) w3 = (Inr u, w4)" and
    w': "st w' = st w4" and res: "res = \<lparr>cr_APIKey = key_toDTO k (clock w2), cr_Key = raw, cr_Warning = oneTimeWarning\<rparr>"
    unfolding CreateKey_def
    by (auto simp: withOrgTx_def io_success split: option.splits sum.splits prod.splits)
  note c' = CreateAPIKey_success [OF c]
  have "clock (drop_fault w2) < clock w2 + ttl"
    using c by (auto simp: CreateAPIKey_def io_success Let_def guards_Inr)
  moreover obtain row where "st w4 = (st w3)\<lparr>audit_logs := audit_logs (st w3) @ [row]\<rparr>"
    "al_Action row = APIKeyCreated" "al_OrganizationID row = Some org" "al_ActorUserID row = Some uid"
    "al_TargetID row = optional (uuid_string (ks_env s) (k_ID k))"
    using RecordTx_success [OF r] by (auto simp: key_event_def WithMetadata_def Event0_def)
  moreover have "clock w1 = clock w" "st w1 = st w"
    using authorize_facts [OF a] a by (auto simp: organization_reads io_success split: if_splits)
  ultimately show ?thesis
    using c' generateKey_valid [OF g] ttl res w' unfolding minted_def
    by (intro conjI exI [of _ k] exI [of _ row] exI [of _ ttl]) (simp_all add: key_toDTO_def)
qed

lemma create_key_failure:
  assumes "CreateKey s uid org inp w = (Inl e, w')"
  shows "st w' = st w"
  using assms
  by (auto simp: CreateKey_def io_try_def io_case_def io_throw_def withOrgTx_def time_Now_def io_return_def
      dest!: frame_same [where f = id, OF frame_Authorize TrueI, simplified]
       frame_same [where f = id, OF frame_generateKey TrueI, simplified]
       WithTenantTx_failure
      split: prod.splits sum.splits option.splits if_splits)

text \<open>
  Minting is all or nothing and always on record. When \<open>Create\<close> returns a key, the tables differ
  from before in exactly two rows: the key, stored as the digest of the returned secret with the
  lifetime of the policy, and the audit record that names the creator, the organization and the key.
  When \<open>Create\<close> fails, at any point and for any fault, no table has changed.
\<close>

theorem minted_keys_are_audited:
  assumes "CreateKey s uid org inp w = (r, w')"
  shows "case r of Inl e \<Rightarrow> st w' = st w | Inr res \<Rightarrow> minted s uid org inp (clock w) res (st w) (st w')"
  using assms create_key_success create_key_failure by (auto split: sum.split)

section \<open>Lifetime\<close>

lemma days_ttl_exact: "0 \<le> days \<Longrightarrow> days \<le> 106751 \<Longrightarrow> days_ttl days = days * (24 * Hour)"
  unfolding days_ttl_def by (subst (2) wrap_int_id; (subst wrap_int_id)?; simp)

text \<open>
  The lifetime of a key is the requested number of days and respects the configured maximum, for
  requests of up to 106751 days; without a request it is the configured default. A request beyond
  the maximum is refused.
\<close>

theorem key_lifetime_bounded:
  assumes "0 \<le> ci_ExpiresInDays inp" "ci_ExpiresInDays inp \<le> 106751"
  shows "key_ttl s inp =
     (if ci_ExpiresInDays inp = 0 then Inr (ks_defaultTTL s)
      else if ci_ExpiresInDays inp * (24 * Hour) \<le> ks_maxTTL s then Inr (ci_ExpiresInDays inp * (24 * Hour))
      else Inl (NewValidationError
             [(''expires_in_days'', ''must not exceed '' @ Itoa (go_quotient (ks_maxTTL s) (24 * Hour)) @ '' days'')]))"
  using assms by (auto simp: key_ttl_def days_ttl_exact Let_def)

text \<open>Beyond that the product wraps around: 213504 days pass a limit of a year, as 25 minutes.\<close>

lemma key_lifetime_wraps:
  "key_ttl \<lparr>ks_env = e, ks_defaultTTL = d, ks_maxTTL = 365 * (24 * Hour)\<rparr> \<lparr>ci_Name = n, ci_ExpiresInDays = 213504\<rparr> =
     Inr 1526290448384"
  by (simp add: key_ttl_def days_ttl_def wrap_int_def)

section \<open>Revocation\<close>

text \<open>The key with digest \<open>h\<close> is stored and revoked. Nothing the services do brings it back.\<close>

definition dead_key :: "string \<Rightarrow> store \<Rightarrow> bool" where
  "dead_key h db \<longleftrightarrow> (\<exists>k\<in>set (api_keys db). k_KeyHash k = h \<and> k_RevokedAt k \<noteq> None)"

interpretation dead: schema_property "dead_key h" for h .

lemma dead_key_rejected:
  assumes "wf_ids (st w) n" and "dead_key (hashKey (ks_env s) raw) (st w)"
  shows "isl (fst (Authenticate s raw w))"
proof (rule ccontr)
  assume "\<not> isl (fst (Authenticate s raw w))"
  then obtain p where "Authenticate s raw w = (Inr p, snd (Authenticate s raw w))"
    by (metis not_isl_Inr prod.collapse)
  from authenticate_facts [OF this] show False
    using assms(2) wf_key_hash [OF assms(1)] unfolding key_admits_def dead_key_def by (metis (full_types))
qed

lemma dead_key_update:
  assumes "dead_key h db" and "\<And>k. k_KeyHash (f k) = k_KeyHash k \<and> (k_RevokedAt k \<noteq> None \<longrightarrow> k_RevokedAt (f k) \<noteq> None)"
  shows "dead_key h (db\<lparr>api_keys := update_where P f (api_keys db)\<rparr>)"
proof -
  from assms(1) obtain k where k: "k \<in> set (api_keys db)" "k_KeyHash k = h" "k_RevokedAt k \<noteq> None"
    by (auto simp: dead_key_def)
  then have "(if P k then f k else k) \<in> set (update_where P f (api_keys db))"
    by (simp add: set_update_where)
  moreover have "k_KeyHash (if P k then f k else k) = h" "k_RevokedAt (if P k then f k else k) \<noteq> None"
    using k assms(2) by auto
  ultimately show ?thesis unfolding dead_key_def by (intro bexI) auto
qed

lemma dead_key_statements [keeps_intro]:
  "dead.keeps h T (CreateAPIKey org creator name prefix lf hash expires)"
  "dead.keeps h T (RevokeAPIKey kid org t)"
  "dead.keeps h T (RevokeAPIKeyByID kid org)"
  "dead.keeps h T (TouchAPIKey kid)"
  unfolding key_writes
  by (rule dead.statement; (rule unfolded_ids_key_statements)?;
      (auto simp: Let_def guards_Inr intro!: dead_key_update split: sum.splits; simp add: dead_key_def)?)+

interpretation dead_identity: identity_statements "wf_and (dead_key h)" for h
  by (rule dead.identity_framed) (simp add: dead_key_def)

interpretation dead_keys: key_statements "wf_and (dead_key h)" "\<lambda>_. True" for h
  by unfold_locales (rule keeps_intro dead_identity.st_insert_audit_log)+

lemma revoke_key_kills:
  assumes wf: "wf_ids (st w) (fresh w)" and run: "RevokeKey s uid org kid w = (Inr u, w')"
    and k: "k \<in> set (api_keys (st w))" "k_ID k = kid"
  shows "dead_key (k_KeyHash k) (st w')"
proof -
  from run obtain t w1 k' v1 v2 and c :: ApiKey where
    a: "Authorize uid org APIKeysManage w = (Inr t, w1)" and
    r: "RevokeAPIKey kid org (clock w1) (w1\<lparr>tenant := Some org, faults := tl (tl (tl (faults w1)))\<rparr>) = (Inr k', v1)"
      (is "RevokeAPIKey kid org ?now ?v = _") and
    e: "RecordTx (ks_env s) (key_event s APIKeyRevoked uid org kid (k_Name c) (k_KeyPrefix c)) v1 = (Inr u, v2)" "st w' = st v2"
    unfolding RevokeKey_def
    by (auto simp: withOrgTx_def io_success GetAPIKeyByIDForUpdate_def split: if_splits)
  have st: "st ?v = st w" using authorize_facts [OF a] by simp
  from r obtain k0 where k0: "k0 \<in> set (api_keys (st w))" "k_ID k0 = kid" "rls ?v (k_OrganizationID k0)"
      "k_OrganizationID k0 = org" "k_RevokedAt k0 = None"
    and keys: "api_keys (st v1) = update_where (\<lambda>k. rls ?v (k_OrganizationID k) \<and> k_ID k = kid \<and> k_OrganizationID k = org \<and>
        k_RevokedAt k = None) (\<lambda>k. k\<lparr>k_RevokedAt := Some ?now, k_UpdatedAt := clock ?v\<rparr>) (api_keys (st w))"
    using st by (auto simp: RevokeAPIKey_def io_success Let_def one_row_def rls_def dest!: find_SomeD split: option.splits)
  have "k0 = k" using wf_key_unique [OF wf k0(1) k(1)] k0(2) k(2) by simp
  then have "dead_key (k_KeyHash k) (st v1)"
    unfolding dead_key_def keys using k0 k(1) by (intro bexI [OF _ update_where_hit [of k]]) simp_all
  moreover have "api_keys (st v2) = api_keys (st v1)"
    using RecordTx_success [OF e(1)] by (metis store.select_convs(14) store.surjective store.update_convs(15))
  ultimately show ?thesis using e(2) by (simp add: dead_key_def)
qed

section \<open>Examples\<close>

definition key_demo_world :: world where
  "key_demo_world = demo_world\<lparr>st := demo_store\<lparr>
     permissions := [\<lparr>p_ID = 45, p_Key = APIKeysManage, p_Description = APIKeysManage, p_CreatedAt = 0\<rparr>],
     role_permissions := [\<lparr>rp_RoleID = 11, rp_PermissionID = 45\<rparr>]\<rparr>\<rparr>"

definition key_demo_service :: apikeys_service where
  "key_demo_service = \<lparr>ks_env = demo_env, ks_defaultTTL = 90 * (24 * Hour), ks_maxTTL = 365 * (24 * Hour)\<rparr>"

definition key_demo_input :: CreateInput where
  "key_demo_input = \<lparr>ci_Name = ''ci'', ci_ExpiresInDays = 30\<rparr>"

abbreviation key_demo_run :: "(err + CreatedResult) \<times> world" where
  "key_demo_run \<equiv> CreateKey key_demo_service 1 10 key_demo_input key_demo_world"

lemma key_demo_wf: "wf_ids (st key_demo_world) (fresh key_demo_world)"
  by code_simp

lemma key_demo_eval:
  "case key_demo_run of (r, w') \<Rightarrow>
     \<not> isl r \<and> faults w' = [] \<and> tenant w' = None \<and> clock w' \<le> kd_ExpiresAt (cr_APIKey (projr r)) \<and>
     length (api_keys (st w')) = 1"
  by code_simp

lemma key_demo_revoke:
  "case key_demo_run of (r, w') \<Rightarrow> \<not> isl (fst (RevokeKey key_demo_service 1 10 100 w')) \<and> kd_ID (cr_APIKey (projr r)) = 100"
  by code_simp

lemma key_demo_success:
  obtains res w' where "key_demo_run = (Inr res, w')" "faults w' = []" "tenant w' = None"
    "clock w' \<le> kd_ExpiresAt (cr_APIKey res)" "wf_ids (st w') (fresh w')"
proof -
  obtain r w' where run: "key_demo_run = (r, w')" by (cases key_demo_run)
  have "wf_ids (st w') (fresh w')"
    using ids.keepsD(3) [OF ids_keys.organization_key_operations(1) [OF TrueI] TrueI, OF key_demo_wf, of key_demo_service 1 10 key_demo_input] run by simp
  with key_demo_eval run show ?thesis by (cases r) (auto intro: that)
qed

theorem minted_keys_are_audited_witness:
  "\<exists>res. minted key_demo_service 1 10 key_demo_input (clock key_demo_world) res (st key_demo_world) (st (snd key_demo_run))"
proof -
  obtain res w' where "key_demo_run = (Inr res, w')" by (rule key_demo_success)
  from minted_keys_are_audited [OF this] this show ?thesis by auto
qed

theorem authenticate_decides_witness:
  "\<exists>res w'. key_demo_run = (Inr res, w') \<and>
     (\<exists>p v. Authenticate key_demo_service (cr_Key res) w' = (Inr p, v)) \<and>
     \<not> (\<exists>p v. Authenticate key_demo_service (cr_Key res) (w'\<lparr>clock := kd_ExpiresAt (cr_APIKey res) + 1\<rparr>) = (Inr p, v))"
proof -
  obtain res w' where r: "key_demo_run = (Inr res, w')" and f: "faults w' = []" "tenant w' = None"
    "clock w' \<le> kd_ExpiresAt (cr_APIKey res)" "wf_ids (st w') (fresh w')"
    by (rule key_demo_success)
  from create_key_success [OF r] obtain k row where
    m: "st w' = (st key_demo_world)\<lparr>api_keys := api_keys (st key_demo_world) @ [k], audit_logs := audit_logs (st key_demo_world) @ [row]\<rparr>"
    "k_CreatedBy k = 1" "k_KeyHash k = hashKey (ks_env key_demo_service) (cr_Key res)" "k_RevokedAt k = None"
    "k_ExpiresAt k = kd_ExpiresAt (cr_APIKey res)" "validKeyFormat (cr_Key res)"
    by (auto simp: minted_def)
  have none: "api_keys (st key_demo_world) = []" and u: "\<exists>u\<in>set (users (st key_demo_world)). u_ID u = 1 \<and> u_Status u = ''active''"
    by (simp_all add: key_demo_world_def demo_world_def demo_store_def empty_store_def)
  have "\<exists>p. key_admits key_demo_service (cr_Key res) (clock w') (st w') p"
    using m f none u by (auto simp: key_admits_def)
  moreover have "\<not> key_admits key_demo_service (cr_Key res) (kd_ExpiresAt (cr_APIKey res) + 1) (st w') p" for p
    using m none by (auto simp: key_admits_def)
  ultimately have "\<exists>p v. Authenticate key_demo_service (cr_Key res) w' = (Inr p, v)"
    "\<not> (\<exists>p v. Authenticate key_demo_service (cr_Key res) (w'\<lparr>clock := kd_ExpiresAt (cr_APIKey res) + 1\<rparr>) = (Inr p, v))"
    using authenticate_decides [OF f(4,1,2), of key_demo_service "cr_Key res"]
      authenticate_decides [of "w'\<lparr>clock := kd_ExpiresAt (cr_APIKey res) + 1\<rparr>" key_demo_service "cr_Key res"] f
    by (simp_all add: f)
  with r show ?thesis by blast
qed

theorem key_lifetime_bounded_witness:
  "key_ttl key_demo_service key_demo_input = Inr (30 * (24 * Hour))"
  using key_lifetime_bounded [of key_demo_input key_demo_service]
  by (simp add: key_demo_input_def key_demo_service_def)

end
