(* ===== verification/Http_Api.thy ===== *)
theory Http_Api
  imports Key_Safety
begin

text \<open>
  Requests, authentication middleware and handlers: \<open>internal/auth/middleware.go\<close>,
  \<open>internal/auth/handler.go\<close>, \<open>internal/apikeys/handler.go\<close> and the tenant middleware of
  \<open>internal/organizations/routes.go\<close>.

  A handler maps a request to a response and changes the world. What a request carries is a record:
  its context, the headers (\<open>Header.Get\<close>), the parameters of the matched route (\<open>chi.URLParam\<close>), the
  query and what \<open>net/http\<close> knows of the peer. The decoded body is an argument of the handlers that
  read one: the result of the first decode and the error of the second, as \<open>DecodeJSON\<close> takes them.

  The middleware depends on the interface \<open>APIKeyAuthenticator\<close>. The locale \<open>key_authenticator\<close> states
  its contract, and its lemmas show what the middleware makes of it; the API key service is its
  interpretation.
\<close>

section \<open>Requests and responses\<close>

record http_request =
  hr_Context :: request_context
  hr_Header :: "string \<Rightarrow> string"
  hr_URLParam :: "string \<Rightarrow> string"
  hr_Query :: url_values
  hr_RequestID :: string
  hr_RemoteAddr :: string
  hr_TraceID :: string

type_synonym 'b body = "(err + 'b) \<times> err option"
type_synonym 'a http_handler = "http_request \<Rightarrow> 'a response io"

definition respond_error :: "http_request \<Rightarrow> err \<Rightarrow> 'a response io" where
  "respond_error r e = io_return (fst (WriteError (hr_RequestID r) e))"

definition decode_body :: "http_request \<Rightarrow> 'b body \<Rightarrow> ('b \<Rightarrow> 'a response io) \<Rightarrow> 'a response io" where
  "decode_body r b k = (case DecodeJSON (fst b) (snd b) of Inl e \<Rightarrow> respond_error r e | Inr v \<Rightarrow> k v)"

definition WritePage :: "'a list \<Rightarrow> Pagination \<Rightarrow> ('a list \<times> Pagination) response" where
  "WritePage items pagination = RespData 200 (items, pagination)"

section \<open>Authentication middleware\<close>

record auth_middleware =
  mw_env :: env
  mw_jwt :: JWTService
  mw_apiKey :: "(string \<Rightarrow> Principal io) option"

definition bearerToken :: "http_request \<Rightarrow> string option" where
  "bearerToken r =
     (let h = hr_Header r ''Authorization''; prefix = ''Bearer '' in
      if h = [] then None
      else if length h \<le> length prefix \<or> \<not> equal_fold_ascii (take (length prefix) h) prefix then None
      else let token = TrimSpace (drop (length prefix) h) in if token \<noteq> [] then Some token else None)"

definition resolveBearer :: "auth_middleware \<Rightarrow> string \<Rightarrow> Principal option io" where
  "resolveBearer m token =
     io_try time_Now id (\<lambda>now.
       case ParseAccessToken (mw_jwt m) now token of
         Inl _ \<Rightarrow> io_return None
       | Inr claims \<Rightarrow>
           (case uuid_Parse (mw_env m) (ac_Subject claims) of
              None \<Rightarrow> io_return None
            | Some userID \<Rightarrow>
                io_return (Some \<lparr>UserID = userID,
                  TokenID = (case uuid_Parse (mw_env m) (ac_ID claims) of None \<Rightarrow> uuid_Nil | Some t \<Rightarrow> t),
                  Method = MethodBearer, APIKeyID = uuid_Nil, OrganizationID = uuid_Nil\<rparr>)))"

definition resolveAPIKey :: "auth_middleware \<Rightarrow> http_request \<Rightarrow> Principal option io" where
  "resolveAPIKey m r =
     (case mw_apiKey m of
        None \<Rightarrow> io_return None
      | Some authenticate \<Rightarrow>
          let rawKey = TrimSpace (hr_Header r ''X-API-Key'') in
          if rawKey = [] then io_return None
          else
            io_case (authenticate rawKey) (\<lambda>_. io_return None) (\<lambda>who.
              let orgID = hr_URLParam r ''orgID'' in
              if orgID = [] \<or> orgID \<noteq> uuid_string (mw_env m) (OrganizationID who) then io_return None
              else io_return (Some who)))"

definition resolve :: "auth_middleware \<Rightarrow> http_request \<Rightarrow> Principal option io" where
  "resolve m r = (case bearerToken r of Some token \<Rightarrow> resolveBearer m token | None \<Rightarrow> resolveAPIKey m r)"

definition with_principal :: "http_request \<Rightarrow> Principal \<Rightarrow> http_request" where
  "with_principal r p = r\<lparr>hr_Context := WithPrincipal (hr_Context r) p\<rparr>"

definition RequireAuth :: "auth_middleware \<Rightarrow> 'a http_handler \<Rightarrow> 'a http_handler" where
  "RequireAuth m nxt r =
     (case PrincipalFromContext (hr_Context r) of
        Some _ \<Rightarrow> nxt r
      | None \<Rightarrow>
          io_try (resolve m r) id (\<lambda>found.
            case found of
              None \<Rightarrow> respond_error r (Sentinel ErrUnauthorized)
            | Some who \<Rightarrow> nxt (with_principal r who)))"

definition OptionalAuth :: "auth_middleware \<Rightarrow> 'a http_handler \<Rightarrow> 'a http_handler" where
  "OptionalAuth m nxt r =
     io_try (resolve m r) id (\<lambda>found.
       case found of None \<Rightarrow> nxt r | Some who \<Rightarrow> nxt (with_principal r who))"

text \<open>\<open>RequireTenant\<close> of the organization routes.\<close>

definition RequireTenant :: "env \<Rightarrow> 'a http_handler \<Rightarrow> 'a http_handler" where
  "RequireTenant e nxt r =
     (case PrincipalFromContext (hr_Context r) of
        None \<Rightarrow> respond_error r (Sentinel ErrUnauthorized)
      | Some who \<Rightarrow>
          (case uuid_Parse e (hr_URLParam r ''orgID'') of
             None \<Rightarrow> respond_error r (Sentinel ErrNotFound)
           | Some orgID \<Rightarrow>
               io_case (ResolveTenant (UserID who) orgID) (respond_error r) (\<lambda>t.
                 nxt (r\<lparr>hr_Context := WithTenant (hr_Context r) t\<rparr>))))"

section \<open>Authentication endpoints\<close>

record auth_http =
  ah_service :: auth_service
  ah_mail_ok :: "string \<Rightarrow> bool"
  ah_unicode :: unicode
  ah_parse_ip :: "string \<Rightarrow> ip option"
  ah_split_host_port :: "string \<Rightarrow> (string \<times> string) option"

record registerRequest =
  rr_Email :: string
  rr_Password :: string
  rr_FirstName :: string
  rr_LastName :: string
  rr_OrganizationName :: string

record loginRequest =
  lr_Email :: string
  lr_Password :: string

record authResponse =
  ap_AccessToken :: string
  ap_RefreshToken :: string
  ap_TokenType :: string
  ap_ExpiresIn :: int
  ap_User :: UserDTO

definition toAuthResponse :: "AuthResult \<Rightarrow> authResponse" where
  "toAuthResponse r =
     \<lparr>ap_AccessToken = tp_AccessToken (ar_Tokens r), ap_RefreshToken = tp_RefreshToken (ar_Tokens r),
      ap_TokenType = ''Bearer'', ap_ExpiresIn = tp_ExpiresIn (ar_Tokens r), ap_User = ar_User r\<rparr>"

definition RequestMetaFromRequest :: "auth_http \<Rightarrow> http_request \<Rightarrow> RequestMeta" where
  "RequestMetaFromRequest h r =
     \<lparr>rm_UserAgent = hr_Header r ''User-Agent'',
      rm_IPAddress = ClientIP (ah_parse_ip h) (ah_split_host_port h) (hr_RemoteAddr r) (hr_Header r ''X-Forwarded-For'')\<rparr>"

definition register_checks :: "auth_http \<Rightarrow> registerRequest \<Rightarrow> validator" where
  "register_checks h req =
     MaxLen ''organization_name'' (rr_OrganizationName req) 150
     (Required ''organization_name'' (rr_OrganizationName req)
     (MaxLen ''last_name'' (rr_LastName req) 100
     (Required ''last_name'' (rr_LastName req)
     (MaxLen ''first_name'' (rr_FirstName req) 100
     (Required ''first_name'' (rr_FirstName req)
     (Password (ah_unicode h) ''password'' (rr_Password req)
     (Email (ah_mail_ok h) ''email'' (rr_Email req)
     (Required ''email'' (rr_Email req) New))))))))"

definition RegisterHandler :: "auth_http \<Rightarrow> registerRequest body \<Rightarrow> authResponse http_handler" where
  "RegisterHandler h b r =
     decode_body r b (\<lambda>req.
       case Err (register_checks h req) of
         Some e \<Rightarrow> respond_error r e
       | None \<Rightarrow>
           io_case (Register (ah_service h)
               \<lparr>ri_Email = NormalizeEmail (unicode_lower (as_env (ah_service h))) (rr_Email req),
                ri_Password = rr_Password req, ri_FirstName = rr_FirstName req, ri_LastName = rr_LastName req,
                ri_OrganizationName = rr_OrganizationName req\<rparr> (RequestMetaFromRequest h r))
             (respond_error r) (\<lambda>result. io_return (WriteData 201 (toAuthResponse result))))"

definition LoginHandler :: "auth_http \<Rightarrow> loginRequest body \<Rightarrow> authResponse http_handler" where
  "LoginHandler h b r =
     decode_body r b (\<lambda>req.
       case Err (Required ''password'' (lr_Password req) (Required ''email'' (lr_Email req) New)) of
         Some e \<Rightarrow> respond_error r e
       | None \<Rightarrow>
           io_case (Login (ah_service h)
               \<lparr>li_Email = NormalizeEmail (unicode_lower (as_env (ah_service h))) (lr_Email req),
                li_Password = lr_Password req\<rparr> (RequestMetaFromRequest h r))
             (respond_error r) (\<lambda>result. io_return (WriteData 200 (toAuthResponse result))))"

definition RefreshHandler :: "auth_http \<Rightarrow> string body \<Rightarrow> authResponse http_handler" where
  "RefreshHandler h b r =
     decode_body r b (\<lambda>refresh_token.
       case Err (Required ''refresh_token'' refresh_token New) of
         Some e \<Rightarrow> respond_error r e
       | None \<Rightarrow>
           io_case (Refresh (ah_service h) refresh_token (RequestMetaFromRequest h r))
             (respond_error r) (\<lambda>result. io_return (WriteData 200 (toAuthResponse result))))"

definition LogoutHandler :: "auth_http \<Rightarrow> string body \<Rightarrow> (string \<times> string) http_handler" where
  "LogoutHandler h b r =
     decode_body r b (\<lambda>refresh_token.
       case Err (Required ''refresh_token'' refresh_token New) of
         Some e \<Rightarrow> respond_error r e
       | None \<Rightarrow>
           io_case (Logout (ah_service h) refresh_token) (respond_error r)
             (\<lambda>_. io_return (WriteData 200 (''status'', ''logged_out''))))"

definition LogoutAllHandler :: "auth_http \<Rightarrow> (string \<times> string) http_handler" where
  "LogoutAllHandler h r =
     (case PrincipalFromContext (hr_Context r) of
        None \<Rightarrow> respond_error r (Sentinel ErrUnauthorized)
      | Some who \<Rightarrow>
          io_case (LogoutAll (ah_service h) (UserID who)) (respond_error r)
            (\<lambda>_. io_return (WriteData 200 (''status'', ''logged_out_all''))))"

definition MeHandler :: "UserDTO http_handler" where
  "MeHandler r =
     (case PrincipalFromContext (hr_Context r) of
        None \<Rightarrow> respond_error r (Sentinel ErrUnauthorized)
      | Some who \<Rightarrow>
          io_case (CurrentUser (UserID who)) (respond_error r) (\<lambda>user. io_return (WriteData 200 user)))"

section \<open>API key endpoints\<close>

definition key_filter_order :: "url_values \<Rightarrow> bool \<times> details" where
  "key_filter_order vs =
     (let order = values_Get vs ''order'' in
      if order = [] \<or> order = ''desc'' then (True, [])
      else if order = ''asc'' then (False, [])
      else (True, [(''order'', ''must be asc or desc'')]))"

definition keys_parseListFilter :: "url_values \<Rightarrow> err + KeyListFilter" where
  "keys_parseListFilter vs =
     (let included = values_Get vs ''include_revoked'';
          (include_revoked, e1) =
            (if included = [] \<or> included = ''false'' then (False, [])
             else if included = ''true'' then (True, [])
             else (False, [(''include_revoked'', ''must be true or false'')]));
          s = values_Get vs ''sort'';
          (sort_by, e2) =
            (if s = [] then (defaultSort, [])
             else if s \<in> set sortableFields then (s, [])
             else (defaultSort, [(''sort'', ''must be one of created_at, expires_at, last_used_at'')]));
          (desc, e3) = key_filter_order vs;
          errs = e1 @ e2 @ e3
      in if errs \<noteq> [] then Inl (NewValidationError errs)
         else Inr \<lparr>kf_IncludeRevoked = include_revoked, kf_Sort = sort_by, kf_Desc = desc\<rparr>)"

text \<open>The method \<open>caller\<close> of the handlers: the user of the principal and the organization of the route.\<close>

definition caller :: "env \<Rightarrow> http_request \<Rightarrow> err + uuid \<times> uuid" where
  "caller e r =
     (case PrincipalFromContext (hr_Context r) of
        None \<Rightarrow> throw_sentinel ErrUnauthorized
      | Some who \<Rightarrow>
          (case uuid_Parse e (hr_URLParam r ''orgID'') of
             None \<Rightarrow> throw_sentinel ErrNotFound
           | Some orgID \<Rightarrow> Inr (UserID who, orgID)))"

definition with_caller :: "env \<Rightarrow> http_request \<Rightarrow> (uuid \<Rightarrow> uuid \<Rightarrow> 'a response io) \<Rightarrow> 'a response io" where
  "with_caller e r k = (case caller e r of Inl er \<Rightarrow> respond_error r er | Inr (userID, orgID) \<Rightarrow> k userID orgID)"

definition KeysListHandler :: "apikeys_service \<Rightarrow> (APIKeyDTO list \<times> Pagination) http_handler" where
  "KeysListHandler s r =
     with_caller (ks_env s) r (\<lambda>userID orgID.
       case ParsePageRequest (hr_Query r) of
         Inl e \<Rightarrow> respond_error r e
       | Inr page \<Rightarrow>
           (case keys_parseListFilter (hr_Query r) of
              Inl e \<Rightarrow> respond_error r e
            | Inr flt \<Rightarrow>
                io_case (ListKeys s userID orgID flt page) (respond_error r)
                  (\<lambda>(keys, pagination). io_return (WritePage keys pagination))))"

definition KeysCreateHandler :: "apikeys_service \<Rightarrow> CreateInput body \<Rightarrow> CreatedResult http_handler" where
  "KeysCreateHandler s b r =
     with_caller (ks_env s) r (\<lambda>userID orgID.
       decode_body r b (\<lambda>req.
         io_case (CreateKey s userID orgID req) (respond_error r) (\<lambda>created. io_return (WriteData 201 created))))"

definition KeysRevokeHandler :: "apikeys_service \<Rightarrow> (string \<times> bool) http_handler" where
  "KeysRevokeHandler s r =
     with_caller (ks_env s) r (\<lambda>userID orgID.
       case uuid_Parse (ks_env s) (hr_URLParam r ''apiKeyID'') of
         None \<Rightarrow> respond_error r (Sentinel ErrNotFound)
       | Some keyID \<Rightarrow>
           io_case (RevokeKey s userID orgID keyID) (respond_error r) (\<lambda>_. io_return (WriteData 200 (''revoked'', True))))"

section \<open>What the middleware admits\<close>

text \<open>The contract of the interface: a principal is returned only for a credential that is valid now.\<close>

locale key_authenticator =
  fixes authenticate :: "string \<Rightarrow> Principal io" and admits :: "string \<Rightarrow> world \<Rightarrow> Principal \<Rightarrow> bool"
    and quiet :: "world \<Rightarrow> world \<Rightarrow> bool"
  assumes authentic: "authenticate raw w = (Inr p, w') \<Longrightarrow> admits raw w p"
    and silent: "quiet w (snd (authenticate raw w))"
    and quiet_refl: "quiet w w"
begin

definition bearer_admits :: "auth_middleware \<Rightarrow> http_request \<Rightarrow> time \<Rightarrow> Principal \<Rightarrow> bool" where
  "bearer_admits m r now p \<longleftrightarrow>
     (\<exists>token claims. bearerToken r = Some token \<and> ParseAccessToken (mw_jwt m) now token = Inr claims \<and>
        uuid_Parse (mw_env m) (ac_Subject claims) = Some (UserID p) \<and> Method p = MethodBearer \<and> APIKeyID p = uuid_Nil)"

definition key_in_scope :: "auth_middleware \<Rightarrow> http_request \<Rightarrow> world \<Rightarrow> Principal \<Rightarrow> bool" where
  "key_in_scope m r w p \<longleftrightarrow>
     bearerToken r = None \<and> admits (TrimSpace (hr_Header r ''X-API-Key'')) w p \<and>
     hr_URLParam r ''orgID'' = uuid_string (mw_env m) (OrganizationID p) \<and> hr_URLParam r ''orgID'' \<noteq> []"

lemma resolve_cases:
  assumes "mw_apiKey m = Some authenticate" and "resolve m r w = (x, w')"
  obtains "x = Inr None" "quiet w w'"
  | p where "x = Inr (Some p)" "bearer_admits m r (clock w) p" "w' = w"
  | p where "x = Inr (Some p)" "key_in_scope m r w p" "quiet w w'"
proof (cases "bearerToken r")
  case (Some token)
  with assms show ?thesis
    by (auto simp: resolve_def resolveBearer_def bearer_admits_def io_try_def io_case_def time_Now_def io_return_def
        split: sum.splits option.splits intro: that quiet_refl)
next
  case None
  obtain y v where y: "authenticate (TrimSpace (hr_Header r ''X-API-Key'')) w = (y, v)"
    by (cases "authenticate (TrimSpace (hr_Header r ''X-API-Key'')) w")
  have v: "quiet w v" using silent [of w "TrimSpace (hr_Header r ''X-API-Key'')"] y by simp
  show ?thesis
  proof (cases y)
    case (Inl e)
    then show ?thesis
      using assms None y v by (intro that(1)) (auto simp: resolve_def resolveAPIKey_def Let_def io_case_def io_return_def quiet_refl split: if_splits)
  next
    case (Inr p)
    with y have ok: "admits (TrimSpace (hr_Header r ''X-API-Key'')) w p" using authentic by blast
    show ?thesis
    proof (cases "x = Inr None")
      case True
      then show ?thesis
        using assms None y v Inr by (intro that(1)) (auto simp: resolve_def resolveAPIKey_def Let_def io_case_def io_return_def quiet_refl split: if_splits)
    next
      case False
      then show ?thesis
        using assms None y v Inr ok
        by (intro that(3) [of p]) (auto simp: resolve_def resolveAPIKey_def Let_def io_case_def io_return_def key_in_scope_def split: if_splits)
    qed
  qed
qed

lemma require_auth_cases:
  assumes "PrincipalFromContext (hr_Context r) = None" and "mw_apiKey m = Some authenticate"
    and "RequireAuth m nxt r w = (resp, w')"
  shows "(resp = Inr (fst (WriteError (hr_RequestID r) (Sentinel ErrUnauthorized))) \<and> quiet w w') \<or>
         (\<exists>p v. (bearer_admits m r (clock w) p \<or> key_in_scope m r w p) \<and> quiet w v \<and>
                nxt (with_principal r p) v = (resp, w'))"
proof -
  obtain x v where x: "resolve m r w = (x, v)" by (cases "resolve m r w")
  from assms(2) x show ?thesis
  proof (cases rule: resolve_cases)
    case 1
    then show ?thesis using assms x by (simp add: RequireAuth_def io_simps respond_error_def)
  next
    case (2 p)
    then have "nxt (with_principal r p) v = (resp, w')" using assms x by (simp add: RequireAuth_def io_simps)
    then show ?thesis using 2 quiet_refl by blast
  next
    case (3 p)
    then have "nxt (with_principal r p) v = (resp, w')" using assms x by (simp add: RequireAuth_def io_simps)
    then show ?thesis using 3 by blast
  qed
qed

end

text \<open>Authenticating a key changes nothing but the record of its last use.\<close>

definition usage_free :: "store \<Rightarrow> store" where
  "usage_free db = db\<lparr>api_keys := map (\<lambda>k. k\<lparr>k_LastUsedAt := None, k_UpdatedAt := 0\<rparr>) (api_keys db)\<rparr>"

lemma frame_TouchAPIKey [keeps_intro]: "store_invariant.keeps (unchanged usage_free x) T (TouchAPIKey kid)"
  unfolding TouchAPIKey_def
  by (rule frame.keeps_db_write) (auto simp: unchanged_def usage_free_def Let_def map_update_where_same)

lemma frame_Authenticate: "store_invariant.keeps (unchanged usage_free x) T (Authenticate s raw)"
  unfolding Authenticate_def GetAPIKeyByHash_def GetUserByID_def withOrgTx_def Let_def by (intro keeps_intro)

definition quiet_auth :: "world \<Rightarrow> world \<Rightarrow> bool" where
  "quiet_auth w w' \<longleftrightarrow>
     usage_free (st w') = usage_free (st w) \<and> (wf_ids (st w) (fresh w) \<longrightarrow> wf_ids (st w') (fresh w'))"

interpretation ka: key_authenticator "Authenticate s" "\<lambda>raw w. key_admits s raw (clock w) (st w)" quiet_auth for s
proof
  show "key_admits s raw (clock w) (st w) p" if "Authenticate s raw w = (Inr p, w')" for raw w p w'
    using that by (rule authenticate_facts)
  have "usage_free (st (snd (Authenticate s raw w))) = usage_free (st w)" for raw w
    using frame_same [of usage_free w "\<lambda>_. True" "Authenticate s raw", OF frame_Authenticate TrueI] by (metis prod.collapse)
  moreover have "wf_ids (st (snd (Authenticate s raw w))) (fresh (snd (Authenticate s raw w)))" if "wf_ids (st w) (fresh w)" for raw w
    using ids.keepsD(3) [OF ids_keys.key_operations(1) [OF TrueI] TrueI, of w] that by simp
  ultimately show "quiet_auth w (snd (Authenticate s raw w))" for raw w
    by (simp add: quiet_auth_def)
qed (simp add: quiet_auth_def)

section \<open>Confinement of API keys\<close>

lemma confined_key_operations [keeps_intro]:
  "confined.keeps org y T (CreateKey s uid org inp)" "confined.keeps org y T (RevokeKey s uid org kid)"
  "confined.keeps org y T (ListKeys s uid org flt page)"
  subgoal by (simp add: confined_keys.organization_key_operations)
  subgoal by (simp add: confined_keys.organization_key_operations)
  subgoal unfolding ListKeys_def organization_reads key_reads Let_def by (intro keeps_intro)
  done

lemma others_usage_free: "others org s = others org s' \<Longrightarrow> others org (usage_free s) = others org (usage_free s')"
  by (simp add: others_def usage_free_def filter_map comp_def)

definition scoped_outcome :: "apikeys_service \<Rightarrow> http_request \<Rightarrow> world \<Rightarrow> (err + 'a response) \<times> world \<Rightarrow> bool" where
  "scoped_outcome s r w out \<longleftrightarrow>
     (fst out = Inr (fst (WriteError (hr_RequestID r) (Sentinel ErrUnauthorized))) \<and>
      usage_free (st (snd out)) = usage_free (st w)) \<or>
     (\<exists>p. key_admits s (TrimSpace (hr_Header r ''X-API-Key'')) (clock w) (st w) p \<and>
          others (OrganizationID p) (usage_free (st (snd out))) = others (OrganizationID p) (usage_free (st w)))"

lemma scoped_handler:
  assumes wf: "wf_ids (st w) (fresh w)" and ctx: "PrincipalFromContext (hr_Context r) = None" and key: "bearerToken r = None"
    and m: "mw_apiKey m = Some (Authenticate s)" "mw_env m = ks_env s"
    and rt: "\<And>x. uuid_Parse (ks_env s) (uuid_string (ks_env s) x) = Some x"
    and nxt: "\<And>r' org y. uuid_Parse (ks_env s) (hr_URLParam r' ''orgID'') = Some org \<Longrightarrow> confined.keeps org y (\<lambda>_. True) (nxt r')"
  shows "scoped_outcome s r w (RequireAuth m nxt r w)"
proof -
  obtain resp w' where run: "RequireAuth m nxt r w = (resp, w')" by (cases "RequireAuth m nxt r w")
  from ka.require_auth_cases [OF ctx m(1) run] show ?thesis
  proof
    assume "resp = Inr (fst (WriteError (hr_RequestID r) (Sentinel ErrUnauthorized))) \<and> quiet_auth w w'"
    then show ?thesis by (simp add: scoped_outcome_def run quiet_auth_def)
  next
    assume "\<exists>p v. (ka.bearer_admits m r (clock w) p \<or> ka.key_in_scope s m r w p) \<and> quiet_auth w v \<and>
                nxt (with_principal r p) v = (resp, w')"
    then obtain p v where p: "ka.key_in_scope s m r w p" and v: "quiet_auth w v" and n: "nxt (with_principal r p) v = (resp, w')"
      using key by (auto simp: ka.bearer_admits_def)
    have "uuid_Parse (ks_env s) (hr_URLParam (with_principal r p) ''orgID'') = Some (OrganizationID p)"
      using p rt m(2) by (simp add: ka.key_in_scope_def with_principal_def)
    from confined.kept [OF nxt [OF this], of v "others (OrganizationID p) (st v)"]
    have "others (OrganizationID p) (st w') = others (OrganizationID p) (st v)"
      using v wf n by (simp add: quiet_auth_def)
    then have "others (OrganizationID p) (usage_free (st w')) = others (OrganizationID p) (usage_free (st w))"
      using v others_usage_free by (metis quiet_auth_def)
    then show ?thesis
      using p by (auto simp: scoped_outcome_def run ka.key_in_scope_def)
  qed
qed

definition key_demo_request :: "string \<Rightarrow> string \<Rightarrow> http_request" where
  "key_demo_request org key =
     \<lparr>hr_Context = \<lparr>principalKey = None, tenantKey = None\<rparr>,
      hr_Header = (\<lambda>h. if h = ''X-API-Key'' then key else []),
      hr_URLParam = (\<lambda>p. if p = ''orgID'' then org else []), hr_Query = (\<lambda>_. None), hr_RequestID = ''r'', hr_RemoteAddr = [], hr_TraceID = []\<rparr>"

lemma digits_value_snoc:
  "digits_value acc (xs @ [c]) =
     (case digits_value acc xs of None \<Rightarrow> None | Some v \<Rightarrow> if is_digit c then Some (10 * v + digit_value c) else None)"
  by (induction acc xs rule: digits_value.induct) auto

lemma decimal_digit: "n < 10 \<Longrightarrow> is_digit (char_of (48 + n)) \<and> digit_value (char_of (48 + n)) = int n"
  by (simp add: is_digit_def digit_value_def)

lemma digits_value_decimal: "digits_value 0 (decimal_nat n) = Some (int n)"
proof (induction n rule: decimal_nat.induct)
  case (1 n)
  show ?case
  proof (cases "n < 10")
    case True
    then show ?thesis by (subst decimal_nat.simps) (simp add: decimal_digit)
  next
    case False
    have "int n = 10 * int (n div 10) + int (n mod 10)"
      by presburger
    then show ?thesis
      using False 1 decimal_digit [of "n mod 10"] by (subst decimal_nat.simps) (simp add: digits_value_snoc)
  qed
qed

lemma demo_uuid_roundtrip: "uuid_Parse demo_env (uuid_string demo_env x) = Some x"
  by (simp add: demo_env_def digits_value_decimal)

definition key_demo_middleware :: auth_middleware where
  "key_demo_middleware = \<lparr>mw_env = demo_env, mw_jwt = as_jwt demo_auth, mw_apiKey = Some (Authenticate key_demo_service)\<rparr>"

end
