(* ===== verification/Org_Http.thy ===== *)
theory Org_Http
  imports Http_Api
begin

text \<open>
  The organization and audit endpoints: \<open>internal/organizations/handler.go\<close> and
  \<open>internal/audit/handler.go\<close>. A handler takes the user of the principal and the identifiers of the
  route, decodes and validates the body, calls the service and records the change in the audit log.
\<close>

section \<open>Shared steps\<close>

record org_http =
  oh_env :: env
  oh_parse_ip :: "string \<Rightarrow> ip option"
  oh_split_host_port :: "string \<Rightarrow> (string \<times> string) option"

definition currentUserID :: "http_request \<Rightarrow> uuid option" where
  "currentUserID r = (case PrincipalFromContext (hr_Context r) of None \<Rightarrow> None | Some p \<Rightarrow> Some (UserID p))"

definition with_user :: "http_request \<Rightarrow> (uuid \<Rightarrow> 'a response io) \<Rightarrow> 'a response io" where
  "with_user r k = (case currentUserID r of None \<Rightarrow> respond_error r (Sentinel ErrUnauthorized) | Some u \<Rightarrow> k u)"

definition with_param :: "env \<Rightarrow> http_request \<Rightarrow> string \<Rightarrow> (uuid \<Rightarrow> 'a response io) \<Rightarrow> 'a response io" where
  "with_param e r name k =
     (case uuid_Parse e (hr_URLParam r name) of None \<Rightarrow> respond_error r (Sentinel ErrNotFound) | Some i \<Rightarrow> k i)"

definition validated :: "http_request \<Rightarrow> validator \<Rightarrow> 'a response io \<Rightarrow> 'a response io" where
  "validated r v k = (case Err v of Some e \<Rightarrow> respond_error r e | None \<Rightarrow> k)"

definition record_event :: "org_http \<Rightarrow> http_request \<Rightarrow> Event \<Rightarrow> unit io" where
  "record_event h r event =
     (let ip = ClientIP (oh_parse_ip h) (oh_split_host_port h) (hr_RemoteAddr r) (hr_Header r ''X-Forwarded-For'')
      in Record (oh_env h) (WithRequest event ip (hr_Header r ''User-Agent'') (hr_RequestID r) (hr_TraceID r)))"

definition org_event :: "org_http \<Rightarrow> string \<Rightarrow> uuid \<Rightarrow> uuid option \<Rightarrow> string \<Rightarrow> uuid \<Rightarrow> Event" where
  "org_event h action userID orgID target targetID =
     Event0\<lparr>ev_Action := action, ev_ActorUserID := Some userID, ev_OrganizationID := orgID,
            ev_TargetType := target, ev_TargetID := uuid_string (oh_env h) targetID\<rparr>"

definition recorded :: "org_http \<Rightarrow> http_request \<Rightarrow> Event \<Rightarrow> int \<Rightarrow> 'a \<Rightarrow> 'a response io" where
  "recorded h r event status x = io_try (record_event h r event) id (\<lambda>_. io_return (WriteData status x))"

section \<open>Organizations\<close>

definition ListMineHandler :: "org_http \<Rightarrow> OrganizationDTO list http_handler" where
  "ListMineHandler h r =
     with_user r (\<lambda>userID.
       io_case (ListMyOrganizations (oh_env h) userID) (respond_error r) (\<lambda>orgs. io_return (WriteData 200 orgs)))"

definition name_checks :: "string \<Rightarrow> validator" where
  "name_checks name = MaxLen ''name'' name 150 (Required ''name'' name New)"

definition CreateOrganizationHandler :: "org_http \<Rightarrow> string body \<Rightarrow> OrganizationDTO http_handler" where
  "CreateOrganizationHandler h b r =
     with_user r (\<lambda>userID.
       decode_body r b (\<lambda>name.
       validated r (name_checks name)
         (io_case (CreateOrganization (oh_env h) userID name) (respond_error r) (\<lambda>org.
            recorded h r (WithMetadata (org_event h OrganizationCreated userID None TargetOrganization (od_ID org))
                            [(''name'', JString (od_Name org))]) 201 org))))"

definition GetOrganizationHandler :: "org_http \<Rightarrow> OrganizationDTO http_handler" where
  "GetOrganizationHandler h r =
     with_user r (\<lambda>userID. with_param (oh_env h) r ''orgID'' (\<lambda>orgID.
       io_case (GetOrganization userID orgID) (respond_error r) (\<lambda>org. io_return (WriteData 200 org))))"

definition UpdateOrganizationHandler :: "org_http \<Rightarrow> string body \<Rightarrow> OrganizationDTO http_handler" where
  "UpdateOrganizationHandler h b r =
     with_user r (\<lambda>userID. with_param (oh_env h) r ''orgID'' (\<lambda>orgID.
       decode_body r b (\<lambda>name.
       validated r (name_checks name)
         (io_case (UpdateOrganization userID orgID name) (respond_error r) (\<lambda>org.
            recorded h r (WithMetadata (org_event h OrganizationRenamed userID (Some orgID) TargetOrganization orgID)
                            [(''name'', JString (od_Name org))]) 200 org)))))"

definition ListMembersHandler :: "org_http \<Rightarrow> MemberDTO list http_handler" where
  "ListMembersHandler h r =
     with_user r (\<lambda>userID. with_param (oh_env h) r ''orgID'' (\<lambda>orgID.
       io_case (ListMembers (oh_env h) userID orgID) (respond_error r) (\<lambda>members. io_return (WriteData 200 members))))"

definition ListRolesHandler :: "org_http \<Rightarrow> RoleDTO list http_handler" where
  "ListRolesHandler h r =
     with_user r (\<lambda>userID. with_param (oh_env h) r ''orgID'' (\<lambda>orgID.
       io_case (ListRoles (oh_env h) userID orgID) (respond_error r) (\<lambda>roles. io_return (WriteData 200 roles))))"

section \<open>Roles\<close>

record roleRequest =
  rq_Name :: string
  rq_Description :: string
  rq_Permissions :: "string list"

definition validateRoleRequest :: "roleRequest \<Rightarrow> err option" where
  "validateRoleRequest req =
     (case Err (MaxLen ''description'' (rq_Description req) 500
             (MaxLen ''name'' (rq_Name req) 100 (Required ''name'' (rq_Name req) New))) of
        Some e \<Rightarrow> Some e
      | None \<Rightarrow>
          if length (rq_Permissions req) > 20
          then Some (NewValidationError [(''permissions'', ''must contain at most 20 permissions'')]) else None)"

definition role_description :: "roleRequest \<Rightarrow> string option" where
  "role_description req = (if rq_Description req \<noteq> [] then Some (rq_Description req) else None)"

definition CreateRoleHandler :: "org_http \<Rightarrow> roleRequest body \<Rightarrow> RoleDTO http_handler" where
  "CreateRoleHandler h b r =
     with_user r (\<lambda>userID. with_param (oh_env h) r ''orgID'' (\<lambda>orgID.
       decode_body r b (\<lambda>req.
         case validateRoleRequest req of
           Some e \<Rightarrow> respond_error r e
         | None \<Rightarrow>
             io_case (CreateRole userID orgID (rq_Name req) (role_description req) (rq_Permissions req)) (respond_error r) (\<lambda>role.
               recorded h r (WithMetadata (org_event h RoleCreated userID (Some orgID) TargetRole (rd_ID role))
                  [(''name'', JString (rd_Name role)), (''permissions'', JInt (int (length (rd_Permissions role))))]) 201 role))))"

definition UpdateRoleHandler :: "org_http \<Rightarrow> roleRequest body \<Rightarrow> RoleDTO http_handler" where
  "UpdateRoleHandler h b r =
     with_user r (\<lambda>userID. with_param (oh_env h) r ''orgID'' (\<lambda>orgID. with_param (oh_env h) r ''roleID'' (\<lambda>roleID.
       decode_body r b (\<lambda>req.
         case validateRoleRequest req of
           Some e \<Rightarrow> respond_error r e
         | None \<Rightarrow>
             io_case (UpdateRole userID orgID roleID (rq_Name req) (role_description req) (rq_Permissions req)) (respond_error r)
               (\<lambda>role. recorded h r (WithMetadata (org_event h RoleUpdated userID (Some orgID) TargetRole (rd_ID role))
                  [(''name'', JString (rd_Name role)), (''permissions'', JStrings (rd_Permissions role))]) 200 role)))))"

definition DeleteRoleHandler :: "org_http \<Rightarrow> (string \<times> bool) http_handler" where
  "DeleteRoleHandler h r =
     with_user r (\<lambda>userID. with_param (oh_env h) r ''orgID'' (\<lambda>orgID. with_param (oh_env h) r ''roleID'' (\<lambda>roleID.
       io_case (DeleteRole userID orgID roleID) (respond_error r) (\<lambda>_.
         recorded h r (org_event h RoleDeleted userID (Some orgID) TargetRole roleID) 200 (''deleted'', True)))))"

definition AssignMemberRoleHandler :: "org_http \<Rightarrow> uuid body \<Rightarrow> MemberDTO http_handler" where
  "AssignMemberRoleHandler h b r =
     with_user r (\<lambda>userID. with_param (oh_env h) r ''orgID'' (\<lambda>orgID. with_param (oh_env h) r ''membershipID'' (\<lambda>membershipID.
       decode_body r b (\<lambda>roleID.
         if roleID = uuid_Nil then respond_error r (NewValidationError [(''role_id'', ''is required'')])
         else
           io_case (AssignMemberRole userID orgID membershipID roleID) (respond_error r) (\<lambda>member.
             recorded h r (WithMetadata (org_event h MemberRoleAssigned userID (Some orgID) TargetMembership membershipID)
               [(''member_user_id'', JString (uuid_string (oh_env h) (md_UserID member))), (''role'', JString (md_Role member))])
               200 member)))))"

section \<open>Audit log\<close>

definition maxAuditWindow :: duration where "maxAuditWindow = 90 * 24 * Hour"

text \<open>\<open>parse_time\<close> is \<open>time.Parse\<close> with the layout of RFC 3339.\<close>

definition audit_parseListFilter :: "env \<Rightarrow> (string \<Rightarrow> time option) \<Rightarrow> time \<Rightarrow> url_values \<Rightarrow> err + ListFilter" where
  "audit_parseListFilter e parse_time now vs =
     (let action = values_Get vs ''action'';
          (f1, e1) =
            (if action \<noteq> [] then
               if length action > 100 then (None, [(''action'', ''is too long'')]) else (Some action, [])
             else (None, []));
          outcome = values_Get vs ''outcome'';
          (f2, e2) =
            (if outcome \<noteq> [] then
               if outcome \<in> {OutcomeSuccess, OutcomeFailure, OutcomeDenied} then (Some outcome, [])
               else (None, [(''outcome'', ''must be one of success, failure, denied'')])
             else (None, []));
          actor = values_Get vs ''actor_user_id'';
          (f3, e3) =
            (if actor \<noteq> [] then
               (case uuid_Parse e actor of
                  None \<Rightarrow> (None, [(''actor_user_id'', ''must be a valid UUID'')])
                | Some i \<Rightarrow> (Some i, []))
             else (None, []));
          raw = values_Get vs ''since'';
          (f4, e4) =
            (if raw \<noteq> [] then
               (case parse_time raw of
                  None \<Rightarrow> (None, [(''since'', ''must be an RFC 3339 timestamp'')])
                | Some parsed \<Rightarrow>
                    if parsed < now - maxAuditWindow then (None, [(''since'', ''must not be more than 90 days ago'')])
                    else (Some parsed, []))
             else (None, []));
          errs = e1 @ e2 @ e3 @ e4
      in if errs \<noteq> [] then Inl (NewValidationError errs)
         else Inr \<lparr>lf_Action = f1, lf_Outcome = f2, lf_ActorUserID = f3, lf_Since = f4\<rparr>)"

definition AuditListHandler :: "env \<Rightarrow> (string \<Rightarrow> time option) \<Rightarrow> (Entry list \<times> Pagination) http_handler" where
  "AuditListHandler e parse_time r =
     with_user r (\<lambda>userID. with_param e r ''orgID'' (\<lambda>orgID.
       case ParsePageRequest (hr_Query r) of
         Inl er \<Rightarrow> respond_error r er
       | Inr page \<Rightarrow>
           io_try time_Now id (\<lambda>now.
             case audit_parseListFilter e parse_time now (hr_Query r) of
               Inl er \<Rightarrow> respond_error r er
             | Inr flt \<Rightarrow>
                 io_case (ListAudit userID orgID flt page) (respond_error r)
                   (\<lambda>(entries, pagination). io_return (WritePage entries pagination)))))"

section \<open>Properties\<close>

lemmas organization_handlers =
  ListMineHandler_def CreateOrganizationHandler_def GetOrganizationHandler_def UpdateOrganizationHandler_def
  ListMembersHandler_def ListRolesHandler_def CreateRoleHandler_def UpdateRoleHandler_def DeleteRoleHandler_def
  AssignMemberRoleHandler_def AuditListHandler_def

lemma with_user_anonymous:
  "PrincipalFromContext (hr_Context r) = None \<Longrightarrow> with_user r k = respond_error r (Sentinel ErrUnauthorized)"
  by (simp add: with_user_def currentUserID_def)

lemma with_caller_anonymous:
  "PrincipalFromContext (hr_Context r) = None \<Longrightarrow> with_caller e r k = respond_error r (Sentinel ErrUnauthorized)"
  by (simp add: with_caller_def caller_def)

definition refused :: "http_request \<Rightarrow> world \<Rightarrow> (err + 'a response) \<times> world \<Rightarrow> bool" where
  "refused r w out \<longleftrightarrow>
     (\<exists>body. out = (Inr (RespError 401 body), w) \<and> eb_Code body = ''UNAUTHORIZED'' \<and> eb_Details body = [] \<and>
             eb_RequestID body = hr_RequestID r)"

lemma respond_unauthorized: "refused r w (respond_error r (Sentinel ErrUnauthorized) w)"
  by (simp add: refused_def respond_error_def io_return_def WriteError_def FromError_def NewAPIError_def Let_def)

end
