(* ===== verification/Mailer.thy ===== *)
theory Mailer
  imports Store
begin

text \<open>
  Outbound email: \<open>internal/mailer/mailer.go\<close>. The interface \<open>Sender\<close> has the two implementations of
  the source. The log sender writes one line of attributes to the structured log, which is the field
  \<open>mail_log\<close> of the world; the discarding sender does nothing.
\<close>

record mail =
  ml_To :: string
  ml_Subject :: string
  ml_Text :: string
  ml_HTML :: string
  ml_Link :: string
  ml_Metadata :: "(string \<times> string) list"

datatype Sender = LogSender | DiscardSender

text \<open>\<open>sortedKeys\<close> on a map, here an association list with one entry for each key.\<close>

definition sortedKeys :: "(string \<times> string) list \<Rightarrow> string list" where
  "sortedKeys m = sort (map fst m)"

definition log_line :: "mail \<Rightarrow> (string \<times> string) list" where
  "log_line msg =
     [(''to'', ml_To msg), (''subject'', ml_Subject msg), (''link'', ml_Link msg)] @
     map (\<lambda>k. (''meta.'' @ k, case map_of (ml_Metadata msg) k of None \<Rightarrow> [] | Some v \<Rightarrow> v)) (sortedKeys (ml_Metadata msg))"

fun Send :: "Sender \<Rightarrow> mail \<Rightarrow> unit io" where
  "Send LogSender msg w = (Inr (), w\<lparr>mail_log := mail_log w @ [log_line msg]\<rparr>)"
| "Send DiscardSender msg w = (Inr (), w)"

lemma Send_frame [simp]:
  "st (snd (Send sd msg w)) = st w" "tenant (snd (Send sd msg w)) = tenant w" "fresh (snd (Send sd msg w)) = fresh w"
  "clock (snd (Send sd msg w)) = clock w" "redis (snd (Send sd msg w)) = redis w" "faults (snd (Send sd msg w)) = faults w"
  by (cases sd; simp)+

context store_invariant
begin

lemma keeps_Send [keeps_intro]: "keeps T (Send sd msg)"
  by (rule keeps_same) simp

end

end
