(* ===== verification/Invitations.thy ===== *)
theory Invitations
  imports ApiKeys Mailer
begin

text \<open>
  Invitations: \<open>internal/invitations/\<close> (model, service and jobs) and the statements of
  \<open>internal/db/invitations.sql.go\<close> over the table of migrations 15 and 17. An invitation is a
  single-use token sent by email and stored as a digest; accepting it creates the membership, and the
  account when the invitee has none, in one transaction.

  The service is a record: the authentication service it opens sessions with, the mail transport, the
  queue if there is one, the lifetime of an invitation and the address of the frontend, and the library
  functions it calls: \<open>net/mail\<close>, the Unicode tables, the layout RFC 3339 and \<open>encoding/json\<close> on the
  payloads of its jobs.
\<close>

section \<open>Model\<close>

definition InvitationStatusPending :: string where "InvitationStatusPending = ''pending''"
definition InvitationStatusAccepted :: string where "InvitationStatusAccepted = ''accepted''"
definition InvitationStatusRevoked :: string where "InvitationStatusRevoked = ''revoked''"
definition InvitationStatusExpired :: string where "InvitationStatusExpired = ''expired''"
definition invitationTokenBytes :: nat where "invitationTokenBytes = 32"
definition invitation_sortableFields :: "string list" where
  "invitation_sortableFields = [''created_at'', ''expires_at'', ''email'']"
definition validStatuses :: "string list" where
  "validStatuses = [InvitationStatusPending, InvitationStatusAccepted, InvitationStatusRevoked, InvitationStatusExpired]"

lemmas invitation_statuses = InvitationStatusPending_def InvitationStatusAccepted_def
  InvitationStatusRevoked_def InvitationStatusExpired_def

record invitations_service =
  iv_auth :: auth_service
  iv_mailer :: Sender
  iv_queue :: "Queue option"
  iv_ttl :: duration
  iv_baseURL :: string
  iv_mail_ok :: "string \<Rightarrow> bool"
  iv_unicode :: unicode
  iv_format_time :: "time \<Rightarrow> string"
  iv_payload_Marshal :: "uuid \<times> string \<Rightarrow> err + string"
  iv_payload_Unmarshal :: "string \<Rightarrow> err + uuid \<times> string"
  iv_sweep_Unmarshal :: "string \<Rightarrow> err + uuid"

abbreviation iv_env :: "invitations_service \<Rightarrow> env" where
  "iv_env s \<equiv> as_env (iv_auth s)"

record InviteInput =
  vi_Email :: string
  vi_RoleID :: uuid

definition invite_validate :: "invitations_service \<Rightarrow> InviteInput \<Rightarrow> err option" where
  "invite_validate s inp =
     Err (Check (vi_RoleID inp \<noteq> uuid_Nil) ''role_id'' ''is required''
         (Email (iv_mail_ok s) ''email'' (vi_Email inp)
         (Required ''email'' (vi_Email inp) New)))"

record InvitationFilter =
  vf_Status :: "string option"
  vf_Email :: "string option"
  vf_Sort :: string
  vf_Desc :: bool

record InvitationDTO =
  vd_ID :: uuid
  vd_OrganizationID :: uuid
  vd_Email :: string
  vd_RoleID :: uuid
  vd_RoleName :: string
  vd_Status :: string
  vd_InvitedBy :: uuid
  vd_ExpiresAt :: time
  vd_AcceptedAt :: "time option"
  vd_AcceptedBy :: "uuid option"
  vd_RevokedAt :: "time option"
  vd_CreatedAt :: time
  vd_UpdatedAt :: time

record PreviewDTO =
  pv_OrganizationID :: uuid
  pv_OrganizationName :: string
  pv_Email :: string
  pv_RoleName :: string
  pv_Status :: string
  pv_ExpiresAt :: time
  pv_AccountExists :: bool
  pv_AcceptedBy :: "uuid option"

record AcceptInput =
  ai_Token :: string
  ai_Password :: string
  ai_FirstName :: string
  ai_LastName :: string

definition validateAccount :: "invitations_service \<Rightarrow> AcceptInput \<Rightarrow> err option" where
  "validateAccount s inp =
     (if ai_Password inp = [] \<and> ai_FirstName inp = [] \<and> ai_LastName inp = [] then None
      else
        Err (MaxLen ''last_name'' (ai_LastName inp) 100
            (Required ''last_name'' (ai_LastName inp)
            (MaxLen ''first_name'' (ai_FirstName inp) 100
            (Required ''first_name'' (ai_FirstName inp)
            (Password (iv_unicode s) ''password'' (ai_Password inp) New))))))"

record AcceptResult =
  ar_InvitationID :: uuid
  ar_OrganizationID :: uuid
  ar_OrganizationName :: string
  ar_RoleName :: string
  ar_InvitedUser :: UserDTO
  ar_SessionTokens :: TokenPair

definition generateInvitationToken :: "string io" where
  "generateInvitationToken =
     io_try (rand_Read invitationTokenBytes) (wrap ''generate invitation token'') (\<lambda>buf. io_return (base64_encode buf))"

definition invitation_hashToken :: "env \<Rightarrow> string \<Rightarrow> string" where
  "invitation_hashToken e raw = hex_encode (sha256 e raw)"

definition acceptURL :: "string \<Rightarrow> string \<Rightarrow> string" where
  "acceptURL baseURL token =
     rev (dropWhile (\<lambda>c. c = CHR ''/'') (rev baseURL)) @ ''/invitations/accept?token='' @ token"

definition effectiveStatus :: "Invitation \<Rightarrow> time \<Rightarrow> string" where
  "effectiveStatus iv now =
     (if i_Status iv = InvitationStatusPending \<and> now > i_ExpiresAt iv then InvitationStatusExpired else i_Status iv)"

definition isUsable :: "Invitation \<Rightarrow> time \<Rightarrow> bool" where
  "isUsable iv now \<longleftrightarrow> i_Status iv = InvitationStatusPending \<and> \<not> now > i_ExpiresAt iv"

definition normalizeInviteEmail :: "env \<Rightarrow> string \<Rightarrow> string" where
  "normalizeInviteEmail e email = NormalizeEmail (unicode_lower e) email"

definition invitation_toDTO :: "Invitation \<Rightarrow> string \<Rightarrow> time \<Rightarrow> InvitationDTO" where
  "invitation_toDTO iv roleName now =
     \<lparr>vd_ID = i_ID iv, vd_OrganizationID = i_OrganizationID iv, vd_Email = i_Email iv, vd_RoleID = i_RoleID iv,
      vd_RoleName = roleName, vd_Status = effectiveStatus iv now, vd_InvitedBy = i_InvitedBy iv,
      vd_ExpiresAt = i_ExpiresAt iv, vd_AcceptedAt = i_AcceptedAt iv, vd_AcceptedBy = i_AcceptedBy iv,
      vd_RevokedAt = i_RevokedAt iv, vd_CreatedAt = i_CreatedAt iv, vd_UpdatedAt = i_UpdatedAt iv\<rparr>"

section \<open>Statements\<close>

definition GetActiveMembershipByEmail :: "uuid \<Rightarrow> string \<Rightarrow> OrganizationMembership io" where
  "GetActiveMembershipByEmail org email = db_read (\<lambda>w.
     one_row (\<lambda>m. rls w (m_OrganizationID m) \<and> m_OrganizationID m = org \<and> m_Status m = ''active'' \<and>
                (\<exists>u\<in>set (users (st w)). u_ID u = m_UserID m \<and> citext_eq (u_Email u) email))
       (memberships (st w)))"

definition CreateInvitation :: "uuid \<Rightarrow> string \<Rightarrow> uuid \<Rightarrow> string \<Rightarrow> uuid \<Rightarrow> time \<Rightarrow> Invitation io" where
  "CreateInvitation org email role hash invited_by expires = db_write (\<lambda>w.
     let s = st w;
         i = \<lparr>i_ID = fresh w, i_OrganizationID = org, i_Email = email, i_RoleID = role, i_Status = ''pending'',
              i_TokenHash = hash, i_InvitedBy = invited_by, i_ExpiresAt = expires, i_AcceptedAt = None,
              i_AcceptedBy = None, i_RevokedAt = None, i_CreatedAt = clock w, i_UpdatedAt = clock w,
              i_NotifiedAt = None, i_DeliveryAttempts = 0\<rparr>
     in guards
          [(rls w org, rls_violation),
           (expires > clock w, check_violation ''invitations_expiry_after_creation''),
           (\<not> (\<exists>x\<in>set (invitations s). i_TokenHash x = hash), unique_violation ''idx_invitations_token_hash''),
           (\<not> (\<exists>x\<in>set (invitations s). i_OrganizationID x = org \<and> citext_eq (i_Email x) email \<and> i_Status x = ''pending''),
            unique_violation ''idx_invitations_pending_email''),
           (\<exists>x\<in>set (organizations s). o_ID x = org, foreign_key_violation ''invitations_organization_id_fkey''),
           (\<exists>x\<in>set (users s). u_ID x = invited_by, foreign_key_violation ''invitations_invited_by_fkey''),
           (\<exists>x\<in>set (roles s). r_ID x = role \<and> r_OrganizationID x = org,
            foreign_key_violation ''invitations_role_organization_fkey'')]
          (Inr (i, s\<lparr>invitations := invitations s @ [i]\<rparr>, Suc (fresh w))))"

definition GetInvitationByID :: "uuid \<Rightarrow> uuid \<Rightarrow> Invitation io" where
  "GetInvitationByID iid org = db_read (\<lambda>w.
     one_row (\<lambda>i. rls w (i_OrganizationID i) \<and> i_ID i = iid \<and> i_OrganizationID i = org) (invitations (st w)))"

definition GetInvitationByIDForUpdate :: "uuid \<Rightarrow> uuid \<Rightarrow> Invitation io" where
  "GetInvitationByIDForUpdate iid org = db_read (\<lambda>w.
     one_row (\<lambda>i. rls w (i_OrganizationID i) \<and> i_ID i = iid \<and> i_OrganizationID i = org) (invitations (st w)))"

definition GetInvitationByIDForJob :: "uuid \<Rightarrow> (uuid \<times> uuid) io" where
  "GetInvitationByIDForJob iid = db_read (\<lambda>w.
     case one_row (\<lambda>i. rls w (i_OrganizationID i) \<and> i_ID i = iid) (invitations (st w)) of
       Inl e \<Rightarrow> Inl e
     | Inr i \<Rightarrow> Inr (i_ID i, i_OrganizationID i))"

definition GetInvitationByTokenHash :: "string \<Rightarrow> Invitation io" where
  "GetInvitationByTokenHash hash = db_read (\<lambda>w.
     one_row (\<lambda>i. rls w (i_OrganizationID i) \<and> i_TokenHash i = hash) (invitations (st w)))"

definition GetInvitationByTokenHashForUpdate :: "string \<Rightarrow> Invitation io" where
  "GetInvitationByTokenHashForUpdate hash = db_read (\<lambda>w.
     one_row (\<lambda>i. rls w (i_OrganizationID i) \<and> i_TokenHash i = hash) (invitations (st w)))"

definition invitation_selected :: "world \<Rightarrow> uuid \<Rightarrow> string option \<Rightarrow> string option \<Rightarrow> Invitation \<Rightarrow> bool" where
  "invitation_selected w org stat email i \<longleftrightarrow>
     rls w (i_OrganizationID i) \<and> i_OrganizationID i = org \<and>
     (case stat of None \<Rightarrow> True | Some x \<Rightarrow> i_Status i = x) \<and>
     (case email of None \<Rightarrow> True | Some x \<Rightarrow> citext_eq (i_Email i) x)"

definition CountInvitations :: "uuid \<Rightarrow> string option \<Rightarrow> string option \<Rightarrow> int io" where
  "CountInvitations org stat email = db_read (\<lambda>w.
     Inr (int (length (filter (invitation_selected w org stat email) (invitations (st w))))))"

text \<open>
  The fixed \<open>CASE\<close> branches of the listing: one of them is not null, the chosen column in the chosen
  direction; the identifier breaks ties. Emails compare case-insensitively.
\<close>

definition invitation_order :: "env \<Rightarrow> string \<Rightarrow> bool \<Rightarrow> Invitation list \<Rightarrow> Invitation list" where
  "invitation_order e sort_by desc rows =
     (let by_id = sort_key i_ID rows in
      if sort_by = ''created_at'' then order_by desc i_CreatedAt by_id
      else if sort_by = ''expires_at'' then order_by desc i_ExpiresAt by_id
      else if sort_by = ''email'' then order_by desc (\<lambda>i. collate e (map lower_char (i_Email i))) by_id
      else by_id)"

definition ListInvitations ::
  "env \<Rightarrow> uuid \<Rightarrow> string option \<Rightarrow> string option \<Rightarrow> string \<Rightarrow> bool \<Rightarrow> int \<Rightarrow> int \<Rightarrow> Invitation list io" where
  "ListInvitations e org stat email sort_by desc page_limit page_offset = db_read (\<lambda>w.
     page_rows page_limit page_offset
       (invitation_order e sort_by desc (filter (invitation_selected w org stat email) (invitations (st w)))))"

definition ListUndeliveredInvitations :: "uuid \<Rightarrow> int \<Rightarrow> time \<Rightarrow> nat \<Rightarrow> Invitation list io" where
  "ListUndeliveredInvitations org attempts created_before row_limit = db_read (\<lambda>w.
     Inr (take row_limit (sort_key i_CreatedAt
       (filter (\<lambda>i. rls w (i_OrganizationID i) \<and> i_Status i = ''pending'' \<and> i_NotifiedAt i = None \<and>
                  i_DeliveryAttempts i = attempts \<and> i_CreatedAt i < created_before \<and> i_OrganizationID i = org)
         (invitations (st w))))))"

text \<open>
  An \<open>UPDATE\<close> of one invitation: the row that matches, the \<open>CHECK\<close> constraints and the unique index on
  the digest for the new row, the account that accepts it. No statement makes a row pending again, so
  the index on pending emails cannot be violated by an update.
\<close>

definition invitation_checks :: "store \<Rightarrow> Invitation \<Rightarrow> (bool \<times> err) list" where
  "invitation_checks s i =
     [((i_Status i = ''accepted'') = (i_AcceptedAt i \<noteq> None), check_violation ''invitations_accepted_consistency''),
      (i_ExpiresAt i > i_CreatedAt i, check_violation ''invitations_expiry_after_creation''),
      ((i_Status i = ''revoked'') = (i_RevokedAt i \<noteq> None), check_violation ''invitations_revoked_consistency''),
      (i_Status i \<in> {''pending'', ''accepted'', ''revoked'', ''expired''}, check_violation ''invitations_status_check''),
      (\<not> (\<exists>x\<in>set (invitations s). i_ID x \<noteq> i_ID i \<and> i_TokenHash x = i_TokenHash i),
       unique_violation ''idx_invitations_token_hash''),
      (case i_AcceptedBy i of None \<Rightarrow> True | Some uid \<Rightarrow> \<exists>u\<in>set (users s). u_ID u = uid,
       foreign_key_violation ''invitations_accepted_by_fkey'')]"

definition update_invitation ::
  "uuid \<Rightarrow> uuid \<Rightarrow> (Invitation \<Rightarrow> bool) \<Rightarrow> (Invitation \<Rightarrow> Invitation) \<Rightarrow> Invitation io" where
  "update_invitation iid org cond f = db_write (\<lambda>w.
     let s = st w;
         hit = (\<lambda>i. rls w (i_OrganizationID i) \<and> i_ID i = iid \<and> i_OrganizationID i = org \<and> cond i);
         new = (\<lambda>i. (f i)\<lparr>i_UpdatedAt := clock w\<rparr>)
     in (case one_row hit (invitations s) of
           Inl e \<Rightarrow> Inl e
         | Inr i \<Rightarrow>
             guards (invitation_checks s (new i))
               (Inr (new i, s\<lparr>invitations := update_where hit new (invitations s)\<rparr>, fresh w))))"

definition AcceptInvitation :: "uuid \<Rightarrow> uuid \<Rightarrow> time \<Rightarrow> uuid \<Rightarrow> Invitation io" where
  "AcceptInvitation iid org accepted_at accepted_by =
     update_invitation iid org (\<lambda>_. True)
       (\<lambda>i. i\<lparr>i_Status := ''accepted'', i_AcceptedAt := Some accepted_at, i_AcceptedBy := Some accepted_by\<rparr>)"

definition MarkInvitationExpired :: "uuid \<Rightarrow> uuid \<Rightarrow> Invitation io" where
  "MarkInvitationExpired iid org =
     update_invitation iid org (\<lambda>i. i_Status i = ''pending'') (\<lambda>i. i\<lparr>i_Status := ''expired''\<rparr>)"

definition RevokeInvitation :: "uuid \<Rightarrow> uuid \<Rightarrow> time \<Rightarrow> Invitation io" where
  "RevokeInvitation iid org revoked_at =
     update_invitation iid org (\<lambda>_. True) (\<lambda>i. i\<lparr>i_Status := ''revoked'', i_RevokedAt := Some revoked_at\<rparr>)"

definition RotateInvitationToken :: "uuid \<Rightarrow> uuid \<Rightarrow> string \<Rightarrow> time \<Rightarrow> Invitation io" where
  "RotateInvitationToken iid org hash expires =
     update_invitation iid org (\<lambda>i. i_Status i = ''pending'')
       (\<lambda>i. i\<lparr>i_TokenHash := hash, i_ExpiresAt := expires\<rparr>)"

definition RotateInvitationForDelivery :: "uuid \<Rightarrow> uuid \<Rightarrow> string \<Rightarrow> Invitation io" where
  "RotateInvitationForDelivery iid org hash =
     update_invitation iid org (\<lambda>i. i_Status i = ''pending'' \<and> i_NotifiedAt i = None)
       (\<lambda>i. i\<lparr>i_TokenHash := hash, i_DeliveryAttempts := i_DeliveryAttempts i + 1\<rparr>)"

definition MarkInvitationNotified :: "uuid \<Rightarrow> uuid \<Rightarrow> unit io" where
  "MarkInvitationNotified iid org = db_write (\<lambda>w.
     let s = st w in
       Inr ((), s\<lparr>invitations := update_where (\<lambda>i. rls w (i_OrganizationID i) \<and> i_ID i = iid \<and> i_OrganizationID i = org)
              (\<lambda>i. i\<lparr>i_NotifiedAt := Some (clock w), i_UpdatedAt := clock w\<rparr>) (invitations s)\<rparr>, fresh w))"

section \<open>The service\<close>

definition invitationNotFound :: "err option \<Rightarrow> err" where
  "invitationNotFound cause = NewAPIError 404 ''INVITATION_NOT_FOUND'' ''Invitation not found'' cause"

definition inviteRoleNotFound :: "err option \<Rightarrow> err" where
  "inviteRoleNotFound cause = NewAPIError 404 ''ROLE_NOT_FOUND'' ''Role not found'' cause"

definition unusable :: "Invitation \<Rightarrow> time \<Rightarrow> err" where
  "unusable iv now =
     (let x = effectiveStatus iv now in
      if x = InvitationStatusAccepted then
        NewAPIError 409 ''INVITATION_ALREADY_ACCEPTED'' ''This invitation has already been accepted'' None
      else if x = InvitationStatusRevoked then NewAPIError 410 ''INVITATION_REVOKED'' ''This invitation was revoked'' None
      else if x = InvitationStatusExpired then NewAPIError 410 ''INVITATION_EXPIRED'' ''This invitation has expired'' None
      else invitationNotFound None)"

definition not_active :: err where
  "not_active = NewAPIError 409 ''INVITATION_NOT_ACTIVE'' ''Only pending invitations can be resent'' None"

definition already_a_member :: "err option \<Rightarrow> err" where
  "already_a_member cause =
     NewAPIError 409 ''ALREADY_A_MEMBER'' ''This person is already a member of the organization'' cause"

definition no_rows_as :: "(err option \<Rightarrow> err) \<Rightarrow> err \<Rightarrow> err" where
  "no_rows_as f e = (if errors_Is e ErrNoRows then f (Some e) else e)"

definition inviteWriteError :: "err \<Rightarrow> err" where
  "inviteWriteError e =
     (case errors_As_pg e of
        None \<Rightarrow> e
      | Some (code, constraint) \<Rightarrow>
          if code \<noteq> ''23505'' then e
          else if constraint = ''idx_invitations_pending_email'' then
            NewAPIError 409 ''INVITATION_PENDING'' ''This email already has a pending invitation'' (Some e)
          else if constraint = ''users_email_key'' then
            NewAPIError 409 ''EMAIL_TAKEN'' ''An account with this email already exists'' (Some e)
          else e)"

definition mapMembershipError :: "err \<Rightarrow> err" where
  "mapMembershipError e = (if isUniqueViolation e then already_a_member (Some e) else e)"

definition orgName :: "uuid \<Rightarrow> string io" where
  "orgName orgID = io_try (GetOrganizationByID orgID) (wrap ''get organization'') (\<lambda>org. io_return (o_Name org))"

definition checkInvitee :: "uuid \<Rightarrow> string \<Rightarrow> unit io" where
  "checkInvitee orgID email =
     io_case (GetActiveMembershipByEmail orgID email)
       (\<lambda>e. if errors_Is e ErrNoRows then io_return () else io_throw e)
       (\<lambda>_. io_throw (already_a_member None))"

subsection \<open>Delivery\<close>

definition JobTypeEmail :: string where "JobTypeEmail = ''invitation.email''"
definition JobTypeRedeliver :: string where "JobTypeRedeliver = ''invitations.redeliver''"
definition redeliveryGracePeriod :: duration where "redeliveryGracePeriod = 2 * Minute"
definition redeliveryBatchSize :: nat where "redeliveryBatchSize = 100"

definition invitation_mail :: "invitations_service \<Rightarrow> Invitation \<Rightarrow> InvitationDTO \<Rightarrow> string \<Rightarrow> string \<Rightarrow> mail" where
  "invitation_mail s invitation dto org_name token =
     (let link = acceptURL (iv_baseURL s) token;
          expires = iv_format_time s (i_ExpiresAt invitation)
      in \<lparr>ml_To = i_Email invitation,
          ml_Subject = ''You have been invited to join '' @ org_name @ '' on TeamFlow'',
          ml_Text = ''You have been invited to join '' @ org_name @ '' as '' @ vd_RoleName dto @ ''.'' @ [CHR 0x0A, CHR 0x0A] @
            ''Accept the invitation:'' @ [CHR 0x0A] @ link @ [CHR 0x0A, CHR 0x0A] @
            ''This link expires at '' @ expires @ '' and can only be used once.'' @ [CHR 0x0A],
          ml_HTML = [], ml_Link = link,
          ml_Metadata = [(''invitation_id'', uuid_string (iv_env s) (vd_ID dto)),
            (''organization_id'', uuid_string (iv_env s) (i_OrganizationID invitation)), (''expires_at'', expires)]\<rparr>)"

definition sendInvitationEmail ::
  "invitations_service \<Rightarrow> Invitation \<Rightarrow> InvitationDTO \<Rightarrow> string \<Rightarrow> string \<Rightarrow> unit io" where
  "sendInvitationEmail s invitation dto org_name token =
     io_case (Send (iv_mailer s) (invitation_mail s invitation dto org_name token)) (\<lambda>_. io_return ()) io_return"

definition markNotified :: "uuid \<Rightarrow> uuid \<Rightarrow> unit io" where
  "markNotified invitationID orgID = withOrgTx orgID (MarkInvitationNotified invitationID orgID)"

definition enqueueEmail :: "invitations_service \<Rightarrow> ctx \<Rightarrow> Invitation \<Rightarrow> string \<Rightarrow> Job io" where
  "enqueueEmail s c invitation token =
     (case iv_queue s of
        None \<Rightarrow> io_throw (Message ''jobs: no queue configured'')
      | Some q \<Rightarrow>
          Enqueue (iv_env s) q c JobTypeEmail (Some (iv_payload_Marshal s (i_ID invitation, token))))"

definition deliverInline ::
  "invitations_service \<Rightarrow> Invitation \<Rightarrow> InvitationDTO \<Rightarrow> string \<Rightarrow> string \<Rightarrow> unit io" where
  "deliverInline s invitation dto org_name token =
     io_try (sendInvitationEmail s invitation dto org_name token) id (\<lambda>_.
     io_case (markNotified (i_ID invitation) (i_OrganizationID invitation)) (\<lambda>_. io_return ()) io_return)"

definition dispatchEmail ::
  "invitations_service \<Rightarrow> ctx \<Rightarrow> Invitation \<Rightarrow> InvitationDTO \<Rightarrow> string \<Rightarrow> string \<Rightarrow> unit io" where
  "dispatchEmail s c invitation dto org_name token =
     (case iv_queue s of
        Some _ \<Rightarrow>
          io_case (enqueueEmail s c invitation token)
            (\<lambda>_. deliverInline s invitation dto org_name token) (\<lambda>_. io_return ())
      | None \<Rightarrow> deliverInline s invitation dto org_name token)"

subsection \<open>Inviting\<close>

definition invitation_event ::
  "invitations_service \<Rightarrow> string \<Rightarrow> uuid \<Rightarrow> uuid \<Rightarrow> uuid \<Rightarrow> metadata \<Rightarrow> Event" where
  "invitation_event s action userID orgID iid md =
     WithMetadata (Event0\<lparr>ev_Action := action, ev_ActorUserID := Some userID, ev_OrganizationID := Some orgID,
        ev_TargetType := TargetInvitation, ev_TargetID := uuid_string (iv_env s) iid\<rparr>) md"

definition invite_tx ::
  "invitations_service \<Rightarrow> Tenant \<Rightarrow> uuid \<Rightarrow> uuid \<Rightarrow> uuid \<Rightarrow> string \<Rightarrow> string \<Rightarrow> time \<Rightarrow>
     (Invitation \<times> string \<times> string) io" where
  "invite_tx s t userID orgID roleID email token expiresAt =
     io_try (checkInvitee orgID email) id (\<lambda>_.
     io_try (GetRoleByID roleID orgID) (no_rows_as inviteRoleNotFound) (\<lambda>role.
     if r_Name role = ownerRoleName \<and> ten_RoleName t \<noteq> ownerRoleName then io_throw (Sentinel ErrForbidden)
     else
       io_try (orgName orgID) id (\<lambda>org_name.
       io_try (CreateInvitation orgID email roleID (invitation_hashToken (iv_env s) token) userID expiresAt)
         inviteWriteError (\<lambda>invitation.
       io_try (RecordTx (iv_env s) (invitation_event s InvitationCreated userID orgID (i_ID invitation)
           [(''email'', JString email), (''role'', JString (r_Name role))])) id (\<lambda>_.
       io_return (invitation, r_Name role, org_name))))))"

definition Invite :: "invitations_service \<Rightarrow> ctx \<Rightarrow> uuid \<Rightarrow> uuid \<Rightarrow> InviteInput \<Rightarrow> InvitationDTO io" where
  "Invite s c userID orgID inp =
     io_try (Authorize userID orgID MembersManage) id (\<lambda>t.
     case invite_validate s inp of
       Some er \<Rightarrow> io_throw er
     | None \<Rightarrow>
         let email = normalizeInviteEmail (iv_env s) (vi_Email inp) in
         io_try generateInvitationToken id (\<lambda>token.
         io_try time_Now id (\<lambda>now.
         io_try (withOrgTx orgID (invite_tx s t userID orgID (vi_RoleID inp) email token (now + iv_ttl s)))
           (wrap ''create invitation'') (\<lambda>(invitation, roleName, org_name).
         let dto = invitation_toDTO invitation roleName now in
         io_try (dispatchEmail s c invitation dto org_name token) id (\<lambda>_.
         io_return dto)))))"

definition resend_tx :: "invitations_service \<Rightarrow> uuid \<Rightarrow> uuid \<Rightarrow> string \<Rightarrow> time \<Rightarrow> (Invitation \<times> string \<times> string) io" where
  "resend_tx s orgID invitationID token expiresAt =
     io_try (GetInvitationByIDForUpdate invitationID orgID) (no_rows_as invitationNotFound) (\<lambda>current.
     if i_Status current \<noteq> InvitationStatusPending then io_throw not_active
     else
       io_try (GetRoleByID (i_RoleID current) orgID) (no_rows_as inviteRoleNotFound) (\<lambda>role.
       io_try (orgName orgID) id (\<lambda>org_name.
       io_try (RotateInvitationToken invitationID orgID (invitation_hashToken (iv_env s) token) expiresAt)
         (no_rows_as (\<lambda>_. not_active)) (\<lambda>invitation.
       io_return (invitation, r_Name role, org_name)))))"

definition Resend :: "invitations_service \<Rightarrow> ctx \<Rightarrow> uuid \<Rightarrow> uuid \<Rightarrow> uuid \<Rightarrow> InvitationDTO io" where
  "Resend s c userID orgID invitationID =
     io_try (Authorize userID orgID MembersManage) id (\<lambda>_.
     io_try generateInvitationToken id (\<lambda>token.
     io_try time_Now id (\<lambda>now.
     io_try (withOrgTx orgID (resend_tx s orgID invitationID token (now + iv_ttl s)))
       (wrap ''resend invitation'') (\<lambda>(invitation, roleName, org_name).
     let dto = invitation_toDTO invitation roleName now in
     io_try (dispatchEmail s c invitation dto org_name token) id (\<lambda>_.
     io_return dto)))))"

definition revoke_invite_tx :: "invitations_service \<Rightarrow> uuid \<Rightarrow> uuid \<Rightarrow> uuid \<Rightarrow> unit io" where
  "revoke_invite_tx s userID orgID invitationID =
     io_try (GetInvitationByIDForUpdate invitationID orgID) (no_rows_as invitationNotFound) (\<lambda>current.
     if i_Status current \<noteq> InvitationStatusPending then io_throw (invitationNotFound None)
     else
       io_try time_Now id (\<lambda>now.
       io_try (RevokeInvitation invitationID orgID now) id (\<lambda>_.
       RecordTx (iv_env s)
         (Event0\<lparr>ev_Action := InvitationRevoked, ev_ActorUserID := Some userID, ev_OrganizationID := Some orgID,
                 ev_TargetType := TargetInvitation, ev_TargetID := uuid_string (iv_env s) invitationID\<rparr>))))"

definition RevokeInvite :: "invitations_service \<Rightarrow> uuid \<Rightarrow> uuid \<Rightarrow> uuid \<Rightarrow> unit io" where
  "RevokeInvite s userID orgID invitationID =
     io_try (Authorize userID orgID MembersManage) id (\<lambda>_.
     withOrgTx orgID (revoke_invite_tx s userID orgID invitationID))"

fun invitation_role_names :: "uuid \<Rightarrow> Invitation list \<Rightarrow> (uuid \<times> string) list \<Rightarrow> (uuid \<times> string) list io" where
  "invitation_role_names orgID [] names = io_return names"
| "invitation_role_names orgID (row # rows) names =
     (if map_of names (i_RoleID row) \<noteq> None then invitation_role_names orgID rows names
      else
        io_try (GetRoleByID (i_RoleID row) orgID) (wrap ''get role'') (\<lambda>role.
        invitation_role_names orgID rows ((i_RoleID row, r_Name role) # names)))"

definition ListInvites ::
  "invitations_service \<Rightarrow> uuid \<Rightarrow> uuid \<Rightarrow> InvitationFilter \<Rightarrow> PageRequest \<Rightarrow> (InvitationDTO list \<times> Pagination) io" where
  "ListInvites s userID orgID flt page =
     io_try (Authorize userID orgID MembersManage) id (\<lambda>_.
     let sortBy = (if vf_Sort flt \<in> set invitation_sortableFields then vf_Sort flt else defaultSort) in
     io_try (withOrgTx orgID
         (io_try (CountInvitations orgID (vf_Status flt) (vf_Email flt)) id (\<lambda>count.
          io_try (ListInvitations (iv_env s) orgID (vf_Status flt) (vf_Email flt) sortBy (vf_Desc flt)
                    (Limit page) (Offset page)) id (\<lambda>rows.
          io_try (invitation_role_names orgID rows []) id (\<lambda>names.
          io_return (count, rows, names))))))
       (wrap ''list invitations'') (\<lambda>(count, rows, names).
     io_try time_Now id (\<lambda>now.
     io_return
       (map (\<lambda>row. invitation_toDTO row (case map_of names (i_RoleID row) of None \<Rightarrow> [] | Some n \<Rightarrow> n) now) rows,
        NewPagination page count))))"

subsection \<open>Accepting\<close>

definition invitation_lookup :: "invitations_service \<Rightarrow> string \<Rightarrow> (Invitation \<times> Organization \<times> Role) io" where
  "invitation_lookup s token =
     io_try (GetInvitationByTokenHash (invitation_hashToken (iv_env s) token))
       (\<lambda>e. if errors_Is e ErrNoRows then invitationNotFound (Some e) else wrap ''get invitation by token'' e) (\<lambda>found.
     withOrgTx (i_OrganizationID found)
       (io_try (GetInvitationByID (i_ID found) (i_OrganizationID found)) (no_rows_as invitationNotFound) (\<lambda>invitation.
        io_try (GetOrganizationByID (i_OrganizationID invitation)) (wrap ''get organization'') (\<lambda>org.
        io_try (GetRoleByID (i_RoleID invitation) (i_OrganizationID invitation)) (no_rows_as inviteRoleNotFound) (\<lambda>role.
        io_return (invitation, org, role))))))"

definition Preview :: "invitations_service \<Rightarrow> string \<Rightarrow> PreviewDTO io" where
  "Preview s token =
     io_try (invitation_lookup s token) id (\<lambda>(invitation, org, role).
     io_try (io_case (GetUserByEmail (i_Email invitation))
         (\<lambda>e. if errors_Is e ErrNoRows then io_return False else io_throw (wrap ''check invitee account'' e))
         (\<lambda>_. io_return True)) id (\<lambda>accountExists.
     io_try time_Now id (\<lambda>now.
     io_return \<lparr>pv_OrganizationID = o_ID org, pv_OrganizationName = o_Name org, pv_Email = i_Email invitation,
                pv_RoleName = r_Name role, pv_Status = effectiveStatus invitation now,
                pv_ExpiresAt = i_ExpiresAt invitation, pv_AccountExists = accountExists, pv_AcceptedBy = None\<rparr>)))"

definition resolveUser :: "invitations_service \<Rightarrow> Invitation \<Rightarrow> uuid \<Rightarrow> AcceptInput \<Rightarrow> string \<Rightarrow> User io" where
  "resolveUser s invitation userID inp passwordHash =
     (if userID \<noteq> uuid_Nil then
        io_try (GetUserByID userID) (no_rows_as (\<lambda>_. Sentinel ErrUnauthorized)) (\<lambda>user.
        if u_Status user \<noteq> activeUserStatus then io_throw (Sentinel ErrUnauthorized)
        else if normalizeInviteEmail (iv_env s) (u_Email user) \<noteq> normalizeInviteEmail (iv_env s) (i_Email invitation) then
          io_throw (NewAPIError 403 ''INVITATION_EMAIL_MISMATCH''
            ''This invitation was issued to a different email address'' None)
        else io_return user)
      else
        io_case (GetUserByEmail (i_Email invitation))
          (\<lambda>e. if \<not> errors_Is e ErrNoRows then io_throw e
               else
                 io_try (CreateUser (normalizeInviteEmail (iv_env s) (i_Email invitation)) passwordHash
                           (TrimSpace (ai_FirstName inp)) (TrimSpace (ai_LastName inp)) activeUserStatus)
                   inviteWriteError io_return)
          (\<lambda>existing.
             if u_Status existing \<noteq> activeUserStatus then io_throw (Sentinel ErrUnauthorized)
             else io_throw (NewAPIError 409 ''ACCOUNT_EXISTS''
               ''An account with this email already exists; sign in to accept this invitation'' None)))"

text \<open>
  The transaction of \<open>Accept\<close>. \<open>None\<close> is the invitation that turned out to be past its expiry: the
  transaction commits the transition, and the failure is reported afterwards.
\<close>

definition accept_tx ::
  "invitations_service \<Rightarrow> uuid \<Rightarrow> AcceptInput \<Rightarrow> string \<Rightarrow> string \<Rightarrow> time \<Rightarrow>
     (Organization \<times> Role \<times> User \<times> Invitation) option io" where
  "accept_tx s userID inp token passwordHash now =
     io_try (GetInvitationByTokenHashForUpdate (invitation_hashToken (iv_env s) token)) (no_rows_as invitationNotFound)
       (\<lambda>invitation.
     if \<not> isUsable invitation now then
       (if i_Status invitation \<noteq> InvitationStatusPending then io_throw (unusable invitation now)
        else
          io_try (MarkInvitationExpired (i_ID invitation) (i_OrganizationID invitation))
            (wrap ''mark invitation expired'') (\<lambda>_. io_return None))
     else
       io_try (GetRoleByID (i_RoleID invitation) (i_OrganizationID invitation)) (no_rows_as inviteRoleNotFound) (\<lambda>role.
       io_try (GetOrganizationByID (i_OrganizationID invitation)) (wrap ''get organization'') (\<lambda>org.
       io_try (resolveUser s invitation userID inp passwordHash) id (\<lambda>user.
       io_try (CreateMembership (i_OrganizationID invitation) (u_ID user) (i_RoleID invitation) ''active'' (Some now))
         mapMembershipError (\<lambda>_.
       io_try (AcceptInvitation (i_ID invitation) (i_OrganizationID invitation) now (u_ID user))
         (wrap ''accept invitation'') (\<lambda>_.
       io_return (Some (org, role, user, invitation))))))))"

definition accept_password :: "invitations_service \<Rightarrow> uuid \<Rightarrow> AcceptInput \<Rightarrow> string io" where
  "accept_password s userID inp =
     (if userID = uuid_Nil then
        (if ai_Password inp = [] then
           io_throw (NewValidationError [(''password'', ''is required when accepting without an account'')])
         else HashPassword (iv_env s) (ai_Password inp))
      else io_return [])"

text \<open>What follows the commit.\<close>

fun accept_finish ::
  "invitations_service \<Rightarrow> RequestMeta \<Rightarrow> Invitation \<Rightarrow> time \<Rightarrow> (Organization \<times> Role \<times> User \<times> Invitation) option \<Rightarrow>
     AcceptResult io" where
  "accept_finish s meta found now None = io_throw (unusable found now)"
| "accept_finish s meta found now (Some (org, role, user, invitation)) =
     io_try (Record (iv_env s) (invitation_event s InvitationAccepted (u_ID user) (o_ID org) (i_ID found)
         [(''email'', JString (i_Email invitation)), (''role'', JString (r_Name role))])) id (\<lambda>_.
     io_try (IssueSession (iv_auth s) (u_ID user) meta) id (\<lambda>tokens.
     io_return \<lparr>ar_InvitationID = i_ID found, ar_OrganizationID = o_ID org, ar_OrganizationName = o_Name org,
                ar_RoleName = r_Name role, ar_InvitedUser = NewUserDTO user, ar_SessionTokens = tokens\<rparr>))"

definition Accept :: "invitations_service \<Rightarrow> uuid \<Rightarrow> AcceptInput \<Rightarrow> RequestMeta \<Rightarrow> AcceptResult io" where
  "Accept s userID inp meta =
     (let token = TrimSpace (ai_Token inp) in
      if token = [] then io_throw (NewValidationError [(''token'', ''is required'')])
      else
        case validateAccount s inp of
          Some er \<Rightarrow> io_throw er
        | None \<Rightarrow>
            io_try (accept_password s userID inp) id (\<lambda>passwordHash.
            io_try (GetInvitationByTokenHash (invitation_hashToken (iv_env s) token))
              (\<lambda>e. if errors_Is e ErrNoRows then invitationNotFound (Some e) else wrap ''get invitation by token'' e) (\<lambda>found.
            io_try time_Now id (\<lambda>now.
            io_try (withOrgTx (i_OrganizationID found) (accept_tx s userID inp token passwordHash now)) id
              (accept_finish s meta found now)))))"

section \<open>Jobs\<close>

definition deliveryTarget :: "uuid \<Rightarrow> (Invitation \<times> string \<times> string) io" where
  "deliveryTarget invitationID =
     io_try (GetInvitationByIDForJob invitationID) id (\<lambda>(_, orgID).
     withOrgTx orgID
       (io_try (GetInvitationByID invitationID orgID) id (\<lambda>invitation.
        io_try (orgName (i_OrganizationID invitation)) id (\<lambda>org_name.
        io_try (GetRoleByID (i_RoleID invitation) (i_OrganizationID invitation)) id (\<lambda>role.
        io_return (invitation, org_name, r_Name role))))))"

definition EmailJobHandler :: "invitations_service \<Rightarrow> handler" where
  "EmailJobHandler s c job =
     (case iv_payload_Unmarshal s (case jb_Payload job of None \<Rightarrow> [] | Some raw \<Rightarrow> raw) of
        Inl e \<Rightarrow> io_throw (PermanentError (wrap (''decode '' @ JobTypeEmail @ '' payload'') e))
      | Inr (invitationID, token) \<Rightarrow>
          if invitationID = uuid_Nil \<or> token = [] then
            io_throw (PermanentError (Message ''invitation email job is missing its invitation or token''))
          else
            io_case (deliveryTarget invitationID)
              (\<lambda>e. if errors_Is e ErrNoRows then io_return () else io_throw e)
              (\<lambda>(invitation, org_name, roleName).
                 if i_Status invitation \<noteq> InvitationStatusPending then io_return ()
                 else
                   io_try time_Now id (\<lambda>now.
                   io_try (sendInvitationEmail s invitation (invitation_toDTO invitation roleName now) org_name token) id (\<lambda>_.
                   io_case (markNotified invitationID (i_OrganizationID invitation)) (\<lambda>_. io_return ()) io_return))))"

definition undeliveredInvitations :: "uuid \<Rightarrow> Invitation list io" where
  "undeliveredInvitations orgID =
     io_try (withOrgTx orgID
         (io_try time_Now id (\<lambda>now.
          ListUndeliveredInvitations orgID 0 (now - redeliveryGracePeriod) redeliveryBatchSize)))
       (wrap ''list undelivered invitations'') io_return"

definition rotate_for_delivery :: "invitations_service \<Rightarrow> uuid \<Rightarrow> uuid \<Rightarrow> string \<Rightarrow> Invitation option io" where
  "rotate_for_delivery s orgID iid token =
     io_case (RotateInvitationForDelivery iid orgID (invitation_hashToken (iv_env s) token))
       (\<lambda>e. if errors_Is e ErrNoRows then io_return None else io_throw e)
       (\<lambda>updated. io_return (Some updated))"

definition redeliver_one :: "invitations_service \<Rightarrow> ctx \<Rightarrow> uuid \<Rightarrow> Invitation \<Rightarrow> unit io" where
  "redeliver_one s c orgID row =
     io_try generateInvitationToken id (\<lambda>token.
     io_try (withOrgTx orgID (rotate_for_delivery s orgID (i_ID row) token)) id (\<lambda>rotated.
     case rotated of
       None \<Rightarrow> io_return ()
     | Some updated \<Rightarrow>
         if i_ID updated = uuid_Nil then io_return ()
         else io_try (enqueueEmail s c updated token) id (\<lambda>_. io_return ())))"

definition RedeliverJobHandler :: "invitations_service \<Rightarrow> handler" where
  "RedeliverJobHandler s c job =
     (let decoded = (case jb_Payload job of
                       None \<Rightarrow> Inr uuid_Nil
                     | Some raw \<Rightarrow> if length raw > 0 then iv_sweep_Unmarshal s raw else Inr uuid_Nil)
      in case decoded of
           Inl e \<Rightarrow> io_throw (PermanentError (wrap (''decode '' @ JobTypeRedeliver @ '' payload'') e))
         | Inr only \<Rightarrow>
             ForEachActiveOrganization only (\<lambda>orgID.
               io_try (undeliveredInvitations orgID) id (\<lambda>rows. io_each (redeliver_one s c orgID) rows)))"

section \<open>Invariants\<close>

lemmas invitation_updates = AcceptInvitation_def MarkInvitationExpired_def RevokeInvitation_def
  RotateInvitationToken_def RotateInvitationForDelivery_def
lemmas invitation_reads = GetActiveMembershipByEmail_def GetInvitationByID_def GetInvitationByIDForUpdate_def
  GetInvitationByIDForJob_def GetInvitationByTokenHash_def GetInvitationByTokenHashForUpdate_def CountInvitations_def
  ListInvitations_def ListUndeliveredInvitations_def

lemma update_invitation_cases:
  assumes "update_invitation iid org cond f w = (Inr j, w')"
  obtains i where "i \<in> set (invitations (st w))" "rls w (i_OrganizationID i)" "i_ID i = iid" "i_OrganizationID i = org"
    "cond i" "j = (f i)\<lparr>i_UpdatedAt := clock w\<rparr>" "\<forall>g\<in>set (invitation_checks (st w) j). fst g"
    "st w' = (st w)\<lparr>invitations := update_where
       (\<lambda>i. rls w (i_OrganizationID i) \<and> i_ID i = iid \<and> i_OrganizationID i = org \<and> cond i)
       (\<lambda>i. (f i)\<lparr>i_UpdatedAt := clock w\<rparr>) (invitations (st w))\<rparr>" "clock w' = clock w" "tenant w' = tenant w"
  using assms
  by (auto simp: update_invitation_def io_success Let_def one_row_def guards_Inr rls_def dest!: find_SomeD split: option.splits)

lemma ids_update_invitation:
  assumes "\<And>i. i_ID (f i) = i_ID i" and "(\<forall>i. i_TokenHash (f i) = i_TokenHash i) \<or> (\<exists>h. \<forall>i. i_TokenHash (f i) = h)"
  shows "ids.keeps T (update_invitation iid org cond f)"
  unfolding update_invitation_def
proof (rule ids.keeps_db_write, goal_cases)
  case (1 w x s n)
  from 1(2) obtain i where i: "i \<in> set (invitations (st w))" "i_ID i = iid"
    and c: "\<forall>g\<in>set (invitation_checks (st w) ((f i)\<lparr>i_UpdatedAt := clock w\<rparr>)). fst g" and n: "n = fresh w"
    and s: "s = (st w)\<lparr>invitations := update_where
       (\<lambda>i. rls w (i_OrganizationID i) \<and> i_ID i = iid \<and> i_OrganizationID i = org \<and> cond i)
       (\<lambda>i. (f i)\<lparr>i_UpdatedAt := clock w\<rparr>) (invitations (st w))\<rparr>"
    by (auto simp: Let_def one_row_def guards_Inr dest!: find_SomeD split: option.splits)
  have c': "\<And>x. x \<in> set (invitations (st w)) \<Longrightarrow> i_ID x \<noteq> iid \<Longrightarrow> i_TokenHash x \<noteq> i_TokenHash (f i)"
    using c i assms(1) by (auto simp: invitation_checks_def)
  show ?case
    using assms(2)
  proof (elim disjE exE)
    fix h
    assume h: "\<forall>i. i_TokenHash (f i) = h"
    then show ?thesis
      using n s c' by (auto simp: wf_ids_def assms(1) map_update_where_same rows_ok_def set_update_where
          intro!: distinct_update_key [where ident = i_ID and i = iid and k = h])
  qed (use n s in \<open>auto simp: wf_ids_def assms(1) map_update_where_same\<close>)
qed

lemma ids_invitation_statements [keeps_intro]:
  "ids.keeps T (CreateInvitation org email role hash by expires)"
  "ids.keeps T (MarkInvitationNotified iid org)"
  "ids.keeps T (AcceptInvitation iid org t uid)"
  "ids.keeps T (MarkInvitationExpired iid org)"
  "ids.keeps T (RevokeInvitation iid org t)"
  "ids.keeps T (RotateInvitationToken iid org hash t)"
  "ids.keeps T (RotateInvitationForDelivery iid org hash)"
  subgoal unfolding CreateInvitation_def by (rule ids.keeps_db_write) (auto simp: write_simps)
  subgoal unfolding MarkInvitationNotified_def by (rule ids.keeps_db_write) (auto simp: write_simps)
  unfolding invitation_updates by (rule ids_update_invitation; simp)+

lemmas unfolded_ids_invitation_statements =
  ids_invitation_statements [unfolded CreateInvitation_def MarkInvitationNotified_def invitation_updates update_invitation_def]

lemma owners_invitation_statements [keeps_intro]:
  "owners.keeps T (CreateInvitation org email role hash by expires)"
  "owners.keeps T (MarkInvitationNotified iid org)"
  "owners.keeps T (AcceptInvitation iid org t uid)"
  "owners.keeps T (MarkInvitationExpired iid org)"
  "owners.keeps T (RevokeInvitation iid org t)"
  "owners.keeps T (RotateInvitationToken iid org hash t)"
  "owners.keeps T (RotateInvitationForDelivery iid org hash)"
  unfolding CreateInvitation_def MarkInvitationNotified_def invitation_updates update_invitation_def
  by (rule owners_other_table; (rule unfolded_ids_invitation_statements)?; auto simp: Let_def guards_Inr split: sum.splits)+

lemma sessions_invitation_statements [keeps_intro]:
  "sessions.keeps T (CreateInvitation org email role hash by expires)"
  "sessions.keeps T (MarkInvitationNotified iid org)"
  "sessions.keeps T (AcceptInvitation iid org t uid)"
  "sessions.keeps T (MarkInvitationExpired iid org)"
  "sessions.keeps T (RevokeInvitation iid org t)"
  "sessions.keeps T (RotateInvitationToken iid org hash t)"
  "sessions.keeps T (RotateInvitationForDelivery iid org hash)"
  unfolding CreateInvitation_def MarkInvitationNotified_def invitation_updates update_invitation_def
  by (rule sessions_other_table; (rule unfolded_ids_invitation_statements)?; auto simp: Let_def guards_Inr split: sum.splits)+

lemma confined_invitation_statements [keeps_intro]:
  "confined.keeps org y (\<lambda>t. t = Some org) (CreateInvitation oid email role hash by expires)"
  "confined.keeps org y (\<lambda>t. t = Some org) (MarkInvitationNotified iid oid)"
  "confined.keeps org y (\<lambda>t. t = Some org) (AcceptInvitation iid oid t uid)"
  "confined.keeps org y (\<lambda>t. t = Some org) (MarkInvitationExpired iid oid)"
  "confined.keeps org y (\<lambda>t. t = Some org) (RevokeInvitation iid oid t)"
  "confined.keeps org y (\<lambda>t. t = Some org) (RotateInvitationToken iid oid hash t)"
  "confined.keeps org y (\<lambda>t. t = Some org) (RotateInvitationForDelivery iid oid hash)"
  unfolding CreateInvitation_def MarkInvitationNotified_def invitation_updates update_invitation_def
  by (rule confined_db_write; (rule unfolded_ids_invitation_statements)?;
      auto simp: Let_def guards_Inr others_def rls_tenant intro!: filter_update_where_other split: sum.splits)+

context store_invariant
begin

lemma keeps_io_try_success:
  assumes m: "keeps T m" and k: "\<And>x v v'. m v = (Inr x, v') \<Longrightarrow> keeps T (k x)"
  shows "keeps T (io_try m f k)"
  unfolding keeps_def
proof (intro allI impI)
  fix w :: world
  assume T: "T (tenant w)"
  obtain r w1 where r: "m w = (r, w1)" by (cases "m w")
  note m' = keepsD [OF m T, unfolded r snd_conv]
  then have T1: "T (tenant w1)" using T by simp
  show "tenant (snd (io_try m f k w)) = tenant w \<and> fresh w \<le> fresh (snd (io_try m f k w)) \<and>
        (I (st w) (fresh w) \<longrightarrow> I (st (snd (io_try m f k w))) (fresh (snd (io_try m f k w))))"
  proof (cases r)
    case (Inr x)
    with r m' keepsD [OF k [of w x w1] T1] show ?thesis by (simp add: io_try_def io_case_def)
  qed (use r m' in \<open>simp add: io_try_def io_case_def io_throw_def\<close>)
qed

lemma keeps_with_ctx: "keeps T m \<Longrightarrow> keeps T (with_ctx c m)"
  by (auto simp: keeps_def with_ctx_def split: option.splits)

lemma keeps_Enqueue: "keeps T (Enqueue e q c jobType payload)"
  unfolding Enqueue_def enqueue_def seal_def Let_def by (intro keeps_intro keeps_with_ctx)

lemma keeps_reads_invitations:
  "keeps T (sendInvitationEmail s i dto name token)" "keeps T (enqueueEmail s c i token)" "keeps T (deliveryTarget iid)"
  "keeps T (undeliveredInvitations org)" "keeps T (orgName org)" "keeps T (checkInvitee org email)"
  "keeps T generateInvitationToken" "keeps T (accept_password s uid inp)"
  unfolding sendInvitationEmail_def enqueueEmail_def deliveryTarget_def undeliveredInvitations_def orgName_def checkInvitee_def
    generateInvitationToken_def accept_password_def HashPassword_def withOrgTx_def invitation_reads identity_reads
  by (intro keeps_intro keeps_Enqueue)+

end

lemma invite_tx_organization:
  "withOrgTx org (invite_tx s t uid org rid email token expires) w = (Inr (i, x), w') \<Longrightarrow> i_OrganizationID i = org"
  unfolding invite_tx_def withOrgTx_def CreateInvitation_def
  by (auto simp: io_success Let_def guards_Inr split: if_splits)

lemma resend_tx_organization:
  "withOrgTx org (resend_tx s org iid token expires) w = (Inr (i, x), w') \<Longrightarrow> i_OrganizationID i = org"
  unfolding resend_tx_def withOrgTx_def RotateInvitationToken_def
  by (auto simp: io_success elim!: update_invitation_cases split: if_splits)

text \<open>
  The statements that accept and revoke carry no condition on the status, so the two transactions that
  use them are the units an invariant has to be kept by. An invariant that also the two statements
  keep is kept by these transactions (\<open>settling_statements\<close>).
\<close>

locale settling_statements = key_statements +
  assumes st_CreateUser: "keeps T0 (CreateUser email hash first_name last_name stat)"
    and st_CreateMembership: "keeps T0 (CreateMembership org uid role stat joined)"
    and st_AcceptInvitation: "keeps T0 (AcceptInvitation iid org t uid)"
    and st_MarkInvitationExpired: "keeps T0 (MarkInvitationExpired iid org)"
    and st_RevokeInvitation: "keeps T0 (RevokeInvitation iid org t)"
begin

lemmas settling_rules = st_CreateUser [THEN within] st_CreateMembership [THEN within] st_AcceptInvitation [THEN within]
  st_MarkInvitationExpired [THEN within] st_RevokeInvitation [THEN within]

lemma settling_transactions:
  assumes "T0 (Some org)"
  shows "keeps T (withOrgTx org (accept_tx s uid inp token pwd now))" "keeps T (withOrgTx org (revoke_invite_tx s uid org iid))"
  unfolding withOrgTx_def accept_tx_def revoke_invite_tx_def resolveUser_def invitation_reads identity_reads
  by (intro keeps_intro settling_rules audit_rules; simp add: assms)+

end

locale invitation_statements = key_statements +
  assumes tx_accept: "T0 (Some org) \<Longrightarrow> keeps T (withOrgTx org (accept_tx s uid inp token pwd now))"
    and tx_revoke: "T0 (Some org) \<Longrightarrow> keeps T (withOrgTx org (revoke_invite_tx s uid org iid))"
    and st_IssueSession: "keeps T0 (IssueSession sv uid meta)"
    and st_CreateInvitation: "keeps T0 (CreateInvitation org email role hash by expires)"
    and st_MarkInvitationNotified: "keeps T0 (MarkInvitationNotified iid org)"
    and st_RotateInvitationToken: "keeps T0 (RotateInvitationToken iid org hash t)"
    and st_RotateInvitationForDelivery: "keeps T0 (RotateInvitationForDelivery iid org hash)"
begin

lemmas invitation_rules = st_IssueSession [THEN within] st_CreateInvitation [THEN within]
  st_MarkInvitationNotified [THEN within] st_RotateInvitationToken [THEN within] st_RotateInvitationForDelivery [THEN within]

lemma keeps_delivery:
  assumes "T0 (Some (i_OrganizationID i))"
  shows "keeps T (dispatchEmail s c i dto name token)"
  unfolding dispatchEmail_def deliverInline_def markNotified_def withOrgTx_def
  by (intro keeps_intro invitation_rules keeps_reads_invitations; simp add: assms)

lemma keeps_invitation_tx:
  assumes "\<And>t. T t \<Longrightarrow> T0 t"
  shows "keeps T (invite_tx s tn uid org rid email token expires)" "keeps T (resend_tx s org iid token expires)"
    "keeps T (rotate_for_delivery s org iid token)"
  unfolding invite_tx_def resend_tx_def rotate_for_delivery_def invitation_reads identity_reads
  by (intro keeps_intro invitation_rules audit_rules keeps_reads_invitations; simp add: assms)+

lemma organization_invitation_operations:
  assumes "T0 (Some org)"
  shows "keeps T (Invite s c uid org inp)" "keeps T (Resend s c uid org iid)" "keeps T (RevokeInvite s uid org iid)"
proof -
  have deliver: "keeps T (case r of (i, roleName, name) \<Rightarrow>
      let dto = invitation_toDTO i roleName now in io_try (dispatchEmail s c i dto name token) id (\<lambda>_. io_return dto))"
    if "i_OrganizationID (fst r) = org" for r now token
    using that assms by (cases r) (auto simp: Let_def intro!: keeps_intro keeps_delivery)
  show "keeps T (Invite s c uid org inp)"
    unfolding Invite_def Let_def
    by (intro keeps_intro keeps_io_try_success [of _ "withOrgTx _ _"] keeps_Authorize keeps_reads_invitations deliver [unfolded Let_def])
      (auto simp: withOrgTx_def assms dest!: invite_tx_organization [unfolded withOrgTx_def] intro!: keeps_intro keeps_invitation_tx)
  show "keeps T (Resend s c uid org iid)"
    unfolding Resend_def Let_def
    by (intro keeps_intro keeps_io_try_success [of _ "withOrgTx _ _"] keeps_Authorize keeps_reads_invitations deliver [unfolded Let_def])
      (auto simp: withOrgTx_def assms dest!: resend_tx_organization [unfolded withOrgTx_def] intro!: keeps_intro keeps_invitation_tx)
  show "keeps T (RevokeInvite s uid org iid)"
    unfolding RevokeInvite_def by (intro keeps_intro tx_revoke keeps_Authorize assms)
qed

lemma keeps_accept_finish:
  assumes "\<And>t. T0 t"
  shows "keeps T (accept_finish s meta found now oc)"
  by (cases "(s, meta, found, now, oc)" rule: accept_finish.cases)
    (auto simp: assms intro!: keeps_intro invitation_rules audit_rules)

lemma invitation_operations:
  assumes "\<And>t. T0 t"
  shows "keeps T (Accept s uid ainp meta)" "keeps T (EmailJobHandler s c job)" "keeps T (RedeliverJobHandler s c job)"
  unfolding Accept_def EmailJobHandler_def RedeliverJobHandler_def redeliver_one_def ForEachActiveOrganization_def markNotified_def
    Let_def identity_reads invitation_reads
  by (intro keeps_intro tx_accept keeps_accept_finish keeps_WithTenantTx [folded withOrgTx_def] invitation_rules audit_rules keeps_invitation_tx
      keeps_reads_invitations; simp add: assms)+

end

interpretation ids_settling: settling_statements wf_ids "\<lambda>_. True"
  by unfold_locales (rule keeps_intro)+

interpretation ids_invitations: invitation_statements wf_ids "\<lambda>_. True"
  by unfold_locales (rule ids_settling.settling_transactions TrueI keeps_intro | assumption)+

lemma owners_new_members [keeps_intro]:
  "owners.keeps T (CreateUser email hash first_name last_name stat)"
  "owners.keeps T (CreateMembership org uid role stat joined)"
  unfolding identity_writes
  by (rule owners.statement; (rule unfolded_ids_writes)?; auto simp: Let_def guards_Inr elim!: owned_mono)+

interpretation owners_settling: settling_statements "wf_and owned" "\<lambda>_. True"
  by unfold_locales (rule keeps_intro)+

interpretation owners_invitations: invitation_statements "wf_and owned" "\<lambda>_. True"
  by unfold_locales (rule owners_settling.settling_transactions TrueI keeps_intro | assumption)+

interpretation sessions_settling: settling_statements sessions_ok "\<lambda>_. True"
  by unfold_locales (rule keeps_intro)+

interpretation sessions_invitations: invitation_statements sessions_ok "\<lambda>_. True"
  by unfold_locales (rule sessions_settling.settling_transactions TrueI keeps_intro | assumption)+

lemma confined_IssueSession [keeps_intro]: "confined.keeps org y (\<lambda>t. t = Some org) (IssueSession s uid meta)"
  unfolding IssueSession_def session_defs by (intro keeps_intro)

interpretation confined_settling: settling_statements "wf_and (\<lambda>s. others org s = y)" "\<lambda>t. t = Some org" for org y
  by unfold_locales (rule keeps_intro)+

interpretation confined_invitations: invitation_statements "wf_and (\<lambda>s. others org s = y)" "\<lambda>t. t = Some org" for org y
  by unfold_locales (rule confined_settling.settling_transactions keeps_intro | assumption)+

end
