(* ===== verification/Invitation_Safety.thy ===== *)
theory Invitation_Safety
  imports Key_Safety Invitations
begin

text \<open>
  What invitations promise: an invitation is redeemed by its addressee only, at most once, while it is
  pending and not expired; redeeming it and joining the organization are one step; inviting needs the
  permission, and inviting an Owner needs an Owner.
\<close>

section \<open>The transaction of Accept\<close>

definition accepted_row :: "time \<Rightarrow> uuid \<Rightarrow> time \<Rightarrow> Invitation \<Rightarrow> Invitation" where
  "accepted_row now uid t i =
     i\<lparr>i_Status := ''accepted'', i_AcceptedAt := Some now, i_AcceptedBy := Some uid, i_UpdatedAt := t\<rparr>"

text \<open>Who redeems: the caller with the invited address, or the account made for it.\<close>

definition invitee :: "invitations_service \<Rightarrow> uuid \<Rightarrow> Invitation \<Rightarrow> User \<Rightarrow> store \<Rightarrow> store \<Rightarrow> bool" where
  "invitee s uid i user before after \<longleftrightarrow>
     u_Status user = ''active'' \<and>
     (if uid \<noteq> uuid_Nil then
        user \<in> set (users before) \<and> u_ID user = uid \<and> users after = users before \<and>
        normalizeInviteEmail (iv_env s) (u_Email user) = normalizeInviteEmail (iv_env s) (i_Email i)
      else
        (\<forall>u\<in>set (users before). \<not> citext_eq (u_Email u) (u_Email user)) \<and> users after = users before @ [user] \<and>
        u_Email user = normalizeInviteEmail (iv_env s) (i_Email i))"

definition joined :: "invitations_service \<Rightarrow> uuid \<Rightarrow> string \<Rightarrow> time \<Rightarrow> store \<Rightarrow> store \<Rightarrow> Invitation \<Rightarrow> User \<Rightarrow> bool" where
  "joined s uid token now before after i user \<longleftrightarrow>
     i \<in> set (invitations before) \<and> i_TokenHash i = invitation_hashToken (iv_env s) token \<and>
     i_Status i = ''pending'' \<and> now \<le> i_ExpiresAt i \<and>
     invitee s uid i user before after \<and>
     (\<exists>m. memberships after = memberships before @ [m] \<and> m_OrganizationID m = i_OrganizationID i \<and>
          m_UserID m = u_ID user \<and> m_RoleID m = i_RoleID i \<and> m_Status m = ''active'') \<and>
     (\<exists>t. invitations after = update_where (\<lambda>j. i_ID j = i_ID i) (accepted_row now (u_ID user) t) (invitations before))"

text \<open>The other effect the transaction can commit: the invitation is past its expiry and marked so.\<close>

definition lapsed :: "invitations_service \<Rightarrow> string \<Rightarrow> time \<Rightarrow> store \<Rightarrow> store \<Rightarrow> bool" where
  "lapsed s token now before after \<longleftrightarrow>
     users after = users before \<and> memberships after = memberships before \<and>
     (\<exists>i\<in>set (invitations before). \<exists>t. i_TokenHash i = invitation_hashToken (iv_env s) token \<and>
        i_Status i = ''pending'' \<and> i_ExpiresAt i < now \<and>
        invitations after = update_where (\<lambda>j. i_ID j = i_ID i)
          (\<lambda>j. j\<lparr>i_Status := ''expired'', i_UpdatedAt := t\<rparr>) (invitations before))"

lemma update_invitation_success:
  assumes wf: "rows_ok i_ID (invitations (st w)) n" and run: "update_invitation iid org cond f w = (Inr j, w')"
  obtains i where "i \<in> set (invitations (st w))" "i_ID i = iid" "i_OrganizationID i = org" "cond i"
    "st w' = (st w)\<lparr>invitations := update_where (\<lambda>j. i_ID j = iid) (\<lambda>i. (f i)\<lparr>i_UpdatedAt := clock w\<rparr>) (invitations (st w))\<rparr>"
  using run
proof (cases rule: update_invitation_cases)
  case (1 i)
  have "update_where (\<lambda>i. rls w (i_OrganizationID i) \<and> i_ID i = iid \<and> i_OrganizationID i = org \<and> cond i) g (invitations (st w)) =
      update_where (\<lambda>i. i_ID i = iid) g (invitations (st w))" for g
    using rows_ok_unique [OF wf] 1 by (intro update_where_cong) blast
  with 1 show ?thesis by (intro that [of i]) simp_all
qed

lemma withOrgTx_success:
  assumes "withOrgTx org fn w = (Inr x, w')"
  obtains v v' where "fn v = (Inr x, v')" "st v = st w" "fresh v = fresh w" "clock v = clock w" "tenant v = Some org" "st v' = st w'"
  using assms by (auto simp: withOrgTx_def io_success intro!: that)

lemma db_read_frameD: "db_read q w = (r, w') \<Longrightarrow> st w' = st w \<and> tenant w' = tenant w \<and> clock w' = clock w \<and> fresh w' = fresh w"
  by (auto simp: db_read_def dest!: next_fault_frameD split: prod.splits option.splits)

lemma resolveUser_success:
  assumes "resolveUser s i uid inp pwd v = (Inr user, v')"
  shows "invitee s uid i user (st v) (st v') \<and> st v' = (st v)\<lparr>users := users (st v')\<rparr> \<and> clock v' = clock v \<and> tenant v' = tenant v"
proof (cases "uid = uuid_Nil")
  case True
  with assms obtain e v1 where
    "GetUserByEmail (i_Email i) v = (Inl e, v1)" and
    c: "CreateUser (normalizeInviteEmail (iv_env s) (i_Email i)) pwd (TrimSpace (ai_FirstName inp)) (TrimSpace (ai_LastName inp))
      activeUserStatus v1 = (Inr user, v')"
    by (auto simp: resolveUser_def io_success split: if_splits)
  then have "st v1 = st v" "tenant v1 = tenant v" "clock v1 = clock v"
    by (auto simp: GetUserByEmail_def dest!: db_read_frameD)
  with c True show ?thesis
    by (auto simp: invitee_def CreateUser_def io_success Let_def guards_Inr activeUserStatus_def)
next
  case False
  with assms show ?thesis
    by (auto simp: resolveUser_def invitee_def io_success GetUserByID_def one_row_def activeUserStatus_def
        dest!: find_SomeD split: if_splits option.splits)
qed

lemma accept_tx_cases:
  assumes wf: "wf_ids (st v) (fresh v)" and run: "accept_tx s uid inp token pwd now v = (Inr out, v')"
  obtains "out = None" "lapsed s token now (st v) (st v')"
  | org role user i where "out = Some (org, role, user, i)" "joined s uid token now (st v) (st v') i user"
      "rls v (i_OrganizationID i)" "org \<in> set (organizations (st v))" "o_ID org = i_OrganizationID i"
      "role \<in> set (roles (st v))" "r_ID role = i_RoleID i" "r_OrganizationID role = i_OrganizationID i"
proof -
  let ?h = "invitation_hashToken (iv_env s) token"
  from run obtain i v1 where i: "GetInvitationByTokenHashForUpdate ?h v = (Inr i, v1)"
    and rest: "(if \<not> isUsable i now then
       (if i_Status i \<noteq> InvitationStatusPending then io_throw (unusable i now)
        else
          io_try (MarkInvitationExpired (i_ID i) (i_OrganizationID i))
            (wrap ''mark invitation expired'') (\<lambda>_. io_return None))
     else
       io_try (GetRoleByID (i_RoleID i) (i_OrganizationID i)) (no_rows_as inviteRoleNotFound) (\<lambda>role.
       io_try (GetOrganizationByID (i_OrganizationID i)) (wrap ''get organization'') (\<lambda>org.
       io_try (resolveUser s i uid inp pwd) id (\<lambda>user.
       io_try (CreateMembership (i_OrganizationID i) (u_ID user) (i_RoleID i) ''active'' (Some now))
         mapMembershipError (\<lambda>_.
       io_try (AcceptInvitation (i_ID i) (i_OrganizationID i) now (u_ID user))
         (wrap ''accept invitation'') (\<lambda>_.
       io_return (Some (org, role, user, i)))))))) v1 = (Inr out, v')"
    unfolding accept_tx_def io_try_Inr by blast
  have i': "i \<in> set (invitations (st v))" "rls v (i_OrganizationID i)" "i_TokenHash i = ?h" "st v1 = st v" "tenant v1 = tenant v"
    using i by (auto simp: GetInvitationByTokenHashForUpdate_def io_success one_row_def rls_def dest!: find_SomeD split: option.splits)
  have ids_ok: "rows_ok i_ID (invitations (st v)) (fresh v)" using wf by (simp add: wf_ids_def)
  show ?thesis
  proof (cases "isUsable i now")
    case False
    with rest obtain j where out: "out = None" and pend: "i_Status i = ''pending''"
      and e: "MarkInvitationExpired (i_ID i) (i_OrganizationID i) v1 = (Inr j, v')"
      by (auto simp: io_success invitation_statuses split: if_splits)
    have "i_ExpiresAt i < now" using False pend by (auto simp: isUsable_def invitation_statuses)
    moreover have "st v' = (st v)\<lparr>invitations := update_where (\<lambda>j. i_ID j = i_ID i)
        (\<lambda>j. j\<lparr>i_Status := ''expired'', i_UpdatedAt := clock v1\<rparr>) (invitations (st v))\<rparr>"
      using ids_ok e [unfolded MarkInvitationExpired_def] i'(4) by (elim update_invitation_success [rotated]) simp_all
    ultimately show ?thesis
      using i' pend out by (intro that(1)) (auto simp: lapsed_def intro!: bexI [of _ i])
  next
    case True
    with rest obtain role v2 org v3 user v4 m v5 j where
      1: "GetRoleByID (i_RoleID i) (i_OrganizationID i) v1 = (Inr role, v2)" and
      2: "GetOrganizationByID (i_OrganizationID i) v2 = (Inr org, v3)" and
      3: "resolveUser s i uid inp pwd v3 = (Inr user, v4)" and
      4: "CreateMembership (i_OrganizationID i) (u_ID user) (i_RoleID i) ''active'' (Some now) v4 = (Inr m, v5)" and
      5: "AcceptInvitation (i_ID i) (i_OrganizationID i) now (u_ID user) v5 = (Inr j, v')" and
      out: "out = Some (org, role, user, i)"
      by (auto simp: io_success)
    have 1: "role \<in> set (roles (st v))" "r_ID role = i_RoleID i" "r_OrganizationID role = i_OrganizationID i"
        "st v2 = st v" "tenant v2 = tenant v"
      using 1 i' by (auto simp: GetRoleByID_def io_success one_row_def dest!: find_SomeD split: option.splits)
    have 2: "org \<in> set (organizations (st v))" "o_ID org = i_OrganizationID i" "st v3 = st v" "tenant v3 = tenant v"
      using 2 1 by (auto simp: GetOrganizationByID_def io_success one_row_def dest!: find_SomeD split: option.splits)
    have 3: "invitee s uid i user (st v) (st v4)" "st v4 = (st v)\<lparr>users := users (st v4)\<rparr>" "tenant v4 = tenant v"
      using resolveUser_success [OF 3] 2 by auto
    have 4: "st v5 = (st v4)\<lparr>memberships := memberships (st v4) @ [m]\<rparr>" "tenant v5 = tenant v4"
       "m_OrganizationID m = i_OrganizationID i" "m_UserID m = u_ID user" "m_RoleID m = i_RoleID i" "m_Status m = ''active''"
      using 4 by (auto simp: CreateMembership_def io_success Let_def guards_Inr)
    have inv5: "invitations (st v5) = invitations (st v)"
      using 3(2) 4(1) by (metis (no_types, lifting) store.ext_inject store.surjective store.update_convs(1) store.update_convs(3))
    have 5: "st v' = (st v5)\<lparr>invitations := update_where (\<lambda>j. i_ID j = i_ID i) (accepted_row now (u_ID user) (clock v5)) (invitations (st v))\<rparr>"
      using ids_ok 5 [unfolded AcceptInvitation_def] inv5 by (elim update_invitation_success [rotated]) (simp_all add: accepted_row_def [abs_def])
    have "memberships (st v4) = memberships (st v)" using 3(2) by (metis store.select_convs(3) store.surjective store.update_convs(1))
    then have "joined s uid token now (st v) (st v') i user"
      unfolding joined_def using i' True 3(1) 4 5 by (auto simp: isUsable_def invitation_statuses invitee_def)
    then show ?thesis
      using that(2) [OF out] i' 1 2 by simp
  qed
qed

section \<open>Accepting\<close>

text \<open>
  What \<open>Accept\<close> can do to accounts, memberships and invitations, whatever it returns: nothing, the
  transition to expired, or the whole step.
\<close>

abbreviation admission :: "store \<Rightarrow> User list \<times> OrganizationMembership list \<times> Invitation list" where
  "admission db \<equiv> (users db, memberships db, invitations db)"

lemma joined_cong: "joined s uid token now before after i user \<longleftrightarrow> joined s uid token now before after' i user"
  if "admission after = admission after'"
  using that by (simp add: joined_def invitee_def)

lemma lapsed_cong: "lapsed s token now before after \<longleftrightarrow> lapsed s token now before after'"
  if "admission after = admission after'"
  using that by (simp add: lapsed_def)

lemma admission_frame [keeps_intro]:
  "store_invariant.keeps (unchanged admission x) T (insert_audit_log e p)"
  "store_invariant.keeps (unchanged admission x) T (CreateRefreshToken uid family hash expires ua ip)"
  unfolding insert_audit_log_def identity_writes
  by (rule frame.keeps_db_write; auto simp: unchanged_def Let_def guards_Inr)+

lemma admission_finish:
  "Record e ev w = (r, w') \<Longrightarrow> admission (st w') = admission (st w)"
  "IssueSession sv uid meta w = (r', w') \<Longrightarrow> admission (st w') = admission (st w)"
proof -
  have "store_invariant.keeps (unchanged admission x) (\<lambda>_. True) (Record e ev)" for x
    unfolding Record_def CreateAuditLog_def Let_def by (intro keeps_intro)
  then show "Record e ev w = (r, w') \<Longrightarrow> admission (st w') = admission (st w)"
    by (rule frame_same [OF _ TrueI])
  have "store_invariant.keeps (unchanged admission x) (\<lambda>_. True) (IssueSession sv uid meta)" for x
    unfolding IssueSession_def session_defs by (intro keeps_intro)
  then show "IssueSession sv uid meta w = (r', w') \<Longrightarrow> admission (st w') = admission (st w)"
    by (rule frame_same [OF _ TrueI])
qed

text \<open>The part of \<open>Accept\<close> before its transaction leaves the store alone.\<close>

lemma accept_password_frame: "accept_password s uid inp w = (r, w') \<Longrightarrow> st w' = st w \<and> fresh w' = fresh w \<and> clock w' = clock w"
  by (auto simp: accept_password_def HashPassword_def io_try_def io_case_def io_throw_def io_return_def rand_Read_def
      dest!: next_fault_frameD split: if_splits prod.splits sum.splits option.splits)

lemma accept_prefix:
  assumes run: "Accept s uid inp meta w = (r, w')"
  obtains "\<exists>e. r = Inl e" "st w' = st w"
  | pwd found v where "st v = st w" "fresh v = fresh w" "clock v = clock w" "found \<in> set (invitations (st w))"
      "i_TokenHash found = invitation_hashToken (iv_env s) (TrimSpace (ai_Token inp))"
      "io_try (withOrgTx (i_OrganizationID found) (accept_tx s uid inp (TrimSpace (ai_Token inp)) pwd (clock v))) id
        (accept_finish s meta found (clock v)) v = (r, w')"
proof (cases "TrimSpace (ai_Token inp) = [] \<or> validateAccount s inp \<noteq> None")
  case True
  then show ?thesis using run that(1) by (auto simp: Accept_def io_throw_def Let_def split: if_splits option.splits)
next
  case False
  let ?h = "invitation_hashToken (iv_env s) (TrimSpace (ai_Token inp))"
  obtain p w1 where p: "accept_password s uid inp w = (p, w1)" by (cases "accept_password s uid inp w")
  obtain f w2 where f: "GetInvitationByTokenHash ?h w1 = (f, w2)" by (cases "GetInvitationByTokenHash ?h w1")
  have w2: "st w1 = st w" "st w2 = st w" "fresh w2 = fresh w" "clock w2 = clock w"
    using accept_password_frame [OF p] f by (auto simp: GetInvitationByTokenHash_def dest!: db_read_frameD)
  show ?thesis
  proof (cases "isl p \<or> isl f")
    case True
    then show ?thesis using False run p f w2 that(1)
      by (cases p; cases f; simp add: Accept_def Let_def io_simps split: option.splits; fastforce)
  next
    case ok: False
    then obtain pwd found where pf: "p = Inr pwd" "f = Inr found" by (cases p; cases f) auto
    then have "found \<in> set (invitations (st w))" "i_TokenHash found = ?h"
      using f w2 by (auto simp: GetInvitationByTokenHash_def io_success one_row_def dest!: find_SomeD split: option.splits)
    with pf w2 show ?thesis
      using False run p f by (intro that(2) [of w2 found pwd]) (auto simp: Accept_def Let_def io_simps)
  qed
qed

lemma accept_finish_effect:
  assumes "accept_finish s meta found now oc w = (r, w')"
  shows "admission (st w') = admission (st w)"
    "r = Inr res \<Longrightarrow> \<exists>org role user i. oc = Some (org, role, user, i) \<and> ar_InvitationID res = i_ID found \<and>
       ar_OrganizationID res = o_ID org \<and> ud_ID (ar_InvitedUser res) = u_ID user"
  using assms
  by (cases "(s, meta, found, now, oc)" rule: accept_finish.cases;
      auto simp: io_try_def io_case_def io_throw_def io_return_def NewUserDTO_def dest!: admission_finish split: prod.splits sum.splits)+

lemma accept_cases:
  assumes wf: "wf_ids (st w) (fresh w)" and run: "Accept s uid inp meta w = (r, w')"
  obtains "\<exists>e. r = Inl e" "admission (st w') = admission (st w)"
  | "\<exists>e. r = Inl e" "lapsed s (TrimSpace (ai_Token inp)) (clock w) (st w) (st w')"
  | i user where "joined s uid (TrimSpace (ai_Token inp)) (clock w) (st w) (st w') i user"
      "\<And>res. r = Inr res \<Longrightarrow> ar_InvitationID res = i_ID i \<and> ar_OrganizationID res = i_OrganizationID i \<and>
         ud_ID (ar_InvitedUser res) = u_ID user"
  using run
proof (cases rule: accept_prefix)
  case (2 pwd found w2)
  obtain x w3 where x: "withOrgTx (i_OrganizationID found) (accept_tx s uid inp (TrimSpace (ai_Token inp)) pwd (clock w2)) w2 = (x, w3)"
    by (cases "withOrgTx (i_OrganizationID found) (accept_tx s uid inp (TrimSpace (ai_Token inp)) pwd (clock w2)) w2")
  show ?thesis
  proof (cases x)
    case (Inl e)
    then have "st w3 = st w2" using x WithTenantTx_failure by (metis withOrgTx_def)
    then show ?thesis using that(1) 2 x Inl by (auto simp: io_simps)
  next
    case (Inr out)
    then have fin: "accept_finish s meta found (clock w2) out w3 = (r, w')" using 2(6) x by (simp add: io_simps)
    from x Inr obtain v v' where v: "accept_tx s uid inp (TrimSpace (ai_Token inp)) pwd (clock w) v = (Inr out, v')"
        "st v = st w" "fresh v = fresh w" "st v' = st w3"
      using 2 by (auto simp: withOrgTx_def io_success)
    note adm = accept_finish_effect(1) [OF fin]
    have "wf_ids (st v) (fresh v)" using v wf by simp
    from this v(1) show ?thesis
    proof (cases rule: accept_tx_cases)
      case 1
      then show ?thesis
        using that(2) fin v lapsed_cong [OF adm, of s _ _ "st w"] by (auto simp: io_throw_def)
    next
      case t: (2 org role user i)
      then have "i \<in> set (invitations (st w))" "i_TokenHash i = invitation_hashToken (iv_env s) (TrimSpace (ai_Token inp))"
        using v by (auto simp: joined_def)
      then have "found = i" using wf_invitation_hash [OF wf 2(4)] 2(5) by simp
      with t v show ?thesis
        using that(3) [of i user] joined_cong [OF adm, of s _ _ _ "st w"] accept_finish_effect(2) [OF fin] by force
    qed
  qed
qed (use that(1) in simp)

text \<open>
  C11: an invitation is redeemed by its addressee, once, and joining is one step. Whatever \<open>Accept\<close>
  returns and wherever a fault strikes, either accounts, memberships and invitations are as before, or a
  pending invitation past its expiry was marked expired, or the whole step happened: the invitation with
  this token was pending and not expired; it is accepted by an active account with the invited address
  (the caller's, or a new account for the address when the caller is anonymous); and exactly one membership
  was added, active, of this account in the inviting organization with the invited role. A response with
  tokens implies the whole step.
\<close>

theorem accept_all_or_nothing:
  assumes "wf_ids (st w) (fresh w)" and "Accept s uid inp meta w = (r, w')"
  shows "(\<exists>e. r = Inl e) \<and> admission (st w') = admission (st w) \<or>
    (\<exists>e. r = Inl e) \<and> lapsed s (TrimSpace (ai_Token inp)) (clock w) (st w) (st w') \<or>
    (\<exists>i user. joined s uid (TrimSpace (ai_Token inp)) (clock w) (st w) (st w') i user \<and>
       (\<forall>res. r = Inr res \<longrightarrow> ar_InvitationID res = i_ID i \<and> ar_OrganizationID res = i_OrganizationID i \<and>
          ud_ID (ar_InvitedUser res) = u_ID user))"
  using assms by (cases rule: accept_cases) blast+

section \<open>Settled invitations\<close>

text \<open>
  The invitation \<open>iid\<close> left the status pending for \<open>x\<close>. It stays in \<open>x\<close>, or is deleted with its role; as
  identifiers do not repeat, no other invitation takes its place.
\<close>

definition settled :: "uuid \<Rightarrow> string \<Rightarrow> store \<Rightarrow> nat \<Rightarrow> bool" where
  "settled iid x db n \<longleftrightarrow>
     wf_ids db n \<and> iid < n \<and> x \<noteq> ''pending'' \<and> (\<forall>i\<in>set (invitations db). i_ID i = iid \<longrightarrow> i_Status i = x)"

interpretation settled: store_invariant "settled iid x" for iid x
  by unfold_locales (auto simp: settled_def intro: wf_ids_later)

lemma settled_statement:
  assumes wf: "ids.keeps T (db_write q)"
    and ok: "\<And>w r s n. settled iid x (st w) (fresh w) \<Longrightarrow> q w = Inr (r, s, n) \<Longrightarrow>
               \<forall>i\<in>set (invitations s). i_ID i = iid \<longrightarrow> i_Status i = x"
  shows "settled.keeps iid x T (db_write q)"
proof (rule settled.keepsI)
  fix w :: world
  assume T: "T (tenant w)"
  note k = ids.keepsD [OF wf T]
  show "tenant (snd (db_write q w)) = tenant w" "fresh w \<le> fresh (snd (db_write q w))" by (rule k)+
  assume I: "settled iid x (st w) (fresh w)"
  have "\<forall>i\<in>set (invitations (st (snd (db_write q w)))). i_ID i = iid \<longrightarrow> i_Status i = x"
  proof (cases rule: next_fault_cases [of w])
    case 1
    then show ?thesis using ok [of "drop_fault w"] I by (auto simp: db_write_def settled_def split: sum.splits)
  qed (use I in \<open>simp add: db_write_def settled_def\<close>)
  then show "settled iid x (st (snd (db_write q w))) (fresh (snd (db_write q w)))"
    using k I by (auto simp: settled_def)
qed

lemma settled_other_table:
  assumes "ids.keeps T (db_write q)" and "\<And>w r s n. q w = Inr (r, s, n) \<Longrightarrow> set (invitations s) \<subseteq> set (invitations (st w))"
  shows "settled.keeps iid x T (db_write q)"
  using assms(1) by (rule settled_statement) (use assms(2) in \<open>fastforce simp: settled_def\<close>)

lemma settled_identity_statements [keeps_intro]:
  "settled.keeps iid x T (CreateUser email hash first_name last_name stat)"
  "settled.keeps iid x T (UpdateUserLastLogin uid)"
  "settled.keeps iid x T (CreateRefreshToken uid family hash expires ua ip)"
  "settled.keeps iid x T (RevokeRefreshToken tid replaced)"
  "settled.keeps iid x T (RevokeRefreshTokenFamily family)"
  "settled.keeps iid x T (RevokeAllUserRefreshTokens uid)"
  "settled.keeps iid x T (CreateOrganization_q name slug stat)"
  "settled.keeps iid x T (rename_organization oid name)"
  "settled.keeps iid x T (CreateRole_q org name descr sys)"
  "settled.keeps iid x T (UpdateRole_q rid org name descr)"
  "settled.keeps iid x T (SetRolePermissions rid)"
  "settled.keeps iid x T (AddRolePermission rid pid)"
  "settled.keeps iid x T (CreateMembership org uid role stat joined_at)"
  "settled.keeps iid x T (UpdateMembershipRole mid org role)"
  unfolding identity_writes
  by (rule settled_other_table; (rule unfolded_ids_writes)?;
      auto simp: Let_def guards_Inr one_row_def split: option.splits if_splits)+

lemma settled_DeleteRole [keeps_intro]: "settled.keeps iid x T (DeleteRole_q rid org)"
  unfolding identity_writes
  by (rule settled_other_table, rule unfolded_ids_writes) (elim delete_role_rows_cases; auto)

lemma settled_insert_audit_log [keeps_intro]: "settled.keeps iid x T (insert_audit_log e p)"
  unfolding insert_audit_log_def
  by (rule settled_other_table, rule ids_insert_audit_log [unfolded insert_audit_log_def]) (auto simp: Let_def guards_Inr)

lemma settled_key_statements [keeps_intro]:
  "settled.keeps iid x T (CreateAPIKey org creator name prefix lf hash expires)"
  "settled.keeps iid x T (RevokeAPIKey kid org t)"
  "settled.keeps iid x T (RevokeAPIKeyByID kid org)"
  "settled.keeps iid x T (TouchAPIKey kid)"
  unfolding key_writes
  by (rule settled_other_table; (rule unfolded_ids_key_statements)?; auto simp: Let_def guards_Inr split: sum.splits)+

lemma settled_invitation_statements [keeps_intro]:
  "settled.keeps iid x T (CreateInvitation org email role hash by expires)"
  "settled.keeps iid x T (MarkInvitationNotified jid org)"
  "settled.keeps iid x T (RotateInvitationToken jid org hash t)"
  "settled.keeps iid x T (RotateInvitationForDelivery jid org hash)"
  unfolding CreateInvitation_def MarkInvitationNotified_def invitation_updates update_invitation_def
  by (rule settled_statement; (rule unfolded_ids_invitation_statements)?;
      auto simp: Let_def guards_Inr settled_def set_update_where split: sum.splits)+

text \<open>The two transactions that settle an invitation settle a pending one.\<close>

lemma settled_transaction:
  assumes wf: "ids.keeps (\<lambda>t. t = Some org) fn"
    and ok: "\<And>v r v'. settled iid x (st v) (fresh v) \<Longrightarrow> fn v = (Inr r, v') \<Longrightarrow>
               \<forall>i\<in>set (invitations (st v')). i_ID i = iid \<longrightarrow> i_Status i = x"
  shows "settled.keeps iid x T (withOrgTx org fn)"
  unfolding withOrgTx_def
proof (rule settled.keepsI)
  fix w
  note k = ids.keepsD [OF ids.keeps_WithTenantTx [OF wf], of "\<lambda>_. True" w, OF TrueI]
  show "tenant (snd (WithTenantTx org fn w)) = tenant w" "fresh w \<le> fresh (snd (WithTenantTx org fn w))" by (rule k)+
  assume I: "settled iid x (st w) (fresh w)"
  have "\<forall>i\<in>set (invitations (st (snd (WithTenantTx org fn w)))). i_ID i = iid \<longrightarrow> i_Status i = x"
  proof (rule WithTenantTx_on_success [where P = "\<lambda>db. \<forall>i\<in>set (invitations db). i_ID i = iid \<longrightarrow> i_Status i = x"], goal_cases)
    case 1
    then show ?case using I by (simp add: settled_def)
  next
    case (2 v y v')
    then show ?case using ok [of v y v'] I by simp
  qed
  then show "settled iid x (st (snd (WithTenantTx org fn w))) (fresh (snd (WithTenantTx org fn w)))"
    using k I by (auto simp: settled_def)
qed

lemma settled_update:
  assumes "settled iid x before n" "i \<in> set (invitations before)" "i_Status i = ''pending''"
    and "invitations after = update_where (\<lambda>j. i_ID j = i_ID i) f (invitations before)" "\<And>j. i_ID (f j) = i_ID j"
  shows "\<forall>j\<in>set (invitations after). i_ID j = iid \<longrightarrow> i_Status j = x"
  using assms by (auto simp: settled_def set_update_where split: if_splits)

lemma settled_accept: "settled.keeps iid x T (withOrgTx org (accept_tx s uid inp token pwd now))"
proof (rule settled_transaction)
  show "ids.keeps (\<lambda>t. t = Some org) (accept_tx s uid inp token pwd now)"
    unfolding accept_tx_def resolveUser_def invitation_reads identity_reads by (intro keeps_intro)
next
  fix v r v'
  assume st: "settled iid x (st v) (fresh v)" and run: "accept_tx s uid inp token pwd now v = (Inr r, v')"
  from st have "wf_ids (st v) (fresh v)" by (simp add: settled_def)
  from this run show "\<forall>i\<in>set (invitations (st v')). i_ID i = iid \<longrightarrow> i_Status i = x"
    by (cases rule: accept_tx_cases)
      (auto simp only: lapsed_def joined_def intro!: settled_update [OF st, THEN bspec, THEN mp] ; simp add: accepted_row_def)+
qed

lemma revoke_invite_tx_success:
  assumes "wf_ids (st v) (fresh v)" and run: "revoke_invite_tx s uid org iid v = (Inr u, v')"
  obtains i t where "i \<in> set (invitations (st v))" "i_ID i = iid" "i_Status i = ''pending''"
    "invitations (st v') = update_where (\<lambda>j. i_ID j = i_ID i)
       (\<lambda>j. j\<lparr>i_Status := ''revoked'', i_RevokedAt := Some (clock v), i_UpdatedAt := t\<rparr>) (invitations (st v))"
proof -
  from run obtain i v1 j v2 where i: "GetInvitationByIDForUpdate iid org v = (Inr i, v1)" "i_Status i = ''pending''"
    and r: "RevokeInvitation iid org (clock v1) v1 = (Inr j, v2)"
    and e: "RecordTx (iv_env s) (Event0\<lparr>ev_Action := InvitationRevoked, ev_ActorUserID := Some uid, ev_OrganizationID := Some org,
                 ev_TargetType := TargetInvitation, ev_TargetID := uuid_string (iv_env s) iid\<rparr>) v2 = (Inr u, v')"
    by (auto simp: revoke_invite_tx_def io_success invitation_statuses split: if_splits)
  have i': "i \<in> set (invitations (st v))" "i_ID i = iid" "st v1 = st v" "clock v1 = clock v"
    using i by (auto simp: GetInvitationByIDForUpdate_def io_success one_row_def dest!: find_SomeD split: option.splits)
  have "rows_ok i_ID (invitations (st v1)) (fresh v)" using assms i'(3) by (simp add: wf_ids_def)
  from update_invitation_success [OF this r [unfolded RevokeInvitation_def]]
  have "st v2 = (st v1)\<lparr>invitations := update_where (\<lambda>j. i_ID j = iid)
       (\<lambda>j. j\<lparr>i_Status := ''revoked'', i_RevokedAt := Some (clock v1), i_UpdatedAt := clock v1\<rparr>) (invitations (st v1))\<rparr>"
    by (auto simp: simp_thms)
  moreover have "invitations (st v') = invitations (st v2)"
    using RecordTx_success [OF e] by (metis store.select_convs(13) store.surjective store.update_convs(15))
  ultimately show ?thesis using that [of i] i i' by simp
qed

lemma settled_revoke: "settled.keeps iid x T (withOrgTx org (revoke_invite_tx s uid org jid))"
proof (rule settled_transaction)
  show "ids.keeps (\<lambda>t. t = Some org) (revoke_invite_tx s uid org jid)"
    unfolding revoke_invite_tx_def invitation_reads by (intro keeps_intro ids_keys.audit_rules; simp)
next
  fix v r v'
  assume st: "settled iid x (st v) (fresh v)" and run: "revoke_invite_tx s uid org jid v = (Inr r, v')"
  from st have "wf_ids (st v) (fresh v)" by (simp add: settled_def)
  from this run show "\<forall>i\<in>set (invitations (st v')). i_ID i = iid \<longrightarrow> i_Status i = x"
    by (cases rule: revoke_invite_tx_success) (rule settled_update [OF st], assumption+, simp)
qed

interpretation settled_identity: identity_statements "settled iid x" for iid x
  by unfold_locales (rule keeps_intro)+

interpretation settled_keys: key_statements "settled iid x" "\<lambda>_. True" for iid x
  by unfold_locales (rule keeps_intro)+

interpretation settled_invitations: invitation_statements "settled iid x" "\<lambda>_. True" for iid x
  by unfold_locales (rule settled_accept settled_revoke keeps_intro)+

lemma settled_rejects:
  assumes "settled iid x (st w) (fresh w)" and "Accept s uid inp meta w = (Inr res, w')"
  shows "ar_InvitationID res \<noteq> iid"
proof -
  from assms(1) have "wf_ids (st w) (fresh w)" by (simp add: settled_def)
  from this assms(2) show ?thesis
    using assms(1) by (cases rule: accept_cases) (auto simp: settled_def joined_def)
qed

lemma frame_invitation_statements [keeps_intro]:
  "store_invariant.keeps (unchanged product_tables y) T (CreateInvitation org email role hash by expires)"
  "store_invariant.keeps (unchanged product_tables y) T (MarkInvitationNotified jid org)"
  "store_invariant.keeps (unchanged product_tables y) T (AcceptInvitation jid org t uid)"
  "store_invariant.keeps (unchanged product_tables y) T (MarkInvitationExpired jid org)"
  "store_invariant.keeps (unchanged product_tables y) T (RevokeInvitation jid org t)"
  "store_invariant.keeps (unchanged product_tables y) T (RotateInvitationToken jid org hash t)"
  "store_invariant.keeps (unchanged product_tables y) T (RotateInvitationForDelivery jid org hash)"
  unfolding CreateInvitation_def MarkInvitationNotified_def invitation_updates update_invitation_def
  by (rule frame.keeps_db_write; auto simp: unchanged_def Let_def guards_Inr split: sum.splits)+

lemma dead_invitation_statements [keeps_intro]:
  "dead.keeps h T (CreateInvitation org email role hash by expires)"
  "dead.keeps h T (MarkInvitationNotified jid org)"
  "dead.keeps h T (AcceptInvitation jid org t uid)"
  "dead.keeps h T (MarkInvitationExpired jid org)"
  "dead.keeps h T (RevokeInvitation jid org t)"
  "dead.keeps h T (RotateInvitationToken jid org hash t)"
  "dead.keeps h T (RotateInvitationForDelivery jid org hash)"
  by (rule dead.framed [where f = product_tables], rule keeps_intro, rule keeps_intro, simp add: dead_key_def)+

interpretation dead_settling: settling_statements "wf_and (dead_key h)" "\<lambda>_. True" for h
  by unfold_locales (rule keeps_intro)+

interpretation dead_invitations: invitation_statements "wf_and (dead_key h)" "\<lambda>_. True" for h
  by unfold_locales (rule dead_settling.settling_transactions TrueI keeps_intro)+

section \<open>Inviting\<close>

text \<open>The row a successful \<open>Invite\<close> adds; delivery may have been recorded on it.\<close>

definition invited ::
  "invitations_service \<Rightarrow> uuid \<Rightarrow> uuid \<Rightarrow> InviteInput \<Rightarrow> time \<Rightarrow> InvitationDTO \<Rightarrow> store \<Rightarrow> store \<Rightarrow> bool" where
  "invited s uid org inp now dto before after \<longleftrightarrow>
     (\<exists>i row. after = before\<lparr>invitations := invitations before @ [i],
          audit_logs := audit_logs before @ [row]\<rparr> \<and>
        i_ID i = vd_ID dto \<and> i_OrganizationID i = org \<and> i_Email i = normalizeInviteEmail (iv_env s) (vi_Email inp) \<and>
        i_RoleID i = vi_RoleID inp \<and> i_Status i = ''pending'' \<and> i_InvitedBy i = uid \<and> i_ExpiresAt i = now + iv_ttl s \<and>
        al_Action row = InvitationCreated \<and> al_ActorUserID row = Some uid \<and> al_OrganizationID row = Some org \<and>
        al_TargetID row = optional (uuid_string (iv_env s) (i_ID i)) \<and>
        (\<forall>x\<in>set (invitations before). i_OrganizationID x = org \<longrightarrow> i_Status x = ''pending'' \<longrightarrow> \<not> citext_eq (i_Email x) (i_Email i)))"

lemma quiet_programs:
  "sendInvitationEmail s i dto name token w = (r, w') \<Longrightarrow> st w' = st w \<and> clock w' = clock w \<and> fresh w' = fresh w"
  "enqueueEmail s c i token w = (r', w') \<Longrightarrow> st w' = st w"
  "generateInvitationToken w = (r'', w') \<Longrightarrow> st w' = st w \<and> clock w' = clock w \<and> fresh w' = fresh w"
proof -
  show "enqueueEmail s c i token w = (r', w') \<Longrightarrow> st w' = st w"
    using frame_same [where f = id, OF frame.keeps_reads_invitations(2) TrueI] by simp
qed (auto simp: sendInvitationEmail_def generateInvitationToken_def io_try_def io_case_def io_return_def io_throw_def rand_Read_def
    dest!: next_fault_frameD split: prod.splits sum.splits option.splits,
    (metis Send_frame snd_conv)+)

lemma markNotified_effect:
  assumes "markNotified iid org w = (r, w')"
  shows "st w' = st w \<or> (\<exists>t. st w' = (st w)\<lparr>invitations := update_where (\<lambda>j. i_ID j = iid \<and> i_OrganizationID j = org)
     (\<lambda>j. j\<lparr>i_NotifiedAt := Some t, i_UpdatedAt := t\<rparr>) (invitations (st w))\<rparr>)"
proof (cases r)
  case (Inl e)
  then show ?thesis using assms WithTenantTx_failure by (auto simp: markNotified_def withOrgTx_def)
next
  case (Inr u)
  then have "st w' = (st w)\<lparr>invitations := update_where (\<lambda>j. i_ID j = iid \<and> i_OrganizationID j = org)
     (\<lambda>j. j\<lparr>i_NotifiedAt := Some (clock w), i_UpdatedAt := clock w\<rparr>) (invitations (st w))\<rparr>"
    using assms by (auto simp: markNotified_def withOrgTx_def MarkInvitationNotified_def io_success Let_def rls_def
        intro!: arg_cong [where f = "\<lambda>x. invitations_update (\<lambda>_. x) (st w)"] update_where_cong)
  then show ?thesis by blast
qed

lemma deliverInline_effect:
  assumes "deliverInline s i dto name token w = (r, w')"
  shows "r = Inr () \<and> (st w' = st w \<or> (\<exists>t. st w' = (st w)\<lparr>invitations := update_where
     (\<lambda>j. i_ID j = i_ID i \<and> i_OrganizationID j = i_OrganizationID i)
     (\<lambda>j. j\<lparr>i_NotifiedAt := Some t, i_UpdatedAt := t\<rparr>) (invitations (st w))\<rparr>))"
proof -
  obtain a w1 where a: "sendInvitationEmail s i dto name token w = (a, w1)" by (cases "sendInvitationEmail s i dto name token w")
  obtain b w2 where b: "markNotified (i_ID i) (i_OrganizationID i) w1 = (b, w2)" by (cases "markNotified (i_ID i) (i_OrganizationID i) w1")
  have "a = Inr ()"
    using a by (cases "iv_mailer s") (auto simp: sendInvitationEmail_def io_case_def io_return_def)
  then show ?thesis
    using assms quiet_programs(1) [OF a] markNotified_effect [OF b] a b
    by (cases b) (auto simp: deliverInline_def io_simps io_case_def io_return_def)
qed

lemma dispatchEmail_effect:
  assumes "dispatchEmail s c i dto name token w = (r, w')"
  shows "r = Inr () \<and> (st w' = st w \<or> (\<exists>t. st w' = (st w)\<lparr>invitations := update_where
     (\<lambda>j. i_ID j = i_ID i \<and> i_OrganizationID j = i_OrganizationID i)
     (\<lambda>j. j\<lparr>i_NotifiedAt := Some t, i_UpdatedAt := t\<rparr>) (invitations (st w))\<rparr>))"
proof (cases "iv_queue s")
  case None
  then show ?thesis using assms deliverInline_effect by (simp add: dispatchEmail_def)
next
  case (Some q)
  obtain a w1 where a: "enqueueEmail s c i token w = (a, w1)" by (cases "enqueueEmail s c i token w")
  show ?thesis
    using assms Some a quiet_programs(2) [OF a] deliverInline_effect [of s i dto name token w1 r w']
    by (cases a) (auto simp: dispatchEmail_def io_case_def io_return_def)
qed

lemma CreateInvitation_success:
  assumes "CreateInvitation org email role hash uid expires w = (Inr i, w')"
  shows "st w' = (st w)\<lparr>invitations := invitations (st w) @ [i]\<rparr>" "i_ID i = fresh w" "i_OrganizationID i = org" "i_Email i = email"
    "i_RoleID i = role" "i_Status i = ''pending''" "i_InvitedBy i = uid" "i_ExpiresAt i = expires" "i_TokenHash i = hash"
    "\<forall>x\<in>set (invitations (st w)). i_OrganizationID x = org \<longrightarrow> i_Status x = ''pending'' \<longrightarrow> \<not> citext_eq (i_Email x) (i_Email i)"
  using assms by (auto simp: CreateInvitation_def io_success Let_def guards_Inr)

lemma invite_tx_success:
  assumes run: "invite_tx s t uid org rid email token expires v = (Inr (i, rn, name), v')"
  obtains r row n where "r \<in> set (roles (st v))" "r_ID r = rid" "r_OrganizationID r = org"
    "r_Name r = ''Owner'' \<Longrightarrow> ten_RoleName t = ''Owner''"
    "st v' = (st v)\<lparr>invitations := invitations (st v) @ [i], audit_logs := audit_logs (st v) @ [row]\<rparr>"
    "i_ID i = fresh v" "i_OrganizationID i = org" "i_Email i = email" "i_RoleID i = rid" "i_Status i = ''pending''"
    "i_InvitedBy i = uid" "i_ExpiresAt i = expires"
    "\<forall>x\<in>set (invitations (st v)). i_OrganizationID x = org \<longrightarrow> i_Status x = ''pending'' \<longrightarrow> \<not> citext_eq (i_Email x) (i_Email i)"
    "al_Action row = InvitationCreated" "al_ActorUserID row = Some uid" "al_OrganizationID row = Some org"
    "al_TargetID row = optional (uuid_string (iv_env s) (i_ID i))"
proof -
  from run obtain u v1 r v2 name' v3 v4 u' where
    1: "checkInvitee org email v = (Inr u, v1)" and 2: "GetRoleByID rid org v1 = (Inr r, v2)" and
    own: "\<not> (r_Name r = ownerRoleName \<and> ten_RoleName t \<noteq> ownerRoleName)" and
    3: "orgName org v2 = (Inr name', v3)" and
    4: "CreateInvitation org email rid (invitation_hashToken (iv_env s) token) uid expires v3 = (Inr i, v4)" and
    5: "RecordTx (iv_env s) (invitation_event s InvitationCreated uid org (i_ID i)
           [(''email'', JString email), (''role'', JString (r_Name r))]) v4 = (Inr u', v')"
    by (auto simp: invite_tx_def io_success split: if_splits)
  have 1: "st v1 = st v" "fresh v1 = fresh v"
    using 1 by (auto simp: checkInvitee_def GetActiveMembershipByEmail_def io_success dest!: db_read_frameD split: if_splits)
  have 2: "r \<in> set (roles (st v))" "r_ID r = rid" "r_OrganizationID r = org" "st v2 = st v" "fresh v2 = fresh v"
    using 2 1 by (auto simp: GetRoleByID_def io_success one_row_def dest!: find_SomeD split: option.splits)
  have 3: "st v3 = st v" "fresh v3 = fresh v"
    using 3 2 by (auto simp: orgName_def GetOrganizationByID_def io_success)
  obtain row where "st v' = (st v4)\<lparr>audit_logs := audit_logs (st v4) @ [row]\<rparr>" "al_Action row = InvitationCreated"
    "al_ActorUserID row = Some uid" "al_OrganizationID row = Some org" "al_TargetID row = optional (uuid_string (iv_env s) (i_ID i))"
    using RecordTx_success [OF 5] by (auto simp: invitation_event_def WithMetadata_def Event0_def)
  with CreateInvitation_success [OF 4] show ?thesis
    using 2 3 own by (intro that [of r row]) (simp_all add: ownerRoleName_def)
qed

lemma update_last:
  assumes "rows_ok key rows n" and "n \<le> key r"
  shows "update_where (\<lambda>x. key x = key r \<and> P x) f (rows @ [r]) = rows @ [if P r then f r else r]"
proof -
  have "update_where (\<lambda>x. key x = key r \<and> P x) f rows = rows"
    using assms by (intro update_where_none) (auto simp: rows_ok_def)
  then show ?thesis by (simp add: update_where_def)
qed

lemma recorded_again: "(db\<lparr>invitations := a, audit_logs := b\<rparr>)\<lparr>invitations := c\<rparr> = db\<lparr>invitations := c, audit_logs := b\<rparr>"
  by (cases db) simp

definition may_invite :: "uuid \<Rightarrow> uuid \<Rightarrow> uuid \<Rightarrow> store \<Rightarrow> bool" where
  "may_invite uid org rid db \<longleftrightarrow>
     (\<exists>m\<in>set (memberships db). \<exists>r\<in>set (roles db). \<exists>rp\<in>set (role_permissions db). \<exists>p\<in>set (permissions db).
        m_OrganizationID m = org \<and> m_UserID m = uid \<and> m_Status m = ''active'' \<and> r_ID r = m_RoleID m \<and> r_OrganizationID r = org \<and>
        rp_RoleID rp = r_ID r \<and> p_ID p = rp_PermissionID rp \<and> p_Key p = MembersManage \<and>
        (\<forall>r'\<in>set (roles db). r_ID r' = rid \<longrightarrow> r_Name r' = ''Owner'' \<longrightarrow> r_Name r = ''Owner''))"

lemma invite_success:
  assumes wf: "wf_ids (st w) (fresh w)" and run: "Invite s c uid org inp w = (Inr dto, w')"
  shows "invited s uid org inp (clock w) dto (st w) (st w') \<and> may_invite uid org (vi_RoleID inp) (st w)"
proof -
  from run obtain t w1 token w2 i rn name w3 where
    a: "Authorize uid org MembersManage w = (Inr t, w1)" and g: "generateInvitationToken w1 = (Inr token, w2)" and
    x: "withOrgTx org (invite_tx s t uid org (vi_RoleID inp) (normalizeInviteEmail (iv_env s) (vi_Email inp)) token (clock w2 + iv_ttl s)) w2 =
      (Inr (i, rn, name), w3)" and
    d: "dispatchEmail s c i (invitation_toDTO i rn (clock w2)) name token w3 = (Inr (), w')" and
    dto: "dto = invitation_toDTO i rn (clock w2)"
    by (auto simp: Invite_def io_success Let_def split: option.splits)
  have w2: "st w2 = st w" "clock w2 = clock w" "fresh w2 = fresh w"
    using quiet_programs(3) [OF g] a by (auto simp: organization_reads io_success split: if_splits)
  from x w2 obtain v v' where v: "st v = st w" "fresh v = fresh w" "st v' = st w3" and
    tx: "invite_tx s t uid org (vi_RoleID inp) (normalizeInviteEmail (iv_env s) (vi_Email inp)) token (clock w + iv_ttl s) v = (Inr (i, rn, name), v')"
    by (elim withOrgTx_success) simp
  obtain r row where i: "r \<in> set (roles (st w))" "r_ID r = vi_RoleID inp" "r_OrganizationID r = org"
      "r_Name r = ''Owner'' \<Longrightarrow> ten_RoleName t = ''Owner''"
      "st w3 = (st w)\<lparr>invitations := invitations (st w) @ [i], audit_logs := audit_logs (st w) @ [row]\<rparr>"
      "i_ID i = fresh w" "i_OrganizationID i = org" "i_Email i = normalizeInviteEmail (iv_env s) (vi_Email inp)"
      "i_RoleID i = vi_RoleID inp" "i_Status i = ''pending''" "i_InvitedBy i = uid" "i_ExpiresAt i = clock w + iv_ttl s"
      "\<forall>x\<in>set (invitations (st w)). i_OrganizationID x = org \<longrightarrow> i_Status x = ''pending'' \<longrightarrow> \<not> citext_eq (i_Email x) (i_Email i)"
      "al_Action row = InvitationCreated" "al_ActorUserID row = Some uid" "al_OrganizationID row = Some org"
      "al_TargetID row = optional (uuid_string (iv_env s) (i_ID i))"
    using invite_tx_success [OF tx, unfolded v] by metis
  have "rows_ok i_ID (invitations (st w)) (fresh w)" using wf by (simp add: wf_ids_def)
  note upd = update_last [OF this, of i]
  from dispatchEmail_effect [OF d] consider "st w' = st w3" | t' where "st w' = (st w3)\<lparr>invitations := update_where
     (\<lambda>j. i_ID j = i_ID i \<and> i_OrganizationID j = i_OrganizationID i)
     (\<lambda>j. j\<lparr>i_NotifiedAt := Some t', i_UpdatedAt := t'\<rparr>) (invitations (st w3))\<rparr>" by blast
  then obtain i' where "st w' = (st w)\<lparr>invitations := invitations (st w) @ [i'], audit_logs := audit_logs (st w) @ [row]\<rparr>"
      "i' = i \<or> (\<exists>t. i' = i\<lparr>i_NotifiedAt := Some t, i_UpdatedAt := t\<rparr>)"
  proof cases
    case 1
    then show ?thesis using that [of i] i(5) by simp
  next
    case (2 t')
    have "invitations (st w3) = invitations (st w) @ [i]" by (simp add: i(5))
    with 2 upd have "st w' = (st w3)\<lparr>invitations := invitations (st w) @ [i\<lparr>i_NotifiedAt := Some t', i_UpdatedAt := t'\<rparr>]\<rparr>"
      by (simp add: i(6))
    then show ?thesis
      by (intro that [of "i\<lparr>i_NotifiedAt := Some t', i_UpdatedAt := t'\<rparr>"]) (simp_all only: i(5) recorded_again, blast)
  qed
  then have "invited s uid org inp (clock w) dto (st w) (st w')"
    using i dto unfolding invited_def by (intro exI [of _ i'] exI [of _ row]) (auto simp: invitation_toDTO_def)
  moreover have "may_invite uid org (vi_RoleID inp) (st w)"
    using authorize_facts [OF a] i wf_role_unique [OF wf] unfolding may_invite_def by metis
  ultimately show ?thesis by simp
qed

lemma invite_failure:
  assumes "Invite s c uid org inp w = (Inl e, w')"
  shows "st w' = st w"
  using assms
  by (auto simp: Invite_def io_try_def io_case_def io_throw_def withOrgTx_def time_Now_def io_return_def Let_def
      dest!: frame_same [where f = id, OF frame_Authorize TrueI, simplified] quiet_programs(3) WithTenantTx_failure dispatchEmail_effect
      split: prod.splits sum.splits option.splits if_splits)

text \<open>
  C21: inviting is authorized, exclusive and on record. When \<open>Create\<close> answers, the tables differ from
  before in exactly two rows: a pending invitation for the normalized address with the configured
  lifetime, and the audit record that names the inviter, the organization and the invitation; no other
  invitation for the address was pending there; the caller is an active member whose role grants the
  management of members, and holds the role Owner if the invitation is for the role Owner. When it
  fails, at any point and for any fault, no table has changed.
\<close>

theorem invitations_authorized_and_audited:
  assumes "wf_ids (st w) (fresh w)" and "Invite s c uid org inp w = (r, w')"
  shows "case r of
           Inl e \<Rightarrow> st w' = st w
         | Inr dto \<Rightarrow> invited s uid org inp (clock w) dto (st w) (st w') \<and> may_invite uid org (vi_RoleID inp) (st w)"
  using assms invite_success invite_failure by (auto split: sum.split)

section \<open>Examples\<close>

definition invite_demo_service :: invitations_service where
  "invite_demo_service = \<lparr>iv_auth = demo_auth, iv_mailer = LogSender, iv_queue = None, iv_ttl = 7 * (24 * Hour),
     iv_baseURL = ''https://app/'', iv_mail_ok = (\<lambda>_. True),
     iv_unicode = \<lparr>runes = map (\<lambda>c. of_char c), IsLetter = (\<lambda>n. 65 \<le> n), IsDigit = (\<lambda>n. 48 \<le> n \<and> n < 58)\<rparr>,
     iv_format_time = (\<lambda>_. ''later''), iv_payload_Marshal = (\<lambda>_. Inr []), iv_payload_Unmarshal = (\<lambda>_. Inl (Message ''bad'')),
     iv_sweep_Unmarshal = (\<lambda>_. Inl (Message ''bad''))\<rparr>"

definition invite_demo_input :: InviteInput where
  "invite_demo_input = \<lparr>vi_Email = '' C@x'', vi_RoleID = 12\<rparr>"

definition accept_demo_input :: AcceptInput where
  "accept_demo_input = \<lparr>ai_Token = ''tok'', ai_Password = [], ai_FirstName = [], ai_LastName = []\<rparr>"

text \<open>A user of another organization is invited to the organization 20 as its Owner.\<close>

definition accept_demo_world :: world where
  "accept_demo_world = demo_world\<lparr>st := demo_store\<lparr>invitations :=
     [\<lparr>i_ID = 50, i_OrganizationID = 20, i_Email = ''A@x'', i_RoleID = 21, i_Status = ''pending'',
       i_TokenHash = invitation_hashToken demo_env ''tok'', i_InvitedBy = 2, i_ExpiresAt = 5, i_AcceptedAt = None,
       i_AcceptedBy = None, i_RevokedAt = None, i_CreatedAt = 0, i_UpdatedAt = 0, i_NotifiedAt = None,
       i_DeliveryAttempts = 0\<rparr>]\<rparr>\<rparr>"

abbreviation invite_demo_run :: "(err + InvitationDTO) \<times> world" where
  "invite_demo_run \<equiv> Invite invite_demo_service Background 1 10 invite_demo_input demo_world"

abbreviation accept_demo_run :: "(err + AcceptResult) \<times> world" where
  "accept_demo_run \<equiv> Accept invite_demo_service 1 accept_demo_input demo_meta accept_demo_world"

lemma invite_demo_eval: "\<not> isl (fst invite_demo_run)"
  by code_simp

lemma accept_demo_eval: "\<not> isl (fst accept_demo_run)"
  by code_simp

theorem invitations_authorized_and_audited_witness:
  "\<exists>dto. invited invite_demo_service 1 10 invite_demo_input 0 dto (st demo_world) (st (snd invite_demo_run)) \<and>
     may_invite 1 10 12 (st demo_world)"
proof -
  obtain dto where "invite_demo_run = (Inr dto, snd invite_demo_run)"
    using invite_demo_eval(1) by (metis not_isl_Inr prod.collapse)
  from invitations_authorized_and_audited [OF demo_wf this] show ?thesis
    by (auto simp: invite_demo_input_def demo_world_def empty_world_def)
qed

lemma accept_demo_wf: "wf_ids (st accept_demo_world) (fresh accept_demo_world)"
  by code_simp

theorem accept_all_or_nothing_witness:
  "\<exists>i user. joined invite_demo_service 1 ''tok'' 0 (st accept_demo_world) (st (snd accept_demo_run)) i user"
proof -
  obtain res where r: "accept_demo_run = (Inr res, snd accept_demo_run)"
    using accept_demo_eval by (metis not_isl_Inr prod.collapse)
  have "TrimSpace (ai_Token accept_demo_input) = ''tok''" "clock accept_demo_world = 0" by code_simp+
  with accept_all_or_nothing [OF accept_demo_wf r] show ?thesis by auto
qed

end
