(* ===== verification/Invite_Http.thy ===== *)
theory Invite_Http
  imports Invitation_Safety Org_Http
begin

text \<open>
  The invitation endpoints: \<open>internal/invitations/handler.go\<close>. Listing, creating, resending and
  revoking are for members of the organization in the route; previewing and accepting are public, the
  token is the credential, and acceptance uses the session of the caller when there is one.
\<close>

definition maxTokenLength :: nat where "maxTokenLength = 512"

definition invites_parseListFilter :: "invitations_service \<Rightarrow> url_values \<Rightarrow> err + InvitationFilter" where
  "invites_parseListFilter s vs =
     (let stat = values_Get vs ''status'';
          (f1, e1) =
            (if stat \<noteq> [] then
               if stat \<in> set validStatuses then (Some stat, [])
               else (None, [(''status'', ''must be one of pending, accepted, revoked, expired'')])
             else (None, []));
          raw = values_Get vs ''email'';
          (f2, e2) =
            (if raw \<noteq> [] then
               let email = normalizeInviteEmail (iv_env s) raw in
               (case Err (Email (iv_mail_ok s) ''email'' email New) of
                  Some _ \<Rightarrow> (None, [(''email'', ''must be a valid email address'')])
                | None \<Rightarrow> (Some email, []))
             else (None, []));
          srt = values_Get vs ''sort'';
          (f3, e3) =
            (if srt \<noteq> [] then
               if srt \<in> set invitation_sortableFields then (srt, [])
               else (defaultSort, [(''sort'', ''must be one of created_at, expires_at, email'')])
             else (defaultSort, []));
          (f4, e4) = key_filter_order vs;
          errs = e1 @ e2 @ e3 @ e4
      in if errs \<noteq> [] then Inl (NewValidationError errs)
         else Inr \<lparr>vf_Status = f1, vf_Email = f2, vf_Sort = f3, vf_Desc = f4\<rparr>)"

definition tokenParam :: "http_request \<Rightarrow> string \<Rightarrow> (string \<Rightarrow> 'a response io) \<Rightarrow> 'a response io" where
  "tokenParam r name k =
     (let token = TrimSpace (hr_URLParam r name) in
      if token = [] \<or> length token > maxTokenLength then respond_error r (invitationNotFound None) else k token)"

definition InvitesListHandler :: "invitations_service \<Rightarrow> (InvitationDTO list \<times> Pagination) http_handler" where
  "InvitesListHandler s r =
     with_caller (iv_env s) r (\<lambda>userID orgID.
       case ParsePageRequest (hr_Query r) of
         Inl e \<Rightarrow> respond_error r e
       | Inr page \<Rightarrow>
           (case invites_parseListFilter s (hr_Query r) of
              Inl e \<Rightarrow> respond_error r e
            | Inr flt \<Rightarrow>
                io_case (ListInvites s userID orgID flt page) (respond_error r)
                  (\<lambda>(items, pagination). io_return (WritePage items pagination))))"

definition InvitesCreateHandler :: "invitations_service \<Rightarrow> ctx \<Rightarrow> InviteInput body \<Rightarrow> InvitationDTO http_handler" where
  "InvitesCreateHandler s c b r =
     with_caller (iv_env s) r (\<lambda>userID orgID.
       decode_body r b (\<lambda>req.
         if vi_RoleID req = uuid_Nil then respond_error r (NewValidationError [(''role_id'', ''is required'')])
         else
           io_case (Invite s c userID orgID
               \<lparr>vi_Email = normalizeInviteEmail (iv_env s) (vi_Email req), vi_RoleID = vi_RoleID req\<rparr>)
             (respond_error r) (\<lambda>invitation. io_return (WriteData 201 invitation))))"

definition InvitesResendHandler :: "invitations_service \<Rightarrow> ctx \<Rightarrow> InvitationDTO http_handler" where
  "InvitesResendHandler s c r =
     with_caller (iv_env s) r (\<lambda>userID orgID. with_param (iv_env s) r ''invitationID'' (\<lambda>invitationID.
       io_case (Resend s c userID orgID invitationID) (respond_error r) (\<lambda>invitation. io_return (WriteData 200 invitation))))"

definition InvitesRevokeHandler :: "invitations_service \<Rightarrow> (string \<times> bool) http_handler" where
  "InvitesRevokeHandler s r =
     with_caller (iv_env s) r (\<lambda>userID orgID. with_param (iv_env s) r ''invitationID'' (\<lambda>invitationID.
       io_case (RevokeInvite s userID orgID invitationID) (respond_error r) (\<lambda>_. io_return (WriteData 200 (''revoked'', True)))))"

definition PreviewHandler :: "invitations_service \<Rightarrow> PreviewDTO http_handler" where
  "PreviewHandler s r =
     tokenParam r ''token'' (\<lambda>token.
       io_case (Preview s token) (respond_error r) (\<lambda>preview. io_return (WriteData 200 preview)))"

record acceptResponse =
  rs_AccessToken :: string
  rs_RefreshToken :: string
  rs_TokenType :: string
  rs_ExpiresIn :: int
  rs_OrganizationID :: uuid
  rs_OrganizationName :: string
  rs_Role :: string
  rs_User :: UserDTO

definition AcceptHandler :: "invitations_service \<Rightarrow> auth_http \<Rightarrow> AcceptInput body \<Rightarrow> acceptResponse http_handler" where
  "AcceptHandler s h b r =
     decode_body r b (\<lambda>req.
       let userID = (case PrincipalFromContext (hr_Context r) of None \<Rightarrow> uuid_Nil | Some who \<Rightarrow> UserID who) in
       io_case (Accept s userID req (RequestMetaFromRequest h r)) (respond_error r) (\<lambda>result.
         io_return (WriteData 201
           \<lparr>rs_AccessToken = tp_AccessToken (ar_SessionTokens result), rs_RefreshToken = tp_RefreshToken (ar_SessionTokens result),
            rs_TokenType = ''Bearer'', rs_ExpiresIn = tp_ExpiresIn (ar_SessionTokens result),
            rs_OrganizationID = ar_OrganizationID result, rs_OrganizationName = ar_OrganizationName result,
            rs_Role = ar_RoleName result, rs_User = ar_InvitedUser result\<rparr>)))"

end
