(* ===== verification/Teams.thy ===== *)
theory Teams
  imports Invitations
begin

text \<open>
  Teams: \<open>internal/teams/service.go\<close> and the statements of \<open>internal/db/teams.sql.go\<close> over the tables of
  migration 12. A team belongs to an organization; its members are members of the organization. Deleting
  a team deletes its memberships and leaves its projects without a team.
\<close>

section \<open>Statements\<close>

definition team_name_check :: "string \<Rightarrow> bool \<times> err" where
  "team_name_check name = (not_blank name, check_violation ''teams_name_check'')"

definition CreateTeam :: "uuid \<Rightarrow> string \<Rightarrow> string option \<Rightarrow> uuid \<Rightarrow> Team io" where
  "CreateTeam org name description created_by = db_write (\<lambda>w.
     let s = st w;
         t = \<lparr>tm_ID = fresh w, tm_OrganizationID = org, tm_Name = name, tm_Description = description,
              tm_CreatedBy = created_by, tm_CreatedAt = clock w, tm_UpdatedAt = clock w\<rparr>
     in guards
          [(rls w org, rls_violation), team_name_check name,
           (\<not> (\<exists>x\<in>set (teams s). tm_OrganizationID x = org \<and> tm_Name x = name),
            unique_violation ''teams_organization_id_name_key''),
           (\<exists>x\<in>set (organizations s). o_ID x = org, foreign_key_violation ''teams_organization_id_fkey''),
           (\<exists>x\<in>set (users s). u_ID x = created_by, foreign_key_violation ''teams_created_by_fkey'')]
          (Inr (t, s\<lparr>teams := teams s @ [t]\<rparr>, Suc (fresh w))))"

definition GetTeam :: "uuid \<Rightarrow> uuid \<Rightarrow> Team io" where
  "GetTeam tid org = db_read (\<lambda>w.
     one_row (\<lambda>t. rls w (tm_OrganizationID t) \<and> tm_ID t = tid \<and> tm_OrganizationID t = org) (teams (st w)))"

definition ListTeams :: "env \<Rightarrow> uuid \<Rightarrow> Team list io" where
  "ListTeams e org = db_read (\<lambda>w.
     Inr (sort_key (\<lambda>t. collate e (tm_Name t))
       (filter (\<lambda>t. rls w (tm_OrganizationID t) \<and> tm_OrganizationID t = org) (teams (st w)))))"

definition UpdateTeam :: "uuid \<Rightarrow> uuid \<Rightarrow> string \<Rightarrow> string option \<Rightarrow> Team io" where
  "UpdateTeam tid org name description = db_write (\<lambda>w.
     let s = st w;
         hit = (\<lambda>t. rls w (tm_OrganizationID t) \<and> tm_ID t = tid \<and> tm_OrganizationID t = org);
         new = (\<lambda>t. t\<lparr>tm_Name := name, tm_Description := description, tm_UpdatedAt := clock w\<rparr>)
     in (case one_row hit (teams s) of
           Inl e \<Rightarrow> Inl e
         | Inr t \<Rightarrow>
             guards
               [team_name_check name,
                (\<not> (\<exists>x\<in>set (teams s). tm_ID x \<noteq> tid \<and> tm_OrganizationID x = org \<and> tm_Name x = name),
                 unique_violation ''teams_organization_id_name_key'')]
               (Inr (new t, s\<lparr>teams := update_where hit new (teams s)\<rparr>, fresh w))))"

text \<open>
  The deletion cascades: the memberships of the team go, its projects lose their team (and get a new
  \<open>updated_at\<close> from the trigger). Referential actions are not subject to the isolation policies.
\<close>

definition DeleteTeam :: "uuid \<Rightarrow> uuid \<Rightarrow> unit io" where
  "DeleteTeam tid org = db_write (\<lambda>w.
     let s = st w;
         hit = (\<lambda>t. rls w (tm_OrganizationID t) \<and> tm_ID t = tid \<and> tm_OrganizationID t = org)
     in if \<not> (\<exists>t\<in>set (teams s). hit t) then Inr ((), s, fresh w)
        else Inr ((), s\<lparr>teams := filter (\<lambda>t. \<not> hit t) (teams s),
               team_members := filter (\<lambda>m. \<not> (tmm_TeamID m = tid \<and> tmm_OrganizationID m = org)) (team_members s),
               projects := update_where (\<lambda>p. pr_TeamID p = Some tid \<and> pr_OrganizationID p = org)
                 (\<lambda>p. p\<lparr>pr_TeamID := None, pr_UpdatedAt := clock w\<rparr>) (projects s)\<rparr>, fresh w))"

record ListTeamMembersRow =
  ltm_Member :: TeamMember
  ltm_Email :: string
  ltm_FirstName :: string
  ltm_LastName :: string

definition ListTeamMembers :: "env \<Rightarrow> uuid \<Rightarrow> uuid \<Rightarrow> ListTeamMembersRow list io" where
  "ListTeamMembers e tid org = db_read (\<lambda>w.
     Inr (sort_key (\<lambda>x. collate e (map lower_char (ltm_Email x)))
       [\<lparr>ltm_Member = m, ltm_Email = u_Email u, ltm_FirstName = u_FirstName u, ltm_LastName = u_LastName u\<rparr>.
          m \<leftarrow> team_members (st w), u \<leftarrow> users (st w),
          rls w (tmm_OrganizationID m) \<and> u_ID u = tmm_UserID m \<and> tmm_TeamID m = tid \<and> tmm_OrganizationID m = org]))"

definition AddTeamMember :: "uuid \<Rightarrow> uuid \<Rightarrow> uuid \<Rightarrow> TeamMember io" where
  "AddTeamMember org tid uid = db_write (\<lambda>w.
     let s = st w;
         m = \<lparr>tmm_ID = fresh w, tmm_OrganizationID = org, tmm_TeamID = tid, tmm_UserID = uid, tmm_CreatedAt = clock w\<rparr>
     in guards
          [(rls w org, rls_violation),
           (\<not> (\<exists>x\<in>set (team_members s). tmm_OrganizationID x = org \<and> tmm_TeamID x = tid \<and> tmm_UserID x = uid),
            unique_violation ''team_members_organization_id_team_id_user_id_key''),
           (\<exists>x\<in>set (organizations s). o_ID x = org, foreign_key_violation ''team_members_organization_id_fkey''),
           (\<exists>x\<in>set (users s). u_ID x = uid, foreign_key_violation ''team_members_user_id_fkey''),
           (\<exists>x\<in>set (teams s). tm_ID x = tid \<and> tm_OrganizationID x = org,
            foreign_key_violation ''team_members_team_id_organization_id_fkey'')]
          (Inr (m, s\<lparr>team_members := team_members s @ [m]\<rparr>, Suc (fresh w))))"

definition RemoveTeamMember :: "uuid \<Rightarrow> uuid \<Rightarrow> uuid \<Rightarrow> unit io" where
  "RemoveTeamMember mid tid org = db_write (\<lambda>w.
     let s = st w in
       Inr ((), s\<lparr>team_members := filter (\<lambda>m. \<not> (rls w (tmm_OrganizationID m) \<and> tmm_ID m = mid \<and> tmm_TeamID m = tid \<and>
              tmm_OrganizationID m = org)) (team_members s)\<rparr>, fresh w))"

section \<open>The service\<close>

record TeamDTO =
  ttd_ID :: uuid
  ttd_OrganizationID :: uuid
  ttd_Name :: string
  ttd_Description :: "string option"
  ttd_CreatedBy :: uuid
  ttd_CreatedAt :: time
  ttd_UpdatedAt :: time

record TeamMemberDTO =
  tmd_ID :: uuid
  tmd_UserID :: uuid
  tmd_Email :: string
  tmd_FirstName :: string
  tmd_LastName :: string
  tmd_CreatedAt :: time

definition team_toDTO :: "Team \<Rightarrow> TeamDTO" where
  "team_toDTO t =
     \<lparr>ttd_ID = tm_ID t, ttd_OrganizationID = tm_OrganizationID t, ttd_Name = tm_Name t, ttd_Description = tm_Description t,
      ttd_CreatedBy = tm_CreatedBy t, ttd_CreatedAt = tm_CreatedAt t, ttd_UpdatedAt = tm_UpdatedAt t\<rparr>"

definition or_not_found :: "err \<Rightarrow> err" where
  "or_not_found e = (if errors_Is e ErrNoRows then Sentinel ErrNotFound else e)"

definition team_name_taken :: "err \<Rightarrow> err" where
  "team_name_taken e =
     (if isUniqueViolation e then NewAPIError 409 ''TEAM_NAME_TAKEN'' ''A team with this name already exists'' (Some e) else e)"

definition ListTeamsOf :: "env \<Rightarrow> uuid \<Rightarrow> uuid \<Rightarrow> TeamDTO list io" where
  "ListTeamsOf e userID orgID =
     io_try (Authorize userID orgID TeamsRead) id (\<lambda>_.
     io_try (withOrgTx orgID (ListTeams e orgID)) (wrap ''list teams'') (\<lambda>rows.
     io_return (map team_toDTO rows)))"

definition GetTeamOf :: "uuid \<Rightarrow> uuid \<Rightarrow> uuid \<Rightarrow> TeamDTO io" where
  "GetTeamOf userID orgID teamID =
     io_try (Authorize userID orgID TeamsRead) id (\<lambda>_.
     io_try (withOrgTx orgID (io_try (GetTeam teamID orgID) or_not_found io_return)) id (\<lambda>team.
     io_return (team_toDTO team)))"

definition CreateTeamIn :: "uuid \<Rightarrow> uuid \<Rightarrow> string \<Rightarrow> string option \<Rightarrow> TeamDTO io" where
  "CreateTeamIn userID orgID name description =
     io_try (Authorize userID orgID TeamsManage) id (\<lambda>_.
     io_try (withOrgTx orgID (io_try (CreateTeam orgID name description userID) team_name_taken io_return))
       (wrap ''create team'') (\<lambda>team.
     io_return (team_toDTO team)))"

definition UpdateTeamOf :: "uuid \<Rightarrow> uuid \<Rightarrow> uuid \<Rightarrow> string \<Rightarrow> string option \<Rightarrow> TeamDTO io" where
  "UpdateTeamOf userID orgID teamID name description =
     io_try (Authorize userID orgID TeamsManage) id (\<lambda>_.
     io_try (withOrgTx orgID
         (io_try (UpdateTeam teamID orgID name description)
            (\<lambda>e. if errors_Is e ErrNoRows then Sentinel ErrNotFound else team_name_taken e) io_return))
       (wrap ''update team'') (\<lambda>team.
     io_return (team_toDTO team)))"

definition DeleteTeamOf :: "uuid \<Rightarrow> uuid \<Rightarrow> uuid \<Rightarrow> unit io" where
  "DeleteTeamOf userID orgID teamID =
     io_try (Authorize userID orgID TeamsManage) id (\<lambda>_.
     withOrgTx orgID (io_try (GetTeam teamID orgID) or_not_found (\<lambda>_. DeleteTeam teamID orgID)))"

definition ListTeamMembersOf :: "env \<Rightarrow> uuid \<Rightarrow> uuid \<Rightarrow> uuid \<Rightarrow> TeamMemberDTO list io" where
  "ListTeamMembersOf e userID orgID teamID =
     io_try (Authorize userID orgID TeamsRead) id (\<lambda>_.
     io_try (withOrgTx orgID (io_try (GetTeam teamID orgID) or_not_found (\<lambda>_. ListTeamMembers e teamID orgID)))
       (wrap ''list team members'') (\<lambda>rows.
     io_return (map (\<lambda>row. \<lparr>tmd_ID = tmm_ID (ltm_Member row), tmd_UserID = tmm_UserID (ltm_Member row),
        tmd_Email = ltm_Email row, tmd_FirstName = ltm_FirstName row, tmd_LastName = ltm_LastName row,
        tmd_CreatedAt = tmm_CreatedAt (ltm_Member row)\<rparr>) rows)))"

text \<open>
  \<open>errors.Is(err, pgx.ErrNoRows) || membership.Status != "active"\<close>: after any error the membership is
  the zero value, whose status is not active, so every error of the lookup ends here.
\<close>

definition memberNotFound :: "err option \<Rightarrow> err" where
  "memberNotFound cause = NewAPIError 404 ''MEMBER_NOT_FOUND'' ''Active organization member not found'' cause"

definition AddMemberTo :: "uuid \<Rightarrow> uuid \<Rightarrow> uuid \<Rightarrow> uuid \<Rightarrow> TeamMemberDTO io" where
  "AddMemberTo userID orgID teamID memberUserID =
     io_try (Authorize userID orgID TeamsManage) id (\<lambda>_.
     io_try (withOrgTx orgID
         (io_try (GetTeam teamID orgID) or_not_found (\<lambda>_.
          io_try (GetMembership orgID memberUserID) (\<lambda>e. memberNotFound (Some e)) (\<lambda>membership.
          if m_Status membership \<noteq> ''active'' then io_throw (memberNotFound None)
          else
            io_try (AddTeamMember orgID teamID memberUserID)
              (\<lambda>e. if isUniqueViolation e
                   then NewAPIError 409 ''TEAM_MEMBER_EXISTS'' ''User is already on this team'' (Some e) else e) (\<lambda>row.
            io_try (GetUserByID memberUserID) id (\<lambda>user.
            io_return \<lparr>tmd_ID = tmm_ID row, tmd_UserID = tmm_UserID row, tmd_Email = u_Email user,
                       tmd_FirstName = u_FirstName user, tmd_LastName = u_LastName user,
                       tmd_CreatedAt = tmm_CreatedAt row\<rparr>))))))
       (wrap ''add team member'') io_return)"

definition RemoveMemberFrom :: "uuid \<Rightarrow> uuid \<Rightarrow> uuid \<Rightarrow> uuid \<Rightarrow> unit io" where
  "RemoveMemberFrom userID orgID teamID teamMemberID =
     io_try (Authorize userID orgID TeamsManage) id (\<lambda>_.
     withOrgTx orgID (io_try (GetTeam teamID orgID) or_not_found (\<lambda>_. RemoveTeamMember teamMemberID teamID orgID)))"

end
