(* ===== verification/Fieldtypes.thy ===== *)
theory Fieldtypes
  imports Store
begin

text \<open>
  The field types of requests and responses: \<open>internal/fieldtypes/fieldtypes.go\<close>. A calendar date is the
  number \<open>yyyymmdd\<close>, which is equal and ordered as the midnights \<open>time.Parse\<close> makes of the layout
  \<open>2006-01-02\<close>; parsing and formatting of that layout are written out.
\<close>

type_synonym date = int

section \<open>Dates\<close>

definition leap_year :: "int \<Rightarrow> bool" where
  "leap_year y \<longleftrightarrow> y mod 4 = 0 \<and> (y mod 100 \<noteq> 0 \<or> y mod 400 = 0)"

definition daysIn :: "int \<Rightarrow> int \<Rightarrow> int" where
  "daysIn m y = (if m = 2 then (if leap_year y then 29 else 28) else if m \<in> {4, 6, 9, 11} then 30 else 31)"

definition mk_date :: "int \<Rightarrow> int \<Rightarrow> int \<Rightarrow> date" where
  "mk_date y m d = y * 10000 + m * 100 + d"

definition valid_date :: "date \<Rightarrow> bool" where
  "valid_date x \<longleftrightarrow>
     (let y = x div 10000; m = x div 100 mod 100; d = x mod 100
      in 0 \<le> y \<and> y \<le> 9999 \<and> 1 \<le> m \<and> m \<le> 12 \<and> 1 \<le> d \<and> d \<le> daysIn m y)"

fun parse_date :: "string \<Rightarrow> date option" where
  "parse_date [y1, y2, y3, y4, s1, m1, m2, s2, d1, d2] =
     (if list_all is_digit [y1, y2, y3, y4, m1, m2, d1, d2] \<and> s1 = CHR ''-'' \<and> s2 = CHR ''-'' then
        let y = digit_value y1 * 1000 + digit_value y2 * 100 + digit_value y3 * 10 + digit_value y4;
            m = digit_value m1 * 10 + digit_value m2;
            d = digit_value d1 * 10 + digit_value d2
        in if 1 \<le> m \<and> m \<le> 12 \<and> 1 \<le> d \<and> d \<le> daysIn m y then Some (mk_date y m d) else None
      else None)"
| "parse_date _ = None"

definition digit_char :: "int \<Rightarrow> char" where
  "digit_char n = char_of (48 + nat (n mod 10))"

definition format_date :: "date \<Rightarrow> string" where
  "format_date x =
     (let y = x div 10000; m = x div 100 mod 100; d = x mod 100
      in [digit_char (y div 1000), digit_char (y div 100), digit_char (y div 10), digit_char y, CHR ''-'',
          digit_char (m div 10), digit_char m, CHR ''-'', digit_char (d div 10), digit_char d])"

text \<open>\<open>Date.MarshalJSON\<close> and \<open>Date.UnmarshalJSON\<close>; \<open>json_string\<close> is \<open>encoding/json\<close> on a JSON string.\<close>

definition Date_MarshalJSON :: "date \<Rightarrow> json" where
  "Date_MarshalJSON d = JString (format_date d)"

definition Date_UnmarshalJSON :: "(string \<Rightarrow> err + string) \<Rightarrow> string \<Rightarrow> err + date" where
  "Date_UnmarshalJSON json_string b =
     (case json_string b of
        Inl e \<Rightarrow> Inl e
      | Inr s \<Rightarrow> (case parse_date s of None \<Rightarrow> Inl (Message ''parsing time'') | Some d \<Rightarrow> Inr d))"

definition DateFromTime :: "date option \<Rightarrow> date option" where
  "DateFromTime t = t"

definition TimeFromDate :: "date option \<Rightarrow> date option" where
  "TimeFromDate d = d"

definition EqualDate :: "date \<Rightarrow> date \<Rightarrow> bool" where
  "EqualDate a b \<longleftrightarrow> a = b"

section \<open>Optional fields\<close>

text \<open>An omitted field, an explicit null, and a value.\<close>

record 'a Optional =
  op_Set :: bool
  op_Value :: "'a option"

definition Omitted :: "'a Optional" where
  "Omitted = \<lparr>op_Set = False, op_Value = None\<rparr>"

definition Optional_UnmarshalJSON :: "(string \<Rightarrow> err + 'a) \<Rightarrow> string \<Rightarrow> err + 'a Optional" where
  "Optional_UnmarshalJSON decode b =
     (if TrimSpace b = ''null'' then Inr \<lparr>op_Set = True, op_Value = None\<rparr>
      else (case decode b of Inl e \<Rightarrow> Inl e | Inr v \<Rightarrow> Inr \<lparr>op_Set = True, op_Value = Some v\<rparr>))"

definition EqualPtr :: "'a option \<Rightarrow> 'a option \<Rightarrow> ('a \<Rightarrow> 'a \<Rightarrow> bool) \<Rightarrow> bool" where
  "EqualPtr a b eq =
     (case a of None \<Rightarrow> b = None | Some x \<Rightarrow> (case b of None \<Rightarrow> False | Some y \<Rightarrow> eq x y))"

definition NormalizeOptionalText :: "string option \<Rightarrow> string option" where
  "NormalizeOptionalText s = (case s of None \<Rightarrow> None | Some t \<Rightarrow> if TrimSpace t = [] then None else s)"

lemma EqualPtr_eq [simp]: "EqualPtr a b (=) \<longleftrightarrow> a = b" "EqualPtr c d EqualDate \<longleftrightarrow> c = d"
  by (auto simp: EqualPtr_def EqualDate_def split: option.splits)

section \<open>Round trips\<close>

lemma daysIn_le: "daysIn m y \<le> 31"
  by (simp add: daysIn_def)

lemma digit_value_char: "digit_value (digit_char n) = n mod 10" "is_digit (digit_char n)"
proof -
  have "nat (n mod 10) < 10" by (simp add: nat_less_iff)
  then show "digit_value (digit_char n) = n mod 10" "is_digit (digit_char n)"
    by (simp_all add: digit_value_def digit_char_def is_digit_def)
qed

lemma digit_char_value: "is_digit c \<Longrightarrow> digit_char (digit_value c) = c"
proof -
  assume "is_digit c"
  then have "48 \<le> (of_char c :: nat)" "(of_char c :: nat) \<le> 57" by (simp_all add: is_digit_def)
  then have "48 + nat ((int (of_char c) - 48) mod 10) = (of_char c :: nat)" by simp
  then have "digit_char (digit_value c) = char_of (of_char c :: nat)" unfolding digit_char_def digit_value_def by (rule arg_cong)
  then show ?thesis by simp
qed

lemma digits_in_range: "is_digit c \<Longrightarrow> 0 \<le> digit_value c \<and> digit_value c \<le> 9"
  by (auto simp: digit_value_def is_digit_def)

lemma digit_charI: "is_digit c \<Longrightarrow> n mod 10 = digit_value c \<Longrightarrow> digit_char n = c"
  by (metis digit_char_def digit_char_value mod_mod_trivial)

lemma small_remainder: "0 \<le> r \<Longrightarrow> r < k \<Longrightarrow> (a * k + r) div k = (a::int)" "0 \<le> r \<Longrightarrow> r < k \<Longrightarrow> (a * k + r) mod k = r"
  by simp_all

lemma mk_date_parts:
  assumes "0 \<le> m" "m \<le> 99" "0 \<le> d" "d \<le> 99"
  shows "mk_date y m d div 10000 = y" "mk_date y m d div 100 mod 100 = m" "mk_date y m d mod 100 = d"
proof -
  have x: "mk_date y m d = (y * 100 + m) * 100 + d" "mk_date y m d = y * 10000 + (m * 100 + d)"
    by (simp_all add: mk_date_def)
  show "mk_date y m d mod 100 = d" unfolding x(1) using assms by (intro small_remainder) auto
  have "mk_date y m d div 100 = y * 100 + m" unfolding x(1) using assms by (intro small_remainder) auto
  then show "mk_date y m d div 100 mod 100 = m" using assms by (simp add: small_remainder)
  show "mk_date y m d div 10000 = y" unfolding x(2) using assms by (intro small_remainder) auto
qed

lemma decimal_digits:
  fixes a b c d :: int
  assumes "0 \<le> a \<and> a \<le> 9" "0 \<le> b \<and> b \<le> 9" "0 \<le> c \<and> c \<le> 9" "0 \<le> d \<and> d \<le> 9"
  defines "n \<equiv> a * 1000 + b * 100 + c * 10 + d"
  shows "n div 1000 mod 10 = a" "n div 100 mod 10 = b" "n div 10 mod 10 = c" "n mod 10 = d"
proof -
  have n: "n = a * 1000 + (b * 100 + c * 10 + d)" "n = (a * 10 + b) * 100 + (c * 10 + d)" "n = (a * 100 + b * 10 + c) * 10 + d"
    by (simp_all add: n_def)
  have "n div 1000 = a" unfolding n(1) using assms(1-4) by (intro small_remainder) auto
  moreover have "n div 100 = a * 10 + b" unfolding n(2) using assms(1-4) by (intro small_remainder) auto
  moreover have "n div 10 = (a * 10 + b) * 10 + c" unfolding n(3) using assms(1-4) by (subst small_remainder) auto
  ultimately show "n div 1000 mod 10 = a" "n div 100 mod 10 = b" "n div 10 mod 10 = c"
    using assms(1-4) small_remainder(2) [of b 10 a] small_remainder(2) [of c 10 "a * 10 + b"] by simp_all
  show "n mod 10 = d" unfolding n(3) using assms(1-4) by (intro small_remainder) auto
qed

lemma decimal_value:
  fixes n :: int
  assumes "0 \<le> n" "n \<le> 9999"
  shows "n div 1000 mod 10 * 1000 + n div 100 mod 10 * 100 + n div 10 mod 10 * 10 + n mod 10 = n"
proof -
  have q: "n div 100 = n div 10 div 10" "n div 1000 = n div 100 div 10" by (simp_all add: zdiv_zmult2_eq [symmetric])
  have "n div 1000 mod 10 = n div 1000" using assms by simp
  then show ?thesis
    using div_mult_mod_eq [of n 10] div_mult_mod_eq [of "n div 10" 10] div_mult_mod_eq [of "n div 100" 10] q by linarith
qed

lemma parse_date_format:
  assumes "parse_date s = Some x"
  shows "valid_date x \<and> s = format_date x"
proof -
  from assms obtain y1 y2 y3 y4 m1 m2 d1 d2 where
    s: "s = [y1, y2, y3, y4, CHR ''-'', m1, m2, CHR ''-'', d1, d2]" and
    dg: "is_digit y1" "is_digit y2" "is_digit y3" "is_digit y4" "is_digit m1" "is_digit m2" "is_digit d1" "is_digit d2" and
    x: "x = mk_date (digit_value y1 * 1000 + digit_value y2 * 100 + digit_value y3 * 10 + digit_value y4)
          (digit_value m1 * 10 + digit_value m2) (digit_value d1 * 10 + digit_value d2)" and
    ok: "1 \<le> digit_value m1 * 10 + digit_value m2" "digit_value m1 * 10 + digit_value m2 \<le> 12"
      "1 \<le> digit_value d1 * 10 + digit_value d2"
      "digit_value d1 * 10 + digit_value d2 \<le> daysIn (digit_value m1 * 10 + digit_value m2)
         (digit_value y1 * 1000 + digit_value y2 * 100 + digit_value y3 * 10 + digit_value y4)"
    by (cases s rule: parse_date.cases) (auto simp: Let_def split: if_splits)
  note r = dg [THEN digits_in_range]
  let ?y = "digit_value y1 * 1000 + digit_value y2 * 100 + digit_value y3 * 10 + digit_value y4"
  let ?m = "digit_value m1 * 10 + digit_value m2" and ?d = "digit_value d1 * 10 + digit_value d2"
  have parts: "x div 10000 = ?y" "x div 100 mod 100 = ?m" "x mod 100 = ?d"
    unfolding x using r by (intro mk_date_parts; linarith)+
  have "0 \<le> ?y \<and> ?y \<le> 9999" using r by linarith
  then have v: "valid_date x"
    using ok unfolding valid_date_def Let_def parts by blast
  note yd = decimal_digits [OF r(1-4)]
  have md: "?m div 10 mod 10 = digit_value m1" "?m mod 10 = digit_value m2" "?d div 10 mod 10 = digit_value d1"
      "?d mod 10 = digit_value d2"
    using decimal_digits(3,4) [OF _ _ r(5,6), of 0 0] decimal_digits(3,4) [OF _ _ r(7,8), of 0 0] by simp_all
  show ?thesis
    unfolding format_date_def Let_def parts s using v digit_charI [OF dg(1) yd(1)] digit_charI [OF dg(2) yd(2)]
      digit_charI [OF dg(3) yd(3)] digit_charI [OF dg(4) yd(4)] digit_charI [OF dg(5) md(1)] digit_charI [OF dg(6) md(2)]
      digit_charI [OF dg(7) md(3)] digit_charI [OF dg(8) md(4)] by simp
qed

lemma format_date_parse:
  assumes "valid_date x"
  shows "parse_date (format_date x) = Some x"
proof -
  let ?y = "x div 10000" and ?m = "x div 100 mod 100" and ?d = "x mod 100"
  have v: "0 \<le> ?y" "?y \<le> 9999" "1 \<le> ?m" "?m \<le> 12" "1 \<le> ?d" "?d \<le> daysIn ?m ?y"
    using assms by (simp_all add: valid_date_def Let_def)
  have y: "?y div 1000 mod 10 * 1000 + ?y div 100 mod 10 * 100 + ?y div 10 mod 10 * 10 + ?y mod 10 = ?y"
    using v(1,2) by (rule decimal_value)
  have two: "n div 10 mod 10 * 10 + n mod 10 = n" if "1 \<le> n" "n \<le> 31" for n :: int
    using that decimal_value [of n] by simp
  have m: "?m div 10 mod 10 * 10 + ?m mod 10 = ?m" using v(3,4) by (intro two) auto
  have d: "?d div 10 mod 10 * 10 + ?d mod 10 = ?d" using v(5) daysIn_le [of ?m ?y] v(6) by (intro two) auto
  have "x div 10000 = x div 100 div 100" by (simp add: zdiv_zmult2_eq [symmetric])
  then have x: "mk_date ?y ?m ?d = x"
    unfolding mk_date_def using div_mult_mod_eq [of x 100] div_mult_mod_eq [of "x div 100" 100] by linarith
  show ?thesis
    unfolding format_date_def Let_def
    by (simp only: parse_date.simps list.pred_inject digit_value_char y m d x Let_def simp_thms v if_True)
qed

text \<open>
  C36: the wire format of dates is exact. A text is read as the date \<open>d\<close> if and only if \<open>d\<close> is a day of the
  calendar and the text is what \<open>d\<close> is written as: every date survives the round trip, two texts never
  mean the same date, and a day that does not exist is rejected.
\<close>

theorem date_text_exact: "parse_date s = Some d \<longleftrightarrow> valid_date d \<and> s = format_date d"
  using parse_date_format format_date_parse by blast

end
