(* ===== verification/Activity.thy ===== *)
theory Activity
  imports Teams Fieldtypes
begin

text \<open>
  The activity trail: \<open>internal/activity/activity.go\<close> and \<open>internal/db/activity.sql.go\<close> over the table of
  migration 13. An entry is written by the statement that follows the change, in the same transaction.
  The metadata of an entry is a JSON object with its keys in order, as \<open>encoding/json\<close> writes maps.
\<close>

definition ResourceProject :: string where "ResourceProject = ''project''"
definition ResourceTask :: string where "ResourceTask = ''task''"
definition ProjectCreated :: string where "ProjectCreated = ''project.created''"
definition ProjectUpdated :: string where "ProjectUpdated = ''project.updated''"
definition ProjectDeleted :: string where "ProjectDeleted = ''project.deleted''"
definition TaskCreated :: string where "TaskCreated = ''task.created''"
definition TaskUpdated :: string where "TaskUpdated = ''task.updated''"
definition TaskDeleted :: string where "TaskDeleted = ''task.deleted''"

record ActivityEntry =
  ae_OrganizationID :: uuid
  ae_ActorUserID :: "uuid option"
  ae_Action :: string
  ae_ResourceType :: string
  ae_ResourceID :: uuid
  ae_Metadata :: metadata

record ActivityDTO =
  ad_ID :: uuid
  ad_ActorUserID :: "uuid option"
  ad_Action :: string
  ad_ResourceType :: string
  ad_ResourceID :: uuid
  ad_Metadata :: string
  ad_CreatedAt :: time

section \<open>Statements\<close>

definition CreateActivityLog ::
  "uuid \<Rightarrow> uuid option \<Rightarrow> string \<Rightarrow> string \<Rightarrow> uuid \<Rightarrow> string \<Rightarrow> unit io" where
  "CreateActivityLog org actor action rtype rid md = db_write (\<lambda>w.
     let s = st w;
         a = \<lparr>av_ID = fresh w, av_OrganizationID = org, av_ActorUserID = actor, av_Action = action, av_ResourceType = rtype,
              av_ResourceID = rid, av_Metadata = md, av_CreatedAt = clock w\<rparr>
     in guards
          [(rls w org, rls_violation),
           (not_blank action, check_violation ''activity_logs_action_check''),
           (not_blank rtype, check_violation ''activity_logs_resource_type_check''),
           (\<exists>x\<in>set (organizations s). o_ID x = org, foreign_key_violation ''activity_logs_organization_id_fkey''),
           (case actor of None \<Rightarrow> True | Some uid \<Rightarrow> \<exists>u\<in>set (users s). u_ID u = uid,
            foreign_key_violation ''activity_logs_actor_user_id_fkey'')]
          (Inr ((), s\<lparr>activity_logs := activity_logs s @ [a]\<rparr>, Suc (fresh w))))"

definition activity_selected :: "world \<Rightarrow> uuid \<Rightarrow> string \<Rightarrow> uuid \<Rightarrow> ActivityLog \<Rightarrow> bool" where
  "activity_selected w org rtype rid a \<longleftrightarrow>
     rls w (av_OrganizationID a) \<and> av_OrganizationID a = org \<and> av_ResourceType a = rtype \<and> av_ResourceID a = rid"

definition CountActivityByResource :: "uuid \<Rightarrow> string \<Rightarrow> uuid \<Rightarrow> int io" where
  "CountActivityByResource org rtype rid = db_read (\<lambda>w.
     Inr (int (length (filter (activity_selected w org rtype rid) (activity_logs (st w))))))"

definition ListActivityByResource :: "uuid \<Rightarrow> string \<Rightarrow> uuid \<Rightarrow> int \<Rightarrow> int \<Rightarrow> ActivityLog list io" where
  "ListActivityByResource org rtype rid page_limit page_offset = db_read (\<lambda>w.
     page_rows page_limit page_offset
       (sort_key (\<lambda>a. (- av_CreatedAt a, - int (av_ID a)))
         (filter (activity_selected w org rtype rid) (activity_logs (st w)))))"

section \<open>Recording\<close>

definition RecordActivity :: "env \<Rightarrow> ActivityEntry \<Rightarrow> unit io" where
  "RecordActivity e entry =
     io_try (CreateActivityLog (ae_OrganizationID entry) (ae_ActorUserID entry) (ae_Action entry) (ae_ResourceType entry)
               (ae_ResourceID entry) (json_Marshal e (ae_Metadata entry)))
       (wrap (''record activity '' @ ae_Action entry)) io_return"

definition activity_ToDTO :: "ActivityLog \<Rightarrow> ActivityDTO" where
  "activity_ToDTO l =
     \<lparr>ad_ID = av_ID l, ad_ActorUserID = av_ActorUserID l, ad_Action = av_Action l, ad_ResourceType = av_ResourceType l,
      ad_ResourceID = av_ResourceID l, ad_Metadata = av_Metadata l, ad_CreatedAt = av_CreatedAt l\<rparr>"

text \<open>The page of the trail of one resource, the shared tail of \<open>ListActivity\<close> of projects and tasks.\<close>

definition activity_page :: "uuid \<Rightarrow> string \<Rightarrow> uuid \<Rightarrow> PageRequest \<Rightarrow> (int \<times> ActivityLog list) io" where
  "activity_page orgID rtype rid page =
     io_try (CountActivityByResource orgID rtype rid) id (\<lambda>count.
     io_try (ListActivityByResource orgID rtype rid (Limit page) (Offset page)) id (\<lambda>rows.
     io_return (count, rows)))"

end
