(* ===== verification/Projects.thy ===== *)
theory Projects
  imports Activity
begin

text \<open>
  Projects: \<open>internal/projects/\<close> (model and service) and the statements of \<open>internal/db/projects.sql.go\<close>
  over the table of migration 13. Updates are partial: \<open>apply\<close> merges the fields that are present and
  reports the ones that changed; a change and its entry in the activity trail are one transaction.
\<close>

section \<open>Model\<close>

definition project_statuses :: "string list" where
  "project_statuses = [''planning'', ''active'', ''on_hold'', ''completed'', ''archived'']"
definition priorities :: "string list" where
  "priorities = [''low'', ''medium'', ''high'', ''urgent'']"
definition project_sortableFields :: "string list" where
  "project_sortableFields = [''created_at'', ''updated_at'', ''name'', ''due_date'', ''priority'']"

record ProjectInput =
  pi_Name :: string
  pi_Description :: "string option"
  pi_TeamID :: "uuid option"
  pi_Status :: string
  pi_Priority :: string
  pi_StartDate :: "date option"
  pi_DueDate :: "date option"

record ProjectPatch =
  pp_Name :: "string option"
  pp_Description :: "string Optional"
  pp_TeamID :: "uuid Optional"
  pp_Status :: "string option"
  pp_Priority :: "string option"
  pp_StartDate :: "date Optional"
  pp_DueDate :: "date Optional"

record ProjectFilter =
  pf_Status :: "string option"
  pf_Priority :: "string option"
  pf_TeamID :: "uuid option"
  pf_Sort :: string
  pf_Desc :: bool

record ProjectDTO =
  jd_ID :: uuid
  jd_OrganizationID :: uuid
  jd_TeamID :: "uuid option"
  jd_Name :: string
  jd_Description :: "string option"
  jd_Status :: string
  jd_Priority :: string
  jd_StartDate :: "date option"
  jd_DueDate :: "date option"
  jd_CreatedBy :: uuid
  jd_CreatedAt :: time
  jd_UpdatedAt :: time

record project_fields =
  jf_Name :: string
  jf_Description :: "string option"
  jf_TeamID :: "uuid option"
  jf_Status :: string
  jf_Priority :: string
  jf_StartDate :: "date option"
  jf_DueDate :: "date option"

definition input_project_fields :: "ProjectInput \<Rightarrow> project_fields" where
  "input_project_fields inp =
     \<lparr>jf_Name = TrimSpace (pi_Name inp), jf_Description = NormalizeOptionalText (pi_Description inp),
      jf_TeamID = pi_TeamID inp,
      jf_Status = (if pi_Status inp = [] then ''planning'' else pi_Status inp),
      jf_Priority = (if pi_Priority inp = [] then ''medium'' else pi_Priority inp),
      jf_StartDate = pi_StartDate inp, jf_DueDate = pi_DueDate inp\<rparr>"

text \<open>
  \<open>apply\<close>: one step for each field that may be present, in the order of the source. A step sets the field
  and appends its name when the new value differs from the current one.
\<close>

definition changed_if :: "bool \<Rightarrow> string \<Rightarrow> string list" where
  "changed_if differs name = (if differs then [name] else [])"

definition apply_project :: "ProjectPatch \<Rightarrow> project_fields \<Rightarrow> project_fields \<times> string list" where
  "apply_project inp current =
     (let (n1, c1) = (case pp_Name inp of
                        None \<Rightarrow> (current, [])
                      | Some name \<Rightarrow>
                          let v = TrimSpace name
                          in (current\<lparr>jf_Name := v\<rparr>, changed_if (v \<noteq> jf_Name current) ''name''));
          (n2, c2) = (if op_Set (pp_Description inp) then
                        let v = NormalizeOptionalText (op_Value (pp_Description inp))
                        in (n1\<lparr>jf_Description := v\<rparr>, changed_if (\<not> EqualPtr v (jf_Description current) (=)) ''description'')
                      else (n1, []));
          (n3, c3) = (if op_Set (pp_TeamID inp) then
                        let v = op_Value (pp_TeamID inp)
                        in (n2\<lparr>jf_TeamID := v\<rparr>, changed_if (\<not> EqualPtr v (jf_TeamID current) (=)) ''team_id'')
                      else (n2, []));
          (n4, c4) = (case pp_Status inp of
                        None \<Rightarrow> (n3, [])
                      | Some v \<Rightarrow> (n3\<lparr>jf_Status := v\<rparr>, changed_if (v \<noteq> jf_Status current) ''status''));
          (n5, c5) = (case pp_Priority inp of
                        None \<Rightarrow> (n4, [])
                      | Some v \<Rightarrow> (n4\<lparr>jf_Priority := v\<rparr>, changed_if (v \<noteq> jf_Priority current) ''priority''));
          (n6, c6) = (if op_Set (pp_StartDate inp) then
                        let v = op_Value (pp_StartDate inp)
                        in (n5\<lparr>jf_StartDate := v\<rparr>, changed_if (\<not> EqualPtr v (jf_StartDate current) EqualDate) ''start_date'')
                      else (n5, []));
          (n7, c7) = (if op_Set (pp_DueDate inp) then
                        let v = op_Value (pp_DueDate inp)
                        in (n6\<lparr>jf_DueDate := v\<rparr>, changed_if (\<not> EqualPtr v (jf_DueDate current) EqualDate) ''due_date'')
                      else (n6, []))
      in (n7, c1 @ c2 @ c3 @ c4 @ c5 @ c6 @ c7))"

definition max_len_opt :: "string \<Rightarrow> string option \<Rightarrow> nat \<Rightarrow> validator \<Rightarrow> validator" where
  "max_len_opt field val n v = (case val of None \<Rightarrow> v | Some x \<Rightarrow> MaxLen field x n v)"

definition project_checks :: "project_fields \<Rightarrow> validator" where
  "project_checks f =
     (let v = Check (jf_Priority f \<in> set priorities) ''priority'' ''must be one of low, medium, high, urgent''
             (Check (jf_Status f \<in> set project_statuses) ''status''
                ''must be one of planning, active, on_hold, completed, archived''
             (max_len_opt ''description'' (jf_Description f) 5000
             (MaxLen ''name'' (jf_Name f) 150
             (Required ''name'' (jf_Name f) New))))
      in case (jf_StartDate f, jf_DueDate f) of
           (Some start, Some due) \<Rightarrow> Check (\<not> due < start) ''due_date'' ''must not be before start_date'' v
         | _ \<Rightarrow> v)"

definition validate_project :: "project_fields \<Rightarrow> err option" where
  "validate_project f = Err (project_checks f)"

definition fieldsFromProject :: "Project \<Rightarrow> project_fields" where
  "fieldsFromProject p =
     \<lparr>jf_Name = pr_Name p, jf_Description = pr_Description p, jf_TeamID = pr_TeamID p, jf_Status = pr_Status p,
      jf_Priority = pr_Priority p, jf_StartDate = DateFromTime (pr_StartDate p), jf_DueDate = DateFromTime (pr_DueDate p)\<rparr>"

definition project_toDTO :: "Project \<Rightarrow> ProjectDTO" where
  "project_toDTO p =
     \<lparr>jd_ID = pr_ID p, jd_OrganizationID = pr_OrganizationID p, jd_TeamID = pr_TeamID p, jd_Name = pr_Name p,
      jd_Description = pr_Description p, jd_Status = pr_Status p, jd_Priority = pr_Priority p,
      jd_StartDate = DateFromTime (pr_StartDate p), jd_DueDate = DateFromTime (pr_DueDate p),
      jd_CreatedBy = pr_CreatedBy p, jd_CreatedAt = pr_CreatedAt p, jd_UpdatedAt = pr_UpdatedAt p\<rparr>"

section \<open>Statements\<close>

definition project_row_checks :: "project_fields \<Rightarrow> (bool \<times> err) list" where
  "project_row_checks f =
     [(case jf_Description f of None \<Rightarrow> True | Some d \<Rightarrow> char_length d \<le> 5000, check_violation ''projects_description_check''),
      (case (jf_StartDate f, jf_DueDate f) of (Some s, Some d) \<Rightarrow> s \<le> d | _ \<Rightarrow> True, check_violation ''projects_due_after_start''),
      (not_blank (jf_Name f) \<and> char_length (jf_Name f) \<le> 150, check_violation ''projects_name_check''),
      (jf_Priority f \<in> set priorities, check_violation ''projects_priority_check''),
      (jf_Status f \<in> set project_statuses, check_violation ''projects_status_check'')]"

definition project_team_check :: "store \<Rightarrow> uuid \<Rightarrow> uuid option \<Rightarrow> bool \<times> err" where
  "project_team_check s org team =
     (case team of None \<Rightarrow> True | Some tid \<Rightarrow> \<exists>t\<in>set (teams s). tm_ID t = tid \<and> tm_OrganizationID t = org,
      foreign_key_violation ''projects_team_fkey'')"

definition CreateProject :: "uuid \<Rightarrow> project_fields \<Rightarrow> uuid \<Rightarrow> Project io" where
  "CreateProject org f created_by = db_write (\<lambda>w.
     let s = st w;
         p = \<lparr>pr_ID = fresh w, pr_OrganizationID = org, pr_TeamID = jf_TeamID f, pr_Name = jf_Name f,
              pr_Description = jf_Description f, pr_Status = jf_Status f, pr_Priority = jf_Priority f,
              pr_StartDate = jf_StartDate f, pr_DueDate = jf_DueDate f, pr_CreatedBy = created_by,
              pr_CreatedAt = clock w, pr_UpdatedAt = clock w\<rparr>
     in guards
          ((rls w org, rls_violation) # project_row_checks f @
           [(\<exists>x\<in>set (organizations s). o_ID x = org, foreign_key_violation ''projects_organization_id_fkey''),
            (\<exists>x\<in>set (users s). u_ID x = created_by, foreign_key_violation ''projects_created_by_fkey''),
            project_team_check s org (jf_TeamID f)])
          (Inr (p, s\<lparr>projects := projects s @ [p]\<rparr>, Suc (fresh w))))"

definition GetProject :: "uuid \<Rightarrow> uuid \<Rightarrow> Project io" where
  "GetProject pid org = db_read (\<lambda>w.
     one_row (\<lambda>p. rls w (pr_OrganizationID p) \<and> pr_ID p = pid \<and> pr_OrganizationID p = org) (projects (st w)))"

definition GetProjectForUpdate :: "uuid \<Rightarrow> uuid \<Rightarrow> Project io" where
  "GetProjectForUpdate pid org = db_read (\<lambda>w.
     one_row (\<lambda>p. rls w (pr_OrganizationID p) \<and> pr_ID p = pid \<and> pr_OrganizationID p = org) (projects (st w)))"

definition is_or_any :: "'a option \<Rightarrow> 'a \<Rightarrow> bool" where
  "is_or_any wanted x = (case wanted of None \<Rightarrow> True | Some y \<Rightarrow> x = y)"

definition project_selected :: "world \<Rightarrow> uuid \<Rightarrow> ProjectFilter \<Rightarrow> Project \<Rightarrow> bool" where
  "project_selected w org flt p \<longleftrightarrow>
     rls w (pr_OrganizationID p) \<and> pr_OrganizationID p = org \<and> is_or_any (pf_Status flt) (pr_Status p) \<and>
     is_or_any (pf_Priority flt) (pr_Priority p) \<and>
     (case pf_TeamID flt of None \<Rightarrow> True | Some tid \<Rightarrow> pr_TeamID p = Some tid)"

definition CountProjects :: "uuid \<Rightarrow> ProjectFilter \<Rightarrow> int io" where
  "CountProjects org flt = db_read (\<lambda>w. Inr (int (length (filter (project_selected w org flt) (projects (st w))))))"

text \<open>\<open>array_position\<close>: the index of a value in a list of texts; the values stored are in the list.\<close>

fun array_position :: "string list \<Rightarrow> string \<Rightarrow> nat" where
  "array_position [] x = 0"
| "array_position (y # ys) x = (if x = y then 0 else Suc (array_position ys x))"

text \<open>A nullable date with \<open>NULLS LAST\<close>: the dated rows in the chosen direction, then the others.\<close>

definition order_by_date :: "bool \<Rightarrow> ('r \<Rightarrow> date option) \<Rightarrow> 'r list \<Rightarrow> 'r list" where
  "order_by_date desc due rows =
     order_by desc (\<lambda>r. the (due r)) (filter (\<lambda>r. due r \<noteq> None) rows) @ filter (\<lambda>r. due r = None) rows"

definition project_order :: "env \<Rightarrow> string \<Rightarrow> bool \<Rightarrow> Project list \<Rightarrow> Project list" where
  "project_order e sort_by desc rows =
     (let by_id = sort_key pr_ID rows in
      if sort_by = ''name'' then order_by desc (\<lambda>p. collate e (pr_Name p)) by_id
      else if sort_by = ''created_at'' then order_by desc pr_CreatedAt by_id
      else if sort_by = ''updated_at'' then order_by desc pr_UpdatedAt by_id
      else if sort_by = ''due_date'' then order_by_date desc pr_DueDate by_id
      else if sort_by = ''priority'' then order_by desc (\<lambda>p. array_position priorities (pr_Priority p)) by_id
      else by_id)"

definition ListProjects :: "env \<Rightarrow> uuid \<Rightarrow> ProjectFilter \<Rightarrow> string \<Rightarrow> bool \<Rightarrow> int \<Rightarrow> int \<Rightarrow> Project list io" where
  "ListProjects e org flt sort_by desc page_limit page_offset = db_read (\<lambda>w.
     page_rows page_limit page_offset
       (project_order e sort_by desc (filter (project_selected w org flt) (projects (st w)))))"

definition UpdateProject :: "uuid \<Rightarrow> uuid \<Rightarrow> project_fields \<Rightarrow> Project io" where
  "UpdateProject pid org f = db_write (\<lambda>w.
     let s = st w;
         hit = (\<lambda>p. rls w (pr_OrganizationID p) \<and> pr_ID p = pid \<and> pr_OrganizationID p = org);
         new = (\<lambda>p. p\<lparr>pr_TeamID := jf_TeamID f, pr_Name := jf_Name f, pr_Description := jf_Description f,
                      pr_Status := jf_Status f, pr_Priority := jf_Priority f, pr_StartDate := jf_StartDate f,
                      pr_DueDate := jf_DueDate f, pr_UpdatedAt := clock w\<rparr>)
     in (case one_row hit (projects s) of
           Inl e \<Rightarrow> Inl e
         | Inr p \<Rightarrow>
             guards (project_row_checks f @ [project_team_check s org (jf_TeamID f)])
               (Inr (new p, s\<lparr>projects := update_where hit new (projects s)\<rparr>, fresh w))))"

text \<open>A deleted project takes its tasks along.\<close>

definition DeleteProject :: "uuid \<Rightarrow> uuid \<Rightarrow> unit io" where
  "DeleteProject pid org = db_write (\<lambda>w.
     let s = st w;
         hit = (\<lambda>p. rls w (pr_OrganizationID p) \<and> pr_ID p = pid \<and> pr_OrganizationID p = org)
     in if \<not> (\<exists>p\<in>set (projects s). hit p) then Inr ((), s, fresh w)
        else Inr ((), s\<lparr>projects := filter (\<lambda>p. \<not> hit p) (projects s),
               tasks := filter (\<lambda>t. \<not> (tk_ProjectID t = pid \<and> tk_OrganizationID t = org)) (tasks s)\<rparr>, fresh w))"

section \<open>The service\<close>

definition projectNotFound :: "err option \<Rightarrow> err" where
  "projectNotFound cause = NewAPIError 404 ''PROJECT_NOT_FOUND'' ''Project not found'' cause"

definition invalidTeam :: "err option \<Rightarrow> err" where
  "invalidTeam cause = NewAPIError 422 ''INVALID_TEAM'' ''Team not found in this organization'' cause"

definition ensureTeam :: "uuid \<Rightarrow> uuid option \<Rightarrow> unit io" where
  "ensureTeam orgID teamID =
     (case teamID of
        None \<Rightarrow> io_return ()
      | Some tid \<Rightarrow> io_try (GetTeam tid orgID) (no_rows_as invalidTeam) (\<lambda>_. io_return ()))"

definition projectWriteError :: "err \<Rightarrow> err" where
  "projectWriteError e =
     (case errors_As_pg e of
        Some (code, constraint) \<Rightarrow>
          if code = ''23503'' \<and> constraint = ''projects_team_fkey'' then invalidTeam (Some e) else e
      | None \<Rightarrow> e)"

definition getProjectForUpdate :: "uuid \<Rightarrow> uuid \<Rightarrow> Project io" where
  "getProjectForUpdate orgID projectID = io_try (GetProjectForUpdate projectID orgID) (no_rows_as projectNotFound) io_return"

definition ListProjectsOf ::
  "env \<Rightarrow> uuid \<Rightarrow> uuid \<Rightarrow> ProjectFilter \<Rightarrow> PageRequest \<Rightarrow> (ProjectDTO list \<times> Pagination) io" where
  "ListProjectsOf e userID orgID flt page =
     io_try (Authorize userID orgID ProjectsRead) id (\<lambda>_.
     let sortBy = (if pf_Sort flt \<in> set project_sortableFields then pf_Sort flt else ''created_at'') in
     io_try (WithTenantTx orgID
         (io_try (CountProjects orgID flt) id (\<lambda>count.
          io_try (ListProjects e orgID flt sortBy (pf_Desc flt) (Limit page) (Offset page)) id (\<lambda>rows.
          io_return (count, rows)))))
       (wrap ''list projects'') (\<lambda>(count, rows).
     io_return (map project_toDTO rows, NewPagination page count)))"

definition GetProjectOf :: "uuid \<Rightarrow> uuid \<Rightarrow> uuid \<Rightarrow> ProjectDTO io" where
  "GetProjectOf userID orgID projectID =
     io_try (Authorize userID orgID ProjectsRead) id (\<lambda>_.
     io_try (WithTenantTx orgID (io_try (GetProject projectID orgID) (no_rows_as projectNotFound) io_return))
       (wrap ''get project'') (\<lambda>project.
     io_return (project_toDTO project)))"

definition project_entry :: "uuid \<Rightarrow> uuid \<Rightarrow> string \<Rightarrow> uuid \<Rightarrow> metadata \<Rightarrow> ActivityEntry" where
  "project_entry orgID userID action projectID md =
     \<lparr>ae_OrganizationID = orgID, ae_ActorUserID = Some userID, ae_Action = action, ae_ResourceType = ResourceProject,
      ae_ResourceID = projectID, ae_Metadata = md\<rparr>"

definition create_project_tx :: "env \<Rightarrow> uuid \<Rightarrow> uuid \<Rightarrow> project_fields \<Rightarrow> Project io" where
  "create_project_tx e userID orgID f =
     io_try (ensureTeam orgID (jf_TeamID f)) id (\<lambda>_.
     io_try (CreateProject orgID (f\<lparr>jf_StartDate := TimeFromDate (jf_StartDate f), jf_DueDate := TimeFromDate (jf_DueDate f)\<rparr>) userID)
       projectWriteError (\<lambda>project.
     io_try (RecordActivity e (project_entry orgID userID ProjectCreated (pr_ID project) [(''name'', JString (pr_Name project))])) id (\<lambda>_.
     io_return project)))"

definition CreateProjectIn :: "env \<Rightarrow> uuid \<Rightarrow> uuid \<Rightarrow> ProjectInput \<Rightarrow> ProjectDTO io" where
  "CreateProjectIn e userID orgID inp =
     io_try (Authorize userID orgID ProjectsCreate) id (\<lambda>_.
     let f = input_project_fields inp in
     case validate_project f of
       Some er \<Rightarrow> io_throw er
     | None \<Rightarrow>
         io_try (WithTenantTx orgID (create_project_tx e userID orgID f)) (wrap ''create project'') (\<lambda>project.
         io_return (project_toDTO project)))"

definition status_change :: "string \<Rightarrow> string \<Rightarrow> metadata" where
  "status_change old new = (if old \<noteq> new then [(''status'', JObject [(''from'', JString old), (''to'', JString new)])] else [])"

definition update_project_tx :: "env \<Rightarrow> uuid \<Rightarrow> uuid \<Rightarrow> uuid \<Rightarrow> ProjectPatch \<Rightarrow> Project io" where
  "update_project_tx e userID orgID projectID inp =
     io_try (getProjectForUpdate orgID projectID) id (\<lambda>current.
     let (nxt, changed) = apply_project inp (fieldsFromProject current) in
     case validate_project nxt of
       Some er \<Rightarrow> io_throw er
     | None \<Rightarrow>
         if length changed = 0 then io_return current
         else
           io_try (if op_Set (pp_TeamID inp) then ensureTeam orgID (jf_TeamID nxt) else io_return ()) id (\<lambda>_.
           io_try (UpdateProject projectID orgID
               (nxt\<lparr>jf_StartDate := TimeFromDate (jf_StartDate nxt), jf_DueDate := TimeFromDate (jf_DueDate nxt)\<rparr>))
             projectWriteError (\<lambda>project.
           io_try (RecordActivity e (project_entry orgID userID ProjectUpdated (pr_ID project)
               ([(''changes'', JStrings changed), (''name'', JString (pr_Name project))] @
                status_change (pr_Status current) (pr_Status project)))) id (\<lambda>_.
           io_return project))))"

definition UpdateProjectOf :: "env \<Rightarrow> uuid \<Rightarrow> uuid \<Rightarrow> uuid \<Rightarrow> ProjectPatch \<Rightarrow> ProjectDTO io" where
  "UpdateProjectOf e userID orgID projectID inp =
     io_try (Authorize userID orgID ProjectsUpdate) id (\<lambda>_.
     io_try (WithTenantTx orgID (update_project_tx e userID orgID projectID inp)) (wrap ''update project'') (\<lambda>project.
     io_return (project_toDTO project)))"

definition delete_project_tx :: "env \<Rightarrow> uuid \<Rightarrow> uuid \<Rightarrow> uuid \<Rightarrow> unit io" where
  "delete_project_tx e userID orgID projectID =
     io_try (getProjectForUpdate orgID projectID) id (\<lambda>current.
     io_try (DeleteProject projectID orgID) id (\<lambda>_.
     RecordActivity e (project_entry orgID userID ProjectDeleted projectID [(''name'', JString (pr_Name current))])))"

definition DeleteProjectOf :: "env \<Rightarrow> uuid \<Rightarrow> uuid \<Rightarrow> uuid \<Rightarrow> unit io" where
  "DeleteProjectOf e userID orgID projectID =
     io_try (Authorize userID orgID ProjectsDelete) id (\<lambda>_.
     io_try (WithTenantTx orgID (delete_project_tx e userID orgID projectID)) (wrap ''delete project'') io_return)"

definition ListProjectActivity :: "uuid \<Rightarrow> uuid \<Rightarrow> uuid \<Rightarrow> PageRequest \<Rightarrow> (ActivityDTO list \<times> Pagination) io" where
  "ListProjectActivity userID orgID projectID page =
     io_try (Authorize userID orgID ProjectsRead) id (\<lambda>_.
     io_try (WithTenantTx orgID
         (io_try (GetProject projectID orgID) (no_rows_as projectNotFound) (\<lambda>_.
          activity_page orgID ResourceProject projectID page)))
       (wrap ''list project activity'') (\<lambda>(count, rows).
     io_return (map activity_ToDTO rows, NewPagination page count)))"

end
