(* ===== verification/Tasks.thy ===== *)
theory Tasks
  imports Projects
begin

text \<open>
  Tasks: \<open>internal/tasks/\<close> (model and service) and the statements of \<open>internal/db/tasks.sql.go\<close> over the
  table of migration 14. A task belongs to a project of its organization and is assigned to a member of
  the organization or to nobody; a change and its entry in the activity trail are one transaction.
\<close>

section \<open>Model\<close>

definition task_statuses :: "string list" where
  "task_statuses = [''todo'', ''in_progress'', ''blocked'', ''in_review'', ''done'', ''cancelled'']"
definition task_sortableFields :: "string list" where
  "task_sortableFields = [''created_at'', ''updated_at'', ''title'', ''due_date'', ''priority'', ''status'']"

record TaskInput =
  ti_Title :: string
  ti_Description :: "string option"
  ti_Status :: string
  ti_Priority :: string
  ti_AssigneeID :: "uuid option"
  ti_DueDate :: "date option"

record TaskPatch =
  tp_Title :: "string option"
  tp_Description :: "string Optional"
  tp_Status :: "string option"
  tp_Priority :: "string option"
  tp_AssigneeID :: "uuid Optional"
  tp_DueDate :: "date Optional"

record TaskFilter =
  tf_ProjectID :: "uuid option"
  tf_Status :: "string option"
  tf_Priority :: "string option"
  tf_AssigneeID :: "uuid option"
  tf_Unassigned :: bool
  tf_Sort :: string
  tf_Desc :: bool

record TaskDTO =
  tkd_ID :: uuid
  tkd_OrganizationID :: uuid
  tkd_ProjectID :: uuid
  tkd_Title :: string
  tkd_Description :: "string option"
  tkd_Status :: string
  tkd_Priority :: string
  tkd_AssigneeID :: "uuid option"
  tkd_DueDate :: "date option"
  tkd_CreatedBy :: uuid
  tkd_CreatedAt :: time
  tkd_UpdatedAt :: time

record task_fields =
  kf_Title :: string
  kf_Description :: "string option"
  kf_Status :: string
  kf_Priority :: string
  kf_AssigneeID :: "uuid option"
  kf_DueDate :: "date option"

definition input_task_fields :: "TaskInput \<Rightarrow> task_fields" where
  "input_task_fields inp =
     \<lparr>kf_Title = TrimSpace (ti_Title inp), kf_Description = NormalizeOptionalText (ti_Description inp),
      kf_Status = (if ti_Status inp = [] then ''todo'' else ti_Status inp),
      kf_Priority = (if ti_Priority inp = [] then ''medium'' else ti_Priority inp),
      kf_AssigneeID = ti_AssigneeID inp, kf_DueDate = ti_DueDate inp\<rparr>"

definition apply_task :: "TaskPatch \<Rightarrow> task_fields \<Rightarrow> task_fields \<times> string list" where
  "apply_task inp current =
     (let (n1, c1) = (case tp_Title inp of
                        None \<Rightarrow> (current, [])
                      | Some title \<Rightarrow>
                          let v = TrimSpace title
                          in (current\<lparr>kf_Title := v\<rparr>, changed_if (v \<noteq> kf_Title current) ''title''));
          (n2, c2) = (if op_Set (tp_Description inp) then
                        let v = NormalizeOptionalText (op_Value (tp_Description inp))
                        in (n1\<lparr>kf_Description := v\<rparr>, changed_if (\<not> EqualPtr v (kf_Description current) (=)) ''description'')
                      else (n1, []));
          (n3, c3) = (case tp_Status inp of
                        None \<Rightarrow> (n2, [])
                      | Some v \<Rightarrow> (n2\<lparr>kf_Status := v\<rparr>, changed_if (v \<noteq> kf_Status current) ''status''));
          (n4, c4) = (case tp_Priority inp of
                        None \<Rightarrow> (n3, [])
                      | Some v \<Rightarrow> (n3\<lparr>kf_Priority := v\<rparr>, changed_if (v \<noteq> kf_Priority current) ''priority''));
          (n5, c5) = (if op_Set (tp_AssigneeID inp) then
                        let v = op_Value (tp_AssigneeID inp)
                        in (n4\<lparr>kf_AssigneeID := v\<rparr>, changed_if (\<not> EqualPtr v (kf_AssigneeID current) (=)) ''assignee_id'')
                      else (n4, []));
          (n6, c6) = (if op_Set (tp_DueDate inp) then
                        let v = op_Value (tp_DueDate inp)
                        in (n5\<lparr>kf_DueDate := v\<rparr>, changed_if (\<not> EqualPtr v (kf_DueDate current) EqualDate) ''due_date'')
                      else (n5, []))
      in (n6, c1 @ c2 @ c3 @ c4 @ c5 @ c6))"

definition task_checks :: "task_fields \<Rightarrow> validator" where
  "task_checks f =
     Check (kf_Priority f \<in> set priorities) ''priority'' ''must be one of low, medium, high, urgent''
    (Check (kf_Status f \<in> set task_statuses) ''status''
       ''must be one of todo, in_progress, blocked, in_review, done, cancelled''
    (max_len_opt ''description'' (kf_Description f) 5000
    (MaxLen ''title'' (kf_Title f) 200
    (Required ''title'' (kf_Title f) New))))"

definition validate_task :: "task_fields \<Rightarrow> err option" where
  "validate_task f = Err (task_checks f)"

definition fieldsFromTask :: "Task \<Rightarrow> task_fields" where
  "fieldsFromTask t =
     \<lparr>kf_Title = tk_Title t, kf_Description = tk_Description t, kf_Status = tk_Status t, kf_Priority = tk_Priority t,
      kf_AssigneeID = tk_AssigneeID t, kf_DueDate = DateFromTime (tk_DueDate t)\<rparr>"

definition task_toDTO :: "Task \<Rightarrow> TaskDTO" where
  "task_toDTO t =
     \<lparr>tkd_ID = tk_ID t, tkd_OrganizationID = tk_OrganizationID t, tkd_ProjectID = tk_ProjectID t, tkd_Title = tk_Title t,
      tkd_Description = tk_Description t, tkd_Status = tk_Status t, tkd_Priority = tk_Priority t,
      tkd_AssigneeID = tk_AssigneeID t, tkd_DueDate = DateFromTime (tk_DueDate t), tkd_CreatedBy = tk_CreatedBy t,
      tkd_CreatedAt = tk_CreatedAt t, tkd_UpdatedAt = tk_UpdatedAt t\<rparr>"

section \<open>Statements\<close>

definition task_row_checks :: "task_fields \<Rightarrow> (bool \<times> err) list" where
  "task_row_checks f =
     [(case kf_Description f of None \<Rightarrow> True | Some d \<Rightarrow> char_length d \<le> 5000, check_violation ''tasks_description_check''),
      (kf_Priority f \<in> set priorities, check_violation ''tasks_priority_check''),
      (kf_Status f \<in> set task_statuses, check_violation ''tasks_status_check''),
      (not_blank (kf_Title f) \<and> char_length (kf_Title f) \<le> 200, check_violation ''tasks_title_check'')]"

definition task_assignee_check :: "store \<Rightarrow> uuid \<Rightarrow> uuid option \<Rightarrow> bool \<times> err" where
  "task_assignee_check s org assignee =
     (case assignee of
        None \<Rightarrow> True
      | Some uid \<Rightarrow> \<exists>m\<in>set (memberships s). m_UserID m = uid \<and> m_OrganizationID m = org,
      foreign_key_violation ''tasks_assignee_fkey'')"

definition CreateTask :: "uuid \<Rightarrow> uuid \<Rightarrow> task_fields \<Rightarrow> uuid \<Rightarrow> Task io" where
  "CreateTask org pid f created_by = db_write (\<lambda>w.
     let s = st w;
         t = \<lparr>tk_ID = fresh w, tk_OrganizationID = org, tk_ProjectID = pid, tk_Title = kf_Title f,
              tk_Description = kf_Description f, tk_Status = kf_Status f, tk_Priority = kf_Priority f,
              tk_AssigneeID = kf_AssigneeID f, tk_DueDate = kf_DueDate f, tk_CreatedBy = created_by,
              tk_CreatedAt = clock w, tk_UpdatedAt = clock w\<rparr>
     in guards
          ((rls w org, rls_violation) # task_row_checks f @
           [(\<exists>x\<in>set (organizations s). o_ID x = org, foreign_key_violation ''tasks_organization_id_fkey''),
            (\<exists>x\<in>set (users s). u_ID x = created_by, foreign_key_violation ''tasks_created_by_fkey''),
            (\<exists>x\<in>set (projects s). pr_ID x = pid \<and> pr_OrganizationID x = org, foreign_key_violation ''tasks_project_fkey''),
            task_assignee_check s org (kf_AssigneeID f)])
          (Inr (t, s\<lparr>tasks := tasks s @ [t]\<rparr>, Suc (fresh w))))"

definition GetTask :: "uuid \<Rightarrow> uuid \<Rightarrow> Task io" where
  "GetTask tid org = db_read (\<lambda>w.
     one_row (\<lambda>t. rls w (tk_OrganizationID t) \<and> tk_ID t = tid \<and> tk_OrganizationID t = org) (tasks (st w)))"

definition GetTaskForUpdate :: "uuid \<Rightarrow> uuid \<Rightarrow> Task io" where
  "GetTaskForUpdate tid org = db_read (\<lambda>w.
     one_row (\<lambda>t. rls w (tk_OrganizationID t) \<and> tk_ID t = tid \<and> tk_OrganizationID t = org) (tasks (st w)))"

definition task_selected :: "world \<Rightarrow> uuid \<Rightarrow> TaskFilter \<Rightarrow> Task \<Rightarrow> bool" where
  "task_selected w org flt t \<longleftrightarrow>
     rls w (tk_OrganizationID t) \<and> tk_OrganizationID t = org \<and> is_or_any (tf_ProjectID flt) (tk_ProjectID t) \<and>
     is_or_any (tf_Status flt) (tk_Status t) \<and> is_or_any (tf_Priority flt) (tk_Priority t) \<and>
     (case tf_AssigneeID flt of
        Some uid \<Rightarrow> tk_AssigneeID t = Some uid
      | None \<Rightarrow> tf_Unassigned flt \<and> tk_AssigneeID t = None \<or> \<not> tf_Unassigned flt)"

definition CountTasks :: "uuid \<Rightarrow> TaskFilter \<Rightarrow> int io" where
  "CountTasks org flt = db_read (\<lambda>w. Inr (int (length (filter (task_selected w org flt) (tasks (st w))))))"

definition task_order :: "env \<Rightarrow> string \<Rightarrow> bool \<Rightarrow> Task list \<Rightarrow> Task list" where
  "task_order e sort_by desc rows =
     (let by_id = sort_key tk_ID rows in
      if sort_by = ''title'' then order_by desc (\<lambda>t. collate e (tk_Title t)) by_id
      else if sort_by = ''created_at'' then order_by desc tk_CreatedAt by_id
      else if sort_by = ''updated_at'' then order_by desc tk_UpdatedAt by_id
      else if sort_by = ''due_date'' then order_by_date desc tk_DueDate by_id
      else if sort_by = ''priority'' then order_by desc (\<lambda>t. array_position priorities (tk_Priority t)) by_id
      else if sort_by = ''status'' then order_by desc (\<lambda>t. array_position task_statuses (tk_Status t)) by_id
      else by_id)"

definition ListTasks :: "env \<Rightarrow> uuid \<Rightarrow> TaskFilter \<Rightarrow> string \<Rightarrow> bool \<Rightarrow> int \<Rightarrow> int \<Rightarrow> Task list io" where
  "ListTasks e org flt sort_by desc page_limit page_offset = db_read (\<lambda>w.
     page_rows page_limit page_offset
       (task_order e sort_by desc (filter (task_selected w org flt) (tasks (st w)))))"

definition UpdateTask :: "uuid \<Rightarrow> uuid \<Rightarrow> task_fields \<Rightarrow> Task io" where
  "UpdateTask tid org f = db_write (\<lambda>w.
     let s = st w;
         hit = (\<lambda>t. rls w (tk_OrganizationID t) \<and> tk_ID t = tid \<and> tk_OrganizationID t = org);
         new = (\<lambda>t. t\<lparr>tk_Title := kf_Title f, tk_Description := kf_Description f, tk_Status := kf_Status f,
                      tk_Priority := kf_Priority f, tk_AssigneeID := kf_AssigneeID f, tk_DueDate := kf_DueDate f,
                      tk_UpdatedAt := clock w\<rparr>)
     in (case one_row hit (tasks s) of
           Inl e \<Rightarrow> Inl e
         | Inr t \<Rightarrow>
             guards (task_row_checks f @ [task_assignee_check s org (kf_AssigneeID f)])
               (Inr (new t, s\<lparr>tasks := update_where hit new (tasks s)\<rparr>, fresh w))))"

definition DeleteTask :: "uuid \<Rightarrow> uuid \<Rightarrow> unit io" where
  "DeleteTask tid org = db_write (\<lambda>w.
     let s = st w in
       Inr ((), s\<lparr>tasks := filter (\<lambda>t. \<not> (rls w (tk_OrganizationID t) \<and> tk_ID t = tid \<and> tk_OrganizationID t = org)) (tasks s)\<rparr>,
            fresh w))"

section \<open>The service\<close>

definition taskNotFound :: "err option \<Rightarrow> err" where
  "taskNotFound cause = NewAPIError 404 ''TASK_NOT_FOUND'' ''Task not found'' cause"

definition task_projectNotFound :: "err option \<Rightarrow> err" where
  "task_projectNotFound cause = NewAPIError 404 ''PROJECT_NOT_FOUND'' ''Project not found in this organization'' cause"

definition invalidAssignee :: "err option \<Rightarrow> err" where
  "invalidAssignee cause =
     NewAPIError 422 ''INVALID_ASSIGNEE'' ''Assignee must be an active member of this organization'' cause"

definition ensureProject :: "uuid \<Rightarrow> uuid \<Rightarrow> unit io" where
  "ensureProject orgID projectID = io_try (GetProject projectID orgID) (no_rows_as task_projectNotFound) (\<lambda>_. io_return ())"

text \<open>As for teams, every error of the lookup leaves the zero membership, whose status is not active.\<close>

definition ensureAssignee :: "uuid \<Rightarrow> uuid option \<Rightarrow> unit io" where
  "ensureAssignee orgID assigneeID =
     (case assigneeID of
        None \<Rightarrow> io_return ()
      | Some uid \<Rightarrow>
          io_try (GetMembership orgID uid) (\<lambda>e. invalidAssignee (Some e)) (\<lambda>membership.
          if m_Status membership \<noteq> ''active'' then io_throw (invalidAssignee None) else io_return ()))"

definition taskWriteError :: "err \<Rightarrow> err" where
  "taskWriteError e =
     (case errors_As_pg e of
        None \<Rightarrow> e
      | Some (code, constraint) \<Rightarrow>
          if code = ''23503'' \<and> constraint = ''tasks_project_fkey'' then task_projectNotFound (Some e)
          else if code = ''23503'' \<and> constraint = ''tasks_assignee_fkey'' then invalidAssignee (Some e)
          else e)"

definition getTaskForUpdate :: "uuid \<Rightarrow> uuid \<Rightarrow> Task io" where
  "getTaskForUpdate orgID taskID = io_try (GetTaskForUpdate taskID orgID) (no_rows_as taskNotFound) io_return"

definition list_tasks ::
  "env \<Rightarrow> uuid \<Rightarrow> uuid \<Rightarrow> TaskFilter \<Rightarrow> PageRequest \<Rightarrow> (TaskDTO list \<times> Pagination) io" where
  "list_tasks e userID orgID flt page =
     io_try (Authorize userID orgID TasksRead) id (\<lambda>_.
     let sortBy = (if tf_Sort flt \<in> set task_sortableFields then tf_Sort flt else ''created_at'') in
     io_try (WithTenantTx orgID
         (io_try (case tf_ProjectID flt of None \<Rightarrow> io_return () | Some pid \<Rightarrow> ensureProject orgID pid) id (\<lambda>_.
          io_try (CountTasks orgID flt) id (\<lambda>count.
          io_try (ListTasks e orgID flt sortBy (tf_Desc flt) (Limit page) (Offset page)) id (\<lambda>rows.
          io_return (count, rows))))))
       (wrap ''list tasks'') (\<lambda>(count, rows).
     io_return (map task_toDTO rows, NewPagination page count)))"

definition ListTasksOf ::
  "env \<Rightarrow> uuid \<Rightarrow> uuid \<Rightarrow> TaskFilter \<Rightarrow> PageRequest \<Rightarrow> (TaskDTO list \<times> Pagination) io" where
  "ListTasksOf e userID orgID flt page = list_tasks e userID orgID flt page"

definition ListByProject ::
  "env \<Rightarrow> uuid \<Rightarrow> uuid \<Rightarrow> uuid \<Rightarrow> TaskFilter \<Rightarrow> PageRequest \<Rightarrow> (TaskDTO list \<times> Pagination) io" where
  "ListByProject e userID orgID projectID flt page =
     list_tasks e userID orgID (flt\<lparr>tf_ProjectID := Some projectID\<rparr>) page"

definition GetTaskOf :: "uuid \<Rightarrow> uuid \<Rightarrow> uuid \<Rightarrow> TaskDTO io" where
  "GetTaskOf userID orgID taskID =
     io_try (Authorize userID orgID TasksRead) id (\<lambda>_.
     io_try (WithTenantTx orgID (io_try (GetTask taskID orgID) (no_rows_as taskNotFound) io_return))
       (wrap ''get task'') (\<lambda>task.
     io_return (task_toDTO task)))"

definition task_entry :: "uuid \<Rightarrow> uuid \<Rightarrow> string \<Rightarrow> uuid \<Rightarrow> metadata \<Rightarrow> ActivityEntry" where
  "task_entry orgID userID action taskID md =
     \<lparr>ae_OrganizationID = orgID, ae_ActorUserID = Some userID, ae_Action = action, ae_ResourceType = ResourceTask,
      ae_ResourceID = taskID, ae_Metadata = md\<rparr>"

definition json_id :: "env \<Rightarrow> uuid option \<Rightarrow> json" where
  "json_id e i = (case i of None \<Rightarrow> JNull | Some x \<Rightarrow> JString (uuid_string e x))"

definition create_task_tx :: "env \<Rightarrow> uuid \<Rightarrow> uuid \<Rightarrow> uuid \<Rightarrow> task_fields \<Rightarrow> Task io" where
  "create_task_tx e userID orgID projectID f =
     io_try (ensureProject orgID projectID) id (\<lambda>_.
     io_try (ensureAssignee orgID (kf_AssigneeID f)) id (\<lambda>_.
     io_try (CreateTask orgID projectID (f\<lparr>kf_DueDate := TimeFromDate (kf_DueDate f)\<rparr>) userID) taskWriteError (\<lambda>task.
     io_try (RecordActivity e (task_entry orgID userID TaskCreated (tk_ID task)
         ((case tk_AssigneeID task of None \<Rightarrow> [] | Some uid \<Rightarrow> [(''assignee_id'', JString (uuid_string e uid))]) @
          [(''project_id'', JString (uuid_string e projectID)), (''title'', JString (tk_Title task))]))) id (\<lambda>_.
     io_return task))))"

definition CreateTaskIn :: "env \<Rightarrow> uuid \<Rightarrow> uuid \<Rightarrow> uuid \<Rightarrow> TaskInput \<Rightarrow> TaskDTO io" where
  "CreateTaskIn e userID orgID projectID inp =
     io_try (Authorize userID orgID TasksCreate) id (\<lambda>_.
     let f = input_task_fields inp in
     case validate_task f of
       Some er \<Rightarrow> io_throw er
     | None \<Rightarrow>
         io_try (WithTenantTx orgID (create_task_tx e userID orgID projectID f)) (wrap ''create task'') (\<lambda>task.
         io_return (task_toDTO task)))"

definition assignee_change :: "env \<Rightarrow> uuid option \<Rightarrow> uuid option \<Rightarrow> metadata" where
  "assignee_change e old new =
     (if \<not> EqualPtr old new (=) then [(''assignee'', JObject [(''from'', json_id e old), (''to'', json_id e new)])] else [])"

definition update_task_tx :: "env \<Rightarrow> uuid \<Rightarrow> uuid \<Rightarrow> uuid \<Rightarrow> TaskPatch \<Rightarrow> Task io" where
  "update_task_tx e userID orgID taskID inp =
     io_try (getTaskForUpdate orgID taskID) id (\<lambda>current.
     let (nxt, changed) = apply_task inp (fieldsFromTask current) in
     case validate_task nxt of
       Some er \<Rightarrow> io_throw er
     | None \<Rightarrow>
         if length changed = 0 then io_return current
         else
           io_try (if op_Set (tp_AssigneeID inp) then ensureAssignee orgID (kf_AssigneeID nxt) else io_return ()) id (\<lambda>_.
           io_try (UpdateTask taskID orgID (nxt\<lparr>kf_DueDate := TimeFromDate (kf_DueDate nxt)\<rparr>)) taskWriteError (\<lambda>task.
           io_try (RecordActivity e (task_entry orgID userID TaskUpdated (tk_ID task)
               (assignee_change e (tk_AssigneeID current) (tk_AssigneeID task) @
                [(''changes'', JStrings changed)] @ status_change (tk_Status current) (tk_Status task) @
                [(''title'', JString (tk_Title task))]))) id (\<lambda>_.
           io_return task))))"

definition UpdateTaskOf :: "env \<Rightarrow> uuid \<Rightarrow> uuid \<Rightarrow> uuid \<Rightarrow> TaskPatch \<Rightarrow> TaskDTO io" where
  "UpdateTaskOf e userID orgID taskID inp =
     io_try (Authorize userID orgID TasksUpdate) id (\<lambda>_.
     io_try (WithTenantTx orgID (update_task_tx e userID orgID taskID inp)) (wrap ''update task'') (\<lambda>task.
     io_return (task_toDTO task)))"

definition delete_task_tx :: "env \<Rightarrow> uuid \<Rightarrow> uuid \<Rightarrow> uuid \<Rightarrow> unit io" where
  "delete_task_tx e userID orgID taskID =
     io_try (getTaskForUpdate orgID taskID) id (\<lambda>current.
     io_try (DeleteTask taskID orgID) id (\<lambda>_.
     RecordActivity e (task_entry orgID userID TaskDeleted taskID
       [(''project_id'', JString (uuid_string e (tk_ProjectID current))), (''title'', JString (tk_Title current))])))"

definition DeleteTaskOf :: "env \<Rightarrow> uuid \<Rightarrow> uuid \<Rightarrow> uuid \<Rightarrow> unit io" where
  "DeleteTaskOf e userID orgID taskID =
     io_try (Authorize userID orgID TasksDelete) id (\<lambda>_.
     io_try (WithTenantTx orgID (delete_task_tx e userID orgID taskID)) (wrap ''delete task'') io_return)"

definition ListTaskActivity :: "uuid \<Rightarrow> uuid \<Rightarrow> uuid \<Rightarrow> PageRequest \<Rightarrow> (ActivityDTO list \<times> Pagination) io" where
  "ListTaskActivity userID orgID taskID page =
     io_try (Authorize userID orgID TasksRead) id (\<lambda>_.
     io_try (WithTenantTx orgID
         (io_try (GetTask taskID orgID) (no_rows_as taskNotFound) (\<lambda>_.
          activity_page orgID ResourceTask taskID page)))
       (wrap ''list task activity'') (\<lambda>(count, rows).
     io_return (map activity_ToDTO rows, NewPagination page count)))"

end
