(* ===== verification/Product_Http.thy ===== *)
theory Product_Http
  imports Invite_Http Tasks
begin

text \<open>
  The endpoints of the product: \<open>internal/teams/handler.go\<close>, \<open>internal/projects/handler.go\<close> and
  \<open>internal/tasks/handler.go\<close>. A handler takes the user of the principal and the identifiers of the route,
  reads the page and the filters of the query or the body, and calls the service. Filters and sort keys
  are taken from fixed lists.
\<close>

section \<open>Teams\<close>

record teamRequest =
  tq_Name :: string
  tq_Description :: string

definition validateTeamRequest :: "teamRequest \<Rightarrow> err option" where
  "validateTeamRequest req =
     Err (MaxLen ''description'' (tq_Description req) 500
         (MaxLen ''name'' (tq_Name req) 100 (Required ''name'' (tq_Name req) New)))"

definition descriptionPointer :: "string \<Rightarrow> string option" where
  "descriptionPointer v = (if v = [] then None else Some v)"

definition TeamsListHandler :: "env \<Rightarrow> TeamDTO list http_handler" where
  "TeamsListHandler e r =
     with_user r (\<lambda>userID. with_param e r ''orgID'' (\<lambda>orgID.
       io_case (ListTeamsOf e userID orgID) (respond_error r) (\<lambda>found. io_return (WriteData 200 found))))"

definition TeamsGetHandler :: "env \<Rightarrow> TeamDTO http_handler" where
  "TeamsGetHandler e r =
     with_user r (\<lambda>userID. with_param e r ''orgID'' (\<lambda>orgID. with_param e r ''teamID'' (\<lambda>teamID.
       io_case (GetTeamOf userID orgID teamID) (respond_error r) (\<lambda>team. io_return (WriteData 200 team)))))"

definition TeamsCreateHandler :: "env \<Rightarrow> teamRequest body \<Rightarrow> TeamDTO http_handler" where
  "TeamsCreateHandler e b r =
     with_user r (\<lambda>userID. with_param e r ''orgID'' (\<lambda>orgID.
       decode_body r b (\<lambda>req.
         case validateTeamRequest req of
           Some er \<Rightarrow> respond_error r er
         | None \<Rightarrow>
             io_case (CreateTeamIn userID orgID (tq_Name req) (descriptionPointer (tq_Description req))) (respond_error r)
               (\<lambda>team. io_return (WriteData 201 team)))))"

definition TeamsUpdateHandler :: "env \<Rightarrow> teamRequest body \<Rightarrow> TeamDTO http_handler" where
  "TeamsUpdateHandler e b r =
     with_user r (\<lambda>userID. with_param e r ''orgID'' (\<lambda>orgID. with_param e r ''teamID'' (\<lambda>teamID.
       decode_body r b (\<lambda>req.
         case validateTeamRequest req of
           Some er \<Rightarrow> respond_error r er
         | None \<Rightarrow>
             io_case (UpdateTeamOf userID orgID teamID (tq_Name req) (descriptionPointer (tq_Description req))) (respond_error r)
               (\<lambda>team. io_return (WriteData 200 team))))))"

definition TeamsDeleteHandler :: "env \<Rightarrow> (string \<times> bool) http_handler" where
  "TeamsDeleteHandler e r =
     with_user r (\<lambda>userID. with_param e r ''orgID'' (\<lambda>orgID. with_param e r ''teamID'' (\<lambda>teamID.
       io_case (DeleteTeamOf userID orgID teamID) (respond_error r) (\<lambda>_. io_return (WriteData 200 (''deleted'', True))))))"

definition TeamMembersListHandler :: "env \<Rightarrow> TeamMemberDTO list http_handler" where
  "TeamMembersListHandler e r =
     with_user r (\<lambda>userID. with_param e r ''orgID'' (\<lambda>orgID. with_param e r ''teamID'' (\<lambda>teamID.
       io_case (ListTeamMembersOf e userID orgID teamID) (respond_error r) (\<lambda>members. io_return (WriteData 200 members)))))"

definition TeamMembersAddHandler :: "env \<Rightarrow> uuid body \<Rightarrow> TeamMemberDTO http_handler" where
  "TeamMembersAddHandler e b r =
     with_user r (\<lambda>userID. with_param e r ''orgID'' (\<lambda>orgID. with_param e r ''teamID'' (\<lambda>teamID.
       decode_body r b (\<lambda>memberID.
         if memberID = uuid_Nil then respond_error r (NewValidationError [(''user_id'', ''is required'')])
         else io_case (AddMemberTo userID orgID teamID memberID) (respond_error r)
                (\<lambda>member. io_return (WriteData 201 member))))))"

definition TeamMembersRemoveHandler :: "env \<Rightarrow> (string \<times> bool) http_handler" where
  "TeamMembersRemoveHandler e r =
     with_user r (\<lambda>userID. with_param e r ''orgID'' (\<lambda>orgID. with_param e r ''teamID'' (\<lambda>teamID.
     with_param e r ''teamMemberID'' (\<lambda>memberID.
       io_case (RemoveMemberFrom userID orgID teamID memberID) (respond_error r)
         (\<lambda>_. io_return (WriteData 200 (''deleted'', True)))))))"

section \<open>Filters\<close>

text \<open>One query parameter: absent, read, or reported under its name.\<close>

definition query_value :: "url_values \<Rightarrow> string \<Rightarrow> (string \<Rightarrow> 'a option) \<Rightarrow> string \<Rightarrow> 'a option \<times> details" where
  "query_value vs name parse msg =
     (let raw = values_Get vs name in
      if raw = [] then (None, [])
      else (case parse raw of Some x \<Rightarrow> (Some x, []) | None \<Rightarrow> (None, [(name, msg)])))"

definition one_of :: "string list \<Rightarrow> string \<Rightarrow> string option" where
  "one_of allowed x = (if x \<in> set allowed then Some x else None)"

definition projects_parseListFilter :: "env \<Rightarrow> url_values \<Rightarrow> err + ProjectFilter" where
  "projects_parseListFilter e vs =
     (let (f1, e1) = query_value vs ''status'' (one_of project_statuses)
                       ''must be one of planning, active, on_hold, completed, archived'';
          (f2, e2) = query_value vs ''priority'' (one_of priorities) ''must be one of low, medium, high, urgent'';
          (f3, e3) = query_value vs ''team_id'' (uuid_Parse e) ''must be a valid UUID'';
          (f4, e4) = query_value vs ''sort'' (one_of project_sortableFields)
                       ''must be one of created_at, updated_at, name, due_date, priority'';
          (f5, e5) = key_filter_order vs;
          errs = e1 @ e2 @ e3 @ e4 @ e5
      in if errs \<noteq> [] then Inl (NewValidationError errs)
         else Inr \<lparr>pf_Status = f1, pf_Priority = f2, pf_TeamID = f3,
                   pf_Sort = (case f4 of None \<Rightarrow> ''created_at'' | Some x \<Rightarrow> x), pf_Desc = f5\<rparr>)"

text \<open>
  The two assignee filters exclude each other: the later check replaces what was reported under
  \<open>assignee_id\<close> and drops what was reported under \<open>unassigned\<close>.
\<close>

definition tasks_assignee_filter :: "env \<Rightarrow> url_values \<Rightarrow> (uuid option \<times> bool) \<times> details" where
  "tasks_assignee_filter e vs =
     (let (f1, e1) = query_value vs ''assignee_id'' (uuid_Parse e) ''must be a valid UUID'';
          raw = values_Get vs ''unassigned'';
          (f2, e2) = (if raw = ''true'' then (True, [])
                      else if raw \<noteq> [] \<and> raw \<noteq> ''false'' then (False, [(''unassigned'', ''must be true or false'')])
                      else (False, []))
      in ((f1, f2), if f1 \<noteq> None \<and> f2 then [(''assignee_id'', ''cannot be combined with unassigned'')] else e1 @ e2))"

definition tasks_parseListFilter :: "env \<Rightarrow> url_values \<Rightarrow> err + TaskFilter" where
  "tasks_parseListFilter e vs =
     (let (f1, e1) = query_value vs ''project_id'' (uuid_Parse e) ''must be a valid UUID'';
          (f2, e2) = query_value vs ''status'' (one_of task_statuses)
                       ''must be one of todo, in_progress, blocked, in_review, done, cancelled'';
          (f3, e3) = query_value vs ''priority'' (one_of priorities) ''must be one of low, medium, high, urgent'';
          ((f4, f5), e4) = tasks_assignee_filter e vs;
          (f6, e6) = query_value vs ''sort'' (one_of task_sortableFields)
                       ''must be one of created_at, updated_at, title, due_date, priority, status'';
          (f7, e7) = key_filter_order vs;
          errs = e1 @ e2 @ e3 @ e4 @ e6 @ e7
      in if errs \<noteq> [] then Inl (NewValidationError errs)
         else Inr \<lparr>tf_ProjectID = f1, tf_Status = f2, tf_Priority = f3, tf_AssigneeID = f4, tf_Unassigned = f5,
                   tf_Sort = (case f6 of None \<Rightarrow> ''created_at'' | Some x \<Rightarrow> x), tf_Desc = f7\<rparr>)"

definition respond_page :: "http_request \<Rightarrow> ('a list \<times> Pagination) io \<Rightarrow> ('a list \<times> Pagination) response io" where
  "respond_page r m = io_case m (respond_error r) (\<lambda>(items, pagination). io_return (WritePage items pagination))"

definition respond_data :: "http_request \<Rightarrow> int \<Rightarrow> 'a io \<Rightarrow> 'a response io" where
  "respond_data r code m = io_case m (respond_error r) (\<lambda>x. io_return (WriteData code x))"

definition with_page :: "http_request \<Rightarrow> (PageRequest \<Rightarrow> 'a response io) \<Rightarrow> 'a response io" where
  "with_page r k = (case ParsePageRequest (hr_Query r) of Inl er \<Rightarrow> respond_error r er | Inr page \<Rightarrow> k page)"

section \<open>Projects\<close>

definition ProjectsListHandler :: "env \<Rightarrow> (ProjectDTO list \<times> Pagination) http_handler" where
  "ProjectsListHandler e r =
     with_caller e r (\<lambda>userID orgID. with_page r (\<lambda>page.
       case projects_parseListFilter e (hr_Query r) of
         Inl er \<Rightarrow> respond_error r er
       | Inr flt \<Rightarrow> respond_page r (ListProjectsOf e userID orgID flt page)))"

definition ProjectsCreateHandler :: "env \<Rightarrow> ProjectInput body \<Rightarrow> ProjectDTO http_handler" where
  "ProjectsCreateHandler e b r =
     with_caller e r (\<lambda>userID orgID. decode_body r b (\<lambda>inp. respond_data r 201 (CreateProjectIn e userID orgID inp)))"

definition ProjectsGetHandler :: "env \<Rightarrow> ProjectDTO http_handler" where
  "ProjectsGetHandler e r =
     with_caller e r (\<lambda>userID orgID. with_param e r ''projectID'' (\<lambda>projectID.
       respond_data r 200 (GetProjectOf userID orgID projectID)))"

definition ProjectsUpdateHandler :: "env \<Rightarrow> ProjectPatch body \<Rightarrow> ProjectDTO http_handler" where
  "ProjectsUpdateHandler e b r =
     with_caller e r (\<lambda>userID orgID. with_param e r ''projectID'' (\<lambda>projectID. decode_body r b (\<lambda>inp.
       respond_data r 200 (UpdateProjectOf e userID orgID projectID inp))))"

definition ProjectsDeleteHandler :: "env \<Rightarrow> (string \<times> bool) http_handler" where
  "ProjectsDeleteHandler e r =
     with_caller e r (\<lambda>userID orgID. with_param e r ''projectID'' (\<lambda>projectID.
       io_case (DeleteProjectOf e userID orgID projectID) (respond_error r)
         (\<lambda>_. io_return (WriteData 200 (''deleted'', True)))))"

definition ProjectsActivityHandler :: "env \<Rightarrow> (ActivityDTO list \<times> Pagination) http_handler" where
  "ProjectsActivityHandler e r =
     with_caller e r (\<lambda>userID orgID. with_param e r ''projectID'' (\<lambda>projectID. with_page r (\<lambda>page.
       respond_page r (ListProjectActivity userID orgID projectID page))))"

section \<open>Tasks\<close>

definition TasksListHandler :: "env \<Rightarrow> (TaskDTO list \<times> Pagination) http_handler" where
  "TasksListHandler e r =
     with_caller e r (\<lambda>userID orgID. with_page r (\<lambda>page.
       case tasks_parseListFilter e (hr_Query r) of
         Inl er \<Rightarrow> respond_error r er
       | Inr flt \<Rightarrow> respond_page r (ListTasksOf e userID orgID flt page)))"

definition TasksByProjectHandler :: "env \<Rightarrow> (TaskDTO list \<times> Pagination) http_handler" where
  "TasksByProjectHandler e r =
     with_caller e r (\<lambda>userID orgID. with_param e r ''projectID'' (\<lambda>projectID. with_page r (\<lambda>page.
       case tasks_parseListFilter e (hr_Query r) of
         Inl er \<Rightarrow> respond_error r er
       | Inr flt \<Rightarrow> respond_page r (ListByProject e userID orgID projectID flt page))))"

definition TasksCreateHandler :: "env \<Rightarrow> TaskInput body \<Rightarrow> TaskDTO http_handler" where
  "TasksCreateHandler e b r =
     with_caller e r (\<lambda>userID orgID. with_param e r ''projectID'' (\<lambda>projectID. decode_body r b (\<lambda>inp.
       respond_data r 201 (CreateTaskIn e userID orgID projectID inp))))"

definition TasksGetHandler :: "env \<Rightarrow> TaskDTO http_handler" where
  "TasksGetHandler e r =
     with_caller e r (\<lambda>userID orgID. with_param e r ''taskID'' (\<lambda>taskID.
       respond_data r 200 (GetTaskOf userID orgID taskID)))"

definition TasksUpdateHandler :: "env \<Rightarrow> TaskPatch body \<Rightarrow> TaskDTO http_handler" where
  "TasksUpdateHandler e b r =
     with_caller e r (\<lambda>userID orgID. with_param e r ''taskID'' (\<lambda>taskID. decode_body r b (\<lambda>inp.
       respond_data r 200 (UpdateTaskOf e userID orgID taskID inp))))"

definition TasksDeleteHandler :: "env \<Rightarrow> (string \<times> bool) http_handler" where
  "TasksDeleteHandler e r =
     with_caller e r (\<lambda>userID orgID. with_param e r ''taskID'' (\<lambda>taskID.
       io_case (DeleteTaskOf e userID orgID taskID) (respond_error r)
         (\<lambda>_. io_return (WriteData 200 (''deleted'', True)))))"

definition TasksActivityHandler :: "env \<Rightarrow> (ActivityDTO list \<times> Pagination) http_handler" where
  "TasksActivityHandler e r =
     with_caller e r (\<lambda>userID orgID. with_param e r ''taskID'' (\<lambda>taskID. with_page r (\<lambda>page.
       respond_page r (ListTaskActivity userID orgID taskID page))))"

section \<open>Properties\<close>

lemmas product_handlers =
  TeamsListHandler_def TeamsGetHandler_def TeamsCreateHandler_def TeamsUpdateHandler_def TeamsDeleteHandler_def
  TeamMembersListHandler_def TeamMembersAddHandler_def TeamMembersRemoveHandler_def
  ProjectsListHandler_def ProjectsCreateHandler_def ProjectsGetHandler_def ProjectsUpdateHandler_def ProjectsDeleteHandler_def
  ProjectsActivityHandler_def TasksListHandler_def TasksByProjectHandler_def TasksCreateHandler_def TasksGetHandler_def
  TasksUpdateHandler_def TasksDeleteHandler_def TasksActivityHandler_def

lemmas caller_handlers =
  KeysListHandler_def KeysCreateHandler_def KeysRevokeHandler_def LogoutAllHandler_def MeHandler_def
  InvitesListHandler_def InvitesCreateHandler_def InvitesResendHandler_def InvitesRevokeHandler_def

text \<open>
  C23: without a principal nothing happens. Every handler of organizations, members, roles, the audit
  log, API keys, invitations, teams, projects and tasks, and the session endpoints that need a user,
  answers a request whose context carries no principal with 401 and leaves the world, tables and queue
  included, as it was; it does so before it reads the body or the route.
\<close>

theorem anonymous_requests_refused:
  assumes "PrincipalFromContext (hr_Context r) = None"
  shows "(refused r w (ListMineHandler h r w) \<and> refused r w (CreateOrganizationHandler h nb r w) \<and>
          refused r w (GetOrganizationHandler h r w) \<and> refused r w (UpdateOrganizationHandler h nb r w) \<and>
          refused r w (ListMembersHandler h r w) \<and> refused r w (ListRolesHandler h r w) \<and>
          refused r w (CreateRoleHandler h rb r w) \<and> refused r w (UpdateRoleHandler h rb r w) \<and>
          refused r w (DeleteRoleHandler h r w) \<and> refused r w (AssignMemberRoleHandler h ub r w) \<and>
          refused r w (AuditListHandler e parse_time r w)) \<and>
         (refused r w (KeysListHandler s r w) \<and> refused r w (KeysCreateHandler s kb r w) \<and> refused r w (KeysRevokeHandler s r w) \<and>
          refused r w (LogoutAllHandler ah r w) \<and> refused r w (MeHandler r w)) \<and>
         (refused r w (InvitesListHandler iv r w) \<and> refused r w (InvitesCreateHandler iv c ib r w) \<and>
          refused r w (InvitesResendHandler iv c r w) \<and> refused r w (InvitesRevokeHandler iv r w)) \<and>
         (refused r w (TeamsListHandler e r w) \<and> refused r w (TeamsGetHandler e r w) \<and> refused r w (TeamsCreateHandler e tb r w) \<and>
          refused r w (TeamsUpdateHandler e tb r w) \<and> refused r w (TeamsDeleteHandler e r w) \<and>
          refused r w (TeamMembersListHandler e r w) \<and> refused r w (TeamMembersAddHandler e ub r w) \<and>
          refused r w (TeamMembersRemoveHandler e r w)) \<and>
         (refused r w (ProjectsListHandler e r w) \<and> refused r w (ProjectsCreateHandler e pb r w) \<and> refused r w (ProjectsGetHandler e r w) \<and>
          refused r w (ProjectsUpdateHandler e pp r w) \<and> refused r w (ProjectsDeleteHandler e r w) \<and> refused r w (ProjectsActivityHandler e r w)) \<and>
         (refused r w (TasksListHandler e r w) \<and> refused r w (TasksByProjectHandler e r w) \<and> refused r w (TasksCreateHandler e kb' r w) \<and>
          refused r w (TasksGetHandler e r w) \<and> refused r w (TasksUpdateHandler e kp r w) \<and> refused r w (TasksDeleteHandler e r w) \<and>
          refused r w (TasksActivityHandler e r w))"
  by (intro conjI)
    (simp_all add: organization_handlers caller_handlers product_handlers with_user_anonymous [OF assms] with_caller_anonymous [OF assms]
      assms respond_unauthorized)

theorem anonymous_requests_refused_witness:
  "refused (key_demo_request ''10'' []) key_demo_world (TasksDeleteHandler demo_env (key_demo_request ''10'' []) key_demo_world)"
  using anonymous_requests_refused [of "key_demo_request ''10'' []" key_demo_world]
  by (simp add: key_demo_request_def PrincipalFromContext_def)

end
