(* ===== verification/Product.thy ===== *)
theory Product
  imports Tasks Invitation_Safety
begin

text \<open>
  From statements to operations, for the product: the locale \<open>product_statements\<close> is the interface
  between an invariant and the services of teams, projects and tasks, as \<open>identity_statements\<close> is for
  organizations and sessions. These services write only the tables of the product (the frame
  \<open>identity_tables\<close>), so every invariant of the other tables is one of theirs: \<open>product_frame\<close> is a
  sublocale. Under a tenant their statements leave the rows of other organizations alone.
\<close>

section \<open>Operations of the product services\<close>

locale product_statements = store_invariant +
  fixes T0 :: "uuid option \<Rightarrow> bool"
  assumes st_CreateTeam: "keeps T0 (CreateTeam org name descr uid)"
    and st_UpdateTeam: "keeps T0 (UpdateTeam tid org name descr)"
    and st_DeleteTeam: "keeps T0 (DeleteTeam tid org)"
    and st_AddTeamMember: "keeps T0 (AddTeamMember org tid uid)"
    and st_RemoveTeamMember: "keeps T0 (RemoveTeamMember mid tid org)"
    and st_CreateActivityLog: "keeps T0 (CreateActivityLog org actor action rtype rid md)"
    and st_CreateProject: "keeps T0 (CreateProject org jf uid)"
    and st_UpdateProject: "keeps T0 (UpdateProject pid org jf)"
    and st_DeleteProject: "keeps T0 (DeleteProject pid org)"
    and st_CreateTask: "keeps T0 (CreateTask org pid kf uid)"
    and st_UpdateTask: "keeps T0 (UpdateTask kid org kf)"
    and st_DeleteTask: "keeps T0 (DeleteTask kid org)"
begin

lemmas product_rules = st_CreateTeam [THEN within] st_UpdateTeam [THEN within] st_DeleteTeam [THEN within]
  st_AddTeamMember [THEN within] st_RemoveTeamMember [THEN within] st_CreateActivityLog [THEN within]
  st_CreateProject [THEN within] st_UpdateProject [THEN within] st_DeleteProject [THEN within]
  st_CreateTask [THEN within] st_UpdateTask [THEN within] st_DeleteTask [THEN within]

lemma keeps_authorize: "keeps T (Authorize uid org perm)"
  unfolding organization_reads by (intro keeps_intro)

lemma keeps_product_reads:
  "keeps T (GetTeam tid org)" "keeps T (ListTeams e org)" "keeps T (ListTeamMembers e tid org)"
  "keeps T (GetProject pid org)" "keeps T (GetProjectForUpdate pid org)" "keeps T (CountProjects org pflt)"
  "keeps T (ListProjects e org pflt srt desc page_limit page_offset)"
  "keeps T (GetTask kid org)" "keeps T (GetTaskForUpdate kid org)" "keeps T (CountTasks org tflt)"
  "keeps T (ListTasks e org tflt srt desc page_limit page_offset)"
  "keeps T (CountActivityByResource org rtype rid)" "keeps T (ListActivityByResource org rtype rid page_limit page_offset)"
  unfolding GetTeam_def ListTeams_def ListTeamMembers_def GetProject_def GetProjectForUpdate_def CountProjects_def ListProjects_def
    GetTask_def GetTaskForUpdate_def CountTasks_def ListTasks_def CountActivityByResource_def ListActivityByResource_def
  by (intro keeps_intro)+

lemma keeps_product_steps:
  assumes "\<And>t. T t \<Longrightarrow> T0 t"
  shows "keeps T (RecordActivity e entry)" "keeps T (create_project_tx e uid org jf)" "keeps T (update_project_tx e uid org pid pp)"
    "keeps T (delete_project_tx e uid org pid)" "keeps T (create_task_tx e uid org pid kf)" "keeps T (update_task_tx e uid org kid kp)"
    "keeps T (delete_task_tx e uid org kid)"
  unfolding create_project_tx_def update_project_tx_def delete_project_tx_def create_task_tx_def update_task_tx_def delete_task_tx_def
    RecordActivity_def ensureTeam_def ensureProject_def ensureAssignee_def getProjectForUpdate_def getTaskForUpdate_def identity_reads Let_def
  by (intro keeps_intro keeps_product_reads product_rules; simp add: assms)+

lemma product_operations:
  assumes "T0 (Some org)"
  shows "keeps T (CreateTeamIn uid org name descr)" "keeps T (UpdateTeamOf uid org tid name descr)" "keeps T (DeleteTeamOf uid org tid)"
    "keeps T (AddMemberTo uid org tid muid)" "keeps T (RemoveMemberFrom uid org tid mid)"
    "keeps T (CreateProjectIn e uid org pinp)" "keeps T (UpdateProjectOf e uid org pid pp)" "keeps T (DeleteProjectOf e uid org pid)"
    "keeps T (CreateTaskIn e uid org pid tinp)" "keeps T (UpdateTaskOf e uid org kid kp)" "keeps T (DeleteTaskOf e uid org kid)"
  unfolding CreateTeamIn_def UpdateTeamOf_def DeleteTeamOf_def AddMemberTo_def RemoveMemberFrom_def CreateProjectIn_def
    UpdateProjectOf_def DeleteProjectOf_def CreateTaskIn_def UpdateTaskOf_def DeleteTaskOf_def withOrgTx_def identity_reads Let_def
  by (intro keeps_intro keeps_authorize keeps_product_reads keeps_product_steps product_rules; simp add: assms)+

end

section \<open>The keys of the schema\<close>

lemmas product_writes = CreateTeam_def UpdateTeam_def DeleteTeam_def AddTeamMember_def RemoveTeamMember_def CreateActivityLog_def
  CreateProject_def UpdateProject_def DeleteProject_def CreateTask_def UpdateTask_def DeleteTask_def

lemma ids_product_statements [keeps_intro]:
  "ids.keeps T (CreateTeam org name descr uid)"
  "ids.keeps T (UpdateTeam tid org name descr)"
  "ids.keeps T (DeleteTeam tid org)"
  "ids.keeps T (AddTeamMember org tid uid)"
  "ids.keeps T (RemoveTeamMember mid tid org)"
  "ids.keeps T (CreateActivityLog org actor action rtype rid md)"
  "ids.keeps T (CreateProject org jf uid)"
  "ids.keeps T (UpdateProject pid org jf)"
  "ids.keeps T (DeleteProject pid org)"
  "ids.keeps T (CreateTask org pid kf uid)"
  "ids.keeps T (UpdateTask kid org kf)"
  "ids.keeps T (DeleteTask kid org)"
  unfolding product_writes
  by (rule ids.keeps_db_write; auto simp: Let_def guards_Inr one_row_def wf_ids_def split: if_splits option.splits)+

interpretation ids_product: product_statements wf_ids "\<lambda>_. True"
  by unfold_locales (rule keeps_intro)+

section \<open>The tables the product leaves alone\<close>

abbreviation identity_tables ::
  "store \<Rightarrow> User list \<times> Organization list \<times> OrganizationMembership list \<times> Role list \<times> RolePermission list \<times> Permission list \<times>
     RefreshToken list \<times> Invitation list \<times> ApiKey list" where
  "identity_tables s \<equiv> (users s, organizations s, memberships s, roles s, role_permissions s, permissions s, refresh_tokens s,
     invitations s, api_keys s)"

lemma identity_frame [keeps_intro]:
  "store_invariant.keeps (unchanged identity_tables x) T (CreateTeam org name descr uid)"
  "store_invariant.keeps (unchanged identity_tables x) T (UpdateTeam tid org name descr)"
  "store_invariant.keeps (unchanged identity_tables x) T (DeleteTeam tid org)"
  "store_invariant.keeps (unchanged identity_tables x) T (AddTeamMember org tid uid)"
  "store_invariant.keeps (unchanged identity_tables x) T (RemoveTeamMember mid tid org)"
  "store_invariant.keeps (unchanged identity_tables x) T (CreateActivityLog org actor action rtype rid md)"
  "store_invariant.keeps (unchanged identity_tables x) T (CreateProject org jf uid)"
  "store_invariant.keeps (unchanged identity_tables x) T (UpdateProject pid org jf)"
  "store_invariant.keeps (unchanged identity_tables x) T (DeleteProject pid org)"
  "store_invariant.keeps (unchanged identity_tables x) T (CreateTask org pid kf uid)"
  "store_invariant.keeps (unchanged identity_tables x) T (UpdateTask kid org kf)"
  "store_invariant.keeps (unchanged identity_tables x) T (DeleteTask kid org)"
  unfolding product_writes
  by (rule frame.keeps_db_write; auto simp: unchanged_def Let_def guards_Inr split: if_splits sum.splits)+

interpretation identity: product_statements "unchanged identity_tables x" "\<lambda>_. True" for x
  by unfold_locales (rule keeps_intro)+

text \<open>An invariant that the tables of identity determine, together with the keys and the counter.\<close>

locale product_frame = store_invariant +
  assumes includes_ids: "I s n \<Longrightarrow> wf_ids s n"
    and identity_determines: "I s n \<Longrightarrow> identity_tables s = identity_tables s' \<Longrightarrow> wf_ids s' n' \<Longrightarrow> n \<le> n' \<Longrightarrow> I s' n'"
begin

lemma framed:
  assumes ids: "ids.keeps T m" and frame: "\<And>x. store_invariant.keeps (unchanged identity_tables x) T m"
  shows "keeps T m"
proof (rule keepsI)
  fix w :: world
  assume T: "T (tenant w)"
  note k = ids.keepsD [OF ids T]
  show "tenant (snd (m w)) = tenant w" "fresh w \<le> fresh (snd (m w))" by (rule k)+
  have "identity_tables (st (snd (m w))) = identity_tables (st w)"
    using frame_same [of identity_tables w T m "fst (m w)" "snd (m w)", OF frame T] by simp
  then show "I (st (snd (m w))) (fresh (snd (m w)))" if "I (st w) (fresh w)"
    using identity_determines [OF that _ k(3) k(2)] includes_ids [OF that] by simp
qed

end

sublocale product_frame \<subseteq> product_statements I "\<lambda>_. True"
  by unfold_locales (rule framed, rule keeps_intro, rule keeps_intro)+

interpretation owners_product: product_frame "wf_and owned"
  by unfold_locales (auto simp: wf_and_def owned_def owner_of_def)

interpretation sessions_product: product_frame sessions_ok
  by unfold_locales (auto simp: sessions_ok_def)

interpretation dead_product: product_frame "wf_and (dead_key h)" for h
  by unfold_locales (auto simp: wf_and_def dead_key_def)

interpretation settled_product: product_frame "settled iid x" for iid x
  by unfold_locales (auto simp: settled_def)

section \<open>Other organizations\<close>

lemmas unfolded_ids_product_statements = ids_product_statements [unfolded product_writes]

lemma confined_product_statements [keeps_intro]:
  "confined.keeps org y (\<lambda>t. t = Some org) (CreateTeam oid name descr uid)"
  "confined.keeps org y (\<lambda>t. t = Some org) (UpdateTeam tid oid name descr)"
  "confined.keeps org y (\<lambda>t. t = Some org) (DeleteTeam tid oid)"
  "confined.keeps org y (\<lambda>t. t = Some org) (AddTeamMember oid tid uid)"
  "confined.keeps org y (\<lambda>t. t = Some org) (RemoveTeamMember mid tid oid)"
  "confined.keeps org y (\<lambda>t. t = Some org) (CreateActivityLog oid actor action rtype rid md)"
  "confined.keeps org y (\<lambda>t. t = Some org) (CreateProject oid jf uid)"
  "confined.keeps org y (\<lambda>t. t = Some org) (UpdateProject pid oid jf)"
  "confined.keeps org y (\<lambda>t. t = Some org) (DeleteProject pid oid)"
  "confined.keeps org y (\<lambda>t. t = Some org) (CreateTask oid pid kf uid)"
  "confined.keeps org y (\<lambda>t. t = Some org) (UpdateTask kid oid kf)"
  "confined.keeps org y (\<lambda>t. t = Some org) (DeleteTask kid oid)"
  unfolding product_writes
  by (rule confined_db_write; (rule unfolded_ids_product_statements)?;
      auto simp: Let_def guards_Inr others_def rls_tenant simp del: filter_filter
        intro!: filter_update_where_other filter_filter_other split: sum.splits if_splits)+

interpretation confined_product: product_statements "wf_and (\<lambda>s. others org s = y)" "\<lambda>t. t = Some org" for org y
  by unfold_locales (rule keeps_intro)+

end
