(* ===== verification/Schema.thy ===== *)
theory Schema
  imports Product
begin

text \<open>
  The schema as a type of stores: every \<open>CHECK\<close> constraint and every foreign key of the migrations,
  as a predicate of rows. References that carry the organization (a task and its project, a project
  and its team, an API key and the membership of its creator, an invitation and its role) tie rows of
  one organization together. Every statement of the program keeps the type, deletions with their
  cascades included, and by the interfaces of the services so does every operation.
\<close>

section \<open>Row types\<close>

definition user_ok :: "User \<Rightarrow> bool" where
  "user_ok u \<longleftrightarrow> not_blank (u_FirstName u) \<and> not_blank (u_LastName u) \<and>
     u_Status u \<in> {''active'', ''suspended'', ''pending'', ''deleted''}"

definition organization_ok :: "Organization \<Rightarrow> bool" where
  "organization_ok x \<longleftrightarrow> not_blank (o_Name x) \<and> o_Status x \<in> {''active'', ''suspended'', ''deleted''}"

definition has_user :: "store \<Rightarrow> uuid \<Rightarrow> bool" where
  "has_user s uid \<longleftrightarrow> (\<exists>u\<in>set (users s). u_ID u = uid)"

definition has_organization :: "store \<Rightarrow> uuid \<Rightarrow> bool" where
  "has_organization s org \<longleftrightarrow> (\<exists>x\<in>set (organizations s). o_ID x = org)"

definition has_role :: "store \<Rightarrow> uuid \<Rightarrow> bool" where
  "has_role s rid \<longleftrightarrow> (\<exists>r\<in>set (roles s). r_ID r = rid)"

definition has_role_in :: "store \<Rightarrow> uuid \<Rightarrow> uuid \<Rightarrow> bool" where
  "has_role_in s org rid \<longleftrightarrow> (\<exists>r\<in>set (roles s). r_ID r = rid \<and> r_OrganizationID r = org)"

definition has_permission :: "store \<Rightarrow> uuid \<Rightarrow> bool" where
  "has_permission s pid \<longleftrightarrow> (\<exists>p\<in>set (permissions s). p_ID p = pid)"

definition has_member :: "store \<Rightarrow> uuid \<Rightarrow> uuid \<Rightarrow> bool" where
  "has_member s org uid \<longleftrightarrow> (\<exists>m\<in>set (memberships s). m_UserID m = uid \<and> m_OrganizationID m = org)"

definition has_token :: "store \<Rightarrow> uuid \<Rightarrow> bool" where
  "has_token s tid \<longleftrightarrow> (\<exists>t\<in>set (refresh_tokens s). t_ID t = tid)"

definition has_team :: "store \<Rightarrow> uuid \<Rightarrow> uuid \<Rightarrow> bool" where
  "has_team s org tid \<longleftrightarrow> (\<exists>t\<in>set (teams s). tm_ID t = tid \<and> tm_OrganizationID t = org)"

definition has_project :: "store \<Rightarrow> uuid \<Rightarrow> uuid \<Rightarrow> bool" where
  "has_project s org pid \<longleftrightarrow> (\<exists>p\<in>set (projects s). pr_ID p = pid \<and> pr_OrganizationID p = org)"

definition nullable :: "('a \<Rightarrow> bool) \<Rightarrow> 'a option \<Rightarrow> bool" where
  "nullable P x \<longleftrightarrow> (case x of None \<Rightarrow> True | Some y \<Rightarrow> P y)"

definition role_ok :: "store \<Rightarrow> Role \<Rightarrow> bool" where
  "role_ok s r \<longleftrightarrow> not_blank (r_Name r) \<and> has_organization s (r_OrganizationID r)"

definition membership_ok :: "store \<Rightarrow> OrganizationMembership \<Rightarrow> bool" where
  "membership_ok s m \<longleftrightarrow> m_Status m \<in> {''active'', ''invited'', ''suspended'', ''removed''} \<and>
     has_organization s (m_OrganizationID m) \<and> has_user s (m_UserID m) \<and> has_role s (m_RoleID m)"

definition grant_ok :: "store \<Rightarrow> RolePermission \<Rightarrow> bool" where
  "grant_ok s g \<longleftrightarrow> has_role s (rp_RoleID g) \<and> has_permission s (rp_PermissionID g)"

definition token_ok :: "store \<Rightarrow> RefreshToken \<Rightarrow> bool" where
  "token_ok s t \<longleftrightarrow> has_user s (t_UserID t) \<and> nullable (has_token s) (t_ReplacedBy t)"

definition api_key_ok :: "store \<Rightarrow> ApiKey \<Rightarrow> bool" where
  "api_key_ok s k \<longleftrightarrow> k_ExpiresAt k > k_CreatedAt k \<and> char_length (k_KeyLastFour k) = 4 \<and> char_length (k_KeyPrefix k) > 0 \<and>
     not_blank (k_Name k) \<and> char_length (k_Name k) \<le> 100 \<and> has_organization s (k_OrganizationID k) \<and>
     has_member s (k_OrganizationID k) (k_CreatedBy k)"

definition invitation_ok :: "store \<Rightarrow> Invitation \<Rightarrow> bool" where
  "invitation_ok s i \<longleftrightarrow> i_Status i \<in> {''pending'', ''accepted'', ''revoked'', ''expired''} \<and> i_ExpiresAt i > i_CreatedAt i \<and>
     (i_Status i = ''accepted'') = (i_AcceptedAt i \<noteq> None) \<and> (i_Status i = ''revoked'') = (i_RevokedAt i \<noteq> None) \<and>
     has_organization s (i_OrganizationID i) \<and> has_user s (i_InvitedBy i) \<and> nullable (has_user s) (i_AcceptedBy i) \<and>
     has_role_in s (i_OrganizationID i) (i_RoleID i)"

definition audit_ok :: "store \<Rightarrow> AuditLog \<Rightarrow> bool" where
  "audit_ok s a \<longleftrightarrow> not_blank (al_Action a) \<and> al_Outcome a \<in> {''success'', ''failure'', ''denied''} \<and>
     nullable (has_user s) (al_ActorUserID a)"

definition team_ok :: "store \<Rightarrow> Team \<Rightarrow> bool" where
  "team_ok s t \<longleftrightarrow> not_blank (tm_Name t) \<and> has_organization s (tm_OrganizationID t) \<and> has_user s (tm_CreatedBy t)"

definition team_member_ok :: "store \<Rightarrow> TeamMember \<Rightarrow> bool" where
  "team_member_ok s m \<longleftrightarrow> has_organization s (tmm_OrganizationID m) \<and> has_user s (tmm_UserID m) \<and>
     has_team s (tmm_OrganizationID m) (tmm_TeamID m)"

definition project_ok :: "store \<Rightarrow> Project \<Rightarrow> bool" where
  "project_ok s p \<longleftrightarrow> not_blank (pr_Name p) \<and> char_length (pr_Name p) \<le> 150 \<and>
     nullable (\<lambda>d. char_length d \<le> 5000) (pr_Description p) \<and> pr_Status p \<in> set project_statuses \<and> pr_Priority p \<in> set priorities \<and>
     nullable (\<lambda>d. nullable (\<lambda>start. start \<le> d) (pr_StartDate p)) (pr_DueDate p) \<and>
     has_organization s (pr_OrganizationID p) \<and> has_user s (pr_CreatedBy p) \<and> nullable (has_team s (pr_OrganizationID p)) (pr_TeamID p)"

definition task_ok :: "store \<Rightarrow> Task \<Rightarrow> bool" where
  "task_ok s t \<longleftrightarrow> not_blank (tk_Title t) \<and> char_length (tk_Title t) \<le> 200 \<and>
     nullable (\<lambda>d. char_length d \<le> 5000) (tk_Description t) \<and> tk_Status t \<in> set task_statuses \<and> tk_Priority t \<in> set priorities \<and>
     has_organization s (tk_OrganizationID t) \<and> has_user s (tk_CreatedBy t) \<and>
     has_project s (tk_OrganizationID t) (tk_ProjectID t) \<and> nullable (has_member s (tk_OrganizationID t)) (tk_AssigneeID t)"

definition activity_ok :: "store \<Rightarrow> ActivityLog \<Rightarrow> bool" where
  "activity_ok s a \<longleftrightarrow> not_blank (av_Action a) \<and> not_blank (av_ResourceType a) \<and> has_organization s (av_OrganizationID a) \<and>
     nullable (has_user s) (av_ActorUserID a)"

definition permission_ok :: "Permission \<Rightarrow> bool" where
  "permission_ok p \<longleftrightarrow> not_blank (p_Key p) \<and> not_blank (p_Description p)"

definition schema_ok :: "store \<Rightarrow> bool" where
  "schema_ok s \<longleftrightarrow>
     list_all user_ok (users s) \<and> list_all organization_ok (organizations s) \<and> list_all (role_ok s) (roles s) \<and>
     list_all (membership_ok s) (memberships s) \<and> list_all (grant_ok s) (role_permissions s) \<and>
     list_all (token_ok s) (refresh_tokens s) \<and> list_all (api_key_ok s) (api_keys s) \<and>
     list_all (invitation_ok s) (invitations s) \<and> list_all (audit_ok s) (audit_logs s) \<and>
     list_all (team_ok s) (teams s) \<and> list_all (team_member_ok s) (team_members s) \<and>
     list_all (project_ok s) (projects s) \<and> list_all (task_ok s) (tasks s) \<and> list_all (activity_ok s) (activity_logs s) \<and>
     list_all permission_ok (permissions s)"

text \<open>
  The rows the migrations insert into the table of permissions, as pairs of key and description, in
  the order of the migrations 11 to 14, 16 and 18. They are the permissions the code knows.
\<close>

definition permission_catalogue :: "(string \<times> string) list" where
  "permission_catalogue =
     [(''organizations.read'', ''Read organization details''),
      (''organizations.update'', ''Rename the organization''),
      (''members.read'', ''Read organization members''),
      (''members.manage'', ''Assign and manage member roles''),
      (''roles.read'', ''Read organization roles and permissions''),
      (''roles.manage'', ''Create, update, and delete custom roles''),
      (''teams.read'', ''Read organization teams and team members''),
      (''teams.manage'', ''Create, update, delete, and manage team members''),
      (''projects.read'', ''Read organization projects and project activity''),
      (''projects.create'', ''Create projects''),
      (''projects.update'', ''Update projects''),
      (''projects.delete'', ''Delete projects''),
      (''tasks.read'', ''Read organization tasks and task activity''),
      (''tasks.create'', ''Create tasks in projects''),
      (''tasks.update'', ''Update tasks, including assignment''),
      (''tasks.delete'', ''Delete tasks''),
      (''api_keys.manage'', ''Create, list, and revoke organization API keys''),
      (''audit.read'', ''Read the organization audit log'')]"

lemma catalogue_is_All: "map fst permission_catalogue = All"
  by (simp add: permission_catalogue_def All_def permission_keys)

text \<open>The database after the migrations: no rows but the catalogue, under identifiers of their own.\<close>

definition migrated :: "store \<Rightarrow> bool" where
  "migrated s \<longleftrightarrow> s = empty_store\<lparr>permissions := permissions s\<rparr> \<and>
     map (\<lambda>p. (p_Key p, p_Description p)) (permissions s) = permission_catalogue \<and> distinct (map p_ID (permissions s))"

lemma migrated_tables:
  assumes "migrated s"
  shows "users s = []" "organizations s = []" "roles s = []" "memberships s = []" "role_permissions s = []"
    "refresh_tokens s = []" "api_keys s = []" "invitations s = []" "audit_logs s = []" "teams s = []" "team_members s = []"
    "projects s = []" "tasks s = []" "activity_logs s = []"
  by (subst assms [unfolded migrated_def, THEN conjunct1], simp add: empty_store_def)+

lemma catalogue_ok: "(k, d) \<in> set permission_catalogue \<Longrightarrow> not_blank k \<and> not_blank d"
proof -
  have "list_all (\<lambda>(k, d). not_blank k \<and> not_blank d) permission_catalogue" by code_simp
  then show "(k, d) \<in> set permission_catalogue \<Longrightarrow> ?thesis" by (auto simp: list_all_iff)
qed

lemma migrated_conforms:
  assumes "migrated s"
  shows "schema_ok s"
proof -
  have "(p_Key p, p_Description p) \<in> set permission_catalogue" if "p \<in> set (permissions s)" for p
  proof -
    have "(p_Key p, p_Description p) \<in> set (map (\<lambda>p. (p_Key p, p_Description p)) (permissions s))" using that by simp
    then show ?thesis using assms by (simp only: migrated_def)
  qed
  then have "list_all permission_ok (permissions s)" using catalogue_ok by (auto simp: list_all_iff permission_ok_def)
  then show ?thesis by (simp add: schema_ok_def migrated_tables [OF assms])
qed

lemma migrated_wf: "migrated s \<Longrightarrow> wf_ids s n"
  by (simp add: wf_ids_def migrated_tables rows_ok_def)

section \<open>Growing and changing stores\<close>

text \<open>
  A row keeps its type in every store that has the same rows to refer to: that have the same
  identifiers, or more.
\<close>

definition grows :: "store \<Rightarrow> store \<Rightarrow> bool" where
  "grows s s' \<longleftrightarrow>
     (\<forall>x. has_user s x \<longrightarrow> has_user s' x) \<and> (\<forall>x. has_organization s x \<longrightarrow> has_organization s' x) \<and>
     (\<forall>x. has_role s x \<longrightarrow> has_role s' x) \<and> (\<forall>x y. has_role_in s x y \<longrightarrow> has_role_in s' x y) \<and>
     (\<forall>x. has_permission s x \<longrightarrow> has_permission s' x) \<and> (\<forall>x y. has_member s x y \<longrightarrow> has_member s' x y) \<and>
     (\<forall>x. has_token s x \<longrightarrow> has_token s' x) \<and> (\<forall>x y. has_team s x y \<longrightarrow> has_team s' x y) \<and>
     (\<forall>x y. has_project s x y \<longrightarrow> has_project s' x y)"

lemmas has_defs = has_user_def has_organization_def has_role_def has_role_in_def has_permission_def has_member_def has_token_def
  has_team_def has_project_def

lemmas row_types = user_ok_def organization_ok_def role_ok_def membership_ok_def grant_ok_def token_ok_def api_key_ok_def
  invitation_ok_def audit_ok_def team_ok_def team_member_ok_def project_ok_def task_ok_def activity_ok_def

lemma nullable_mono: "nullable P x \<Longrightarrow> (\<And>y. P y \<Longrightarrow> Q y) \<Longrightarrow> nullable Q x"
  by (auto simp: nullable_def split: option.splits)

lemma nullable_simps [simp]: "nullable P None" "nullable P (Some x) \<longleftrightarrow> P x"
  by (simp_all add: nullable_def)

lemma row_ok_grows:
  assumes "grows s s'"
  shows "role_ok s r \<Longrightarrow> role_ok s' r" "membership_ok s m \<Longrightarrow> membership_ok s' m" "grant_ok s g \<Longrightarrow> grant_ok s' g"
    "token_ok s t \<Longrightarrow> token_ok s' t" "api_key_ok s k \<Longrightarrow> api_key_ok s' k" "invitation_ok s i \<Longrightarrow> invitation_ok s' i"
    "audit_ok s a \<Longrightarrow> audit_ok s' a" "team_ok s tm \<Longrightarrow> team_ok s' tm" "team_member_ok s tmm \<Longrightarrow> team_member_ok s' tmm"
    "project_ok s p \<Longrightarrow> project_ok s' p" "task_ok s tk \<Longrightarrow> task_ok s' tk" "activity_ok s av \<Longrightarrow> activity_ok s' av"
  using assms unfolding grows_def row_types by (auto elim: nullable_mono)

text \<open>
  One table changes to rows of the right type, the others stay, and no reference is lost.
\<close>

definition schema_rows :: "store \<Rightarrow> store \<Rightarrow> bool" where
  "schema_rows s s' \<longleftrightarrow>
     list_all user_ok (users s') \<and> list_all organization_ok (organizations s') \<and> list_all (role_ok s) (roles s') \<and>
     list_all (membership_ok s) (memberships s') \<and> list_all (grant_ok s) (role_permissions s') \<and>
     list_all (token_ok s) (refresh_tokens s') \<and> list_all (api_key_ok s) (api_keys s') \<and>
     list_all (invitation_ok s) (invitations s') \<and> list_all (audit_ok s) (audit_logs s') \<and>
     list_all (team_ok s) (teams s') \<and> list_all (team_member_ok s) (team_members s') \<and>
     list_all (project_ok s) (projects s') \<and> list_all (task_ok s) (tasks s') \<and> list_all (activity_ok s) (activity_logs s') \<and>
     list_all permission_ok (permissions s')"

lemma schema_grows:
  assumes "schema_rows s s'" and "grows s s'"
  shows "schema_ok s'"
  using assms(1) row_ok_grows [OF assms(2)] unfolding schema_rows_def schema_ok_def by (auto simp: list_all_iff)

text \<open>The rows of a table are replaced by rows of the right type, and no key of the table is lost.\<close>

definition extends :: "('r \<Rightarrow> 'k) \<Rightarrow> ('r \<Rightarrow> bool) \<Rightarrow> 'r list \<Rightarrow> 'r list \<Rightarrow> bool" where
  "extends key ok rows rows' \<longleftrightarrow> list_all ok rows' \<and> key ` set rows \<subseteq> key ` set rows'"

lemma extends_append: "list_all ok rows \<Longrightarrow> ok r \<Longrightarrow> extends key ok rows (rows @ [r])"
  by (auto simp: extends_def)

lemma extends_update:
  "list_all ok rows \<Longrightarrow> (\<And>r. r \<in> set rows \<Longrightarrow> P r \<Longrightarrow> ok r \<Longrightarrow> ok (f r) \<and> key (f r) = key r) \<Longrightarrow>
   extends key ok rows (update_where P f rows)"
  unfolding extends_def list_all_iff set_update_where image_image by (force simp: image_iff)

lemma extends_key: "extends key ok rows rows' \<Longrightarrow> \<exists>r\<in>set rows. key r = k \<Longrightarrow> \<exists>r\<in>set rows'. key r = k"
  unfolding extends_def by (metis (no_types, lifting) image_iff subsetD)

lemma extends_pair: "extends (\<lambda>r. (f r, g r)) ok rows rows' \<Longrightarrow> \<exists>r\<in>set rows. f r = x \<and> g r = y \<Longrightarrow> \<exists>r\<in>set rows'. f r = x \<and> g r = y"
  using extends_key [of "\<lambda>r. (f r, g r)" ok rows rows' "(x, y)"] by simp

lemma grows_tables:
  "extends u_ID ok1 (users s) us \<Longrightarrow> grows s (s\<lparr>users := us\<rparr>)"
  "extends o_ID ok2 (organizations s) os \<Longrightarrow> grows s (s\<lparr>organizations := os\<rparr>)"
  "extends (\<lambda>r. (r_ID r, r_OrganizationID r)) ok3 (roles s) rs \<Longrightarrow> grows s (s\<lparr>roles := rs\<rparr>)"
  "extends (\<lambda>m. (m_UserID m, m_OrganizationID m)) ok4 (memberships s) ms \<Longrightarrow> grows s (s\<lparr>memberships := ms\<rparr>)"
  "extends t_ID ok5 (refresh_tokens s) ts \<Longrightarrow> grows s (s\<lparr>refresh_tokens := ts\<rparr>)"
  "extends (\<lambda>t. (tm_ID t, tm_OrganizationID t)) ok6 (teams s) tms \<Longrightarrow> grows s (s\<lparr>teams := tms\<rparr>)"
  "extends (\<lambda>p. (pr_ID p, pr_OrganizationID p)) ok7 (projects s) ps \<Longrightarrow> grows s (s\<lparr>projects := ps\<rparr>)"
  unfolding grows_def has_defs
  by (simp_all add: extends_key extends_pair) (use extends_pair [of r_ID r_OrganizationID] in blast)

lemma schema_tables:
  assumes "schema_ok s"
  shows "extends u_ID user_ok (users s) us \<Longrightarrow> schema_ok (s\<lparr>users := us\<rparr>)"
    "extends o_ID organization_ok (organizations s) os \<Longrightarrow> schema_ok (s\<lparr>organizations := os\<rparr>)"
    "extends (\<lambda>r. (r_ID r, r_OrganizationID r)) (role_ok s) (roles s) rs \<Longrightarrow> schema_ok (s\<lparr>roles := rs\<rparr>)"
    "extends (\<lambda>m. (m_UserID m, m_OrganizationID m)) (membership_ok s) (memberships s) ms \<Longrightarrow> schema_ok (s\<lparr>memberships := ms\<rparr>)"
    "extends t_ID (token_ok s) (refresh_tokens s) ts \<Longrightarrow> schema_ok (s\<lparr>refresh_tokens := ts\<rparr>)"
    "extends (\<lambda>t. (tm_ID t, tm_OrganizationID t)) (team_ok s) (teams s) tms \<Longrightarrow> schema_ok (s\<lparr>teams := tms\<rparr>)"
    "extends (\<lambda>p. (pr_ID p, pr_OrganizationID p)) (project_ok s) (projects s) ps \<Longrightarrow> schema_ok (s\<lparr>projects := ps\<rparr>)"
    "list_all (grant_ok s) gs \<Longrightarrow> schema_ok (s\<lparr>role_permissions := gs\<rparr>)"
    "list_all (api_key_ok s) ks \<Longrightarrow> schema_ok (s\<lparr>api_keys := ks\<rparr>)"
    "list_all (invitation_ok s) is \<Longrightarrow> schema_ok (s\<lparr>invitations := is\<rparr>)"
    "list_all (audit_ok s) als \<Longrightarrow> schema_ok (s\<lparr>audit_logs := als\<rparr>)"
    "list_all (team_member_ok s) tmms \<Longrightarrow> schema_ok (s\<lparr>team_members := tmms\<rparr>)"
    "list_all (task_ok s) tks \<Longrightarrow> schema_ok (s\<lparr>tasks := tks\<rparr>)"
    "list_all (activity_ok s) avs \<Longrightarrow> schema_ok (s\<lparr>activity_logs := avs\<rparr>)"
  by (rule schema_grows [of s], use assms in \<open>simp add: schema_rows_def schema_ok_def extends_def\<close>,
      ((rule grows_tables, assumption) | simp add: grows_def has_defs))+

lemma schema_okD:
  assumes "schema_ok s"
  shows "list_all user_ok (users s)" "list_all organization_ok (organizations s)" "list_all (role_ok s) (roles s)"
    "list_all (membership_ok s) (memberships s)" "list_all (grant_ok s) (role_permissions s)" "list_all (token_ok s) (refresh_tokens s)"
    "list_all (api_key_ok s) (api_keys s)" "list_all (invitation_ok s) (invitations s)" "list_all (audit_ok s) (audit_logs s)"
    "list_all (team_ok s) (teams s)" "list_all (team_member_ok s) (team_members s)" "list_all (project_ok s) (projects s)"
    "list_all (task_ok s) (tasks s)" "list_all (activity_ok s) (activity_logs s)" "list_all permission_ok (permissions s)"
  using assms by (simp_all add: schema_ok_def)

lemma list_all_update_where:
  "list_all Q rows \<Longrightarrow> (\<And>r. r \<in> set rows \<Longrightarrow> P r \<Longrightarrow> Q r \<Longrightarrow> Q (f r)) \<Longrightarrow> list_all Q (update_where P f rows)"
  by (auto simp: list_all_iff set_update_where)

lemma list_all_filter: "list_all Q rows \<Longrightarrow> list_all Q (filter P rows)"
  by (auto simp: list_all_iff)

lemma list_all_snoc: "list_all Q rows \<Longrightarrow> Q r \<Longrightarrow> list_all Q (rows @ [r])"
  by simp

interpretation schema: schema_property schema_ok .

section \<open>Every statement keeps the type\<close>

lemmas schema_intros = schema_tables extends_append extends_update list_all_update_where list_all_filter list_all_snoc

lemma schema_appends [keeps_intro]:
  "schema.keeps T (CreateUser email hash first_name last_name stat)"
  "schema.keeps T (CreateRefreshToken uid family hash expires ua ip)"
  "schema.keeps T (CreateOrganization_q name slug stat)"
  "schema.keeps T (CreateRole_q org name descr sys)"
  "schema.keeps T (AddRolePermission rid pid)"
  "schema.keeps T (CreateMembership org uid role stat joined_at)"
  unfolding identity_writes
  by (rule schema.statement; (rule unfolded_ids_writes)?;
      auto simp: Let_def guards_Inr row_types has_defs intro!: schema_intros schema_okD split: if_splits)+

lemma schema_identity_updates [keeps_intro]:
  "schema.keeps T (UpdateUserLastLogin uid)"
  "schema.keeps T (RevokeRefreshToken tid replaced)"
  "schema.keeps T (RevokeRefreshTokenFamily family)"
  "schema.keeps T (RevokeAllUserRefreshTokens uid)"
  "schema.keeps T (rename_organization oid name)"
  "schema.keeps T (UpdateRole_q rid org name descr)"
  "schema.keeps T (SetRolePermissions rid)"
  "schema.keeps T (UpdateMembershipRole mid org role)"
  unfolding identity_writes revoke_where_def
  by (rule schema.statement; (rule unfolded_ids_writes [unfolded revoke_where_def])?;
      auto simp: Let_def guards_Inr one_row_def row_types has_defs intro!: schema_intros schema_okD split: option.splits)+

text \<open>
  Rows are deleted from a table others refer to: the rows that refer to it must still find their row.
\<close>

lemma has_elsewhere:
  "has_user (s\<lparr>roles := rs\<rparr>) = has_user s"
  "has_organization (s\<lparr>roles := rs\<rparr>) = has_organization s"
  "has_permission (s\<lparr>roles := rs\<rparr>) = has_permission s"
  "has_member (s\<lparr>roles := rs\<rparr>) = has_member s"
  "has_token (s\<lparr>roles := rs\<rparr>) = has_token s"
  "has_team (s\<lparr>roles := rs\<rparr>) = has_team s"
  "has_project (s\<lparr>roles := rs\<rparr>) = has_project s"
  "has_user (s\<lparr>teams := ts\<rparr>) = has_user s"
  "has_organization (s\<lparr>teams := ts\<rparr>) = has_organization s"
  "has_role (s\<lparr>teams := ts\<rparr>) = has_role s"
  "has_role_in (s\<lparr>teams := ts\<rparr>) = has_role_in s"
  "has_permission (s\<lparr>teams := ts\<rparr>) = has_permission s"
  "has_member (s\<lparr>teams := ts\<rparr>) = has_member s"
  "has_token (s\<lparr>teams := ts\<rparr>) = has_token s"
  "has_project (s\<lparr>teams := ts\<rparr>) = has_project s"
  "has_user (s\<lparr>projects := ps\<rparr>) = has_user s"
  "has_organization (s\<lparr>projects := ps\<rparr>) = has_organization s"
  "has_role (s\<lparr>projects := ps\<rparr>) = has_role s"
  "has_role_in (s\<lparr>projects := ps\<rparr>) = has_role_in s"
  "has_permission (s\<lparr>projects := ps\<rparr>) = has_permission s"
  "has_member (s\<lparr>projects := ps\<rparr>) = has_member s"
  "has_token (s\<lparr>projects := ps\<rparr>) = has_token s"
  "has_team (s\<lparr>projects := ps\<rparr>) = has_team s"
  by (simp_all add: has_defs fun_eq_iff)

lemma row_ok_elsewhere:
  "role_ok (s\<lparr>roles := rs\<rparr>) = role_ok s"
  "token_ok (s\<lparr>roles := rs\<rparr>) = token_ok s"
  "api_key_ok (s\<lparr>roles := rs\<rparr>) = api_key_ok s"
  "audit_ok (s\<lparr>roles := rs\<rparr>) = audit_ok s"
  "team_ok (s\<lparr>roles := rs\<rparr>) = team_ok s"
  "team_member_ok (s\<lparr>roles := rs\<rparr>) = team_member_ok s"
  "project_ok (s\<lparr>roles := rs\<rparr>) = project_ok s"
  "task_ok (s\<lparr>roles := rs\<rparr>) = task_ok s"
  "activity_ok (s\<lparr>roles := rs\<rparr>) = activity_ok s"
  "role_ok (s\<lparr>teams := ts\<rparr>) = role_ok s"
  "membership_ok (s\<lparr>teams := ts\<rparr>) = membership_ok s"
  "grant_ok (s\<lparr>teams := ts\<rparr>) = grant_ok s"
  "token_ok (s\<lparr>teams := ts\<rparr>) = token_ok s"
  "api_key_ok (s\<lparr>teams := ts\<rparr>) = api_key_ok s"
  "invitation_ok (s\<lparr>teams := ts\<rparr>) = invitation_ok s"
  "audit_ok (s\<lparr>teams := ts\<rparr>) = audit_ok s"
  "team_ok (s\<lparr>teams := ts\<rparr>) = team_ok s"
  "task_ok (s\<lparr>teams := ts\<rparr>) = task_ok s"
  "activity_ok (s\<lparr>teams := ts\<rparr>) = activity_ok s"
  "role_ok (s\<lparr>projects := ps\<rparr>) = role_ok s"
  "membership_ok (s\<lparr>projects := ps\<rparr>) = membership_ok s"
  "grant_ok (s\<lparr>projects := ps\<rparr>) = grant_ok s"
  "token_ok (s\<lparr>projects := ps\<rparr>) = token_ok s"
  "api_key_ok (s\<lparr>projects := ps\<rparr>) = api_key_ok s"
  "invitation_ok (s\<lparr>projects := ps\<rparr>) = invitation_ok s"
  "audit_ok (s\<lparr>projects := ps\<rparr>) = audit_ok s"
  "team_ok (s\<lparr>projects := ps\<rparr>) = team_ok s"
  "team_member_ok (s\<lparr>projects := ps\<rparr>) = team_member_ok s"
  "project_ok (s\<lparr>projects := ps\<rparr>) = project_ok s"
  "activity_ok (s\<lparr>projects := ps\<rparr>) = activity_ok s"
  by (simp_all add: fun_eq_iff row_types has_elsewhere)

lemma schema_drop_roles:
  assumes "schema_ok s" "set rs \<subseteq> set (roles s)" and "\<And>m. m \<in> set (memberships s) \<Longrightarrow> has_role (s\<lparr>roles := rs\<rparr>) (m_RoleID m)"
    and "\<And>g. g \<in> set (role_permissions s) \<Longrightarrow> has_role (s\<lparr>roles := rs\<rparr>) (rp_RoleID g)"
    and "\<And>i. i \<in> set (invitations s) \<Longrightarrow> has_role_in (s\<lparr>roles := rs\<rparr>) (i_OrganizationID i) (i_RoleID i)"
  shows "schema_ok (s\<lparr>roles := rs\<rparr>)"
  using schema_okD [OF assms(1)] assms(2-)
  by (simp add: schema_ok_def row_ok_elsewhere) (auto simp: list_all_iff row_types has_elsewhere)

lemma schema_drop_teams:
  assumes "schema_ok s" "set ts \<subseteq> set (teams s)"
    and "\<And>m. m \<in> set (team_members s) \<Longrightarrow> has_team (s\<lparr>teams := ts\<rparr>) (tmm_OrganizationID m) (tmm_TeamID m)"
    and "\<And>p. p \<in> set (projects s) \<Longrightarrow> nullable (has_team (s\<lparr>teams := ts\<rparr>) (pr_OrganizationID p)) (pr_TeamID p)"
  shows "schema_ok (s\<lparr>teams := ts\<rparr>)"
  using schema_okD [OF assms(1)] assms(2-)
  by (simp add: schema_ok_def row_ok_elsewhere) (auto simp: list_all_iff row_types has_elsewhere)

lemma schema_drop_projects:
  assumes "schema_ok s" "set ps \<subseteq> set (projects s)"
    and "\<And>t. t \<in> set (tasks s) \<Longrightarrow> has_project (s\<lparr>projects := ps\<rparr>) (tk_OrganizationID t) (tk_ProjectID t)"
  shows "schema_ok (s\<lparr>projects := ps\<rparr>)"
  using schema_okD [OF assms(1)] assms(2-)
  by (simp add: schema_ok_def row_ok_elsewhere) (auto simp: list_all_iff row_types has_elsewhere)

lemma cascade_order:
  "(s::store)\<lparr>roles := rs, role_permissions := gs, invitations := is\<rparr> = s\<lparr>role_permissions := gs, invitations := is, roles := rs\<rparr>"
  "(s::store)\<lparr>teams := ts, team_members := tms, projects := ps\<rparr> = s\<lparr>team_members := tms, projects := ps, teams := ts\<rparr>"
  "(s::store)\<lparr>projects := ps, tasks := tks\<rparr> = s\<lparr>tasks := tks, projects := ps\<rparr>"
  by (cases s; simp)+

lemma schema_DeleteRole [keeps_intro]: "schema.keeps T (DeleteRole_q rid org)"
  unfolding DeleteRole_q_def
proof (rule schema.statement, rule ids_DeleteRole [unfolded DeleteRole_q_def])
  fix w x s n
  assume ok: "schema_ok (st w)" and run: "delete_role_rows rid org w = Inr (x, s, n)"
  have free: "s \<noteq> st w \<Longrightarrow> \<forall>m\<in>set (memberships (st w)). m_RoleID m \<noteq> rid"
    using run by (auto simp: delete_role_rows_def Let_def guards_Inr split: if_splits)
  from run show "schema_ok s"
  proof (cases rule: delete_role_rows_cases)
    case (2 r)
    then have changed: "s \<noteq> st w" by (auto dest!: arg_cong [where f = "\<lambda>s. set (roles s)"])
    have refs: "\<forall>m\<in>set (memberships (st w)). \<exists>r\<in>set (roles (st w)). r_ID r = m_RoleID m \<and> m_RoleID m \<noteq> rid"
      "\<forall>g\<in>set (role_permissions (st w)). \<exists>r\<in>set (roles (st w)). r_ID r = rp_RoleID g"
      "\<forall>i\<in>set (invitations (st w)). \<exists>r\<in>set (roles (st w)). r_ID r = i_RoleID i \<and> r_OrganizationID r = i_OrganizationID i"
      using schema_okD(4,5,8) [OF ok] free [OF changed]
      by (simp_all add: list_all_iff membership_ok_def grant_ok_def invitation_ok_def has_defs)
    let ?s = "(st w)\<lparr>role_permissions := filter (\<lambda>rp. rp_RoleID rp \<noteq> rid) (role_permissions (st w))\<rparr>"
    let ?t = "?s\<lparr>invitations := filter (\<lambda>i. \<not> (i_RoleID i = rid \<and> i_OrganizationID i = org)) (invitations ?s)\<rparr>"
    have 1: "schema_ok ?s" by (intro schema_intros schema_okD ok)
    then have "schema_ok ?t" by (rule schema_tables(10)) (rule list_all_filter [OF schema_okD(8) [OF 1]])
    then have "schema_ok (?t\<lparr>roles := filter (\<lambda>r. \<not> (rls w (r_OrganizationID r) \<and> r_ID r = rid \<and> r_OrganizationID r = org \<and>
        \<not> r_IsSystem r)) (roles (st w))\<rparr>)"
      by (rule schema_drop_roles) (use refs in \<open>fastforce simp: has_defs\<close>)+
    then show ?thesis unfolding 2(7) cascade_order by simp
  qed (use ok in simp)
qed

lemma schema_audit [keeps_intro]: "schema.keeps T (insert_audit_log e p)"
  unfolding insert_audit_log_def
  by (rule schema.statement, rule ids_insert_audit_log [unfolded insert_audit_log_def])
    (auto simp: Let_def guards_Inr row_types has_defs intro!: schema_intros schema_okD split: option.splits)

lemma schema_key_statements [keeps_intro]:
  "schema.keeps T (CreateAPIKey org creator name prefix lf hash expires)"
  "schema.keeps T (RevokeAPIKey kid org t)"
  "schema.keeps T (RevokeAPIKeyByID kid org)"
  "schema.keeps T (TouchAPIKey kid)"
  unfolding key_writes
  by (rule schema.statement; (rule unfolded_ids_key_statements)?;
      auto simp: Let_def guards_Inr row_types has_defs intro!: schema_intros schema_okD split: sum.splits)+


lemma schema_product_rows [keeps_intro]:
  "schema.keeps T (CreateTeam org name descr uid)"
  "schema.keeps T (UpdateTeam tid org name descr)"
  "schema.keeps T (AddTeamMember org tid uid)"
  "schema.keeps T (RemoveTeamMember mid tid org)"
  "schema.keeps T (CreateActivityLog org actor action rtype rid md)"
  unfolding product_writes
  by (rule schema.statement; (rule unfolded_ids_product_statements)?;
      auto simp: Let_def guards_Inr team_name_check_def row_types has_defs intro!: schema_intros schema_okD
        split: sum.splits option.splits)+

lemma schema_project_rows [keeps_intro]:
  "schema.keeps T (CreateProject org jf uid)"
  "schema.keeps T (UpdateProject pid org jf)"
  unfolding product_writes
  by (rule schema.statement; (rule unfolded_ids_product_statements)?;
      auto simp: Let_def guards_Inr project_row_checks_def project_team_check_def project_ok_def nullable_def has_defs
        intro!: schema_intros schema_okD split: sum.splits option.splits)+

lemma schema_task_rows [keeps_intro]:
  "schema.keeps T (CreateTask org pid kf uid)"
  "schema.keeps T (UpdateTask kid org kf)"
  "schema.keeps T (DeleteTask kid org)"
  unfolding product_writes
  by (rule schema.statement; (rule unfolded_ids_product_statements)?;
      auto simp: Let_def guards_Inr task_row_checks_def task_assignee_check_def task_ok_def nullable_def has_defs
        intro!: schema_intros schema_okD split: sum.splits option.splits)+


text \<open>The cascades of deleted teams and projects.\<close>

lemma schema_DeleteTeam [keeps_intro]: "schema.keeps T (DeleteTeam tid org)"
  unfolding DeleteTeam_def
proof (rule schema.statement, rule ids_product_statements(3) [unfolded DeleteTeam_def])
  fix w :: world and x s n
  assume ok: "schema_ok (st w)"
  let ?hit = "\<lambda>t. rls w (tm_OrganizationID t) \<and> tm_ID t = tid \<and> tm_OrganizationID t = org"
  let ?s = "(st w)\<lparr>team_members := filter (\<lambda>m. \<not> (tmm_TeamID m = tid \<and> tmm_OrganizationID m = org)) (team_members (st w))\<rparr>"
  let ?t = "?s\<lparr>projects := update_where (\<lambda>p. pr_TeamID p = Some tid \<and> pr_OrganizationID p = org)
                 (\<lambda>p. p\<lparr>pr_TeamID := None, pr_UpdatedAt := clock w\<rparr>) (projects ?s)\<rparr>"
  have 1: "schema_ok ?s" by (intro schema_intros schema_okD ok)
  have 2: "schema_ok ?t"
    by (rule schema_tables(7) [OF 1], rule extends_update [OF schema_okD(12) [OF 1]]) (simp add: project_ok_def)
  have refs: "\<forall>m\<in>set (team_members ?t). \<exists>t\<in>set (teams (st w)). tm_ID t = tmm_TeamID m \<and> tm_OrganizationID t = tmm_OrganizationID m"
    "\<forall>p\<in>set (projects ?t). nullable (has_team ?t (pr_OrganizationID p)) (pr_TeamID p)"
    using schema_okD(11,12) [OF 2] by (simp_all add: list_all_iff team_member_ok_def project_ok_def has_team_def)
  have "schema_ok (?t\<lparr>teams := filter (\<lambda>t. \<not> ?hit t) (teams (st w))\<rparr>)"
    by (rule schema_drop_teams [OF 2])
      (use refs in \<open>fastforce simp: has_defs nullable_def set_update_where split: option.splits if_splits\<close>)+
  then show "schema_ok s"
    if "(let s = st w; hit = ?hit
        in if \<not> (\<exists>t\<in>set (teams s). hit t) then Inr ((), s, fresh w)
           else Inr ((), s\<lparr>teams := filter (\<lambda>t. \<not> hit t) (teams s),
               team_members := filter (\<lambda>m. \<not> (tmm_TeamID m = tid \<and> tmm_OrganizationID m = org)) (team_members s),
               projects := update_where (\<lambda>p. pr_TeamID p = Some tid \<and> pr_OrganizationID p = org)
                 (\<lambda>p. p\<lparr>pr_TeamID := None, pr_UpdatedAt := clock w\<rparr>) (projects s)\<rparr>, fresh w)) = Inr (x, s, n)"
    using that ok by (auto simp: Let_def cascade_order split: if_splits)
qed

lemma schema_DeleteProject [keeps_intro]: "schema.keeps T (DeleteProject pid org)"
  unfolding DeleteProject_def
proof (rule schema.statement, rule ids_product_statements(9) [unfolded DeleteProject_def])
  fix w :: world and x s n
  assume ok: "schema_ok (st w)"
  let ?hit = "\<lambda>p. rls w (pr_OrganizationID p) \<and> pr_ID p = pid \<and> pr_OrganizationID p = org"
  let ?s = "(st w)\<lparr>tasks := filter (\<lambda>t. \<not> (tk_ProjectID t = pid \<and> tk_OrganizationID t = org)) (tasks (st w))\<rparr>"
  have 1: "schema_ok ?s" by (intro schema_intros schema_okD ok)
  have refs: "\<forall>t\<in>set (tasks ?s). \<exists>p\<in>set (projects (st w)). pr_ID p = tk_ProjectID t \<and> pr_OrganizationID p = tk_OrganizationID t"
    using schema_okD(13) [OF 1] by (auto simp: list_all_iff task_ok_def has_defs)
  have "schema_ok (?s\<lparr>projects := filter (\<lambda>p. \<not> ?hit p) (projects (st w))\<rparr>)"
    by (rule schema_drop_projects [OF 1]) (use refs in \<open>fastforce simp: has_defs\<close>)+
  then show "schema_ok s"
    if "(let s = st w; hit = ?hit
        in if \<not> (\<exists>p\<in>set (projects s). hit p) then Inr ((), s, fresh w)
           else Inr ((), s\<lparr>projects := filter (\<lambda>p. \<not> hit p) (projects s),
               tasks := filter (\<lambda>t. \<not> (tk_ProjectID t = pid \<and> tk_OrganizationID t = org)) (tasks s)\<rparr>, fresh w)) = Inr (x, s, n)"
    using that ok by (auto simp: Let_def cascade_order split: if_splits)
qed


text \<open>The checks are made on the row the update finds, which is the only one with its identifier.\<close>

lemma schema_update_invitation:
  assumes f: "\<And>i. i_ID (f i) = i_ID i \<and> i_OrganizationID (f i) = i_OrganizationID i \<and> i_RoleID (f i) = i_RoleID i \<and> i_InvitedBy (f i) = i_InvitedBy i"
    and hash: "(\<forall>i. i_TokenHash (f i) = i_TokenHash i) \<or> (\<exists>h. \<forall>i. i_TokenHash (f i) = h)"
  shows "schema.keeps T (update_invitation iid org cond f)"
  unfolding update_invitation_def
proof (rule schema.statement, rule ids_update_invitation [unfolded update_invitation_def], simp add: f, rule hash)
  fix w :: world and x s n
  let ?hit = "\<lambda>i. rls w (i_OrganizationID i) \<and> i_ID i = iid \<and> i_OrganizationID i = org \<and> cond i"
  let ?new = "\<lambda>i. (f i)\<lparr>i_UpdatedAt := clock w\<rparr>"
  assume wf: "wf_ids (st w) (fresh w)" and ok: "schema_ok (st w)"
    and "(let s = st w; hit = ?hit; new = ?new
          in case one_row hit (invitations s) of Inl e \<Rightarrow> Inl e
             | Inr i \<Rightarrow> guards (invitation_checks s (new i)) (Inr (new i, s\<lparr>invitations := update_where hit new (invitations s)\<rparr>, fresh w))) =
         Inr (x, s, n)"
  then obtain i where i: "i \<in> set (invitations (st w))" "?hit i" and chk: "list_all fst (invitation_checks (st w) (?new i))"
    and s: "s = (st w)\<lparr>invitations := update_where ?hit ?new (invitations (st w))\<rparr>"
    by (auto simp: Let_def one_row_def guards_Inr list_all_iff dest!: find_SomeD split: option.splits)
  have "invitation_ok (st w) (?new j)" if "j \<in> set (invitations (st w))" "?hit j" for j
  proof -
    have "j = i" using wf_invitation_unique [OF wf that(1) i(1)] that(2) i(2) by simp
    then show ?thesis
      using chk f [of i] schema_okD(8) [OF ok] i(1)
      by (auto simp: invitation_ok_def invitation_checks_def nullable_def has_user_def list_all_iff split: option.splits)
  qed
  then show "schema_ok s" unfolding s by (intro schema_intros schema_okD ok)
qed

lemma schema_invitation_statements [keeps_intro]:
  "schema.keeps T (CreateInvitation org email role hash by expires)"
  "schema.keeps T (MarkInvitationNotified iid org)"
  "schema.keeps T (AcceptInvitation iid org t uid)"
  "schema.keeps T (MarkInvitationExpired iid org)"
  "schema.keeps T (RevokeInvitation iid org t)"
  "schema.keeps T (RotateInvitationToken iid org hash t)"
  "schema.keeps T (RotateInvitationForDelivery iid org hash)"
  subgoal unfolding CreateInvitation_def
    by (rule schema.statement, rule unfolded_ids_invitation_statements)
      (auto simp: Let_def guards_Inr invitation_ok_def has_defs intro!: schema_intros schema_okD)
  subgoal unfolding MarkInvitationNotified_def
    by (rule schema.statement, rule unfolded_ids_invitation_statements)
      (auto simp: Let_def invitation_ok_def intro!: schema_intros schema_okD)
  unfolding invitation_updates by (rule schema_update_invitation; simp)+

section \<open>Every operation keeps the type\<close>

interpretation schema_identity: identity_statements "wf_and schema_ok"
  by unfold_locales (rule keeps_intro)+

interpretation schema_keys: key_statements "wf_and schema_ok" "\<lambda>_. True"
  by unfold_locales (rule keeps_intro)+

interpretation schema_settling: settling_statements "wf_and schema_ok" "\<lambda>_. True"
  by unfold_locales (rule keeps_intro)+

interpretation schema_invitations: invitation_statements "wf_and schema_ok" "\<lambda>_. True"
  by unfold_locales (rule schema_settling.settling_transactions TrueI schema_identity.identity_operations keeps_intro)+

interpretation schema_product: product_statements "wf_and schema_ok" "\<lambda>_. True"
  by unfold_locales (rule keeps_intro)+

end
