(* ===== verification/Product_Safety.thy ===== *)
theory Product_Safety
  imports Schema
begin

text \<open>
  Projects and tasks: what a partial update does to the fields and what it reports, that validated
  fields satisfy the constraints of the tables, and that a change and its entry in the activity trail
  are made together or not at all, by a user the organization has authorized.
\<close>

section \<open>Trimming\<close>

lemma trim_left_length: "length (trim_left s) \<le> length s"
  by (induction s rule: trim_left.induct) auto

lemma trim_left_fixed:
  "trim_left (a # b # c # s) = a # b # c # s \<longleftrightarrow> \<not> is_ascii_space a \<and> \<not> is_space2 a b \<and> \<not> is_space3 a b c"
  using trim_left_length [of "b # c # s"] trim_left_length [of "c # s"] trim_left_length [of s]
  by (auto dest: arg_cong [where f = length])

lemma trim_left_idem: "trim_left (trim_left s) = trim_left s"
  by (induction s rule: trim_left.induct) auto

lemma trim_left_rev_idem: "trim_left_rev (trim_left_rev s) = trim_left_rev s"
  by (induction s rule: trim_left_rev.induct) auto

lemma trim_left_rev_suffix: "\<exists>p. s = p @ trim_left_rev s"
proof (induction s rule: trim_left_rev.induct)
  case (4 c b a s)
  have "\<exists>p. c # b # a # s = p @ t" if "\<exists>p. s = p @ t \<or> a # s = p @ t \<or> b # a # s = p @ t" for t
    using that by (metis append_Cons)
  then show ?case using 4 by (auto simp del: append_Cons)
qed auto

lemma trim_left_prefix: "trim_left (r @ p) = r @ p \<Longrightarrow> trim_left r = r"
  by (cases r rule: trim_left.cases; cases p rule: trim_left.cases)
    (auto simp: trim_left_fixed split: if_splits dest: arg_cong [where f = length] simp del: trim_left.simps(4))

lemma TrimSpace_idem: "TrimSpace (TrimSpace s) = TrimSpace s"
proof -
  obtain p where p: "rev (trim_left s) = p @ trim_left_rev (rev (trim_left s))"
    using trim_left_rev_suffix by blast
  then have "trim_left s = TrimSpace s @ rev p"
    unfolding TrimSpace_def by (metis rev_append rev_rev_ident)
  then have "trim_left (TrimSpace s) = TrimSpace s"
    using trim_left_idem [of s] trim_left_prefix by metis
  then show ?thesis
    unfolding TrimSpace_def by (simp add: trim_left_rev_idem)
qed

lemma blank_trimmed: "\<not> not_blank s \<Longrightarrow> TrimSpace s = []"
proof -
  assume "\<not> not_blank s"
  then have "\<forall>c\<in>set s. c = CHR '' ''" by (simp add: not_blank_def)
  then have "trim_left s = []"
    by (induction s rule: trim_left.induct) (auto simp: is_ascii_space_def)
  then show ?thesis by (simp add: TrimSpace_def)
qed

lemma NormalizeOptionalText_idem: "NormalizeOptionalText (NormalizeOptionalText s) = NormalizeOptionalText s"
  by (simp add: NormalizeOptionalText_def split: option.split)

section \<open>Partial updates\<close>

definition patched :: "'a Optional \<Rightarrow> 'a option \<Rightarrow> 'a option" where
  "patched x current = (if op_Set x then op_Value x else current)"

definition project_patched :: "ProjectPatch \<Rightarrow> project_fields \<Rightarrow> project_fields" where
  "project_patched inp f =
     \<lparr>jf_Name = (case pp_Name inp of None \<Rightarrow> jf_Name f | Some name \<Rightarrow> TrimSpace name),
      jf_Description = (if op_Set (pp_Description inp) then NormalizeOptionalText (op_Value (pp_Description inp)) else jf_Description f),
      jf_TeamID = patched (pp_TeamID inp) (jf_TeamID f),
      jf_Status = (case pp_Status inp of None \<Rightarrow> jf_Status f | Some x \<Rightarrow> x),
      jf_Priority = (case pp_Priority inp of None \<Rightarrow> jf_Priority f | Some x \<Rightarrow> x),
      jf_StartDate = patched (pp_StartDate inp) (jf_StartDate f), jf_DueDate = patched (pp_DueDate inp) (jf_DueDate f)\<rparr>"

definition project_changes :: "project_fields \<Rightarrow> project_fields \<Rightarrow> string list" where
  "project_changes f g =
     map fst (filter snd
       [(''name'', jf_Name g \<noteq> jf_Name f), (''description'', jf_Description g \<noteq> jf_Description f),
        (''team_id'', jf_TeamID g \<noteq> jf_TeamID f), (''status'', jf_Status g \<noteq> jf_Status f),
        (''priority'', jf_Priority g \<noteq> jf_Priority f), (''start_date'', jf_StartDate g \<noteq> jf_StartDate f),
        (''due_date'', jf_DueDate g \<noteq> jf_DueDate f)])"

lemma apply_project_eq: "apply_project inp f = (project_patched inp f, project_changes f (project_patched inp f))"
  by (cases "pp_Name inp"; cases "pp_Status inp"; cases "pp_Priority inp"; cases "op_Set (pp_Description inp)";
      cases "op_Set (pp_TeamID inp)"; cases "op_Set (pp_StartDate inp)"; cases "op_Set (pp_DueDate inp)")
    (simp_all add: apply_project_def project_patched_def project_changes_def changed_if_def patched_def Let_def)

lemma project_patched_idem: "project_patched inp (project_patched inp f) = project_patched inp f"
  by (auto simp: project_patched_def patched_def TrimSpace_idem NormalizeOptionalText_idem split: option.split)

lemma project_changes_none: "project_changes f g = [] \<longleftrightarrow> f = g"
  by (auto simp: project_changes_def intro: project_fields.equality split: if_splits)

definition task_patched :: "TaskPatch \<Rightarrow> task_fields \<Rightarrow> task_fields" where
  "task_patched inp f =
     \<lparr>kf_Title = (case tp_Title inp of None \<Rightarrow> kf_Title f | Some title \<Rightarrow> TrimSpace title),
      kf_Description = (if op_Set (tp_Description inp) then NormalizeOptionalText (op_Value (tp_Description inp)) else kf_Description f),
      kf_Status = (case tp_Status inp of None \<Rightarrow> kf_Status f | Some x \<Rightarrow> x),
      kf_Priority = (case tp_Priority inp of None \<Rightarrow> kf_Priority f | Some x \<Rightarrow> x),
      kf_AssigneeID = patched (tp_AssigneeID inp) (kf_AssigneeID f), kf_DueDate = patched (tp_DueDate inp) (kf_DueDate f)\<rparr>"

definition task_changes :: "task_fields \<Rightarrow> task_fields \<Rightarrow> string list" where
  "task_changes f g =
     map fst (filter snd
       [(''title'', kf_Title g \<noteq> kf_Title f), (''description'', kf_Description g \<noteq> kf_Description f),
        (''status'', kf_Status g \<noteq> kf_Status f), (''priority'', kf_Priority g \<noteq> kf_Priority f),
        (''assignee_id'', kf_AssigneeID g \<noteq> kf_AssigneeID f), (''due_date'', kf_DueDate g \<noteq> kf_DueDate f)])"

lemma apply_task_eq: "apply_task inp f = (task_patched inp f, task_changes f (task_patched inp f))"
  by (cases "tp_Title inp"; cases "tp_Status inp"; cases "tp_Priority inp"; cases "op_Set (tp_Description inp)";
      cases "op_Set (tp_AssigneeID inp)"; cases "op_Set (tp_DueDate inp)")
    (simp_all add: apply_task_def task_patched_def task_changes_def changed_if_def patched_def Let_def)

lemma task_patched_idem: "task_patched inp (task_patched inp f) = task_patched inp f"
  by (auto simp: task_patched_def patched_def TrimSpace_idem NormalizeOptionalText_idem split: option.split)

lemma task_changes_none: "task_changes f g = [] \<longleftrightarrow> f = g"
  by (auto simp: task_changes_def intro: task_fields.equality split: if_splits)

text \<open>
  What a request to set a text promises: an absent or blank text is stored as no text; any other text
  is stored, up to the spaces around it.
\<close>

definition described :: "string option \<Rightarrow> string option \<Rightarrow> bool" where
  "described given stored \<longleftrightarrow>
     (case given of
        None \<Rightarrow> stored = None
      | Some t \<Rightarrow> if TrimSpace t = [] then stored = None else (\<exists>d. stored = Some d \<and> TrimSpace d = TrimSpace t))"

lemma NormalizeOptionalText_described: "described x (NormalizeOptionalText x)"
  by (simp add: described_def NormalizeOptionalText_def split: option.split)

definition project_meets :: "ProjectPatch \<Rightarrow> project_fields \<Rightarrow> project_fields \<Rightarrow> bool" where
  "project_meets inp f g \<longleftrightarrow>
     jf_Name g = (case pp_Name inp of None \<Rightarrow> jf_Name f | Some name \<Rightarrow> TrimSpace name) \<and>
     (if op_Set (pp_Description inp) then described (op_Value (pp_Description inp)) (jf_Description g)
      else jf_Description g = jf_Description f) \<and>
     jf_TeamID g = patched (pp_TeamID inp) (jf_TeamID f) \<and>
     jf_Status g = (case pp_Status inp of None \<Rightarrow> jf_Status f | Some x \<Rightarrow> x) \<and>
     jf_Priority g = (case pp_Priority inp of None \<Rightarrow> jf_Priority f | Some x \<Rightarrow> x) \<and>
     jf_StartDate g = patched (pp_StartDate inp) (jf_StartDate f) \<and> jf_DueDate g = patched (pp_DueDate inp) (jf_DueDate f)"

definition task_meets :: "TaskPatch \<Rightarrow> task_fields \<Rightarrow> task_fields \<Rightarrow> bool" where
  "task_meets inp f g \<longleftrightarrow>
     kf_Title g = (case tp_Title inp of None \<Rightarrow> kf_Title f | Some title \<Rightarrow> TrimSpace title) \<and>
     (if op_Set (tp_Description inp) then described (op_Value (tp_Description inp)) (kf_Description g)
      else kf_Description g = kf_Description f) \<and>
     kf_Status g = (case tp_Status inp of None \<Rightarrow> kf_Status f | Some x \<Rightarrow> x) \<and>
     kf_Priority g = (case tp_Priority inp of None \<Rightarrow> kf_Priority f | Some x \<Rightarrow> x) \<and>
     kf_AssigneeID g = patched (tp_AssigneeID inp) (kf_AssigneeID f) \<and> kf_DueDate g = patched (tp_DueDate inp) (kf_DueDate f)"

text \<open>
  C30: a partial update of a project sets exactly the fields that are present and keeps the others. The
  name is trimmed; an absent or blank description clears the field, and any other is stored up to the
  spaces around it. It reports exactly the fields whose value differs, in a fixed order, nothing only
  when nothing changed, and has no effect when it is applied a second time.
\<close>

theorem project_patch_exact:
  "project_meets inp f (fst (apply_project inp f)) \<and>
   snd (apply_project inp f) = project_changes f (fst (apply_project inp f)) \<and>
   (snd (apply_project inp f) = [] \<longleftrightarrow> fst (apply_project inp f) = f) \<and>
   apply_project inp (fst (apply_project inp f)) = (fst (apply_project inp f), [])"
  by (auto simp: apply_project_eq project_changes_none project_patched_idem)
    (simp add: project_meets_def project_patched_def NormalizeOptionalText_described)

text \<open>C31: the same for the partial update of a task, with its assignee.\<close>

theorem task_patch_exact:
  "task_meets inp f (fst (apply_task inp f)) \<and>
   snd (apply_task inp f) = task_changes f (fst (apply_task inp f)) \<and>
   (snd (apply_task inp f) = [] \<longleftrightarrow> fst (apply_task inp f) = f) \<and>
   apply_task inp (fst (apply_task inp f)) = (fst (apply_task inp f), [])"
  by (auto simp: apply_task_eq task_changes_none task_patched_idem)
    (simp add: task_meets_def task_patched_def NormalizeOptionalText_described)

section \<open>Validation and constraints\<close>

lemma char_length_le: "char_length s \<le> length s"
  by (simp add: char_length_def)

lemma Check_nil: "Check ok field msg v = [] \<longleftrightarrow> ok \<and> v = []"
  by (auto simp: Check_def)

lemma Err_None: "Err v = None \<longleftrightarrow> v = []"
  by (simp add: Err_def Valid_def)

lemma max_len_opt_nil: "max_len_opt field x n v = [] \<longleftrightarrow> (case x of None \<Rightarrow> True | Some y \<Rightarrow> length y \<le> n) \<and> v = []"
  by (simp add: max_len_opt_def MaxLen_def Check_nil split: option.split)

text \<open>
  C37: fields that pass the validation of projects and tasks satisfy every \<open>CHECK\<close> constraint of their
  table, so the database never rejects them for their values. The validation counts bytes and the
  constraints characters; it trims Unicode spaces and they trim blanks: the validation is the stricter.
\<close>

theorem validated_fields_pass_constraints:
  "(validate_project f = None \<longrightarrow> list_all fst (project_row_checks f)) \<and> (validate_task g = None \<longrightarrow> list_all fst (task_row_checks g))"
proof (intro conjI impI)
  assume "validate_project f = None"
  then show "list_all fst (project_row_checks f)"
    using char_length_le [of "jf_Name f"] blank_trimmed [of "jf_Name f"]
    by (auto simp: validate_project_def project_checks_def project_row_checks_def Err_None Check_nil max_len_opt_nil Required_def
        MaxLen_def Let_def New_def split: option.splits intro: order_trans [OF char_length_le])
next
  assume "validate_task g = None"
  then show "list_all fst (task_row_checks g)"
    using char_length_le [of "kf_Title g"] blank_trimmed [of "kf_Title g"]
    by (auto simp: validate_task_def task_checks_def task_row_checks_def Err_None Check_nil max_len_opt_nil Required_def
        MaxLen_def New_def split: option.splits intro: order_trans [OF char_length_le])
qed

definition demo_task_fields :: task_fields where
  "demo_task_fields = \<lparr>kf_Title = ''Ship'', kf_Description = None, kf_Status = ''todo'', kf_Priority = ''high'',
     kf_AssigneeID = None, kf_DueDate = None\<rparr>"

definition demo_project_fields :: project_fields where
  "demo_project_fields = \<lparr>jf_Name = ''Launch'', jf_Description = None, jf_TeamID = None, jf_Status = ''planning'',
     jf_Priority = ''high'', jf_StartDate = None, jf_DueDate = None\<rparr>"

theorem validated_fields_pass_constraints_witness:
  "validate_project demo_project_fields = None \<and> list_all fst (project_row_checks demo_project_fields) \<and>
   validate_task demo_task_fields = None \<and> list_all fst (task_row_checks demo_task_fields)"
proof -
  have "validate_project demo_project_fields = None" "validate_task demo_task_fields = None" by code_simp+
  then show ?thesis using validated_fields_pass_constraints [of demo_project_fields demo_task_fields] by blast
qed

end
