(* ===== verification/Change_Trail.thy ===== *)
theory Change_Trail
  imports Product_Safety
begin

text \<open>
  Changes of projects and tasks and the activity trail: a change, the rows it cascades to and its entry
  in the trail are one unit, made for a user whose role grants the change at that moment.
\<close>

section \<open>Operations of a tenant\<close>

text \<open>The user may do what the permission stands for, as \<open>Authorize\<close> decides it.\<close>

definition may :: "uuid \<Rightarrow> uuid \<Rightarrow> string \<Rightarrow> store \<Rightarrow> bool" where
  "may uid org perm db \<longleftrightarrow>
     (\<exists>m x r rp p. m \<in> set (memberships db) \<and> m_OrganizationID m = org \<and> m_UserID m = uid \<and> m_Status m = ''active'' \<and>
        x \<in> set (organizations db) \<and> o_ID x = org \<and> o_Status x = ''active'' \<and>
        r \<in> set (roles db) \<and> r_ID r = m_RoleID m \<and> r_OrganizationID r = org \<and>
        rp \<in> set (role_permissions db) \<and> rp_RoleID rp = r_ID r \<and>
        p \<in> set (permissions db) \<and> p_ID p = rp_PermissionID rp \<and> p_Key p = perm)"

lemma authorize_may:
  assumes "Authorize uid org perm w = (Inr t, w')"
  shows "may uid org perm (st w) \<and> st w' = st w \<and> fresh w \<le> fresh w'"
proof -
  have "fresh w \<le> fresh w'"
    using ids.keepsD(2) [OF ids_product.keeps_authorize TrueI, of w] assms by (metis snd_conv)
  then show ?thesis using authorize_facts [OF assms] unfolding may_def by metis
qed

lemma authorize_failure: "Authorize uid org perm w = (Inl e, w') \<Longrightarrow> st w' = st w"
  by (auto dest!: frame_same [where f = id, OF frame_Authorize TrueI, simplified])

text \<open>The shape of the operations: authorization, one transaction, an answer made from its result.\<close>

lemma tenant_operation:
  assumes "io_try (Authorize uid org perm) id (\<lambda>_. io_try (WithTenantTx org tx) h (\<lambda>x. io_return (g x))) w = (r, w')"
  obtains (refused) e where "r = Inl e" "st w' = st w"
  | (made) x v v' where "r = Inr (g x)" "may uid org perm (st w)" "tx v = (Inr x, v')" "st v = st w" "fresh w \<le> fresh v"
      "tenant v = Some org" "st v' = st w'"
proof (cases r)
  case (Inl e)
  have "st w' = st w"
    using assms [unfolded Inl]
    by (auto simp: io_try_def io_case_def io_throw_def io_return_def dest!: authorize_failure authorize_may WithTenantTx_failure
        split: prod.splits sum.splits)
  with Inl show ?thesis by (rule refused)
next
  case (Inr y)
  with assms obtain t w1 x w2 where "Authorize uid org perm w = (Inr t, w1)" and tx: "WithTenantTx org tx w1 = (Inr x, w2)"
    and "y = g x" "w' = w2"
    by (auto simp: io_success)
  then have "may uid org perm (st w)" "st w1 = st w" "fresh w \<le> fresh w1" using authorize_may by blast+
  with tx Inr \<open>y = g x\<close> \<open>w' = w2\<close> show ?thesis
    by (auto simp: io_success intro!: made)
qed

section \<open>The trail\<close>

definition describes :: "env \<Rightarrow> ActivityEntry \<Rightarrow> ActivityLog \<Rightarrow> bool" where
  "describes e en a \<longleftrightarrow>
     av_OrganizationID a = ae_OrganizationID en \<and> av_ActorUserID a = ae_ActorUserID en \<and> av_Action a = ae_Action en \<and>
     av_ResourceType a = ae_ResourceType en \<and> av_ResourceID a = ae_ResourceID en \<and> av_Metadata a = json_Marshal e (ae_Metadata en)"

lemma RecordActivity_success:
  assumes "RecordActivity e en v = (Inr u, v')"
  obtains a where "st v' = (st v)\<lparr>activity_logs := activity_logs (st v) @ [a]\<rparr>" "describes e en a"
  using assms by (auto simp: RecordActivity_def CreateActivityLog_def io_success Let_def guards_Inr describes_def intro!: that)

text \<open>The row with an identifier replaced by another row.\<close>

definition replace_row :: "('r \<Rightarrow> nat) \<Rightarrow> 'r \<Rightarrow> 'r list \<Rightarrow> 'r list" where
  "replace_row key q = map (\<lambda>x. if key x = key q then q else x)"

lemma one_row_hit:
  assumes "rows_ok key rows n" "p \<in> set rows" "hit p" "\<And>x. hit x \<Longrightarrow> key x = key p" "x \<in> set rows"
  shows "hit x \<longleftrightarrow> x = p" "key x = key p \<longleftrightarrow> x = p"
  using assms(3,4) rows_ok_unique [OF assms(1) assms(5) assms(2)] by (metis, metis)

lemma update_one_row:
  assumes "rows_ok key rows n" "p \<in> set rows" "hit p" "\<And>x. hit x \<Longrightarrow> key x = key p" "key (f p) = key p"
  shows "update_where hit f rows = replace_row key (f p) rows"
  unfolding update_where_def replace_row_def
  by (rule map_cong [OF refl]) (simp add: one_row_hit [where hit = hit, OF assms(1-4)] assms(5))

lemma delete_one_row:
  assumes "rows_ok key rows n" "p \<in> set rows" "hit p" "\<And>x. hit x \<Longrightarrow> key x = key p"
  shows "filter (\<lambda>x. \<not> hit x) rows = filter (\<lambda>x. key x \<noteq> key p) rows"
  by (rule filter_cong [OF refl]) (simp add: one_row_hit [where hit = hit, OF assms])

section \<open>Projects\<close>

definition project_created :: "env \<Rightarrow> uuid \<Rightarrow> uuid \<Rightarrow> ProjectInput \<Rightarrow> ProjectDTO \<Rightarrow> store \<Rightarrow> store \<Rightarrow> bool" where
  "project_created e uid org inp dto before after \<longleftrightarrow>
     may uid org ProjectsCreate before \<and> validate_project (input_project_fields inp) = None \<and>
     (\<exists>p a. dto = project_toDTO p \<and> pr_OrganizationID p = org \<and> pr_CreatedBy p = uid \<and>
        fieldsFromProject p = input_project_fields inp \<and>
        describes e (project_entry org uid ProjectCreated (pr_ID p) [(''name'', JString (pr_Name p))]) a \<and>
        after = before\<lparr>projects := projects before @ [p], activity_logs := activity_logs before @ [a]\<rparr>)"

definition project_kept :: "uuid \<Rightarrow> uuid \<Rightarrow> ProjectPatch \<Rightarrow> ProjectDTO \<Rightarrow> store \<Rightarrow> bool" where
  "project_kept org pid inp dto db \<longleftrightarrow>
     (\<exists>p\<in>set (projects db). pr_ID p = pid \<and> pr_OrganizationID p = org \<and> dto = project_toDTO p \<and>
        project_patched inp (fieldsFromProject p) = fieldsFromProject p)"

definition project_updated ::
  "env \<Rightarrow> uuid \<Rightarrow> uuid \<Rightarrow> uuid \<Rightarrow> ProjectPatch \<Rightarrow> ProjectDTO \<Rightarrow> store \<Rightarrow> store \<Rightarrow> bool" where
  "project_updated e uid org pid inp dto before after \<longleftrightarrow>
     may uid org ProjectsUpdate before \<and>
     (\<exists>p q a. p \<in> set (projects before) \<and> pr_ID p = pid \<and> pr_OrganizationID p = org \<and> dto = project_toDTO q \<and>
        q = p\<lparr>pr_TeamID := pr_TeamID q, pr_Name := pr_Name q, pr_Description := pr_Description q, pr_Status := pr_Status q,
              pr_Priority := pr_Priority q, pr_StartDate := pr_StartDate q, pr_DueDate := pr_DueDate q, pr_UpdatedAt := pr_UpdatedAt q\<rparr> \<and>
        fieldsFromProject q = project_patched inp (fieldsFromProject p) \<and> fieldsFromProject q \<noteq> fieldsFromProject p \<and>
        validate_project (fieldsFromProject q) = None \<and>
        describes e (project_entry org uid ProjectUpdated pid
          ([(''changes'', JStrings (project_changes (fieldsFromProject p) (fieldsFromProject q))), (''name'', JString (pr_Name q))] @
           status_change (pr_Status p) (pr_Status q))) a \<and>
        after = before\<lparr>projects := replace_row pr_ID q (projects before), activity_logs := activity_logs before @ [a]\<rparr>)"

definition project_deleted :: "env \<Rightarrow> uuid \<Rightarrow> uuid \<Rightarrow> uuid \<Rightarrow> store \<Rightarrow> store \<Rightarrow> bool" where
  "project_deleted e uid org pid before after \<longleftrightarrow>
     may uid org ProjectsDelete before \<and>
     (\<exists>p a. p \<in> set (projects before) \<and> pr_ID p = pid \<and> pr_OrganizationID p = org \<and>
        describes e (project_entry org uid ProjectDeleted pid [(''name'', JString (pr_Name p))]) a \<and>
        after = before\<lparr>projects := filter (\<lambda>q. pr_ID q \<noteq> pid) (projects before),
          tasks := filter (\<lambda>t. \<not> (tk_ProjectID t = pid \<and> tk_OrganizationID t = org)) (tasks before),
          activity_logs := activity_logs before @ [a]\<rparr>)"

lemma project_dates [simp]: "f\<lparr>jf_StartDate := TimeFromDate (jf_StartDate f), jf_DueDate := TimeFromDate (jf_DueDate f)\<rparr> = f"
  by (simp add: TimeFromDate_def)

lemma CreateProject_success:
  assumes "CreateProject org f uid v = (Inr p, v')"
  shows "st v' = (st v)\<lparr>projects := projects (st v) @ [p]\<rparr> \<and> pr_OrganizationID p = org \<and> pr_CreatedBy p = uid \<and> fieldsFromProject p = f"
proof -
  from assms have p: "p = \<lparr>pr_ID = fresh v, pr_OrganizationID = org, pr_TeamID = jf_TeamID f, pr_Name = jf_Name f,
              pr_Description = jf_Description f, pr_Status = jf_Status f, pr_Priority = jf_Priority f,
              pr_StartDate = jf_StartDate f, pr_DueDate = jf_DueDate f, pr_CreatedBy = uid,
              pr_CreatedAt = clock v, pr_UpdatedAt = clock v\<rparr>"
    and s: "st v' = (st v)\<lparr>projects := projects (st v) @ [p]\<rparr>"
    by (auto simp: CreateProject_def io_success Let_def guards_Inr)
  have "fieldsFromProject p = f"
    unfolding p fieldsFromProject_def by (simp add: DateFromTime_def)
  with s show ?thesis by (simp add: p)
qed

lemma create_project_tx_success:
  assumes "create_project_tx e uid org f v = (Inr p, v')"
  obtains a where "st v' = (st v)\<lparr>projects := projects (st v) @ [p], activity_logs := activity_logs (st v) @ [a]\<rparr>"
    "describes e (project_entry org uid ProjectCreated (pr_ID p) [(''name'', JString (pr_Name p))]) a"
    "pr_OrganizationID p = org" "pr_CreatedBy p = uid" "fieldsFromProject p = f"
proof -
  from assms obtain v1 v2 where v1: "ensureTeam org (jf_TeamID f) v = (Inr (), v1)"
    and c: "CreateProject org f uid v1 = (Inr p, v2)"
    and r: "RecordActivity e (project_entry org uid ProjectCreated (pr_ID p) [(''name'', JString (pr_Name p))]) v2 = (Inr (), v')"
    by (auto simp: create_project_tx_def io_success)
  have "st v1 = st v"
    using v1 by (auto simp: ensureTeam_def GetTeam_def io_success split: option.splits)
  then have c': "st v2 = (st v)\<lparr>projects := projects (st v) @ [p]\<rparr>" "pr_OrganizationID p = org" "pr_CreatedBy p = uid"
      "fieldsFromProject p = f"
    using CreateProject_success [OF c] by simp_all
  from r obtain a where "st v' = (st v2)\<lparr>activity_logs := activity_logs (st v2) @ [a]\<rparr>"
    "describes e (project_entry org uid ProjectCreated (pr_ID p) [(''name'', JString (pr_Name p))]) a"
    by (rule RecordActivity_success)
  with c' show ?thesis by (intro that [of a]) simp_all
qed

lemma getProjectForUpdate_success:
  "getProjectForUpdate org pid v = (Inr p, v') \<Longrightarrow>
     p \<in> set (projects (st v)) \<and> pr_ID p = pid \<and> pr_OrganizationID p = org \<and> st v' = st v \<and> tenant v' = tenant v"
  by (auto simp: getProjectForUpdate_def GetProjectForUpdate_def io_success one_row_def dest!: find_SomeD split: option.splits)

lemma UpdateProject_success:
  assumes "rows_ok pr_ID (projects (st v)) n" and "UpdateProject pid org f v = (Inr q, v')"
    and p: "p \<in> set (projects (st v))" "pr_ID p = pid" "pr_OrganizationID p = org"
  shows "st v' = (st v)\<lparr>projects := replace_row pr_ID q (projects (st v))\<rparr> \<and>
    q = p\<lparr>pr_TeamID := jf_TeamID f, pr_Name := jf_Name f, pr_Description := jf_Description f, pr_Status := jf_Status f,
         pr_Priority := jf_Priority f, pr_StartDate := jf_StartDate f, pr_DueDate := jf_DueDate f, pr_UpdatedAt := pr_UpdatedAt q\<rparr>"
proof -
  let ?new = "\<lambda>p. p\<lparr>pr_TeamID := jf_TeamID f, pr_Name := jf_Name f, pr_Description := jf_Description f, pr_Status := jf_Status f,
     pr_Priority := jf_Priority f, pr_StartDate := jf_StartDate f, pr_DueDate := jf_DueDate f, pr_UpdatedAt := clock v\<rparr>"
  let ?hit = "\<lambda>p. rls v (pr_OrganizationID p) \<and> pr_ID p = pid \<and> pr_OrganizationID p = org"
  from assms(2) obtain x where x: "x \<in> set (projects (st v))" "?hit x" and q: "q = ?new x"
    and s: "st v' = (st v)\<lparr>projects := update_where ?hit ?new (projects (st v))\<rparr>"
    by (auto simp: UpdateProject_def io_success Let_def guards_Inr one_row_def rls_def dest!: find_SomeD split: option.splits)
  have "x = p" using rows_ok_unique [OF assms(1) x(1) p(1)] x(2) p(2) by simp
  then show ?thesis
    using s q update_one_row [where hit = ?hit, OF assms(1) x, of ?new] x(2) by simp
qed


lemma fields_of_updated_project:
  "q = p\<lparr>pr_TeamID := jf_TeamID f, pr_Name := jf_Name f, pr_Description := jf_Description f, pr_Status := jf_Status f,
         pr_Priority := jf_Priority f, pr_StartDate := jf_StartDate f, pr_DueDate := jf_DueDate f, pr_UpdatedAt := t\<rparr> \<Longrightarrow>
   fieldsFromProject q = f"
  by (simp add: fieldsFromProject_def DateFromTime_def)

lemma update_project_tx_success:
  assumes wf: "rows_ok pr_ID (projects (st v)) n" and run: "update_project_tx e uid org pid inp v = (Inr q, v')"
    and may: "may uid org ProjectsUpdate (st v)"
  shows "st v' = st v \<and> project_kept org pid inp (project_toDTO q) (st v) \<or>
         project_updated e uid org pid inp (project_toDTO q) (st v) (st v')"
proof -
  from run obtain p v1 where g: "getProjectForUpdate org pid v = (Inr p, v1)"
    and rest: "(let (nxt, changed) = apply_project inp (fieldsFromProject p) in
      case validate_project nxt of Some er \<Rightarrow> io_throw er
      | None \<Rightarrow> if length changed = 0 then io_return p
         else io_try (if op_Set (pp_TeamID inp) then ensureTeam org (jf_TeamID nxt) else io_return ()) id (\<lambda>_.
           io_try (UpdateProject pid org
               (nxt\<lparr>jf_StartDate := TimeFromDate (jf_StartDate nxt), jf_DueDate := TimeFromDate (jf_DueDate nxt)\<rparr>))
             projectWriteError (\<lambda>project.
           io_try (RecordActivity e (project_entry org uid ProjectUpdated (pr_ID project)
               ([(''changes'', JStrings changed), (''name'', JString (pr_Name project))] @
                status_change (pr_Status p) (pr_Status project)))) id (\<lambda>_. io_return project)))) v1 = (Inr q, v')"
    unfolding update_project_tx_def io_success by blast
  note p = getProjectForUpdate_success [OF g]
  let ?f = "fieldsFromProject p" and ?g = "project_patched inp (fieldsFromProject p)"
  show ?thesis
  proof (cases "project_changes ?f ?g = []")
    case True
    then have "?g = ?f" using project_changes_none by metis
    with rest p show ?thesis
      by (auto simp: apply_project_eq project_kept_def project_changes_none io_success split: option.splits)
  next
    case False
    with rest obtain v2 v3 where ok: "validate_project ?g = None"
      and t: "(if op_Set (pp_TeamID inp) then ensureTeam org (jf_TeamID ?g) else io_return ()) v1 = (Inr (), v2)"
      and u: "UpdateProject pid org ?g v2 = (Inr q, v3)"
      and r: "RecordActivity e (project_entry org uid ProjectUpdated (pr_ID q)
         ([(''changes'', JStrings (project_changes ?f ?g)), (''name'', JString (pr_Name q))] @ status_change (pr_Status p) (pr_Status q))) v3
           = (Inr (), v')"
      by (auto simp: apply_project_eq io_success split: option.splits)
    have s2: "st v2 = st v"
      using t p by (auto simp: ensureTeam_def GetTeam_def io_success split: option.splits if_splits)
    have q: "st v3 = (st v)\<lparr>projects := replace_row pr_ID q (projects (st v))\<rparr>"
      "q = p\<lparr>pr_TeamID := jf_TeamID ?g, pr_Name := jf_Name ?g, pr_Description := jf_Description ?g, pr_Status := jf_Status ?g,
         pr_Priority := jf_Priority ?g, pr_StartDate := jf_StartDate ?g, pr_DueDate := jf_DueDate ?g, pr_UpdatedAt := pr_UpdatedAt q\<rparr>"
      using UpdateProject_success [OF _ u, of n p] wf p unfolding s2 by blast+
    have f: "fieldsFromProject q = ?g" using q(2) by (rule fields_of_updated_project)
    have id: "pr_ID q = pid" "q = p\<lparr>pr_TeamID := pr_TeamID q, pr_Name := pr_Name q, pr_Description := pr_Description q, pr_Status := pr_Status q,
              pr_Priority := pr_Priority q, pr_StartDate := pr_StartDate q, pr_DueDate := pr_DueDate q, pr_UpdatedAt := pr_UpdatedAt q\<rparr>"
      using p q(2) by (cases p; cases q; simp)+
    from r [unfolded id(1)] obtain a where a: "st v' = (st v3)\<lparr>activity_logs := activity_logs (st v3) @ [a]\<rparr>"
      "describes e (project_entry org uid ProjectUpdated pid
         ([(''changes'', JStrings (project_changes ?f ?g)), (''name'', JString (pr_Name q))] @ status_change (pr_Status p) (pr_Status q))) a"
      by (rule RecordActivity_success)
    have s': "st v' = (st v)\<lparr>projects := replace_row pr_ID q (projects (st v)), activity_logs := activity_logs (st v) @ [a]\<rparr>"
      using a(1) q(1) by simp
    have "fieldsFromProject q \<noteq> ?f" using False project_changes_none f by metis
    with p f ok [folded f] id(2) may a(2) [folded f] s' show ?thesis
      unfolding project_updated_def by blast
  qed
qed

lemma delete_project_tx_success:
  assumes wf: "rows_ok pr_ID (projects (st v)) n" and run: "delete_project_tx e uid org pid v = (Inr u, v')"
    and may: "may uid org ProjectsDelete (st v)" and "tenant v = Some org"
  shows "project_deleted e uid org pid (st v) (st v')"
proof -
  from run obtain p v1 v2 where g: "getProjectForUpdate org pid v = (Inr p, v1)" and d: "DeleteProject pid org v1 = (Inr (), v2)"
    and r: "RecordActivity e (project_entry org uid ProjectDeleted pid [(''name'', JString (pr_Name p))]) v2 = (Inr u, v')"
    by (auto simp: delete_project_tx_def io_success)
  note p = getProjectForUpdate_success [OF g]
  let ?hit = "\<lambda>q. rls v (pr_OrganizationID q) \<and> pr_ID q = pid \<and> pr_OrganizationID q = org"
  have hit: "?hit p" using p assms(4) by (simp add: rls_tenant)
  have "st v2 = (st v)\<lparr>projects := filter (\<lambda>q. \<not> ?hit q) (projects (st v)),
      tasks := filter (\<lambda>t. \<not> (tk_ProjectID t = pid \<and> tk_OrganizationID t = org)) (tasks (st v))\<rparr>"
    using d p assms(4) by (auto simp: DeleteProject_def io_success Let_def rls_def split: if_splits)
  moreover have "filter (\<lambda>q. \<not> ?hit q) (projects (st v)) = filter (\<lambda>q. pr_ID q \<noteq> pr_ID p) (projects (st v))"
    using p by (intro delete_one_row [where hit = ?hit, OF wf _ hit]) auto
  ultimately have s: "st v2 = (st v)\<lparr>projects := filter (\<lambda>q. pr_ID q \<noteq> pid) (projects (st v)),
      tasks := filter (\<lambda>t. \<not> (tk_ProjectID t = pid \<and> tk_OrganizationID t = org)) (tasks (st v))\<rparr>"
    using p by simp
  from r obtain a where "st v' = (st v2)\<lparr>activity_logs := activity_logs (st v2) @ [a]\<rparr>"
    "describes e (project_entry org uid ProjectDeleted pid [(''name'', JString (pr_Name p))]) a"
    by (rule RecordActivity_success)
  with s p may show ?thesis unfolding project_deleted_def by (intro conjI exI [of _ p] exI [of _ a]) auto
qed


section \<open>Tasks\<close>

definition active_member :: "store \<Rightarrow> uuid \<Rightarrow> uuid \<Rightarrow> bool" where
  "active_member db org uid \<longleftrightarrow>
     (\<exists>m\<in>set (memberships db). m_OrganizationID m = org \<and> m_UserID m = uid \<and> m_Status m = ''active'')"

definition created_task_entry :: "env \<Rightarrow> uuid \<Rightarrow> Task \<Rightarrow> ActivityEntry" where
  "created_task_entry e uid t =
     task_entry (tk_OrganizationID t) uid TaskCreated (tk_ID t)
       ((case tk_AssigneeID t of None \<Rightarrow> [] | Some x \<Rightarrow> [(''assignee_id'', JString (uuid_string e x))]) @
        [(''project_id'', JString (uuid_string e (tk_ProjectID t))), (''title'', JString (tk_Title t))])"

definition updated_task_entry :: "env \<Rightarrow> uuid \<Rightarrow> Task \<Rightarrow> Task \<Rightarrow> ActivityEntry" where
  "updated_task_entry e uid t u =
     task_entry (tk_OrganizationID t) uid TaskUpdated (tk_ID t)
       (assignee_change e (tk_AssigneeID t) (tk_AssigneeID u) @
        [(''changes'', JStrings (task_changes (fieldsFromTask t) (fieldsFromTask u)))] @ status_change (tk_Status t) (tk_Status u) @
        [(''title'', JString (tk_Title u))])"

definition task_created :: "env \<Rightarrow> uuid \<Rightarrow> uuid \<Rightarrow> uuid \<Rightarrow> TaskInput \<Rightarrow> TaskDTO \<Rightarrow> store \<Rightarrow> store \<Rightarrow> bool" where
  "task_created e uid org pid inp dto before after \<longleftrightarrow>
     may uid org TasksCreate before \<and> validate_task (input_task_fields inp) = None \<and> has_project before org pid \<and>
     (\<exists>t a. dto = task_toDTO t \<and> tk_OrganizationID t = org \<and> tk_ProjectID t = pid \<and> tk_CreatedBy t = uid \<and>
        fieldsFromTask t = input_task_fields inp \<and> nullable (active_member before org) (tk_AssigneeID t) \<and>
        describes e (created_task_entry e uid t) a \<and>
        after = before\<lparr>tasks := tasks before @ [t], activity_logs := activity_logs before @ [a]\<rparr>)"

definition task_kept :: "uuid \<Rightarrow> uuid \<Rightarrow> TaskPatch \<Rightarrow> TaskDTO \<Rightarrow> store \<Rightarrow> bool" where
  "task_kept org kid inp dto db \<longleftrightarrow>
     (\<exists>t\<in>set (tasks db). tk_ID t = kid \<and> tk_OrganizationID t = org \<and> dto = task_toDTO t \<and>
        task_patched inp (fieldsFromTask t) = fieldsFromTask t)"

definition task_updated :: "env \<Rightarrow> uuid \<Rightarrow> uuid \<Rightarrow> uuid \<Rightarrow> TaskPatch \<Rightarrow> TaskDTO \<Rightarrow> store \<Rightarrow> store \<Rightarrow> bool" where
  "task_updated e uid org kid inp dto before after \<longleftrightarrow>
     may uid org TasksUpdate before \<and>
     (\<exists>t u a. t \<in> set (tasks before) \<and> tk_ID t = kid \<and> tk_OrganizationID t = org \<and> dto = task_toDTO u \<and>
        u = t\<lparr>tk_Title := tk_Title u, tk_Description := tk_Description u, tk_Status := tk_Status u, tk_Priority := tk_Priority u,
              tk_AssigneeID := tk_AssigneeID u, tk_DueDate := tk_DueDate u, tk_UpdatedAt := tk_UpdatedAt u\<rparr> \<and>
        fieldsFromTask u = task_patched inp (fieldsFromTask t) \<and> fieldsFromTask u \<noteq> fieldsFromTask t \<and>
        validate_task (fieldsFromTask u) = None \<and>
        (op_Set (tp_AssigneeID inp) \<longrightarrow> nullable (active_member before org) (tk_AssigneeID u)) \<and>
        describes e (updated_task_entry e uid t u) a \<and>
        after = before\<lparr>tasks := replace_row tk_ID u (tasks before), activity_logs := activity_logs before @ [a]\<rparr>)"

definition task_deleted :: "env \<Rightarrow> uuid \<Rightarrow> uuid \<Rightarrow> uuid \<Rightarrow> store \<Rightarrow> store \<Rightarrow> bool" where
  "task_deleted e uid org kid before after \<longleftrightarrow>
     may uid org TasksDelete before \<and>
     (\<exists>t a. t \<in> set (tasks before) \<and> tk_ID t = kid \<and> tk_OrganizationID t = org \<and>
        describes e (task_entry org uid TaskDeleted kid
          [(''project_id'', JString (uuid_string e (tk_ProjectID t))), (''title'', JString (tk_Title t))]) a \<and>
        after = before\<lparr>tasks := filter (\<lambda>x. tk_ID x \<noteq> kid) (tasks before), activity_logs := activity_logs before @ [a]\<rparr>)"

lemma task_dates [simp]: "f\<lparr>kf_DueDate := TimeFromDate (kf_DueDate f)\<rparr> = f"
  by (simp add: TimeFromDate_def)

lemma ensureAssignee_success:
  "ensureAssignee org assignee v = (Inr u, v') \<Longrightarrow> nullable (active_member (st v) org) assignee \<and> st v' = st v"
  by (auto simp: ensureAssignee_def GetMembership_def active_member_def io_success one_row_def dest!: find_SomeD
      split: option.splits if_splits)

lemma ensureProject_success: "ensureProject org pid v = (Inr u, v') \<Longrightarrow> has_project (st v) org pid \<and> st v' = st v"
  by (auto simp: ensureProject_def GetProject_def has_project_def io_success one_row_def dest!: find_SomeD split: option.splits)

lemma CreateTask_success:
  assumes "CreateTask org pid f uid v = (Inr t, v')"
  shows "st v' = (st v)\<lparr>tasks := tasks (st v) @ [t]\<rparr> \<and> tk_OrganizationID t = org \<and> tk_ProjectID t = pid \<and> tk_CreatedBy t = uid \<and>
    fieldsFromTask t = f"
proof -
  from assms have t: "t = \<lparr>tk_ID = fresh v, tk_OrganizationID = org, tk_ProjectID = pid, tk_Title = kf_Title f,
              tk_Description = kf_Description f, tk_Status = kf_Status f, tk_Priority = kf_Priority f,
              tk_AssigneeID = kf_AssigneeID f, tk_DueDate = kf_DueDate f, tk_CreatedBy = uid,
              tk_CreatedAt = clock v, tk_UpdatedAt = clock v\<rparr>"
    and s: "st v' = (st v)\<lparr>tasks := tasks (st v) @ [t]\<rparr>"
    by (auto simp: CreateTask_def io_success Let_def guards_Inr)
  have "fieldsFromTask t = f"
    unfolding t fieldsFromTask_def by (simp add: DateFromTime_def)
  with s show ?thesis by (simp add: t)
qed

lemma create_task_tx_success:
  assumes "create_task_tx e uid org pid f v = (Inr t, v')"
  obtains a where "st v' = (st v)\<lparr>tasks := tasks (st v) @ [t], activity_logs := activity_logs (st v) @ [a]\<rparr>"
    "describes e (created_task_entry e uid t) a" "has_project (st v) org pid" "nullable (active_member (st v) org) (tk_AssigneeID t)"
    "tk_OrganizationID t = org" "tk_ProjectID t = pid" "tk_CreatedBy t = uid" "fieldsFromTask t = f"
proof -
  from assms obtain v1 v2 v3 where p: "ensureProject org pid v = (Inr (), v1)" and m: "ensureAssignee org (kf_AssigneeID f) v1 = (Inr (), v2)"
    and c: "CreateTask org pid f uid v2 = (Inr t, v3)"
    and r: "RecordActivity e (task_entry org uid TaskCreated (tk_ID t)
         ((case tk_AssigneeID t of None \<Rightarrow> [] | Some uid \<Rightarrow> [(''assignee_id'', JString (uuid_string e uid))]) @
          [(''project_id'', JString (uuid_string e pid)), (''title'', JString (tk_Title t))])) v3 = (Inr (), v')"
    by (auto simp: create_task_tx_def io_success)
  note f = ensureProject_success [OF p] ensureAssignee_success [OF m] CreateTask_success [OF c]
  then have "tk_AssigneeID t = kf_AssigneeID f" by (auto simp: fieldsFromTask_def)
  from r obtain a where "st v' = (st v3)\<lparr>activity_logs := activity_logs (st v3) @ [a]\<rparr>" "describes e (created_task_entry e uid t) a"
    unfolding created_task_entry_def using f by (auto elim!: RecordActivity_success)
  with f \<open>tk_AssigneeID t = _\<close> show ?thesis by (intro that [of a]) simp_all
qed

lemma getTaskForUpdate_success:
  "getTaskForUpdate org kid v = (Inr t, v') \<Longrightarrow>
     t \<in> set (tasks (st v)) \<and> tk_ID t = kid \<and> tk_OrganizationID t = org \<and> st v' = st v \<and> tenant v' = tenant v"
  by (auto simp: getTaskForUpdate_def GetTaskForUpdate_def io_success one_row_def dest!: find_SomeD split: option.splits)

lemma UpdateTask_success:
  assumes "rows_ok tk_ID (tasks (st v)) n" and "UpdateTask kid org f v = (Inr u, v')"
    and t: "t \<in> set (tasks (st v))" "tk_ID t = kid" "tk_OrganizationID t = org"
  shows "st v' = (st v)\<lparr>tasks := replace_row tk_ID u (tasks (st v))\<rparr> \<and>
    u = t\<lparr>tk_Title := kf_Title f, tk_Description := kf_Description f, tk_Status := kf_Status f, tk_Priority := kf_Priority f,
          tk_AssigneeID := kf_AssigneeID f, tk_DueDate := kf_DueDate f, tk_UpdatedAt := tk_UpdatedAt u\<rparr>"
proof -
  let ?new = "\<lambda>t. t\<lparr>tk_Title := kf_Title f, tk_Description := kf_Description f, tk_Status := kf_Status f, tk_Priority := kf_Priority f,
     tk_AssigneeID := kf_AssigneeID f, tk_DueDate := kf_DueDate f, tk_UpdatedAt := clock v\<rparr>"
  let ?hit = "\<lambda>t. rls v (tk_OrganizationID t) \<and> tk_ID t = kid \<and> tk_OrganizationID t = org"
  from assms(2) obtain x where x: "x \<in> set (tasks (st v))" "?hit x" and u: "u = ?new x"
    and s: "st v' = (st v)\<lparr>tasks := update_where ?hit ?new (tasks (st v))\<rparr>"
    by (auto simp: UpdateTask_def io_success Let_def guards_Inr one_row_def rls_def dest!: find_SomeD split: option.splits)
  have "x = t" using rows_ok_unique [OF assms(1) x(1) t(1)] x(2) t(2) by simp
  then show ?thesis
    using s u update_one_row [where hit = ?hit, OF assms(1) x, of ?new] x(2) by simp
qed

lemma fields_of_updated_task:
  "u = t\<lparr>tk_Title := kf_Title f, tk_Description := kf_Description f, tk_Status := kf_Status f, tk_Priority := kf_Priority f,
         tk_AssigneeID := kf_AssigneeID f, tk_DueDate := kf_DueDate f, tk_UpdatedAt := x\<rparr> \<Longrightarrow> fieldsFromTask u = f"
  by (simp add: fieldsFromTask_def DateFromTime_def)


lemma update_task_tx_success:
  assumes wf: "rows_ok tk_ID (tasks (st v)) n" and run: "update_task_tx e uid org kid inp v = (Inr u, v')"
    and may: "may uid org TasksUpdate (st v)"
  shows "st v' = st v \<and> task_kept org kid inp (task_toDTO u) (st v) \<or> task_updated e uid org kid inp (task_toDTO u) (st v) (st v')"
proof -
  from run obtain t v1 where g: "getTaskForUpdate org kid v = (Inr t, v1)"
    and rest: "(let (nxt, changed) = apply_task inp (fieldsFromTask t) in
      case validate_task nxt of Some er \<Rightarrow> io_throw er
      | None \<Rightarrow> if length changed = 0 then io_return t
         else io_try (if op_Set (tp_AssigneeID inp) then ensureAssignee org (kf_AssigneeID nxt) else io_return ()) id (\<lambda>_.
           io_try (UpdateTask kid org (nxt\<lparr>kf_DueDate := TimeFromDate (kf_DueDate nxt)\<rparr>)) taskWriteError (\<lambda>task.
           io_try (RecordActivity e (task_entry org uid TaskUpdated (tk_ID task)
               (assignee_change e (tk_AssigneeID t) (tk_AssigneeID task) @
                [(''changes'', JStrings changed)] @ status_change (tk_Status t) (tk_Status task) @
                [(''title'', JString (tk_Title task))]))) id (\<lambda>_. io_return task)))) v1 = (Inr u, v')"
    unfolding update_task_tx_def io_success by blast
  note t = getTaskForUpdate_success [OF g]
  let ?f = "fieldsFromTask t" and ?g = "task_patched inp (fieldsFromTask t)"
  show ?thesis
  proof (cases "task_changes ?f ?g = []")
    case True
    then have "?g = ?f" using task_changes_none by metis
    with rest t show ?thesis
      by (auto simp: apply_task_eq task_kept_def task_changes_none io_success split: option.splits)
  next
    case False
    with rest obtain v2 v3 where ok: "validate_task ?g = None"
      and m: "(if op_Set (tp_AssigneeID inp) then ensureAssignee org (kf_AssigneeID ?g) else io_return ()) v1 = (Inr (), v2)"
      and w: "UpdateTask kid org ?g v2 = (Inr u, v3)"
      and r: "RecordActivity e (task_entry org uid TaskUpdated (tk_ID u) (assignee_change e (tk_AssigneeID t) (tk_AssigneeID u) @
           [(''changes'', JStrings (task_changes ?f ?g))] @ status_change (tk_Status t) (tk_Status u) @ [(''title'', JString (tk_Title u))])) v3
             = (Inr (), v')"
      by (auto simp: apply_task_eq io_success split: option.splits)
    have s2: "st v2 = st v" and member: "op_Set (tp_AssigneeID inp) \<longrightarrow> nullable (active_member (st v) org) (kf_AssigneeID ?g)"
      using m t by (auto simp: io_success dest!: ensureAssignee_success split: if_splits)
    have u: "st v3 = (st v)\<lparr>tasks := replace_row tk_ID u (tasks (st v))\<rparr>"
      "u = t\<lparr>tk_Title := kf_Title ?g, tk_Description := kf_Description ?g, tk_Status := kf_Status ?g, tk_Priority := kf_Priority ?g,
          tk_AssigneeID := kf_AssigneeID ?g, tk_DueDate := kf_DueDate ?g, tk_UpdatedAt := tk_UpdatedAt u\<rparr>"
      using UpdateTask_success [OF _ w, of n t] wf t unfolding s2 by blast+
    have f: "fieldsFromTask u = ?g" using u(2) by (rule fields_of_updated_task)
    have id: "tk_ID u = tk_ID t" "u = t\<lparr>tk_Title := tk_Title u, tk_Description := tk_Description u, tk_Status := tk_Status u,
        tk_Priority := tk_Priority u, tk_AssigneeID := tk_AssigneeID u, tk_DueDate := tk_DueDate u, tk_UpdatedAt := tk_UpdatedAt u\<rparr>"
      using u(2) by (cases t; cases u; simp)+
    have member': "op_Set (tp_AssigneeID inp) \<longrightarrow> nullable (active_member (st v) org) (tk_AssigneeID u)"
      using member arg_cong [OF f, of kf_AssigneeID] by (simp add: fieldsFromTask_def)
    have "RecordActivity e (updated_task_entry e uid t u) v3 = (Inr (), v')"
      using r t id(1) unfolding updated_task_entry_def f by simp
    then obtain a where a: "st v' = (st v3)\<lparr>activity_logs := activity_logs (st v3) @ [a]\<rparr>" "describes e (updated_task_entry e uid t u) a"
      by (rule RecordActivity_success)
    have s': "st v' = (st v)\<lparr>tasks := replace_row tk_ID u (tasks (st v)), activity_logs := activity_logs (st v) @ [a]\<rparr>"
      using a(1) u(1) by simp
    have "fieldsFromTask u \<noteq> ?f" using False task_changes_none f by metis
    with t f ok [folded f] id(2) may a(2) s' member' show ?thesis
      unfolding task_updated_def by blast
  qed
qed

lemma delete_task_tx_success:
  assumes wf: "rows_ok tk_ID (tasks (st v)) n" and run: "delete_task_tx e uid org kid v = (Inr u, v')"
    and may: "may uid org TasksDelete (st v)" and "tenant v = Some org"
  shows "task_deleted e uid org kid (st v) (st v')"
proof -
  from run obtain t v1 v2 where g: "getTaskForUpdate org kid v = (Inr t, v1)" and d: "DeleteTask kid org v1 = (Inr (), v2)"
    and r: "RecordActivity e (task_entry org uid TaskDeleted kid
       [(''project_id'', JString (uuid_string e (tk_ProjectID t))), (''title'', JString (tk_Title t))]) v2 = (Inr u, v')"
    by (auto simp: delete_task_tx_def io_success)
  note t = getTaskForUpdate_success [OF g]
  let ?hit = "\<lambda>x. rls v (tk_OrganizationID x) \<and> tk_ID x = kid \<and> tk_OrganizationID x = org"
  have hit: "?hit t" using t assms(4) by (simp add: rls_tenant)
  have "st v2 = (st v)\<lparr>tasks := filter (\<lambda>x. \<not> ?hit x) (tasks (st v))\<rparr>"
    using d t by (auto simp: DeleteTask_def io_success Let_def rls_def)
  moreover have "filter (\<lambda>x. \<not> ?hit x) (tasks (st v)) = filter (\<lambda>x. tk_ID x \<noteq> tk_ID t) (tasks (st v))"
    using t by (intro delete_one_row [where hit = ?hit, OF wf _ hit]) auto
  ultimately have s: "st v2 = (st v)\<lparr>tasks := filter (\<lambda>x. tk_ID x \<noteq> kid) (tasks (st v))\<rparr>"
    using t by simp
  from r obtain a where "st v' = (st v2)\<lparr>activity_logs := activity_logs (st v2) @ [a]\<rparr>"
    "describes e (task_entry org uid TaskDeleted kid
       [(''project_id'', JString (uuid_string e (tk_ProjectID t))), (''title'', JString (tk_Title t))]) a"
    by (rule RecordActivity_success)
  with s t may show ?thesis unfolding task_deleted_def by (intro conjI exI [of _ t] exI [of _ a]) auto
qed

section \<open>All or nothing\<close>

lemma validated_operation:
  assumes "io_try (Authorize uid org perm) id (\<lambda>_. let f = g in case validate f of Some er \<Rightarrow> io_throw er | None \<Rightarrow> k f) w = (r, w')"
  shows "(\<exists>e. r = Inl e \<and> st w' = st w) \<or>
    validate g = None \<and> io_try (Authorize uid org perm) id (\<lambda>_. k g) w = (r, w')"
  using assms
  by (cases "validate g")
    (auto simp: io_try_def io_case_def io_throw_def dest: authorize_failure authorize_may split: prod.splits sum.splits)

lemma create_project_outcome:
  "case CreateProjectIn e uid org inp w of
     (Inl er, w') \<Rightarrow> st w' = st w | (Inr dto, w') \<Rightarrow> project_created e uid org inp dto (st w) (st w')"
proof -
  obtain r w' where c: "CreateProjectIn e uid org inp w = (r, w')" by fastforce
  consider (invalid) er where "r = Inl er" "st w' = st w"
    | (valid) "validate_project (input_project_fields inp) = None"
        "io_try (Authorize uid org ProjectsCreate) id
          (\<lambda>_. io_try (WithTenantTx org (create_project_tx e uid org (input_project_fields inp))) (wrap ''create project'')
            (\<lambda>project. io_return (project_toDTO project))) w = (r, w')"
    using validated_operation [OF c [unfolded CreateProjectIn_def]] by (elim disjE exE conjE)
  then show ?thesis
  proof cases
    case valid
    from valid(2) show ?thesis
    proof (cases rule: tenant_operation)
      case (made p v v')
      from made(3) obtain a where a: "st v' = (st v)\<lparr>projects := projects (st v) @ [p], activity_logs := activity_logs (st v) @ [a]\<rparr>"
        "describes e (project_entry org uid ProjectCreated (pr_ID p) [(''name'', JString (pr_Name p))]) a"
        "pr_OrganizationID p = org" "pr_CreatedBy p = uid" "fieldsFromProject p = input_project_fields inp"
        by (rule create_project_tx_success)
      have "project_created e uid org inp (project_toDTO p) (st v) (st v')"
        unfolding project_created_def using a made(2,4) valid(1) by (intro conjI exI [of _ p] exI [of _ a]) simp_all
      with made c show ?thesis by simp
    qed (simp add: c)
  qed (simp add: c)
qed

lemma update_project_outcome:
  assumes wf: "wf_ids (st w) (fresh w)"
  shows "case UpdateProjectOf e uid org pid patch w of
      (Inl er, w') \<Rightarrow> st w' = st w
    | (Inr dto, w') \<Rightarrow> st w' = st w \<and> project_kept org pid patch dto (st w) \<or> project_updated e uid org pid patch dto (st w) (st w')"
proof -
  obtain r w' where u: "UpdateProjectOf e uid org pid patch w = (r, w')" by fastforce
  from u [unfolded UpdateProjectOf_def] show ?thesis
  proof (cases rule: tenant_operation)
    case (made p v v')
    have "rows_ok pr_ID (projects (st v)) (fresh v)" using wf_ids_later [OF wf made(5)] made(4) by (simp add: wf_ids_def)
    from update_project_tx_success [OF this made(3)] made show ?thesis unfolding u by simp
  qed (simp add: u)
qed

lemma delete_project_outcome:
  assumes wf: "wf_ids (st w) (fresh w)"
  shows "case DeleteProjectOf e uid org pid w of
      (Inl er, w') \<Rightarrow> st w' = st w | (Inr u, w') \<Rightarrow> project_deleted e uid org pid (st w) (st w')"
proof -
  obtain r w' where d: "DeleteProjectOf e uid org pid w = (r, w')" by fastforce
  from d [unfolded DeleteProjectOf_def] show ?thesis
  proof (cases rule: tenant_operation [where g = "\<lambda>x. x"])
    case (made p v v')
    have "rows_ok pr_ID (projects (st v)) (fresh v)" using wf_ids_later [OF wf made(5)] made(4) by (simp add: wf_ids_def)
    from delete_project_tx_success [OF this made(3)] made show ?thesis unfolding d by simp
  qed (simp add: d)
qed

lemma create_task_outcome:
  "case CreateTaskIn e uid org pid inp w of
     (Inl er, w') \<Rightarrow> st w' = st w | (Inr dto, w') \<Rightarrow> task_created e uid org pid inp dto (st w) (st w')"
proof -
  obtain r w' where c: "CreateTaskIn e uid org pid inp w = (r, w')" by fastforce
  consider (invalid) er where "r = Inl er" "st w' = st w"
    | (valid) "validate_task (input_task_fields inp) = None"
        "io_try (Authorize uid org TasksCreate) id
          (\<lambda>_. io_try (WithTenantTx org (create_task_tx e uid org pid (input_task_fields inp))) (wrap ''create task'')
            (\<lambda>task. io_return (task_toDTO task))) w = (r, w')"
    using validated_operation [OF c [unfolded CreateTaskIn_def]] by (elim disjE exE conjE)
  then show ?thesis
  proof cases
    case valid
    from valid(2) show ?thesis
    proof (cases rule: tenant_operation)
      case (made t v v')
      from made(3) obtain a where a: "st v' = (st v)\<lparr>tasks := tasks (st v) @ [t], activity_logs := activity_logs (st v) @ [a]\<rparr>"
        "describes e (created_task_entry e uid t) a" "has_project (st v) org pid" "nullable (active_member (st v) org) (tk_AssigneeID t)"
        "tk_OrganizationID t = org" "tk_ProjectID t = pid" "tk_CreatedBy t = uid" "fieldsFromTask t = input_task_fields inp"
        by (rule create_task_tx_success)
      have "task_created e uid org pid inp (task_toDTO t) (st v) (st v')"
        unfolding task_created_def using a made(2,4) valid(1) by (intro conjI exI [of _ t] exI [of _ a]) simp_all
      with made c show ?thesis by simp
    qed (simp add: c)
  qed (simp add: c)
qed

lemma update_task_outcome:
  assumes wf: "wf_ids (st w) (fresh w)"
  shows "case UpdateTaskOf e uid org kid patch w of
      (Inl er, w') \<Rightarrow> st w' = st w
    | (Inr dto, w') \<Rightarrow> st w' = st w \<and> task_kept org kid patch dto (st w) \<or> task_updated e uid org kid patch dto (st w) (st w')"
proof -
  obtain r w' where u: "UpdateTaskOf e uid org kid patch w = (r, w')" by fastforce
  from u [unfolded UpdateTaskOf_def] show ?thesis
  proof (cases rule: tenant_operation)
    case (made t v v')
    have "rows_ok tk_ID (tasks (st v)) (fresh v)" using wf_ids_later [OF wf made(5)] made(4) by (simp add: wf_ids_def)
    from update_task_tx_success [OF this made(3)] made show ?thesis unfolding u by simp
  qed (simp add: u)
qed

lemma delete_task_outcome:
  assumes wf: "wf_ids (st w) (fresh w)"
  shows "case DeleteTaskOf e uid org kid w of
      (Inl er, w') \<Rightarrow> st w' = st w | (Inr u, w') \<Rightarrow> task_deleted e uid org kid (st w) (st w')"
proof -
  obtain r w' where d: "DeleteTaskOf e uid org kid w = (r, w')" by fastforce
  from d [unfolded DeleteTaskOf_def] show ?thesis
  proof (cases rule: tenant_operation [where g = "\<lambda>x. x"])
    case (made t v v')
    have "rows_ok tk_ID (tasks (st v)) (fresh v)" using wf_ids_later [OF wf made(5)] made(4) by (simp add: wf_ids_def)
    from delete_task_tx_success [OF this made(3)] made show ?thesis unfolding d by simp
  qed (simp add: d)
qed

text \<open>
  C17: a project changes together with its trail, or not at all. Whatever faults strike, creating,
  updating and deleting a project either fails and leaves every table as it was, or makes exactly the
  change asked for: one row added with the validated fields, one row changed in the reported fields
  only, or one row removed with its tasks; with one entry appended to the activity trail that names
  the actor, the project and what changed; for a user whose role grants the change. An update that
  changes nothing writes nothing.
\<close>

theorem project_changes_logged:
  assumes wf: "wf_ids (st w) (fresh w)"
  shows "(case CreateProjectIn e uid org inp w of
            (Inl er, w') \<Rightarrow> st w' = st w
          | (Inr dto, w') \<Rightarrow> project_created e uid org inp dto (st w) (st w')) \<and>
         (case UpdateProjectOf e uid org pid patch w of
            (Inl er, w') \<Rightarrow> st w' = st w
          | (Inr dto, w') \<Rightarrow> st w' = st w \<and> project_kept org pid patch dto (st w) \<or>
                           project_updated e uid org pid patch dto (st w) (st w')) \<and>
         (case DeleteProjectOf e uid org pid w of
            (Inl er, w') \<Rightarrow> st w' = st w
          | (Inr u, w') \<Rightarrow> project_deleted e uid org pid (st w) (st w'))"
  using create_project_outcome update_project_outcome [OF wf] delete_project_outcome [OF wf] by (intro conjI)

text \<open>
  C16: a task changes together with its trail, or not at all, in the same sense; and a task that is
  created or reassigned goes to an active member of the organization, in a project of the organization.
\<close>

theorem task_changes_logged:
  assumes wf: "wf_ids (st w) (fresh w)"
  shows "(case CreateTaskIn e uid org pid inp w of
            (Inl er, w') \<Rightarrow> st w' = st w
          | (Inr dto, w') \<Rightarrow> task_created e uid org pid inp dto (st w) (st w')) \<and>
         (case UpdateTaskOf e uid org kid patch w of
            (Inl er, w') \<Rightarrow> st w' = st w
          | (Inr dto, w') \<Rightarrow> st w' = st w \<and> task_kept org kid patch dto (st w) \<or>
                           task_updated e uid org kid patch dto (st w) (st w')) \<and>
         (case DeleteTaskOf e uid org kid w of
            (Inl er, w') \<Rightarrow> st w' = st w
          | (Inr u, w') \<Rightarrow> task_deleted e uid org kid (st w) (st w'))"
  using create_task_outcome update_task_outcome [OF wf] delete_task_outcome [OF wf] by (intro conjI)

section \<open>Examples\<close>

definition trail_demo_world :: world where
  "trail_demo_world = demo_world\<lparr>st := demo_store\<lparr>permissions := permissions demo_store @
       [\<lparr>p_ID = 71, p_Key = ProjectsCreate, p_Description = [], p_CreatedAt = 0\<rparr>, \<lparr>p_ID = 72, p_Key = TasksCreate, p_Description = [], p_CreatedAt = 0\<rparr>],
     role_permissions := role_permissions demo_store @
       [\<lparr>rp_RoleID = 11, rp_PermissionID = 71\<rparr>, \<lparr>rp_RoleID = 11, rp_PermissionID = 72\<rparr>],
     projects := [\<lparr>pr_ID = 60, pr_OrganizationID = 10, pr_TeamID = None, pr_Name = ''P'', pr_Description = None,
       pr_Status = ''active'', pr_Priority = ''low'', pr_StartDate = None, pr_DueDate = None, pr_CreatedBy = 1, pr_CreatedAt = 0,
       pr_UpdatedAt = 0\<rparr>]\<rparr>\<rparr>"

definition trail_demo_project :: ProjectInput where
  "trail_demo_project = \<lparr>pi_Name = '' Launch '', pi_Description = None, pi_TeamID = None, pi_Status = [], pi_Priority = [],
     pi_StartDate = None, pi_DueDate = None\<rparr>"

definition trail_demo_task :: TaskInput where
  "trail_demo_task = \<lparr>ti_Title = ''Ship'', ti_Description = None, ti_Status = [], ti_Priority = [], ti_AssigneeID = Some 1, ti_DueDate = None\<rparr>"

lemma trail_demo_wf: "wf_ids (st trail_demo_world) (fresh trail_demo_world)"
  by code_simp

lemma trail_demo_eval:
  "\<not> isl (fst (CreateProjectIn demo_env 1 10 trail_demo_project trail_demo_world))"
  "\<not> isl (fst (CreateTaskIn demo_env 1 10 60 trail_demo_task trail_demo_world))"
  by code_simp+

theorem project_changes_logged_witness:
  "\<exists>dto. project_created demo_env 1 10 trail_demo_project dto (st trail_demo_world)
     (st (snd (CreateProjectIn demo_env 1 10 trail_demo_project trail_demo_world)))"
  using project_changes_logged [OF trail_demo_wf, THEN conjunct1, of demo_env 1 10 trail_demo_project] trail_demo_eval(1)
  by (auto simp del: One_nat_def split: prod.splits sum.splits)

theorem task_changes_logged_witness:
  "\<exists>dto. task_created demo_env 1 10 60 trail_demo_task dto (st trail_demo_world)
     (st (snd (CreateTaskIn demo_env 1 10 60 trail_demo_task trail_demo_world)))"
  using task_changes_logged [OF trail_demo_wf, THEN conjunct1, of demo_env 1 10 60 trail_demo_task] trail_demo_eval(2)
  by (auto simp del: One_nat_def split: prod.splits sum.splits)

end
