(* ===== verification/Config.thy ===== *)
theory Config
  imports Httpx
begin

text \<open>
  Package \<open>internal/config\<close>: the configuration both processes load from the environment.

  The process environment is the function \<open>LookupEnv\<close> of the record \<open>process_env\<close>. The record also
  carries what the package takes from the standard library beyond decimal numbers, booleans and ASCII
  text: \<open>time.ParseDuration\<close>, \<open>url.Parse\<close>, \<open>net.SplitHostPort\<close>, the quoting verb and the Unicode case
  table; nothing is assumed of them. \<open>int32(...)\<close> wraps as in Go.
\<close>

section \<open>The environment\<close>

record url =
  url_Scheme :: string
  url_Host :: string
  url_Query :: url_values

record process_env =
  LookupEnv :: "string \<Rightarrow> string option"
  ParseDuration :: "string \<Rightarrow> duration option"
  url_Parse :: "string \<Rightarrow> url option"
  SplitHostPort :: "string \<Rightarrow> (string \<times> string) option"
  Quote :: "string \<Rightarrow> string"
  unicode_ToLower :: "string \<Rightarrow> string"

definition ParseBool :: "string \<Rightarrow> bool option" where
  "ParseBool s =
     (if s \<in> {''1'', ''t'', ''T'', ''TRUE'', ''true'', ''True''} then Some True
      else if s \<in> {''0'', ''f'', ''F'', ''FALSE'', ''false'', ''False''} then Some False
      else None)"

abbreviation Atoi :: "string \<Rightarrow> int option" where
  "Atoi \<equiv> ParseInt 64"

text \<open>A variable that is set and not empty.\<close>

definition env_value :: "process_env \<Rightarrow> string \<Rightarrow> string option" where
  "env_value e key = (case LookupEnv e key of None \<Rightarrow> None | Some v \<Rightarrow> if v \<noteq> [] then Some v else None)"

definition env_parsed :: "process_env \<Rightarrow> (string \<Rightarrow> 'a option) \<Rightarrow> string \<Rightarrow> 'a \<Rightarrow> 'a" where
  "env_parsed e parse key fallback =
     (case env_value e key of
        None \<Rightarrow> fallback
      | Some v \<Rightarrow> (case parse v of None \<Rightarrow> fallback | Some x \<Rightarrow> x))"

definition getEnv :: "process_env \<Rightarrow> string \<Rightarrow> string \<Rightarrow> string" where
  "getEnv e key fallback = (case env_value e key of None \<Rightarrow> fallback | Some v \<Rightarrow> v)"

definition getEnvBool :: "process_env \<Rightarrow> string \<Rightarrow> bool \<Rightarrow> bool" where
  "getEnvBool e = env_parsed e ParseBool"

definition getEnvInt :: "process_env \<Rightarrow> string \<Rightarrow> int \<Rightarrow> int" where
  "getEnvInt e = env_parsed e Atoi"

definition getEnvInt64 :: "process_env \<Rightarrow> string \<Rightarrow> int \<Rightarrow> int" where
  "getEnvInt64 e = env_parsed e (ParseInt 64)"

definition getEnvDuration :: "process_env \<Rightarrow> string \<Rightarrow> duration \<Rightarrow> duration" where
  "getEnvDuration e = env_parsed e (ParseDuration e)"

section \<open>The configuration\<close>

definition maxInvitationTTL :: duration where
  "maxInvitationTTL = 30 * 24 * Hour"

definition EnvDevelopment :: string where "EnvDevelopment = ''development''"
definition EnvTest :: string where "EnvTest = ''test''"
definition EnvProduction :: string where "EnvProduction = ''production''"

definition MailTransportLog :: string where "MailTransportLog = ''log''"
definition MailTransportNone :: string where "MailTransportNone = ''none''"

record HTTPConfig =
  http_Port :: int
  http_ReadTimeout :: duration
  http_WriteTimeout :: duration
  http_IdleTimeout :: duration
  http_ShutdownTimeout :: duration
  http_MaxBodyBytes :: int

record DatabaseConfig =
  dbc_URL :: string
  dbc_MaxConns :: int
  dbc_MinConns :: int
  dbc_MaxConnLifetime :: duration
  dbc_MaxConnIdleTime :: duration

record JWTConfig =
  jwt_Secret :: string
  jwt_Issuer :: string
  jwt_AccessTTL :: duration
  jwt_RefreshTTL :: duration

record InvitationConfig =
  ivc_TTL :: duration
  ivc_BaseURL :: string

record APIKeyConfig =
  akc_DefaultTTL :: duration
  akc_MaxTTL :: duration

record WorkerConfig =
  wkc_Concurrency :: int
  wkc_BlockTimeout :: duration
  wkc_StaleAfter :: duration
  wkc_ShutdownTimeout :: duration

record JobsConfig =
  jbc_MaxAttempts :: int
  jbc_RetryBaseDelay :: duration
  jbc_RetryMaxDelay :: duration
  jbc_EncryptionKey :: string

record RateLimitPolicyConfig =
  rlp_Limit :: int
  rlp_Period :: duration

record RateLimitConfig =
  rlc_Enabled :: bool
  rlc_FailOpen :: bool
  rlc_Auth :: RateLimitPolicyConfig
  rlc_User :: RateLimitPolicyConfig
  rlc_APIKey :: RateLimitPolicyConfig

record MetricsConfig =
  mtc_Enabled :: bool
  mtc_Addr :: string

text \<open>The sections with a single field are that field: \<open>AppConfig\<close>, \<open>RedisConfig\<close>, \<open>LogConfig\<close>, \<open>MailConfig\<close>.\<close>

record Config =
  App_Env :: string
  cfg_HTTP :: HTTPConfig
  cfg_Database :: DatabaseConfig
  Redis_URL :: string
  Log_Level :: string
  cfg_JWT :: JWTConfig
  cfg_Invite :: InvitationConfig
  Mail_Transport :: string
  cfg_APIKey :: APIKeyConfig
  cfg_Worker :: WorkerConfig
  cfg_Jobs :: JobsConfig
  cfg_RateLimit :: RateLimitConfig
  cfg_Metrics :: MetricsConfig

definition IsProduction :: "Config \<Rightarrow> bool" where
  "IsProduction c \<longleftrightarrow> App_Env c = EnvProduction"

section \<open>Validation\<close>

text \<open>The lists of problems, in the order the code appends them.\<close>

definition problem_if :: "bool \<Rightarrow> string \<Rightarrow> string list" where
  "problem_if b t = (if b then [t] else [])"

definition not_positive :: "string \<times> duration \<Rightarrow> string list" where
  "not_positive p = problem_if (snd p \<le> 0) (fst p @ '' must be positive'')"

definition http_problems :: "process_env \<Rightarrow> Config \<Rightarrow> string list" where
  "http_problems e c =
     (let h = cfg_HTTP c; d = cfg_Database c in
      problem_if (App_Env c \<notin> {EnvDevelopment, EnvTest, EnvProduction})
        (''APP_ENV '' @ Quote e (App_Env c) @ '' is invalid (want development|test|production)'') @
      problem_if (http_Port h < 1 \<or> http_Port h > 65535) (''APP_PORT '' @ Itoa (http_Port h) @ '' is out of range'') @
      concat (map not_positive
        [(''HTTP_READ_TIMEOUT'', http_ReadTimeout h), (''HTTP_WRITE_TIMEOUT'', http_WriteTimeout h),
         (''HTTP_IDLE_TIMEOUT'', http_IdleTimeout h), (''HTTP_SHUTDOWN_TIMEOUT'', http_ShutdownTimeout h)]) @
      problem_if (http_MaxBodyBytes h < 1) ''HTTP_MAX_BODY_BYTES must be positive'' @
      problem_if (dbc_MaxConns d < 1) ''DATABASE_MAX_CONNS must be at least 1'' @
      problem_if (dbc_MinConns d < 0 \<or> dbc_MinConns d > dbc_MaxConns d)
        ''DATABASE_MIN_CONNS must be between 0 and DATABASE_MAX_CONNS'' @
      (if TrimSpace (mtc_Addr (cfg_Metrics c)) = [] then [''METRICS_ADDR is required when METRICS_ENABLED is set'']
       else problem_if (SplitHostPort e (mtc_Addr (cfg_Metrics c)) = None) ''METRICS_ADDR must be host:port''))"

definition database_url_problems :: "process_env \<Rightarrow> string \<Rightarrow> string list" where
  "database_url_problems e raw =
     (if raw = [] then []
      else (case url_Parse e raw of
              None \<Rightarrow> [''DATABASE_URL must use the postgres scheme in production'']
            | Some u \<Rightarrow>
                if url_Scheme u \<noteq> ''postgres'' \<and> url_Scheme u \<noteq> ''postgresql'' then
                  [''DATABASE_URL must use the postgres scheme in production'']
                else
                  let mode = values_Get (url_Query u) ''sslmode''
                  in problem_if (mode \<noteq> ''verify-ca'' \<and> mode \<noteq> ''verify-full'')
                       ''DATABASE_URL sslmode must be verify-ca or verify-full in production''))"

definition redis_url_problems :: "process_env \<Rightarrow> string \<Rightarrow> string list" where
  "redis_url_problems e raw =
     (if raw = [] then []
      else (case url_Parse e raw of
              None \<Rightarrow> [''REDIS_URL must use rediss in production'']
            | Some u \<Rightarrow> problem_if (url_Scheme u \<noteq> ''rediss'') ''REDIS_URL must use rediss in production''))"

definition storage_problems :: "process_env \<Rightarrow> Config \<Rightarrow> string list" where
  "storage_problems e c =
     problem_if (TrimSpace (dbc_URL (cfg_Database c)) = []) ''DATABASE_URL is required'' @
     problem_if (TrimSpace (Redis_URL c) = []) ''REDIS_URL is required'' @
     (if App_Env c = EnvProduction then
        database_url_problems e (dbc_URL (cfg_Database c)) @ redis_url_problems e (Redis_URL c)
      else [])"

definition jwt_problems :: "process_env \<Rightarrow> Config \<Rightarrow> string list" where
  "jwt_problems e c =
     (let j = cfg_JWT c; prod = (App_Env c = EnvProduction) in
      problem_if (to_lower (unicode_ToLower e) (Log_Level c) \<notin> {''debug'', ''info'', ''warn'', ''error''})
        (''LOG_LEVEL '' @ Quote e (Log_Level c) @ '' is invalid (want debug|info|warn|error)'') @
      (if TrimSpace (jwt_Secret j) = [] then [''JWT_SECRET is required'']
       else if prod \<and> length (jwt_Secret j) < 32 then [''JWT_SECRET must be at least 32 characters in production'']
       else problem_if (prod \<and> jwt_Secret j = ''dev-only-change-me-to-a-long-random-secret'')
              ''JWT_SECRET must not use the development example value in production'') @
      problem_if (jwt_AccessTTL j \<le> 0) ''JWT_ACCESS_TTL must be positive'' @
      problem_if (jwt_RefreshTTL j \<le> jwt_AccessTTL j) ''JWT_REFRESH_TTL must be greater than JWT_ACCESS_TTL'')"

definition validateAbsoluteURL :: "process_env \<Rightarrow> string \<Rightarrow> string \<Rightarrow> string option" where
  "validateAbsoluteURL e name raw =
     (let bad = Some (name @ '' must be an absolute http(s) URL'') in
      case url_Parse e raw of
        None \<Rightarrow> bad
      | Some u \<Rightarrow> if url_Host u = [] \<or> (url_Scheme u \<noteq> ''http'' \<and> url_Scheme u \<noteq> ''https'') then bad else None)"

definition invite_problems :: "process_env \<Rightarrow> Config \<Rightarrow> string list" where
  "invite_problems e c =
     (let v = cfg_Invite c in
      problem_if (ivc_TTL v \<le> 0) ''INVITATION_TTL must be positive'' @
      problem_if (ivc_TTL v > maxInvitationTTL) ''INVITATION_TTL must not exceed 720h0m0s'' @
      (case validateAbsoluteURL e ''INVITATION_BASE_URL'' (ivc_BaseURL v) of None \<Rightarrow> [] | Some t \<Rightarrow> [t]) @
      problem_if (App_Env c = EnvProduction \<and> \<not> has_prefix (to_lower (unicode_ToLower e) (ivc_BaseURL v)) ''https://'')
        ''INVITATION_BASE_URL must use https in production'')"

definition encryption_key_problems :: "Config \<Rightarrow> string list" where
  "encryption_key_problems c =
     (let k = jbc_EncryptionKey (cfg_Jobs c) in
      if App_Env c \<noteq> EnvProduction then []
      else if TrimSpace k = [] then [''JOB_ENCRYPTION_KEY is required in production'']
      else if length k < 32 then [''JOB_ENCRYPTION_KEY must be at least 32 characters in production'']
      else if k = ''use-a-long-random-job-encryption-secret'' then
        [''JOB_ENCRYPTION_KEY must not use the development example value in production'']
      else problem_if (k = jwt_Secret (cfg_JWT c)) ''JOB_ENCRYPTION_KEY must be independent from JWT_SECRET in production'')"

definition policy_problems :: "string \<times> RateLimitPolicyConfig \<Rightarrow> string list" where
  "policy_problems p =
     problem_if (rlp_Limit (snd p) < 1) (fst p @ '' must be at least 1'') @
     problem_if (rlp_Period (snd p) \<le> 0) (''rate limit period for '' @ fst p @ '' must be positive'')"

definition rate_limit_problems :: "Config \<Rightarrow> string list" where
  "rate_limit_problems c =
     (let r = cfg_RateLimit c in
      concat (map policy_problems
        [(''RATE_LIMIT_AUTH_LIMIT'', rlc_Auth r), (''RATE_LIMIT_USER_LIMIT'', rlc_User r),
         (''RATE_LIMIT_API_KEY_LIMIT'', rlc_APIKey r)]))"

definition worker_problems :: "Config \<Rightarrow> string list" where
  "worker_problems c =
     (let w = cfg_Worker c; j = cfg_Jobs c in
      problem_if (wkc_Concurrency w < 1) ''WORKER_CONCURRENCY must be at least 1'' @
      problem_if (wkc_BlockTimeout w \<le> 0) ''WORKER_BLOCK_TIMEOUT must be positive'' @
      problem_if (wkc_StaleAfter w \<le> 0) ''WORKER_STALE_AFTER must be positive'' @
      problem_if (wkc_ShutdownTimeout w \<le> 0) ''WORKER_SHUTDOWN_TIMEOUT must be positive'' @
      problem_if (jbc_MaxAttempts j < 1) ''WORKER_MAX_ATTEMPTS must be at least 1'' @
      problem_if (jbc_RetryBaseDelay j \<le> 0) ''WORKER_RETRY_BASE_DELAY must be positive'' @
      problem_if (jbc_RetryMaxDelay j < jbc_RetryBaseDelay j)
        ''WORKER_RETRY_MAX_DELAY must be greater than or equal to WORKER_RETRY_BASE_DELAY'')"

definition key_and_mail_problems :: "process_env \<Rightarrow> Config \<Rightarrow> string list" where
  "key_and_mail_problems e c =
     (let k = cfg_APIKey c in
      problem_if (akc_DefaultTTL k \<le> 0) ''API_KEY_DEFAULT_TTL must be positive'' @
      problem_if (akc_MaxTTL k \<le> 0) ''API_KEY_MAX_TTL must be positive'' @
      problem_if (akc_MaxTTL k < akc_DefaultTTL k) ''API_KEY_MAX_TTL must be greater than or equal to API_KEY_DEFAULT_TTL'' @
      problem_if (Mail_Transport c \<notin> {MailTransportLog, MailTransportNone})
        (''MAIL_TRANSPORT '' @ Quote e (Mail_Transport c) @ '' is invalid (want log|none)'') @
      problem_if (App_Env c = EnvProduction \<and> Mail_Transport c = MailTransportLog)
        ''MAIL_TRANSPORT must not be log in production; configure a real email sender'')"

definition config_problems :: "process_env \<Rightarrow> Config \<Rightarrow> string list" where
  "config_problems e c =
     http_problems e c @ storage_problems e c @ jwt_problems e c @ invite_problems e c @
     encryption_key_problems c @ rate_limit_problems c @ worker_problems c @ key_and_mail_problems e c"

text \<open>The problems as one error: a heading and one line per problem.\<close>

definition listed :: "string \<Rightarrow> string list \<Rightarrow> err option" where
  "listed heading problems =
     (if problems = [] then None
      else Some (Message (heading @ concat (map (\<lambda>p. CHR 0x0A # ''  - '' @ p) problems))))"

definition validate_config :: "process_env \<Rightarrow> Config \<Rightarrow> err option" where
  "validate_config e c = listed ''invalid configuration:'' (config_problems e c)"

section \<open>Loading\<close>

definition int_keys :: "string list" where
  "int_keys =
     [''APP_PORT'', ''DATABASE_MAX_CONNS'', ''DATABASE_MIN_CONNS'', ''RATE_LIMIT_AUTH_LIMIT'', ''RATE_LIMIT_USER_LIMIT'',
      ''RATE_LIMIT_API_KEY_LIMIT'', ''WORKER_CONCURRENCY'', ''WORKER_MAX_ATTEMPTS'']"

definition duration_keys :: "string list" where
  "duration_keys =
     [''HTTP_READ_TIMEOUT'', ''HTTP_WRITE_TIMEOUT'', ''HTTP_IDLE_TIMEOUT'', ''HTTP_SHUTDOWN_TIMEOUT'',
      ''DATABASE_MAX_CONN_LIFETIME'', ''DATABASE_MAX_CONN_IDLE_TIME'', ''JWT_ACCESS_TTL'', ''JWT_REFRESH_TTL'',
      ''API_KEY_DEFAULT_TTL'', ''API_KEY_MAX_TTL'', ''WORKER_BLOCK_TIMEOUT'', ''WORKER_STALE_AFTER'',
      ''WORKER_SHUTDOWN_TIMEOUT'', ''WORKER_RETRY_BASE_DELAY'', ''WORKER_RETRY_MAX_DELAY'', ''RATE_LIMIT_AUTH_PERIOD'',
      ''RATE_LIMIT_USER_PERIOD'', ''RATE_LIMIT_API_KEY_PERIOD'', ''INVITATION_TTL'']"

definition bool_keys :: "string list" where
  "bool_keys = [''METRICS_ENABLED'', ''RATE_LIMIT_ENABLED'', ''RATE_LIMIT_FAIL_OPEN'']"

definition malformed :: "process_env \<Rightarrow> (string \<Rightarrow> 'a option) \<Rightarrow> string list \<Rightarrow> string list" where
  "malformed e parse keys =
     concat (map (\<lambda>key. case env_value e key of
                          None \<Rightarrow> []
                        | Some v \<Rightarrow> problem_if (parse v = None) (key @ '' is invalid'')) keys)"

definition override_problems :: "process_env \<Rightarrow> string list" where
  "override_problems e =
     malformed e Atoi int_keys @ malformed e (ParseInt 64) [''HTTP_MAX_BODY_BYTES''] @
     malformed e (ParseDuration e) duration_keys @ malformed e ParseBool bool_keys"

definition validateEnvOverrides :: "process_env \<Rightarrow> err option" where
  "validateEnvOverrides e = listed ''invalid environment configuration:'' (override_problems e)"

definition env_policy :: "process_env \<Rightarrow> string \<Rightarrow> int \<Rightarrow> string \<Rightarrow> RateLimitPolicyConfig" where
  "env_policy e limit_key fallback period_key =
     \<lparr>rlp_Limit = getEnvInt e limit_key fallback, rlp_Period = getEnvDuration e period_key Minute\<rparr>"

definition read_config :: "process_env \<Rightarrow> Config" where
  "read_config e =
     (let env = getEnv e ''APP_ENV'' EnvDevelopment in
      \<lparr>App_Env = env,
       cfg_HTTP = \<lparr>http_Port = getEnvInt e ''APP_PORT'' 8080,
         http_ReadTimeout = getEnvDuration e ''HTTP_READ_TIMEOUT'' (15 * Second),
         http_WriteTimeout = getEnvDuration e ''HTTP_WRITE_TIMEOUT'' (15 * Second),
         http_IdleTimeout = getEnvDuration e ''HTTP_IDLE_TIMEOUT'' (60 * Second),
         http_ShutdownTimeout = getEnvDuration e ''HTTP_SHUTDOWN_TIMEOUT'' (15 * Second),
         http_MaxBodyBytes = getEnvInt64 e ''HTTP_MAX_BODY_BYTES'' 1048576\<rparr>,
       cfg_Database = \<lparr>dbc_URL = getEnv e ''DATABASE_URL'' [],
         dbc_MaxConns = wrap_int 32 (getEnvInt e ''DATABASE_MAX_CONNS'' 20),
         dbc_MinConns = wrap_int 32 (getEnvInt e ''DATABASE_MIN_CONNS'' 2),
         dbc_MaxConnLifetime = getEnvDuration e ''DATABASE_MAX_CONN_LIFETIME'' Hour,
         dbc_MaxConnIdleTime = getEnvDuration e ''DATABASE_MAX_CONN_IDLE_TIME'' (30 * Minute)\<rparr>,
       Redis_URL = getEnv e ''REDIS_URL'' [],
       Log_Level = getEnv e ''LOG_LEVEL'' ''info'',
       cfg_JWT = \<lparr>jwt_Secret = getEnv e ''JWT_SECRET'' [],
         jwt_Issuer = getEnv e ''JWT_ISSUER'' ''teamflow'',
         jwt_AccessTTL = getEnvDuration e ''JWT_ACCESS_TTL'' (15 * Minute),
         jwt_RefreshTTL = getEnvDuration e ''JWT_REFRESH_TTL'' (720 * Hour)\<rparr>,
       cfg_Invite = \<lparr>ivc_TTL = getEnvDuration e ''INVITATION_TTL'' (168 * Hour),
         ivc_BaseURL = trim_char_right (CHR ''/'') (getEnv e ''INVITATION_BASE_URL'' ''http://localhost:3000'')\<rparr>,
       Mail_Transport = to_lower (unicode_ToLower e) (getEnv e ''MAIL_TRANSPORT'' MailTransportLog),
       cfg_APIKey = \<lparr>akc_DefaultTTL = getEnvDuration e ''API_KEY_DEFAULT_TTL'' (90 * 24 * Hour),
         akc_MaxTTL = getEnvDuration e ''API_KEY_MAX_TTL'' (365 * 24 * Hour)\<rparr>,
       cfg_Worker = \<lparr>wkc_Concurrency = getEnvInt e ''WORKER_CONCURRENCY'' 4,
         wkc_BlockTimeout = getEnvDuration e ''WORKER_BLOCK_TIMEOUT'' (2 * Second),
         wkc_StaleAfter = getEnvDuration e ''WORKER_STALE_AFTER'' (5 * Minute),
         wkc_ShutdownTimeout = getEnvDuration e ''WORKER_SHUTDOWN_TIMEOUT'' (15 * Second)\<rparr>,
       cfg_Jobs = \<lparr>jbc_MaxAttempts = getEnvInt e ''WORKER_MAX_ATTEMPTS'' 5,
         jbc_RetryBaseDelay = getEnvDuration e ''WORKER_RETRY_BASE_DELAY'' (30 * Second),
         jbc_RetryMaxDelay = getEnvDuration e ''WORKER_RETRY_MAX_DELAY'' Hour,
         jbc_EncryptionKey = getEnv e ''JOB_ENCRYPTION_KEY'' []\<rparr>,
       cfg_RateLimit = \<lparr>rlc_Enabled = getEnvBool e ''RATE_LIMIT_ENABLED'' (env = EnvProduction),
         rlc_FailOpen = getEnvBool e ''RATE_LIMIT_FAIL_OPEN'' True,
         rlc_Auth = env_policy e ''RATE_LIMIT_AUTH_LIMIT'' 10 ''RATE_LIMIT_AUTH_PERIOD'',
         rlc_User = env_policy e ''RATE_LIMIT_USER_LIMIT'' 300 ''RATE_LIMIT_USER_PERIOD'',
         rlc_APIKey = env_policy e ''RATE_LIMIT_API_KEY_LIMIT'' 600 ''RATE_LIMIT_API_KEY_PERIOD''\<rparr>,
       cfg_Metrics = \<lparr>mtc_Enabled = getEnvBool e ''METRICS_ENABLED'' True, mtc_Addr = getEnv e ''METRICS_ADDR'' '':9091''\<rparr>\<rparr>)"

definition Load :: "process_env \<Rightarrow> err + Config" where
  "Load e =
     (case validateEnvOverrides e of
        Some x \<Rightarrow> Inl x
      | None \<Rightarrow>
          let c = read_config e
          in (case validate_config e c of Some x \<Rightarrow> Inl x | None \<Rightarrow> Inr c))"

section \<open>What is accepted\<close>

text \<open>
  The contract of the package, stated without its lists of problems: every typed variable that is set is
  well formed, every number and duration is in its range, and a production configuration is hardened.
\<close>

definition well_typed :: "process_env \<Rightarrow> (string \<Rightarrow> 'a option) \<Rightarrow> string list \<Rightarrow> bool" where
  "well_typed e parse keys \<longleftrightarrow> list_all (\<lambda>key. case env_value e key of None \<Rightarrow> True | Some v \<Rightarrow> parse v \<noteq> None) keys"

definition overrides_well_formed :: "process_env \<Rightarrow> bool" where
  "overrides_well_formed e \<longleftrightarrow>
     well_typed e Atoi int_keys \<and> well_typed e (ParseInt 64) [''HTTP_MAX_BODY_BYTES''] \<and>
     well_typed e (ParseDuration e) duration_keys \<and> well_typed e ParseBool bool_keys"

text \<open>The field each typed variable of the documented configuration sets, and how its text is read.\<close>

definition int_fields :: "(string \<times> (Config \<Rightarrow> int)) list" where
  "int_fields =
     [(''APP_PORT'', \<lambda>c. http_Port (cfg_HTTP c)),
      (''RATE_LIMIT_AUTH_LIMIT'', \<lambda>c. rlp_Limit (rlc_Auth (cfg_RateLimit c))),
      (''RATE_LIMIT_USER_LIMIT'', \<lambda>c. rlp_Limit (rlc_User (cfg_RateLimit c))),
      (''RATE_LIMIT_API_KEY_LIMIT'', \<lambda>c. rlp_Limit (rlc_APIKey (cfg_RateLimit c))),
      (''WORKER_CONCURRENCY'', \<lambda>c. wkc_Concurrency (cfg_Worker c)), (''WORKER_MAX_ATTEMPTS'', \<lambda>c. jbc_MaxAttempts (cfg_Jobs c))]"

definition duration_fields :: "(string \<times> (Config \<Rightarrow> duration)) list" where
  "duration_fields =
     [(''HTTP_READ_TIMEOUT'', \<lambda>c. http_ReadTimeout (cfg_HTTP c)), (''HTTP_WRITE_TIMEOUT'', \<lambda>c. http_WriteTimeout (cfg_HTTP c)),
      (''HTTP_IDLE_TIMEOUT'', \<lambda>c. http_IdleTimeout (cfg_HTTP c)), (''HTTP_SHUTDOWN_TIMEOUT'', \<lambda>c. http_ShutdownTimeout (cfg_HTTP c)),
      (''DATABASE_MAX_CONN_LIFETIME'', \<lambda>c. dbc_MaxConnLifetime (cfg_Database c)),
      (''DATABASE_MAX_CONN_IDLE_TIME'', \<lambda>c. dbc_MaxConnIdleTime (cfg_Database c)),
      (''JWT_ACCESS_TTL'', \<lambda>c. jwt_AccessTTL (cfg_JWT c)), (''JWT_REFRESH_TTL'', \<lambda>c. jwt_RefreshTTL (cfg_JWT c)),
      (''API_KEY_DEFAULT_TTL'', \<lambda>c. akc_DefaultTTL (cfg_APIKey c)), (''API_KEY_MAX_TTL'', \<lambda>c. akc_MaxTTL (cfg_APIKey c)),
      (''WORKER_BLOCK_TIMEOUT'', \<lambda>c. wkc_BlockTimeout (cfg_Worker c)), (''WORKER_STALE_AFTER'', \<lambda>c. wkc_StaleAfter (cfg_Worker c)),
      (''WORKER_SHUTDOWN_TIMEOUT'', \<lambda>c. wkc_ShutdownTimeout (cfg_Worker c)),
      (''WORKER_RETRY_BASE_DELAY'', \<lambda>c. jbc_RetryBaseDelay (cfg_Jobs c)), (''WORKER_RETRY_MAX_DELAY'', \<lambda>c. jbc_RetryMaxDelay (cfg_Jobs c)),
      (''RATE_LIMIT_AUTH_PERIOD'', \<lambda>c. rlp_Period (rlc_Auth (cfg_RateLimit c))),
      (''RATE_LIMIT_USER_PERIOD'', \<lambda>c. rlp_Period (rlc_User (cfg_RateLimit c))),
      (''RATE_LIMIT_API_KEY_PERIOD'', \<lambda>c. rlp_Period (rlc_APIKey (cfg_RateLimit c))),
      (''INVITATION_TTL'', \<lambda>c. ivc_TTL (cfg_Invite c))]"

definition size_fields :: "(string \<times> (Config \<Rightarrow> int)) list" where
  "size_fields = [(''HTTP_MAX_BODY_BYTES'', \<lambda>c. http_MaxBodyBytes (cfg_HTTP c))]"

definition pool_fields :: "(string \<times> (Config \<Rightarrow> int)) list" where
  "pool_fields =
     [(''DATABASE_MAX_CONNS'', \<lambda>c. dbc_MaxConns (cfg_Database c)), (''DATABASE_MIN_CONNS'', \<lambda>c. dbc_MinConns (cfg_Database c))]"

definition bool_fields :: "(string \<times> (Config \<Rightarrow> bool)) list" where
  "bool_fields =
     [(''METRICS_ENABLED'', \<lambda>c. mtc_Enabled (cfg_Metrics c)), (''RATE_LIMIT_ENABLED'', \<lambda>c. rlc_Enabled (cfg_RateLimit c)),
      (''RATE_LIMIT_FAIL_OPEN'', \<lambda>c. rlc_FailOpen (cfg_RateLimit c))]"

definition honours :: "process_env \<Rightarrow> (string \<Rightarrow> 'a option) \<Rightarrow> (string \<times> (Config \<Rightarrow> 'a)) list \<Rightarrow> Config \<Rightarrow> bool" where
  "honours e parse table c \<longleftrightarrow>
     list_all (\<lambda>(key, field). case env_value e key of None \<Rightarrow> True | Some v \<Rightarrow> parse v = Some (field c)) table"

text \<open>
  Every typed variable that is set is well formed and its field has the value it spells. The pool sizes
  are converted to 32 bits.
\<close>

definition overrides_honoured :: "process_env \<Rightarrow> Config \<Rightarrow> bool" where
  "overrides_honoured e c \<longleftrightarrow>
     honours e (ParseInt 64) int_fields c \<and> honours e (ParseInt 64) size_fields c \<and>
     honours e (map_option (wrap_int 32) \<circ> ParseInt 64) pool_fields c \<and>
     honours e (ParseDuration e) duration_fields c \<and> honours e ParseBool bool_fields c"

definition policy_in_range :: "RateLimitPolicyConfig \<Rightarrow> bool" where
  "policy_in_range p \<longleftrightarrow> 1 \<le> rlp_Limit p \<and> 0 < rlp_Period p"

definition server_in_range :: "Config \<Rightarrow> bool" where
  "server_in_range c \<longleftrightarrow>
     (let h = cfg_HTTP c; d = cfg_Database c in
      1 \<le> http_Port h \<and> http_Port h \<le> 65535 \<and> 0 < http_ReadTimeout h \<and> 0 < http_WriteTimeout h \<and>
      0 < http_IdleTimeout h \<and> 0 < http_ShutdownTimeout h \<and> 0 < http_MaxBodyBytes h \<and>
      1 \<le> dbc_MaxConns d \<and> 0 \<le> dbc_MinConns d \<and> dbc_MinConns d \<le> dbc_MaxConns d)"

definition lifetimes_in_range :: "Config \<Rightarrow> bool" where
  "lifetimes_in_range c \<longleftrightarrow>
     0 < jwt_AccessTTL (cfg_JWT c) \<and> jwt_AccessTTL (cfg_JWT c) < jwt_RefreshTTL (cfg_JWT c) \<and>
     0 < ivc_TTL (cfg_Invite c) \<and> ivc_TTL (cfg_Invite c) \<le> maxInvitationTTL \<and>
     0 < akc_DefaultTTL (cfg_APIKey c) \<and> akc_DefaultTTL (cfg_APIKey c) \<le> akc_MaxTTL (cfg_APIKey c)"

definition worker_in_range :: "Config \<Rightarrow> bool" where
  "worker_in_range c \<longleftrightarrow>
     (let w = cfg_Worker c; j = cfg_Jobs c in
      1 \<le> wkc_Concurrency w \<and> 0 < wkc_BlockTimeout w \<and> 0 < wkc_StaleAfter w \<and> 0 < wkc_ShutdownTimeout w \<and>
      1 \<le> jbc_MaxAttempts j \<and> 0 < jbc_RetryBaseDelay j \<and> jbc_RetryBaseDelay j \<le> jbc_RetryMaxDelay j)"

definition in_range :: "Config \<Rightarrow> bool" where
  "in_range c \<longleftrightarrow>
     server_in_range c \<and> lifetimes_in_range c \<and> worker_in_range c \<and>
     policy_in_range (rlc_Auth (cfg_RateLimit c)) \<and> policy_in_range (rlc_User (cfg_RateLimit c)) \<and>
     policy_in_range (rlc_APIKey (cfg_RateLimit c))"

definition metrics_address_ok :: "process_env \<Rightarrow> Config \<Rightarrow> bool" where
  "metrics_address_ok e c \<longleftrightarrow> TrimSpace (mtc_Addr (cfg_Metrics c)) \<noteq> [] \<and> SplitHostPort e (mtc_Addr (cfg_Metrics c)) \<noteq> None"

definition well_named :: "process_env \<Rightarrow> Config \<Rightarrow> bool" where
  "well_named e c \<longleftrightarrow>
     App_Env c \<in> {EnvDevelopment, EnvTest, EnvProduction} \<and>
     to_lower (unicode_ToLower e) (Log_Level c) \<in> {''debug'', ''info'', ''warn'', ''error''} \<and>
     Mail_Transport c \<in> {MailTransportLog, MailTransportNone} \<and>
     TrimSpace (dbc_URL (cfg_Database c)) \<noteq> [] \<and> TrimSpace (Redis_URL c) \<noteq> [] \<and>
     TrimSpace (jwt_Secret (cfg_JWT c)) \<noteq> [] \<and>
     (mtc_Enabled (cfg_Metrics c) \<longrightarrow> metrics_address_ok e c) \<and>
     (case url_Parse e (ivc_BaseURL (cfg_Invite c)) of
        None \<Rightarrow> False
      | Some u \<Rightarrow> url_Host u \<noteq> [] \<and> url_Scheme u \<in> {''http'', ''https''})"

definition hardened :: "process_env \<Rightarrow> Config \<Rightarrow> bool" where
  "hardened e c \<longleftrightarrow>
     (case url_Parse e (dbc_URL (cfg_Database c)) of
        None \<Rightarrow> False
      | Some u \<Rightarrow> url_Scheme u \<in> {''postgres'', ''postgresql''} \<and>
                  values_Get (url_Query u) ''sslmode'' \<in> {''verify-ca'', ''verify-full''}) \<and>
     (case url_Parse e (Redis_URL c) of None \<Rightarrow> False | Some u \<Rightarrow> url_Scheme u = ''rediss'') \<and>
     (let secret = jwt_Secret (cfg_JWT c); key = jbc_EncryptionKey (cfg_Jobs c) in
      32 \<le> length secret \<and> secret \<noteq> ''dev-only-change-me-to-a-long-random-secret'' \<and>
      32 \<le> length key \<and> TrimSpace key \<noteq> [] \<and> key \<noteq> ''use-a-long-random-job-encryption-secret'' \<and> key \<noteq> secret) \<and>
     has_prefix (to_lower (unicode_ToLower e) (ivc_BaseURL (cfg_Invite c))) ''https://'' \<and>
     Mail_Transport c = MailTransportNone"

lemma problem_if_Nil [simp]: "problem_if b t = [] \<longleftrightarrow> \<not> b"
  by (simp add: problem_if_def)

lemma listed_None [simp]: "listed heading ps = None \<longleftrightarrow> ps = []"
  by (simp add: listed_def)

lemma listed_Nil [simp]: "listed heading [] = None"
  by simp

lemma malformed_Nil: "malformed e parse keys = [] \<longleftrightarrow> well_typed e parse keys"
  by (induction keys) (auto simp: malformed_def well_typed_def split: option.splits)

lemma override_problems_Nil: "override_problems e = [] \<longleftrightarrow> overrides_well_formed e"
  by (simp add: override_problems_def overrides_well_formed_def malformed_Nil)

lemma TrimSpace_Nil [simp]: "TrimSpace [] = []"
  by (simp add: TrimSpace_def)

lemma transports_differ [simp]: "MailTransportLog \<noteq> MailTransportNone" "MailTransportNone \<noteq> MailTransportLog"
  by (simp_all add: MailTransportLog_def MailTransportNone_def)

text \<open>Each list of problems is empty exactly on its share of the contract.\<close>

lemma http_problems_Nil:
  "http_problems e c = [] \<longleftrightarrow>
     App_Env c \<in> {EnvDevelopment, EnvTest, EnvProduction} \<and> server_in_range c \<and> metrics_address_ok e c"
  by (auto simp: http_problems_def server_in_range_def metrics_address_ok_def Let_def not_positive_def)

lemma rate_limit_problems_Nil:
  "rate_limit_problems c = [] \<longleftrightarrow>
     policy_in_range (rlc_Auth (cfg_RateLimit c)) \<and> policy_in_range (rlc_User (cfg_RateLimit c)) \<and>
     policy_in_range (rlc_APIKey (cfg_RateLimit c))"
  by (auto simp: rate_limit_problems_def policy_problems_def policy_in_range_def Let_def)

lemma worker_problems_Nil: "worker_problems c = [] \<longleftrightarrow> worker_in_range c"
  by (auto simp: worker_problems_def worker_in_range_def Let_def)

lemma validateAbsoluteURL_None:
  "validateAbsoluteURL e name raw = None \<longleftrightarrow>
     (case url_Parse e raw of None \<Rightarrow> False | Some u \<Rightarrow> url_Host u \<noteq> [] \<and> url_Scheme u \<in> {''http'', ''https''})"
  by (auto simp: validateAbsoluteURL_def Let_def split: option.splits)

lemma invite_problems_Nil:
  "invite_problems e c = [] \<longleftrightarrow>
     0 < ivc_TTL (cfg_Invite c) \<and> ivc_TTL (cfg_Invite c) \<le> maxInvitationTTL \<and>
     validateAbsoluteURL e ''INVITATION_BASE_URL'' (ivc_BaseURL (cfg_Invite c)) = None \<and>
     (IsProduction c \<longrightarrow> has_prefix (to_lower (unicode_ToLower e) (ivc_BaseURL (cfg_Invite c))) ''https://'')"
  by (auto simp: invite_problems_def Let_def IsProduction_def split: option.splits)

lemma database_url_problems_Nil:
  "TrimSpace raw \<noteq> [] \<Longrightarrow> database_url_problems e raw = [] \<longleftrightarrow>
     (case url_Parse e raw of
        None \<Rightarrow> False
      | Some u \<Rightarrow> url_Scheme u \<in> {''postgres'', ''postgresql''} \<and>
                  values_Get (url_Query u) ''sslmode'' \<in> {''verify-ca'', ''verify-full''})"
  by (auto simp: database_url_problems_def Let_def split: option.splits)

lemma redis_url_problems_Nil:
  "TrimSpace raw \<noteq> [] \<Longrightarrow> redis_url_problems e raw = [] \<longleftrightarrow>
     (case url_Parse e raw of None \<Rightarrow> False | Some u \<Rightarrow> url_Scheme u = ''rediss'')"
  by (auto simp: redis_url_problems_def split: option.splits)

lemma secrets_Nil:
  "jwt_problems e c = [] \<and> encryption_key_problems c = [] \<longleftrightarrow>
     to_lower (unicode_ToLower e) (Log_Level c) \<in> {''debug'', ''info'', ''warn'', ''error''} \<and>
     TrimSpace (jwt_Secret (cfg_JWT c)) \<noteq> [] \<and>
     0 < jwt_AccessTTL (cfg_JWT c) \<and> jwt_AccessTTL (cfg_JWT c) < jwt_RefreshTTL (cfg_JWT c) \<and>
     (IsProduction c \<longrightarrow>
        (let secret = jwt_Secret (cfg_JWT c); key = jbc_EncryptionKey (cfg_Jobs c) in
         32 \<le> length secret \<and> secret \<noteq> ''dev-only-change-me-to-a-long-random-secret'' \<and>
         32 \<le> length key \<and> TrimSpace key \<noteq> [] \<and> key \<noteq> ''use-a-long-random-job-encryption-secret'' \<and> key \<noteq> secret))"
  by (auto simp: jwt_problems_def encryption_key_problems_def Let_def IsProduction_def simp del: length_greater_0_conv)

lemma key_and_mail_problems_Nil:
  "key_and_mail_problems e c = [] \<longleftrightarrow>
     0 < akc_DefaultTTL (cfg_APIKey c) \<and> akc_DefaultTTL (cfg_APIKey c) \<le> akc_MaxTTL (cfg_APIKey c) \<and>
     Mail_Transport c \<in> {MailTransportLog, MailTransportNone} \<and>
     (IsProduction c \<longrightarrow> Mail_Transport c = MailTransportNone)"
  by (auto simp: key_and_mail_problems_def Let_def IsProduction_def)

lemma config_problems_Nil:
  "config_problems e c = [] \<longleftrightarrow> metrics_address_ok e c \<and> well_named e c \<and> in_range c \<and> (IsProduction c \<longrightarrow> hardened e c)"
proof -
  have storage: "storage_problems e c = [] \<longleftrightarrow>
      TrimSpace (dbc_URL (cfg_Database c)) \<noteq> [] \<and> TrimSpace (Redis_URL c) \<noteq> [] \<and>
      (IsProduction c \<longrightarrow> database_url_problems e (dbc_URL (cfg_Database c)) = [] \<and> redis_url_problems e (Redis_URL c) = [])"
    by (auto simp: storage_problems_def IsProduction_def)
  have "config_problems e c = [] \<longleftrightarrow>
      http_problems e c = [] \<and> storage_problems e c = [] \<and> (jwt_problems e c = [] \<and> encryption_key_problems c = []) \<and>
      invite_problems e c = [] \<and> rate_limit_problems c = [] \<and> worker_problems c = [] \<and> key_and_mail_problems e c = []"
    by (auto simp: config_problems_def)
  then show ?thesis
    unfolding http_problems_Nil storage secrets_Nil invite_problems_Nil validateAbsoluteURL_None rate_limit_problems_Nil
      worker_problems_Nil key_and_mail_problems_Nil well_named_def in_range_def lifetimes_in_range_def hardened_def
    by (smt (verit) database_url_problems_Nil redis_url_problems_Nil)
qed

lemma Load_Inr: "Load e = Inr c \<longleftrightarrow> c = read_config e \<and> override_problems e = [] \<and> config_problems e c = []"
  by (auto simp: Load_def validateEnvOverrides_def validate_config_def Let_def split: option.splits)

lemma loaded_valid:
  "Load e = Inr c \<Longrightarrow> well_named e c \<and> in_range c \<and> (IsProduction c \<longrightarrow> hardened e c)"
  by (auto simp: Load_Inr config_problems_Nil)

lemma honours_read:
  assumes "\<And>key field. (key, field) \<in> set table \<Longrightarrow> \<exists>fallback. field c = env_parsed e parse key fallback"
  shows "honours e parse table c \<longleftrightarrow> well_typed e parse (map fst table)"
proof -
  have "(case env_value e key of None \<Rightarrow> True | Some v \<Rightarrow> parse v = Some (field c)) \<longleftrightarrow>
        (case env_value e key of None \<Rightarrow> True | Some v \<Rightarrow> parse v \<noteq> None)" if "(key, field) \<in> set table" for key field
    using assms [OF that] by (auto simp: env_parsed_def split: option.splits)
  then show ?thesis by (auto simp: honours_def well_typed_def list_all_iff)
qed

lemma fields_read:
  "(key, intf) \<in> set int_fields \<Longrightarrow> \<exists>fallback. intf (read_config e) = env_parsed e (ParseInt 64) key fallback"
  "(key, intf) \<in> set size_fields \<Longrightarrow> \<exists>fallback. intf (read_config e) = env_parsed e (ParseInt 64) key fallback"
  "(key, durf) \<in> set duration_fields \<Longrightarrow> \<exists>fallback. durf (read_config e) = env_parsed e (ParseDuration e) key fallback"
  "(key, boolf) \<in> set bool_fields \<Longrightarrow> \<exists>fallback. boolf (read_config e) = env_parsed e ParseBool key fallback"
  unfolding int_fields_def size_fields_def duration_fields_def bool_fields_def
  by (auto simp: read_config_def env_policy_def getEnvInt_def getEnvInt64_def getEnvDuration_def getEnvBool_def Let_def)

lemma pool_fields_read:
  "(key, intf) \<in> set pool_fields \<Longrightarrow>
     \<exists>fallback. intf (read_config e) = env_parsed e (map_option (wrap_int 32) \<circ> ParseInt 64) key fallback"
proof -
  have "wrap_int 32 (getEnvInt e key n) = env_parsed e (map_option (wrap_int 32) \<circ> ParseInt 64) key (wrap_int 32 n)" for key n
    by (simp add: getEnvInt_def env_parsed_def split: option.split)
  then show "(key, intf) \<in> set pool_fields \<Longrightarrow> ?thesis"
    unfolding pool_fields_def by (auto simp: read_config_def Let_def)
qed

text \<open>The check of the typed variables lets through exactly the environments whose overrides are honoured.\<close>

lemma overrides_honoured_iff: "overrides_honoured e (read_config e) \<longleftrightarrow> override_problems e = []"
proof -
  have "well_typed e (map_option (wrap_int 32) \<circ> ParseInt 64) keys = well_typed e (ParseInt 64) keys" for keys
    by (simp add: well_typed_def cong: option.case_cong)
  then have "overrides_honoured e (read_config e) \<longleftrightarrow>
      well_typed e (ParseInt 64) (map fst int_fields) \<and> well_typed e (ParseInt 64) (map fst size_fields) \<and>
      well_typed e (ParseInt 64) (map fst pool_fields) \<and> well_typed e (ParseDuration e) (map fst duration_fields) \<and>
      well_typed e ParseBool (map fst bool_fields)"
    unfolding overrides_honoured_def by (simp only: honours_read fields_read pool_fields_read)
  also have "\<dots> \<longleftrightarrow> overrides_well_formed e"
    by (auto simp: overrides_well_formed_def well_typed_def int_fields_def size_fields_def pool_fields_def duration_fields_def
        bool_fields_def int_keys_def duration_keys_def bool_keys_def)
  finally show ?thesis by (simp add: override_problems_Nil)
qed

text \<open>
  C25: with metrics enabled, the configuration is accepted exactly when every typed variable that is set
  is well formed and its field has the value it spells (pool sizes as 32-bit numbers), every name,
  address, number and duration is in its range, and, in production, the database and Redis are reached
  over verified TLS, the two secrets are long, independent and not the published examples, links use
  https and mail is not written to the log. What is returned is the configuration read from the
  environment.
\<close>

theorem load_decides:
  assumes "mtc_Enabled (cfg_Metrics (read_config e))"
  shows "Load e = Inr c \<longleftrightarrow>
     c = read_config e \<and> overrides_honoured e c \<and> well_named e c \<and> in_range c \<and> (IsProduction c \<longrightarrow> hardened e c)"
  using assms by (auto simp: Load_Inr overrides_honoured_iff config_problems_Nil well_named_def)

text \<open>With metrics disabled the address of their listener is still required.\<close>

lemma disabled_metrics_need_address: "Load e = Inr c \<Longrightarrow> metrics_address_ok e c"
  by (auto simp: Load_Inr config_problems_Nil)

text \<open>A production environment: the required variables are set, everything else takes its default.\<close>

definition production_vars :: "(string \<times> string) list" where
  "production_vars =
     [(''APP_ENV'', ''production''), (''DATABASE_URL'', ''postgres://db''), (''REDIS_URL'', ''rediss://cache''),
      (''JWT_SECRET'', ''0123456789abcdef0123456789abcdef''), (''JOB_ENCRYPTION_KEY'', ''fedcba9876543210fedcba9876543210''),
      (''MAIL_TRANSPORT'', ''none''), (''INVITATION_BASE_URL'', ''https://app/''), (''APP_PORT'', ''443'')]"

definition production_env :: "(string \<times> string) list \<Rightarrow> process_env" where
  "production_env vars =
     \<lparr>LookupEnv = map_of vars, ParseDuration = (\<lambda>_. None),
      url_Parse = map_of
        [(''postgres://db'', \<lparr>url_Scheme = ''postgres'', url_Host = ''db'', url_Query = [''sslmode'' \<mapsto> [''verify-full'']]\<rparr>),
         (''rediss://cache'', \<lparr>url_Scheme = ''rediss'', url_Host = ''cache'', url_Query = Map.empty\<rparr>),
         (''https://app'', \<lparr>url_Scheme = ''https'', url_Host = ''app'', url_Query = Map.empty\<rparr>)],
      SplitHostPort = (\<lambda>a. if a = '':9091'' then Some ([], ''9091'') else None),
      Quote = id, unicode_ToLower = id\<rparr>"

lemmas config_evaluation =
  production_env_def production_vars_def env_value_def env_parsed_def getEnv_def getEnvInt_def getEnvInt64_def
  getEnvDuration_def getEnvBool_def read_config_def env_policy_def EnvProduction_def EnvDevelopment_def EnvTest_def
  MailTransportLog_def MailTransportNone_def to_lower_def ascii_def lower_char_def is_upper_ascii_def
  TrimSpace_def is_ascii_space_def is_space2_def is_space3_def trim_char_right_def has_prefix_def values_Get_def
  ParseInt_def parse_unsigned_def is_digit_def digit_value_def wrap_int_def ParseBool_def maxInvitationTTL_def

lemma production_accepted:
  "overrides_well_formed (production_env production_vars)" "well_named (production_env production_vars) (read_config (production_env production_vars))"
  "in_range (read_config (production_env production_vars))" "hardened (production_env production_vars) (read_config (production_env production_vars))"
  "IsProduction (read_config (production_env production_vars))" "http_Port (cfg_HTTP (read_config (production_env production_vars))) = 443"
  "metrics_address_ok (production_env production_vars) (read_config (production_env production_vars))"
  "mtc_Enabled (cfg_Metrics (read_config (production_env production_vars)))"
  by code_simp+

lemma production_loads: "Load (production_env production_vars) = Inr (read_config (production_env production_vars))"
  using production_accepted by (simp add: Load_Inr override_problems_Nil config_problems_Nil)

theorem load_decides_witness:
  "Load (production_env production_vars) = Inr (read_config (production_env production_vars)) \<and>
   IsProduction (read_config (production_env production_vars)) \<and>
   http_Port (cfg_HTTP (read_config (production_env production_vars))) = 443"
  using load_decides [OF production_accepted(8)] production_accepted
  by (simp add: overrides_honoured_iff override_problems_Nil)

section \<open>Overrides\<close>

text \<open>
  A typed variable that is set is never silently replaced by its default: in an accepted
  configuration the field holds the value the variable spells.
\<close>

theorem overrides_take_effect:
  assumes "Load e = Inr c" and "env_value e key = Some v"
  shows "(key, intf) \<in> set int_fields \<longrightarrow> ParseInt 64 v = Some (intf c)"
    and "(key, durf) \<in> set duration_fields \<longrightarrow> ParseDuration e v = Some (durf c)"
proof -
  have "overrides_honoured e c" using assms(1) overrides_honoured_iff by (simp add: Load_Inr)
  then show "(key, intf) \<in> set int_fields \<longrightarrow> ParseInt 64 v = Some (intf c)"
    "(key, durf) \<in> set duration_fields \<longrightarrow> ParseDuration e v = Some (durf c)"
    using assms(2) by (auto simp: overrides_honoured_def honours_def list_all_iff)
qed

text \<open>
  The conversion to 32 bits happens before the range check, so a pool size beyond it is accepted when
  its wrapped value is in range: a maximum of 4294967297 connections opens a pool of one.
\<close>

lemma max_conns_wraps:
  assumes "Load e = Inr c" and "env_value e ''DATABASE_MAX_CONNS'' = Some v"
  shows "\<exists>n. ParseInt 64 v = Some n \<and> dbc_MaxConns (cfg_Database c) = wrap_int 32 n" and "wrap_int 32 4294967297 = 1"
proof -
  have "overrides_honoured e c" using assms(1) overrides_honoured_iff by (simp add: Load_Inr)
  then show "\<exists>n. ParseInt 64 v = Some n \<and> dbc_MaxConns (cfg_Database c) = wrap_int 32 n"
    using assms(2) by (auto simp: overrides_honoured_def honours_def pool_fields_def)
qed (simp add: wrap_int_def)

text \<open>
  A malformed typed variable hides every problem of the values: the load reports the malformed variables
  only, whatever else is wrong.
\<close>

lemma malformed_hides_problems:
  assumes "\<not> overrides_well_formed e"
  shows "Load e = Inl (the (listed ''invalid environment configuration:'' (override_problems e)))"
proof (cases "validateEnvOverrides e")
  case None
  then show ?thesis using assms by (simp add: validateEnvOverrides_def override_problems_Nil)
next
  case (Some x)
  then show ?thesis by (simp add: Load_def validateEnvOverrides_def)
qed

end
