(* ===== verification/Middleware.thy ===== *)
theory Middleware
  imports Http_Api
begin

text \<open>
  The outer layers of the HTTP server: \<open>internal/middleware/middleware.go\<close>, the request and trace
  identifiers of \<open>internal/observability\<close>, the request metrics of \<open>internal/metrics/metrics.go\<close>, the
  probes of \<open>internal/health/health.go\<close> and the chain \<open>NewRouter\<close> builds in \<open>internal/api/router.go\<close>.

  A handler answers with the calls it makes on its \<open>http.ResponseWriter\<close>, in order, the value it
  panics with, if it does, and what it logs and counts. A wrapper of the writer reads or rewrites this
  sequence, and \<open>received\<close> is what \<open>net/http\<close> makes of the sequence that leaves the outermost layer:
  the first final status counts, informational statuses (1xx but 101) may precede it, headers set after
  it are lost, and a writer nobody touched answers 200. Flushing and hijacking a connection, which no
  handler of the program does, are not calls of the model.
  Header names are compared without case. \<open>encoding/json\<close> is the parameter \<open>enc\<close>.

  The context of a request carries the two identifiers as \<open>hr_RequestID\<close> and \<open>hr_TraceID\<close>; empty is
  absent, which the middleware never stores.
\<close>

section \<open>Writers\<close>

datatype wcall = SetHeader string string | WriteHeader int | Write string

record writer =
  wr_Early :: "int list"
  wr_Header :: "string \<Rightarrow> string option"
  wr_Status :: "int option"
  wr_Sent :: "string \<Rightarrow> string option"
  wr_Body :: string

definition header_key :: "string \<Rightarrow> string" where
  "header_key name = map lower_char name"

definition body_allowed :: "int \<Rightarrow> bool" where
  "body_allowed status \<longleftrightarrow> \<not> (100 \<le> status \<and> status \<le> 199) \<and> status \<noteq> 204 \<and> status \<noteq> 304"

definition commit :: "int \<Rightarrow> writer \<Rightarrow> writer" where
  "commit status v = (if wr_Status v = None then v\<lparr>wr_Status := Some status, wr_Sent := wr_Header v\<rparr> else v)"

text \<open>The informational statuses, which \<open>net/http\<close> sends at once and which leave the response open.\<close>

definition informational :: "int \<Rightarrow> bool" where
  "informational status \<longleftrightarrow> 100 \<le> status \<and> status \<le> 199 \<and> status \<noteq> 101"

definition announce :: "int \<Rightarrow> writer \<Rightarrow> writer" where
  "announce status v = (if wr_Status v = None then v\<lparr>wr_Early := wr_Early v @ [status]\<rparr> else v)"

fun apply_call :: "wcall \<Rightarrow> writer \<Rightarrow> writer" where
  "apply_call (SetHeader name val) v = v\<lparr>wr_Header := (wr_Header v)(header_key name \<mapsto> val)\<rparr>"
| "apply_call (WriteHeader status) v = (if informational status then announce status v else commit status v)"
| "apply_call (Write b) v =
     (let v1 = commit 200 v
      in if body_allowed (the (wr_Status v1)) then v1\<lparr>wr_Body := wr_Body v1 @ b\<rparr> else v1)"

definition writer0 :: writer where
  "writer0 = \<lparr>wr_Early = [], wr_Header = Map.empty, wr_Status = None, wr_Sent = Map.empty, wr_Body = []\<rparr>"

definition received :: "wcall list \<Rightarrow> writer" where
  "received calls = commit 200 (fold apply_call calls writer0)"

record log_record =
  lg_Message :: string
  lg_Fields :: "(string \<times> string) list"

record answer =
  an_Calls :: "wcall list"
  an_Panic :: "string option"
  an_Logs :: "log_record list"
  an_Pattern :: string
  an_Counted :: "(string \<times> string \<times> string) list"

text \<open>The bytes a body still yields and the error after them; \<open>None\<close> is the end of the body.\<close>

type_synonym body_reader = "string \<times> err option"

record server_request = http_request +
  sr_Method :: string
  sr_Path :: string
  sr_Body :: "body_reader option"

type_synonym server_handler = "server_request \<Rightarrow> world \<Rightarrow> answer \<times> world"

section \<open>Responses\<close>

definition json_calls :: "('a response \<Rightarrow> string) \<Rightarrow> 'a response \<Rightarrow> wcall list" where
  "json_calls enc resp =
     [SetHeader ''Content-Type'' ''application/json; charset=utf-8'', WriteHeader (resp_status resp), Write (enc resp)]"

section \<open>Logging and correlation\<close>

datatype level = LevelDebug | LevelInfo | LevelWarn | LevelError

definition parseLevel :: "(string \<Rightarrow> string) \<Rightarrow> string \<Rightarrow> level" where
  "parseLevel ul s =
     (let t = to_lower ul (TrimSpace s) in
      if t = ''debug'' then LevelDebug else if t = ''warn'' then LevelWarn
      else if t = ''error'' then LevelError else LevelInfo)"

definition ContextWithRequestID :: "server_request \<Rightarrow> string \<Rightarrow> server_request" where
  "ContextWithRequestID r i = r\<lparr>hr_RequestID := i\<rparr>"

definition RequestIDFromContext :: "server_request \<Rightarrow> string option" where
  "RequestIDFromContext r = (if hr_RequestID r = [] then None else Some (hr_RequestID r))"

definition ContextWithTraceID :: "server_request \<Rightarrow> string \<Rightarrow> server_request" where
  "ContextWithTraceID r i = r\<lparr>hr_TraceID := i\<rparr>"

definition TraceIDFromContext :: "server_request \<Rightarrow> string option" where
  "TraceIDFromContext r = (if hr_TraceID r = [] then None else Some (hr_TraceID r))"

definition LoggerWithRequest :: "server_request \<Rightarrow> (string \<times> string) list" where
  "LoggerWithRequest r =
     (case RequestIDFromContext r of None \<Rightarrow> [] | Some i \<Rightarrow> [(''request_id'', i)]) @
     (case TraceIDFromContext r of None \<Rightarrow> [] | Some i \<Rightarrow> if i \<noteq> [] then [(''trace_id'', i)] else [])"

definition TraceparentHeader :: string where "TraceparentHeader = ''traceparent''"
definition TraceIDHeader :: string where "TraceIDHeader = ''X-Trace-Id''"
definition traceIDBytes :: nat where "traceIDBytes = 16"
definition zeroTraceID :: string where "zeroTraceID = ''00000000000000000000000000000000''"

definition isHex :: "string \<Rightarrow> bool" where
  "isHex = list_all (\<lambda>c. let n = of_char c :: nat in 48 \<le> n \<and> n \<le> 57 \<or> 97 \<le> n \<and> n \<le> 102 \<or> 65 \<le> n \<and> n \<le> 70)"

definition newTraceID :: "string io" where
  "newTraceID = io_case (rand_Read traceIDBytes) (\<lambda>_. io_return zeroTraceID) (\<lambda>buf. io_return (hex_encode buf))"

definition traceIDFromHeader :: "(string \<Rightarrow> string) \<Rightarrow> string \<Rightarrow> string io" where
  "traceIDFromHeader ul header =
     (case split_char (CHR ''-'') (TrimSpace header) of
        [version, traceID, parent, flags] \<Rightarrow>
          if version = ''00'' \<and> length traceID = traceIDBytes * 2 \<and> isHex traceID \<and> traceID \<noteq> zeroTraceID
          then io_return (to_lower ul traceID) else newTraceID
      | _ \<Rightarrow> newTraceID)"

section \<open>Middleware\<close>

definition requestIDHeader :: string where "requestIDHeader = ''X-Request-ID''"

definition before :: "wcall list \<Rightarrow> answer \<Rightarrow> answer" where
  "before calls a = a\<lparr>an_Calls := calls @ an_Calls a\<rparr>"

definition RequestID :: "env \<Rightarrow> server_handler \<Rightarrow> server_handler" where
  "RequestID e nxt r w =
     (let given = hr_Header r requestIDHeader;
          (i, w1) = (if given = [] then (''req_'' @ uuid_string e (fresh w), w\<lparr>fresh := Suc (fresh w)\<rparr>) else (given, w));
          (a, w2) = nxt (ContextWithRequestID r i) w1
      in (before [SetHeader requestIDHeader i] a, w2))"

definition TraceMiddleware :: "(string \<Rightarrow> string) \<Rightarrow> server_handler \<Rightarrow> server_handler" where
  "TraceMiddleware ul nxt r w =
     (case traceIDFromHeader ul (hr_Header r TraceparentHeader) w of
        (res, w1) \<Rightarrow>
          let i = (case res of Inl _ \<Rightarrow> zeroTraceID | Inr i \<Rightarrow> i);
              (a, w2) = nxt (ContextWithTraceID r i) w1
          in (before [SetHeader TraceIDHeader i] a, w2))"

definition panic_logs :: "server_request \<Rightarrow> string \<Rightarrow> log_record list" where
  "panic_logs r p =
     [\<lparr>lg_Message = ''recovered from panic'', lg_Fields = LoggerWithRequest r @ [(''panic'', p), (''path'', sr_Path r)]\<rparr>,
      \<lparr>lg_Message = ''request failed'',
       lg_Fields = LoggerWithRequest r @
         [(''code'', ''INTERNAL_ERROR''), (''status'', ''500''), (''error'', error_text (Sentinel ErrInternal))]\<rparr>]"

definition Recovery :: "('a response \<Rightarrow> string) \<Rightarrow> server_handler \<Rightarrow> server_handler" where
  "Recovery enc nxt r w =
     (let (a, w1) = nxt r w in
      case an_Panic a of
        None \<Rightarrow> (a, w1)
      | Some p \<Rightarrow>
          (let resp = fst (WriteError (hr_RequestID r) (Sentinel ErrInternal)) :: 'a response in
           (a\<lparr>an_Panic := None, an_Calls := an_Calls a @ json_calls enc resp,
              an_Logs := an_Logs a @ panic_logs r p\<rparr>, w1)))"

text \<open>The recorder of the logging layer passes every call on and keeps the status and the bytes written.\<close>

record statusRecorder =
  rc_status :: int
  rc_bytes :: nat
  rc_writer :: writer

fun record_call :: "wcall \<Rightarrow> statusRecorder \<Rightarrow> statusRecorder" where
  "record_call (SetHeader name val) c = c\<lparr>rc_writer := apply_call (SetHeader name val) (rc_writer c)\<rparr>"
| "record_call (WriteHeader code) c =
     c\<lparr>rc_status := code, rc_writer := apply_call (WriteHeader code) (rc_writer c)\<rparr>"
| "record_call (Write b) c =
     (let v = apply_call (Write b) (rc_writer c);
          n = length (wr_Body v) - length (wr_Body (rc_writer c))
      in c\<lparr>rc_status := (if rc_status c = 0 then 200 else rc_status c), rc_bytes := rc_bytes c + n, rc_writer := v\<rparr>)"

definition recorded_calls :: "wcall list \<Rightarrow> statusRecorder" where
  "recorded_calls calls = fold record_call calls \<lparr>rc_status = 0, rc_bytes = 0, rc_writer = writer0\<rparr>"

definition Logging :: "(server_request \<Rightarrow> string) \<Rightarrow> server_handler \<Rightarrow> server_handler" where
  "Logging client nxt r w =
     (let (a, w1) = nxt r w in
      case an_Panic a of
        Some _ \<Rightarrow> (a, w1)
      | None \<Rightarrow>
          (let rec = recorded_calls (an_Calls a) in
           (a\<lparr>an_Logs := an_Logs a @
               [\<lparr>lg_Message = ''http request'',
                 lg_Fields = LoggerWithRequest r @
                   [(''method'', sr_Method r), (''path'', sr_Path r), (''status'', Itoa (rc_status rec)),
                    (''bytes'', Itoa (int (rc_bytes rec))), (''duration'', Itoa (clock w1 - clock w)),
                    (''remote_addr'', client r)]\<rparr>]\<rparr>, w1)))"

definition security_headers :: "wcall list" where
  "security_headers =
     [SetHeader ''X-Content-Type-Options'' ''nosniff'', SetHeader ''X-Frame-Options'' ''DENY'',
      SetHeader ''Referrer-Policy'' ''no-referrer'',
      SetHeader ''Content-Security-Policy'' (''default-src '' @ [CHR 0x27] @ ''none'' @ [CHR 0x27] @ ''; frame-ancestors '' @
        [CHR 0x27] @ ''none'' @ [CHR 0x27])]"

definition SecurityHeaders :: "server_handler \<Rightarrow> server_handler" where
  "SecurityHeaders nxt r w = (let (a, w1) = nxt r w in (before security_headers a, w1))"

text \<open>\<open>http.MaxBytesReader\<close>: at most \<open>limit\<close> bytes, and an error where a longer body goes on.\<close>

definition MaxBytesReader :: "body_reader \<Rightarrow> int \<Rightarrow> body_reader" where
  "MaxBytesReader b bound =
     (let n = nat bound in
      if length (fst b) \<le> n then b else (take n (fst b), Some MaxBytesError))"

definition MaxBodyBytes :: "int \<Rightarrow> server_handler \<Rightarrow> server_handler" where
  "MaxBodyBytes bound nxt r w =
     nxt (case sr_Body r of None \<Rightarrow> r | Some b \<Rightarrow> r\<lparr>sr_Body := Some (MaxBytesReader b bound)\<rparr>) w"

text \<open>The recorder of the metrics layer forwards one status only, and writes it before the first byte.\<close>

fun metrics_calls :: "bool \<Rightarrow> wcall list \<Rightarrow> wcall list" where
  "metrics_calls wrote [] = []"
| "metrics_calls wrote (SetHeader name val # cs) = SetHeader name val # metrics_calls wrote cs"
| "metrics_calls wrote (WriteHeader code # cs) =
     (if wrote then metrics_calls wrote cs else WriteHeader code # metrics_calls True cs)"
| "metrics_calls wrote (Write b # cs) =
     (if wrote then Write b # metrics_calls True cs else WriteHeader 200 # Write b # metrics_calls True cs)"

fun metrics_status :: "wcall list \<Rightarrow> int" where
  "metrics_status [] = 200"
| "metrics_status (SetHeader name val # cs) = metrics_status cs"
| "metrics_status (WriteHeader code # cs) = code"
| "metrics_status (Write b # cs) = 200"

definition status_class :: "int \<Rightarrow> string" where
  "status_class code = (let s = Itoa code in if length s > 1 then take 1 s @ ''xx'' else s)"

definition routePattern :: "answer \<Rightarrow> string" where
  "routePattern a = (if an_Pattern a \<noteq> [] then an_Pattern a else ''unmatched'')"

definition MetricsMiddleware :: "server_handler \<Rightarrow> server_handler" where
  "MetricsMiddleware nxt r w =
     (let (a, w1) = nxt r w;
          a1 = a\<lparr>an_Calls := metrics_calls False (an_Calls a)\<rparr>
      in case an_Panic a of
           Some _ \<Rightarrow> (a1, w1)
         | None \<Rightarrow>
             (a1\<lparr>an_Counted := an_Counted a @ [(sr_Method r, routePattern a, status_class (metrics_status (an_Calls a)))]\<rparr>, w1))"

section \<open>Probes\<close>

type_synonym health_handler = "(string \<times> (unit io)) list"

definition Live :: "(string \<times> string) response" where
  "Live = WriteData 200 (''status'', ''ok'')"

fun ready_results :: "health_handler \<Rightarrow> world \<Rightarrow> (string \<times> string) list \<times> world" where
  "ready_results [] w = ([], w)"
| "ready_results ((name, check) # cs) w =
     (let (res, w1) = check w; (rest, w2) = ready_results cs w1
      in ((name, if isl res then ''unavailable'' else ''ok'') # rest, w2))"

definition Ready :: "health_handler \<Rightarrow> world \<Rightarrow> (string \<times> (string \<times> string) list) response \<times> world" where
  "Ready checks w =
     (let (results, w1) = ready_results checks w in
      if list_all (\<lambda>p. snd p = ''ok'') results then (WriteData 200 (''ok'', results), w1)
      else (WriteData 503 (''unavailable'', results), w1))"

section \<open>The chain of the router\<close>

record chain_options =
  co_env :: env
  co_lower :: "string \<Rightarrow> string"
  co_client :: "server_request \<Rightarrow> string"
  co_MaxBodyBytes :: int
  co_Metrics :: bool

definition server_chain :: "chain_options \<Rightarrow> ('a response \<Rightarrow> string) \<Rightarrow> server_handler \<Rightarrow> server_handler" where
  "server_chain opts enc routes =
     Recovery enc (RequestID (co_env opts) (TraceMiddleware (co_lower opts) (Logging (co_client opts)
       (SecurityHeaders (MaxBodyBytes (co_MaxBodyBytes opts)
         (if co_Metrics opts then MetricsMiddleware routes else routes))))))"

section \<open>What the client receives\<close>

lemma commit_simps [simp]:
  "wr_Status v \<noteq> None \<Longrightarrow> commit c v = v"
  "wr_Status (commit c v) \<noteq> None"
  "wr_Header (commit c v) = wr_Header v"
  "wr_Body (commit c v) = wr_Body v"
  "wr_Status (announce c v) = wr_Status v"
  "wr_Header (announce c v) = wr_Header v"
  "wr_Sent (announce c v) = wr_Sent v"
  by (auto simp: commit_def announce_def)

lemma apply_call_status: "wr_Status v = Some c \<Longrightarrow> wr_Status (apply_call k v) = Some c"
  by (cases k) (auto simp: Let_def)

lemma fold_status: "wr_Status v = Some c \<Longrightarrow> wr_Status (fold apply_call ks v) = Some c"
  by (induction ks arbitrary: v) (auto simp: apply_call_status)

fun sets :: "string \<Rightarrow> wcall \<Rightarrow> bool" where
  "sets key (SetHeader name val) \<longleftrightarrow> header_key name = key"
| "sets key _ \<longleftrightarrow> False"

definition labelled :: "string \<Rightarrow> string \<Rightarrow> writer \<Rightarrow> bool" where
  "labelled key val v \<longleftrightarrow> wr_Header v key = Some val \<and> (wr_Status v \<noteq> None \<longrightarrow> wr_Sent v key = Some val)"

lemma labelled_commit: "labelled key val v \<Longrightarrow> labelled key val (commit c v)"
  by (auto simp: labelled_def commit_def)

lemma labelled_apply: "labelled key val v \<Longrightarrow> \<not> sets key k \<Longrightarrow> labelled key val (apply_call k v)"
  using labelled_commit [of key val v] by (cases k) (auto simp: labelled_def Let_def)

lemma labelled_fold:
  "labelled key val v \<Longrightarrow> list_all (\<lambda>k. \<not> sets key k) ks \<Longrightarrow> labelled key val (fold apply_call ks v)"
  by (induction ks arbitrary: v) (auto simp: labelled_apply)

lemma labelled_set: "wr_Status v = None \<Longrightarrow> labelled (header_key name) val (apply_call (SetHeader name val) v)"
  by (simp add: labelled_def)

text \<open>A header set before the first status and not set again reaches the client.\<close>

lemma received_label:
  assumes "calls = pre @ SetHeader name val # post"
    and "list_all (\<lambda>k. \<exists>n x. k = SetHeader n x) pre" "list_all (\<lambda>k. \<not> sets (header_key name) k) post"
  shows "wr_Sent (received calls) (header_key name) = Some val"
proof -
  have "wr_Status (fold apply_call pre v) = wr_Status v" for v
    using assms(2) by (induction pre arbitrary: v) auto
  then have "wr_Status (fold apply_call pre writer0) = None" by (simp add: writer0_def)
  from labelled_fold [OF labelled_set [OF this] assms(3)]
  have "labelled (header_key name) val (fold apply_call calls writer0)" by (simp add: assms(1))
  from labelled_commit [OF this, of 200] show ?thesis by (simp add: received_def labelled_def)
qed

text \<open>The statuses that end a response: everything \<open>net/http\<close> accepts but the informational ones.\<close>

definition final_status :: "int \<Rightarrow> bool" where
  "final_status status \<longleftrightarrow> status = 101 \<or> 200 \<le> status \<and> status \<le> 999"

fun final_call :: "wcall \<Rightarrow> bool" where
  "final_call (WriteHeader status) \<longleftrightarrow> final_status status"
| "final_call _ \<longleftrightarrow> True"

lemma final_not_informational: "final_status status \<Longrightarrow> \<not> informational status" "\<not> informational 200"
  by (auto simp: final_status_def informational_def)

lemma metrics_fold:
  "wrote \<longleftrightarrow> wr_Status v \<noteq> None \<Longrightarrow> list_all final_call ks \<Longrightarrow>
   fold apply_call (metrics_calls wrote ks) v = fold apply_call ks v"
proof (induction wrote ks arbitrary: v rule: metrics_calls.induct)
  case (2 wrote name val cs)
  have "wrote \<longleftrightarrow> wr_Status (apply_call (SetHeader name val) v) \<noteq> None" using 2(2) by simp
  from 2(1) [OF this] 2(3) show ?case by simp
next
  case (3 wrote code cs)
  have "wr_Status (commit code v) \<noteq> None" by simp
  moreover have "\<not> informational code" using 3(4) by (simp add: final_not_informational)
  ultimately show ?case using 3 by (cases wrote) (simp_all del: not_None_eq)
next
  case (4 wrote b cs)
  have "apply_call (Write b) (commit 200 v) = apply_call (Write b) v" by simp
  moreover have "wr_Status (apply_call (Write b) v) \<noteq> None" by (simp add: Let_def del: not_None_eq)
  ultimately show ?case using 4
    by (cases wrote) (simp_all add: final_not_informational del: apply_call.simps(3) not_None_eq)
qed simp

lemma metrics_status_sent:
  "wr_Status v = None \<Longrightarrow> list_all final_call ks \<Longrightarrow>
   wr_Status (commit 200 (fold apply_call ks v)) = Some (metrics_status ks)"
proof (induction ks arbitrary: v rule: metrics_status.induct)
  case (3 code cs)
  then have "wr_Status (apply_call (WriteHeader code) v) = Some code"
    by (simp add: commit_def final_not_informational)
  from fold_status [OF this] show ?case by simp
next
  case (4 b cs)
  then have "wr_Status (apply_call (Write b) v) = Some 200" by (simp add: commit_def Let_def)
  from fold_status [OF this] show ?case by simp
qed (simp_all add: commit_def)

text \<open>
  C33: the metrics layer is transparent for a handler that writes final statuses only: the client receives
  the same status, headers and body as without it, however often the handler writes a status and
  whether or not it writes one before the body, and the status counted is the one the client receives.
\<close>

theorem metrics_transparent:
  assumes "list_all final_call calls"
  shows "received (metrics_calls False calls) = received calls \<and> wr_Status (received calls) = Some (metrics_status calls)"
proof -
  have "wr_Status writer0 = None" by (simp add: writer0_def)
  then show ?thesis using assms by (simp add: received_def metrics_fold metrics_status_sent)
qed

theorem metrics_transparent_witness:
  "received (metrics_calls False [SetHeader ''A'' ''b'', WriteHeader 404, WriteHeader 200, Write ''x'']) =
     received [SetHeader ''A'' ''b'', WriteHeader 404, WriteHeader 200, Write ''x''] \<and>
   wr_Status (received [SetHeader ''A'' ''b'', WriteHeader 404, WriteHeader 200, Write ''x'']) = Some 404"
  using metrics_transparent [of "[SetHeader ''A'' ''b'', WriteHeader 404, WriteHeader 200, Write ''x'']"]
  by (simp add: final_status_def del: apply_call.simps)

text \<open>
  For an informational status the layer is not transparent: the recorder takes it for the status of the
  response, swallows the final one and counts it, so the client receives 200 in place of the 404.
\<close>

lemma informational_status_swallowed:
  "wr_Status (received [WriteHeader 103, WriteHeader 404]) = Some 404 \<and>
   wr_Status (received (metrics_calls False [WriteHeader 103, WriteHeader 404])) = Some 200 \<and>
   metrics_status [WriteHeader 103, WriteHeader 404] = 103"
  by (simp add: received_def writer0_def commit_def announce_def informational_def)

section \<open>Identifiers\<close>

definition lower_hex :: "char \<Rightarrow> bool" where
  "lower_hex c \<longleftrightarrow> (let n = of_char c :: nat in 48 \<le> n \<and> n \<le> 57 \<or> 97 \<le> n \<and> n \<le> 102)"

lemma lower_hex_digit: "n < 16 \<Longrightarrow> lower_hex (hex_digit n)"
  by (auto simp: lower_hex_def hex_digit_def Let_def)

lemma lower_hex_encode: "list_all lower_hex (hex_encode s)"
  by (induction s) (simp_all add: hex_encode_def lower_hex_digit less_mult_imp_div_less)

lemma lower_hex_lower: "isHex s \<Longrightarrow> list_all ascii s \<and> list_all lower_hex (map lower_char s)"
  by (induction s) (auto simp: isHex_def ascii_def lower_hex_def lower_char_def is_upper_ascii_def Let_def)

definition well_formed_trace :: "string \<Rightarrow> bool" where
  "well_formed_trace i \<longleftrightarrow> length i = 32 \<and> list_all lower_hex i"

lemma newTraceID_shape: "\<exists>i. fst (newTraceID w) = Inr i \<and> well_formed_trace i"
proof (cases "rand_Read traceIDBytes w")
  case (Pair res w1)
  show ?thesis
  proof (cases res)
    case (Inl e)
    have "well_formed_trace zeroTraceID" by (simp add: well_formed_trace_def zeroTraceID_def lower_hex_def)
    then show ?thesis using Pair Inl by (simp add: newTraceID_def io_case_def io_return_def)
  next
    case (Inr buf)
    then have "length buf = 16" using Pair
      by (auto simp: rand_Read_def traceIDBytes_def split: prod.splits option.splits)
    then have "well_formed_trace (hex_encode buf)"
      by (simp add: well_formed_trace_def length_hex_encode lower_hex_encode)
    then show ?thesis using Pair Inr by (simp add: newTraceID_def io_case_def io_return_def)
  qed
qed

lemma trace_id_shape: "\<exists>i. fst (traceIDFromHeader ul header w) = Inr i \<and> well_formed_trace i"
proof -
  have "well_formed_trace (to_lower ul t)" if "length t = traceIDBytes * 2" "isHex t" for t
    using that lower_hex_lower [OF that(2)] by (simp add: well_formed_trace_def to_lower_def traceIDBytes_def)
  then show ?thesis using newTraceID_shape [of w]
    by (auto simp: traceIDFromHeader_def io_return_def split: list.splits)
qed

section \<open>The chain\<close>

definition sent_header :: "answer \<Rightarrow> string \<Rightarrow> string option" where
  "sent_header a name = wr_Sent (received (an_Calls a)) (header_key name)"

definition reserved_headers :: "string list" where
  "reserved_headers = map header_key
     [requestIDHeader, TraceIDHeader, ''X-Content-Type-Options'', ''X-Frame-Options'', ''Referrer-Policy'', ''Content-Security-Policy'']"

definition leaves_headers :: "server_handler \<Rightarrow> bool" where
  "leaves_headers routes \<longleftrightarrow>
     (\<forall>r w. list_all (\<lambda>k. list_all (\<lambda>key. \<not> sets key k) reserved_headers) (an_Calls (fst (routes r w))))"

text \<open>
  What the chain makes of the handler's answer \<open>inner\<close>: the request and trace identifier are set first,
  then the security headers, then what the handler wrote, and after a panic the error response.
\<close>

definition chain_calls :: "('a response \<Rightarrow> string) \<Rightarrow> string \<Rightarrow> string \<Rightarrow> bool \<Rightarrow> server_request \<Rightarrow> answer \<Rightarrow> wcall list" where
  "chain_calls enc i t metered r inner =
     [SetHeader requestIDHeader i, SetHeader TraceIDHeader t] @ security_headers @
     (if metered then metrics_calls False (an_Calls inner) else an_Calls inner) @
     (case an_Panic inner of
        None \<Rightarrow> []
      | Some _ \<Rightarrow> json_calls enc (fst (WriteError (hr_RequestID r) (Sentinel ErrInternal))))"

lemma server_chain_calls:
  "\<exists>i t r1 w1. (hr_Header r requestIDHeader \<noteq> [] \<longrightarrow> i = hr_Header r requestIDHeader) \<and> well_formed_trace t \<and>
     sr_Path r1 = sr_Path r \<and> hr_RequestID r1 = i \<and>
     an_Calls (fst (server_chain opts enc routes r w)) = chain_calls enc i t (co_Metrics opts) r (fst (routes r1 w1)) \<and>
     an_Panic (fst (server_chain opts enc routes r w)) = None \<and>
     (\<forall>p. an_Panic (fst (routes r1 w1)) = Some p \<longrightarrow>
        an_Logs (fst (server_chain opts enc routes r w)) = an_Logs (fst (routes r1 w1)) @ panic_logs r p) \<and>
     snd (server_chain opts enc routes r w) = snd (routes r1 w1)"
proof -
  define given where "given = hr_Header r requestIDHeader"
  define i where "i = (if given = [] then ''req_'' @ uuid_string (co_env opts) (fresh w) else given)"
  define w0 where "w0 = (if given = [] then w\<lparr>fresh := Suc (fresh w)\<rparr> else w)"
  define ra where "ra = ContextWithRequestID r i"
  obtain t w1 where t: "traceIDFromHeader (co_lower opts) (hr_Header ra TraceparentHeader) w0 = (Inr t, w1)" "well_formed_trace t"
    using trace_id_shape [of "co_lower opts" "hr_Header ra TraceparentHeader" w0] by (metis prod.collapse)
  define rb where "rb = ContextWithTraceID ra t"
  define r1 where "r1 = (case sr_Body rb of None \<Rightarrow> rb | Some b \<Rightarrow> rb\<lparr>sr_Body := Some (MaxBytesReader b (co_MaxBodyBytes opts))\<rparr>)"
  obtain inner w2 where routes: "routes r1 w1 = (inner, w2)" by (cases "routes r1 w1")
  have r1: "sr_Path r1 = sr_Path r" "hr_RequestID r1 = i"
    by (simp_all add: r1_def rb_def ra_def ContextWithRequestID_def ContextWithTraceID_def split: option.splits)
  define core_handler where "core_handler = (if co_Metrics opts then MetricsMiddleware routes else routes)"
  let ?calls = "if co_Metrics opts then metrics_calls False (an_Calls inner) else an_Calls inner"
  have core: "an_Calls (fst (core_handler r1 w1)) = ?calls \<and> an_Panic (fst (core_handler r1 w1)) = an_Panic inner \<and>
      an_Logs (fst (core_handler r1 w1)) = an_Logs inner \<and> snd (core_handler r1 w1) = w2"
    by (auto simp: core_handler_def MetricsMiddleware_def routes Let_def split: option.splits)
  define logged where "logged = Logging (co_client opts) (SecurityHeaders (MaxBodyBytes (co_MaxBodyBytes opts) core_handler))"
  have logged: "an_Calls (fst (logged rb w1)) = security_headers @ ?calls \<and> an_Panic (fst (logged rb w1)) = an_Panic inner \<and>
      (an_Panic inner \<noteq> None \<longrightarrow> an_Logs (fst (logged rb w1)) = an_Logs inner) \<and>
      snd (logged rb w1) = w2"
    using core by (cases "core_handler r1 w1")
      (auto simp: logged_def Logging_def SecurityHeaders_def MaxBodyBytes_def before_def Let_def r1_def [symmetric]
        split: option.splits)
  define traced where "traced = TraceMiddleware (co_lower opts) logged"
  have traced: "an_Calls (fst (traced ra w0)) = SetHeader TraceIDHeader t # security_headers @ ?calls \<and>
      an_Panic (fst (traced ra w0)) = an_Panic inner \<and> (an_Panic inner \<noteq> None \<longrightarrow> an_Logs (fst (traced ra w0)) = an_Logs inner) \<and>
      snd (traced ra w0) = w2"
    using logged t(1) by (cases "logged rb w1")
      (simp add: traced_def TraceMiddleware_def before_def Let_def rb_def [symmetric])
  define named where "named = RequestID (co_env opts) traced"
  have named: "an_Calls (fst (named r w)) = SetHeader requestIDHeader i # SetHeader TraceIDHeader t # security_headers @ ?calls \<and>
      an_Panic (fst (named r w)) = an_Panic inner \<and> (an_Panic inner \<noteq> None \<longrightarrow> an_Logs (fst (named r w)) = an_Logs inner) \<and>
      snd (named r w) = w2"
  proof -
    have "(if given = [] then (''req_'' @ uuid_string (co_env opts) (fresh w), w\<lparr>fresh := Suc (fresh w)\<rparr>) else (given, w)) = (i, w0)"
      by (simp add: i_def w0_def)
    then have "named r w = (let (a, w2) = traced ra w0 in (before [SetHeader requestIDHeader i] a, w2))"
      by (simp add: named_def RequestID_def ra_def given_def [symmetric] Let_def)
    then show ?thesis using traced by (cases "traced ra w0") (simp add: before_def)
  qed
  have "server_chain opts enc routes r w = Recovery enc named r w"
    by (simp add: server_chain_def named_def traced_def logged_def core_handler_def)
  then have "an_Calls (fst (server_chain opts enc routes r w)) = chain_calls enc i t (co_Metrics opts) r inner \<and>
      an_Panic (fst (server_chain opts enc routes r w)) = None \<and>
      (\<forall>p. an_Panic inner = Some p \<longrightarrow>
         an_Logs (fst (server_chain opts enc routes r w)) = an_Logs inner @ panic_logs r p) \<and>
      snd (server_chain opts enc routes r w) = w2"
    using named by (cases "named r w"; cases "an_Panic inner") (simp_all add: Recovery_def chain_calls_def Let_def)
  then show ?thesis
    using t(2) r1 routes by (intro exI [of _ i] exI [of _ t] exI [of _ r1] exI [of _ w1]) (simp add: i_def given_def)
qed

lemma sets_metrics:
  "list_all (\<lambda>k. \<not> sets key k) ks \<Longrightarrow> list_all (\<lambda>k. \<not> sets key k) (metrics_calls wrote ks)"
  by (induction wrote ks rule: metrics_calls.induct) auto

lemma sets_json: "key \<in> set reserved_headers \<Longrightarrow> list_all (\<lambda>k. \<not> sets key k) (json_calls enc resp)"
  by (auto simp: json_calls_def reserved_headers_def header_key_def requestIDHeader_def TraceIDHeader_def lower_char_def
      is_upper_ascii_def)

lemma sets_handler:
  assumes "leaves_headers routes" "key \<in> set reserved_headers"
  shows "list_all (\<lambda>k. \<not> sets key k) (an_Calls (fst (routes r w)))"
  using assms by (auto simp: leaves_headers_def list_all_iff)

text \<open>The headers the chain sets, with their values.\<close>

definition chain_headers :: "string \<Rightarrow> string \<Rightarrow> (string \<times> string) list" where
  "chain_headers i t =
     [(requestIDHeader, i), (TraceIDHeader, t)] @
     concat (map (\<lambda>k. case k of SetHeader n v \<Rightarrow> [(n, v)] | _ \<Rightarrow> []) security_headers)"

lemma chain_headers_received:
  assumes "(name, val) \<in> set (chain_headers i t)"
    and rest: "\<And>key. key \<in> set reserved_headers \<Longrightarrow> list_all (\<lambda>k. \<not> sets key k) post"
  shows "wr_Sent (received (map (\<lambda>(n, v). SetHeader n v) (chain_headers i t) @ post)) (header_key name) = Some val"
proof -
  obtain pre suf where split: "chain_headers i t = pre @ (name, val) # suf" using assms(1) by (meson split_list)
  have names: "map (header_key \<circ> fst) (chain_headers i t) = reserved_headers"
    by (simp add: chain_headers_def security_headers_def reserved_headers_def)
  have "distinct reserved_headers"
    by (simp add: reserved_headers_def header_key_def requestIDHeader_def TraceIDHeader_def lower_char_def is_upper_ascii_def)
  then have "header_key name \<notin> set (map (header_key \<circ> fst) suf)"
    using split unfolding names [symmetric] by simp
  then have "list_all (\<lambda>k. \<not> sets (header_key name) k) (map (\<lambda>(n, v). SetHeader n v) suf)"
    by (force simp: list_all_iff)
  moreover have "header_key name \<in> set reserved_headers" using split unfolding names [symmetric] by simp
  ultimately have later: "list_all (\<lambda>k. \<not> sets (header_key name) k) (map (\<lambda>(n, v). SetHeader n v) suf @ post)"
    using rest by simp
  have earlier: "list_all (\<lambda>k. \<exists>n x. k = SetHeader n x) (map (\<lambda>(n, v). SetHeader n v) pre)"
    by (auto simp: list_all_iff)
  show ?thesis by (rule received_label [OF _ earlier later]) (simp add: split)
qed

text \<open>
  C32: whatever the routed handler does, panics included, the response carries the request identifier (the
  caller's own when it sent one), a well-formed trace identifier and the four security headers; the
  handler is only assumed not to set these headers itself.
\<close>

theorem responses_labelled:
  assumes "leaves_headers routes"
  shows "\<exists>i t. (hr_Header r requestIDHeader \<noteq> [] \<longrightarrow> i = hr_Header r requestIDHeader) \<and> well_formed_trace t \<and>
     (\<forall>(name, val)\<in>set (chain_headers i t). sent_header (fst (server_chain opts enc routes r w)) name = Some val)"
proof -
  obtain i t r1 w1 where c: "hr_Header r requestIDHeader \<noteq> [] \<longrightarrow> i = hr_Header r requestIDHeader" "well_formed_trace t"
    "an_Calls (fst (server_chain opts enc routes r w)) = chain_calls enc i t (co_Metrics opts) r (fst (routes r1 w1))"
    using server_chain_calls [of r opts enc routes w] by blast
  define post where "post =
     (if co_Metrics opts then metrics_calls False (an_Calls (fst (routes r1 w1))) else an_Calls (fst (routes r1 w1))) @
     (case an_Panic (fst (routes r1 w1)) of
        None \<Rightarrow> []
      | Some _ \<Rightarrow> json_calls enc (fst (WriteError (hr_RequestID r) (Sentinel ErrInternal))))"
  have "list_all (\<lambda>k. \<not> sets key k) post" if "key \<in> set reserved_headers" for key
    by (simp add: post_def sets_metrics sets_handler [OF assms that] sets_json [OF that] split: option.splits)
  moreover have "chain_calls enc i t (co_Metrics opts) r (fst (routes r1 w1)) =
      map (\<lambda>(n, v). SetHeader n v) (chain_headers i t) @ post"
    by (simp add: chain_calls_def chain_headers_def security_headers_def post_def)
  ultimately have "\<forall>(name, val)\<in>set (chain_headers i t). sent_header (fst (server_chain opts enc routes r w)) name = Some val"
    unfolding sent_header_def c(3) by (auto intro: chain_headers_received)
  then show ?thesis using c(1,2) by blast
qed

definition panicking :: server_handler where
  "panicking r w = (\<lparr>an_Calls = [], an_Panic = Some ''nil map'', an_Logs = [], an_Pattern = [], an_Counted = []\<rparr>, w)"

definition demo_chain :: "server_handler \<Rightarrow> server_handler" where
  "demo_chain = server_chain \<lparr>co_env = demo_env, co_lower = id, co_client = hr_RemoteAddr, co_MaxBodyBytes = 1048576, co_Metrics = True\<rparr>
     (\<lambda>_ :: nat response. ''{}'')"

definition demo_server_request :: server_request where
  "demo_server_request =
     \<lparr>hr_Context = \<lparr>principalKey = None, tenantKey = None\<rparr>, hr_Header = (\<lambda>h. if h = requestIDHeader then ''abc'' else []),
      hr_URLParam = (\<lambda>_. []), hr_Query = (\<lambda>_. None), hr_RequestID = [], hr_RemoteAddr = [], hr_TraceID = [],
      sr_Method = ''GET'', sr_Path = ''/x'', sr_Body = None\<rparr>"

theorem responses_labelled_witness:
  "sent_header (fst (demo_chain panicking demo_server_request empty_world)) requestIDHeader = Some ''abc'' \<and>
   sent_header (fst (demo_chain panicking demo_server_request empty_world)) ''X-Frame-Options'' = Some ''DENY''"
proof -
  have "leaves_headers panicking" by (simp add: leaves_headers_def panicking_def)
  moreover have "hr_Header demo_server_request requestIDHeader = ''abc''"
    by (simp add: demo_server_request_def)
  ultimately obtain t where
    "\<forall>(name, val)\<in>set (chain_headers ''abc'' t).
       sent_header (fst (demo_chain panicking demo_server_request empty_world)) name = Some val"
    using responses_labelled [of panicking demo_server_request] unfolding demo_chain_def by fastforce
  then show ?thesis by (auto simp: chain_headers_def security_headers_def)
qed

lemma received_after_headers:
  assumes "list_all (\<lambda>k. \<exists>n x. k = SetHeader n x) pre" "body_allowed code"
  shows "wr_Status (received (pre @ [WriteHeader code, Write b])) = Some code \<and> wr_Body (received (pre @ [WriteHeader code, Write b])) = b"
proof -
  have "wr_Status (fold apply_call pre v) = wr_Status v \<and> wr_Body (fold apply_call pre v) = wr_Body v" for v
    using assms(1) by (induction pre arbitrary: v) auto
  then have "wr_Status (fold apply_call pre writer0) = None" "wr_Body (fold apply_call pre writer0) = []"
    by (simp_all add: writer0_def)
  moreover have "\<not> informational code" using assms(2) by (auto simp: informational_def body_allowed_def)
  ultimately show ?thesis using assms(2) by (simp add: received_def commit_def Let_def)
qed

text \<open>
  A panic of the routed handler before it wrote anything is answered with status 500 and the generic
  error body, and never leaves the chain.
\<close>

theorem panics_answered:
  assumes "\<And>r1 w1. sr_Path r1 = sr_Path r \<Longrightarrow> an_Panic (fst (routes r1 w1)) = Some p \<and> an_Calls (fst (routes r1 w1)) = []"
    and a_def: "a = fst (server_chain opts enc routes r w)"
  shows "an_Panic a = None \<and> wr_Status (received (an_Calls a)) = Some 500 \<and>
     wr_Body (received (an_Calls a)) =
       enc (RespError 500 \<lparr>eb_Code = ''INTERNAL_ERROR'', eb_Message = ''An internal error occurred'', eb_Details = [],
              eb_RequestID = hr_RequestID r\<rparr>)"
proof -
  obtain i t r1 w1 where c: "sr_Path r1 = sr_Path r" "an_Panic a = None"
    "an_Calls a = chain_calls enc i t (co_Metrics opts) r (fst (routes r1 w1))"
    using server_chain_calls [of r opts enc routes w] unfolding a_def by blast
  have "json_calls enc (fst (WriteError (hr_RequestID r) (Sentinel ErrInternal))) =
      [SetHeader ''Content-Type'' ''application/json; charset=utf-8'', WriteHeader 500,
       Write (enc (RespError 500 \<lparr>eb_Code = ''INTERNAL_ERROR'', eb_Message = ''An internal error occurred'', eb_Details = [],
              eb_RequestID = hr_RequestID r\<rparr>))]"
    by (simp add: json_calls_def WriteError_def FromError_def NewAPIError_def Let_def)
  then have calls: "an_Calls a = ([SetHeader requestIDHeader i, SetHeader TraceIDHeader t] @ security_headers @
      [SetHeader ''Content-Type'' ''application/json; charset=utf-8'']) @
      [WriteHeader 500, Write (enc (RespError 500 \<lparr>eb_Code = ''INTERNAL_ERROR'', eb_Message = ''An internal error occurred'',
         eb_Details = [], eb_RequestID = hr_RequestID r\<rparr>))]"
    using assms(1) [OF c(1), of w1] unfolding c(3) chain_calls_def by simp
  show ?thesis unfolding calls
    by (intro conjI c(2) received_after_headers [THEN conjunct1] received_after_headers [THEN conjunct2])
      (simp_all add: security_headers_def body_allowed_def)
qed

theorem panics_answered_witness:
  "wr_Status (received (an_Calls (fst (demo_chain panicking demo_server_request empty_world)))) = Some 500"
proof -
  have "an_Panic (fst (panicking r w)) = Some ''nil map'' \<and> an_Calls (fst (panicking r w)) = []" for r w
    by (simp add: panicking_def)
  from panics_answered [where routes = panicking, OF this refl] show ?thesis unfolding demo_chain_def by blast
qed

text \<open>
  The panic is logged by the outermost layer, on the request as \<open>net/http\<close> delivered it: neither record
  carries the request or the trace identifier, and the layers inside write no line for the request.
\<close>

lemma recovered_panic_uncorrelated:
  assumes "\<And>r1 w1. sr_Path r1 = sr_Path r \<Longrightarrow> an_Panic (fst (routes r1 w1)) = Some p \<and> an_Logs (fst (routes r1 w1)) = []"
    and "hr_RequestID r = []" "hr_TraceID r = []"
  shows "an_Logs (fst (server_chain opts enc routes r w)) = panic_logs r p \<and>
     (\<forall>l\<in>set (panic_logs r p). map_of (lg_Fields l) ''request_id'' = None \<and> map_of (lg_Fields l) ''trace_id'' = None \<and>
        lg_Message l \<noteq> ''http request'')"
proof -
  obtain r1 w1 where "sr_Path r1 = sr_Path r"
    "\<forall>p. an_Panic (fst (routes r1 w1)) = Some p \<longrightarrow>
       an_Logs (fst (server_chain opts enc routes r w)) = an_Logs (fst (routes r1 w1)) @ panic_logs r p"
    using server_chain_calls [of r opts enc routes w] by blast
  moreover from this(1) have "an_Panic (fst (routes r1 w1)) = Some p" "an_Logs (fst (routes r1 w1)) = []"
    using assms(1) [of r1 w1] by simp_all
  ultimately show ?thesis using assms(2,3)
    by (simp add: panic_logs_def LoggerWithRequest_def RequestIDFromContext_def TraceIDFromContext_def)
qed

section \<open>Readiness\<close>

lemma ready_results_fst: "map fst (fst (ready_results checks w)) = map fst checks"
proof (induction checks arbitrary: w)
  case (Cons c cs)
  then show ?case by (cases c; cases "snd c w") (simp add: Let_def split_beta)
qed simp

text \<open>
  The readiness probe answers 200 exactly when every dependency answers its check; it names every
  dependency and says no more of one than that it is unavailable.
\<close>

theorem ready_exact:
  assumes "Ready checks w = (resp, w')"
  shows "\<exists>overall results. resp = RespData (resp_status resp) (overall, results) \<and> map fst results = map fst checks \<and>
     snd ` set results \<subseteq> {''ok'', ''unavailable''} \<and> results = fst (ready_results checks w) \<and>
     (resp_status resp = 200 \<longleftrightarrow> (\<forall>p\<in>set results. snd p = ''ok'')) \<and> resp_status resp \<in> {200, 503}"
proof -
  obtain results w1 where r: "ready_results checks w = (results, w1)" by fastforce
  have "snd ` set (fst (ready_results checks w)) \<subseteq> {''ok'', ''unavailable''}"
  proof (induction checks arbitrary: w)
    case (Cons c cs)
    then show ?case by (cases c; cases "snd c w") (simp add: Let_def split_beta)
  qed simp
  moreover have "map fst results = map fst checks" using ready_results_fst [of checks w] r by simp
  ultimately show ?thesis using assms r
    by (auto simp: Ready_def WriteData_def list_all_iff split: if_splits)
qed

end
