(* ===== verification/Router.thy ===== *)
theory Router
  imports Middleware RateLimit
begin

text \<open>
  The routes of the API: \<open>internal/api/router.go\<close> and the \<open>routes.go\<close> of every module. The tree of
  \<open>Route\<close>, \<open>Group\<close> and \<open>Use\<close> calls is a list of routes, each with its method, its pattern and the
  middleware in front of its handler, outermost first; \<open>under\<close> is one \<open>Route\<close> or \<open>Group\<close> with its \<open>Use\<close>
  calls. Matching a request against the patterns is the third-party router's. The optional parts of
  \<open>Dependencies\<close> are all present, as the API process builds them.
\<close>

datatype guard = RequiresAuth | AcceptsAuth | RequiresTenant | LimitedByIP | LimitedByCaller

datatype endpoint =
    EpLive | EpReady | EpMetrics
  | EpRegister | EpLogin | EpRefresh | EpLogout | EpLogoutAll | EpMe
  | EpAccept | EpPreview | EpInvitesList | EpInvitesCreate | EpInvitesResend | EpInvitesRevoke
  | EpListMine | EpCreateOrganization | EpGetOrganization | EpUpdateOrganization | EpListRoles | EpCreateRole
  | EpUpdateRole | EpDeleteRole | EpAssignMemberRole | EpListMembers
  | EpTeamsList | EpTeamsCreate | EpTeamsGet | EpTeamsUpdate | EpTeamsDelete
  | EpTeamsListMembers | EpTeamsAddMember | EpTeamsRemoveMember
  | EpProjectsList | EpProjectsCreate | EpProjectsGet | EpProjectsUpdate | EpProjectsDelete | EpProjectsActivity
  | EpTasksList | EpTasksGet | EpTasksUpdate | EpTasksDelete | EpTasksActivity | EpTasksByProject | EpTasksCreate
  | EpKeysList | EpKeysCreate | EpKeysRevoke
  | EpAuditList

record route =
  rt_Method :: string
  rt_Pattern :: string
  rt_Guards :: "guard list"
  rt_Endpoint :: endpoint

definition Get :: "string \<Rightarrow> endpoint \<Rightarrow> route" where
  "Get path ep = \<lparr>rt_Method = ''GET'', rt_Pattern = path, rt_Guards = [], rt_Endpoint = ep\<rparr>"

definition Post :: "string \<Rightarrow> endpoint \<Rightarrow> route" where
  "Post path ep = \<lparr>rt_Method = ''POST'', rt_Pattern = path, rt_Guards = [], rt_Endpoint = ep\<rparr>"

definition Patch :: "string \<Rightarrow> endpoint \<Rightarrow> route" where
  "Patch path ep = \<lparr>rt_Method = ''PATCH'', rt_Pattern = path, rt_Guards = [], rt_Endpoint = ep\<rparr>"

definition Delete :: "string \<Rightarrow> endpoint \<Rightarrow> route" where
  "Delete path ep = \<lparr>rt_Method = ''DELETE'', rt_Pattern = path, rt_Guards = [], rt_Endpoint = ep\<rparr>"

definition under :: "string \<Rightarrow> guard list \<Rightarrow> route list \<Rightarrow> route list" where
  "under prefix gs rs = map (\<lambda>r. r\<lparr>rt_Pattern := prefix @ rt_Pattern r, rt_Guards := gs @ rt_Guards r\<rparr>) rs"

section \<open>Modules\<close>

definition auth_routes :: "route list" where
  "auth_routes =
     under ''/auth'' []
       ([Post ''/register'' EpRegister, Post ''/login'' EpLogin, Post ''/refresh'' EpRefresh, Post ''/logout'' EpLogout] @
        under [] [RequiresAuth] [Post ''/logout-all'' EpLogoutAll, Get ''/me'' EpMe])"

definition invitation_public_routes :: "route list" where
  "invitation_public_routes =
     under ''/invitations'' [] (under [] [AcceptsAuth] [Post ''/accept'' EpAccept] @ [Get ''/{token}'' EpPreview])"

definition invitation_routes :: "route list" where
  "invitation_routes =
     under ''/organizations/{orgID}/invitations'' [RequiresAuth]
       [Get ''/'' EpInvitesList, Post ''/'' EpInvitesCreate, Post ''/{invitationID}/resend'' EpInvitesResend,
        Post ''/{invitationID}/revoke'' EpInvitesRevoke]"

definition organization_routes :: "route list" where
  "organization_routes =
     under ''/organizations'' [RequiresAuth]
       ([Get ''/'' EpListMine, Post ''/'' EpCreateOrganization] @
        under ''/{orgID}'' []
          ([Get ''/'' EpGetOrganization, Patch ''/'' EpUpdateOrganization, Get ''/roles'' EpListRoles,
            Post ''/roles'' EpCreateRole, Patch ''/roles/{roleID}'' EpUpdateRole, Delete ''/roles/{roleID}'' EpDeleteRole,
            Patch ''/members/{membershipID}/role'' EpAssignMemberRole] @
           under [] [RequiresTenant] [Get ''/members'' EpListMembers]))"

definition team_routes :: "route list" where
  "team_routes =
     under ''/organizations/{orgID}/teams'' [RequiresAuth]
       ([Get ''/'' EpTeamsList, Post ''/'' EpTeamsCreate] @
        under ''/{teamID}'' []
          [Get ''/'' EpTeamsGet, Patch ''/'' EpTeamsUpdate, Delete ''/'' EpTeamsDelete,
           Get ''/members'' EpTeamsListMembers, Post ''/members'' EpTeamsAddMember,
           Delete ''/members/{teamMemberID}'' EpTeamsRemoveMember])"

definition project_routes :: "route list" where
  "project_routes =
     under ''/organizations/{orgID}/projects'' [RequiresAuth]
       ([Get ''/'' EpProjectsList, Post ''/'' EpProjectsCreate] @
        under ''/{projectID}'' []
          [Get ''/'' EpProjectsGet, Patch ''/'' EpProjectsUpdate, Delete ''/'' EpProjectsDelete,
           Get ''/activity'' EpProjectsActivity])"

definition task_routes :: "route list" where
  "task_routes =
     under ''/organizations/{orgID}/tasks'' [RequiresAuth]
       ([Get ''/'' EpTasksList] @
        under ''/{taskID}'' []
          [Get ''/'' EpTasksGet, Patch ''/'' EpTasksUpdate, Delete ''/'' EpTasksDelete, Get ''/activity'' EpTasksActivity]) @
     under ''/organizations/{orgID}/projects/{projectID}/tasks'' [RequiresAuth]
       [Get ''/'' EpTasksByProject, Post ''/'' EpTasksCreate]"

definition apikey_routes :: "route list" where
  "apikey_routes =
     under ''/organizations/{orgID}/api-keys'' [RequiresAuth]
       [Get ''/'' EpKeysList, Post ''/'' EpKeysCreate, Delete ''/{apiKeyID}'' EpKeysRevoke]"

section \<open>The router\<close>

definition mountTenantRoutes :: "route list" where
  "mountTenantRoutes =
     organization_routes @ team_routes @ project_routes @ task_routes @ invitation_routes @ apikey_routes @
     under ''/organizations/{orgID}/audit-logs'' [] [Get ''/'' EpAuditList]"

definition NewRouter :: "bool \<Rightarrow> route list" where
  "NewRouter metrics =
     [Get ''/health'' EpLive, Get ''/ready'' EpReady] @ (if metrics then [Get ''/metrics'' EpMetrics] else []) @
     under ''/api/v1'' []
       (under [] [LimitedByIP] auth_routes @ under [] [LimitedByIP] invitation_public_routes @
        under [] [RequiresAuth, LimitedByCaller] mountTenantRoutes)"

text \<open>The middleware in front of a handler.\<close>

record router_deps =
  rd_auth :: auth_middleware
  rd_limiter :: "world limiter"
  rd_failOpen :: bool
  rd_policies :: Policies
  rd_client :: "http_request \<Rightarrow> string"

definition limited :: "(world \<Rightarrow> verdict \<times> world) \<Rightarrow> 'a http_handler \<Rightarrow> 'a http_handler" where
  "limited verdict_of nxt r w =
     (case verdict_of w of
        (Forward _, w1) \<Rightarrow> nxt r w1
      | (Reject _ e, w1) \<Rightarrow> respond_error r e w1)"

fun apply_guard :: "router_deps \<Rightarrow> guard \<Rightarrow> 'a http_handler \<Rightarrow> 'a http_handler" where
  "apply_guard d RequiresAuth nxt r w = RequireAuth (rd_auth d) nxt r w"
| "apply_guard d AcceptsAuth nxt r w = OptionalAuth (rd_auth d) nxt r w"
| "apply_guard d RequiresTenant nxt r w = RequireTenant (mw_env (rd_auth d)) nxt r w"
| "apply_guard d LimitedByIP nxt r w =
     limited (LimitByIP (rd_failOpen d) (clock w) (rd_limiter d) (ps_Auth (rd_policies d)) (rd_client d r)) nxt r w"
| "apply_guard d LimitedByCaller nxt r w =
     limited (LimitAuthenticated (mw_env (rd_auth d)) (rd_failOpen d) (clock w) (rd_limiter d)
       (ps_User (rd_policies d)) (ps_APIKey (rd_policies d)) (hr_Context r)) nxt r w"

definition guarded :: "router_deps \<Rightarrow> guard list \<Rightarrow> 'a http_handler \<Rightarrow> 'a http_handler" where
  "guarded d gs h = foldr (apply_guard d) gs h"

section \<open>Access\<close>

definition public_endpoint :: "endpoint \<Rightarrow> bool" where
  "public_endpoint ep \<longleftrightarrow>
     ep \<in> {EpLive, EpReady, EpMetrics, EpRegister, EpLogin, EpRefresh, EpLogout, EpAccept, EpPreview}"

lemmas route_tables =
  NewRouter_def mountTenantRoutes_def auth_routes_def invitation_public_routes_def invitation_routes_def
  organization_routes_def team_routes_def project_routes_def task_routes_def apikey_routes_def
  under_def Get_def Post_def Patch_def Delete_def

text \<open>A protected route starts with the authentication check, which only the limit by address may precede.\<close>

lemma protected_guards:
  assumes "rt \<in> set (NewRouter metrics)" "\<not> public_endpoint (rt_Endpoint rt)"
  shows "(\<exists>gs. rt_Guards rt = RequiresAuth # LimitedByCaller # gs) \<or> rt_Guards rt = [LimitedByIP, RequiresAuth]"
  using assms by (auto simp: route_tables public_endpoint_def split: if_splits)

definition no_credentials :: "router_deps \<Rightarrow> http_request \<Rightarrow> bool" where
  "no_credentials d r \<longleftrightarrow>
     PrincipalFromContext (hr_Context r) = None \<and> (\<forall>w. \<exists>w'. resolve (rd_auth d) r w = (Inr None, w'))"

lemma RequireAuth_refuses:
  assumes "no_credentials d r"
  shows "\<exists>body w'. \<forall>h :: 'a http_handler. RequireAuth (rd_auth d) h r w = (Inr (RespError 401 body), w')"
proof -
  obtain w' where "resolve (rd_auth d) r w = (Inr None, w')" using assms by (auto simp: no_credentials_def)
  then show ?thesis using assms
    by (auto simp: no_credentials_def RequireAuth_def io_try_def io_case_def respond_error_def io_return_def
        WriteError_def FromError_def NewAPIError_def Let_def)
qed

text \<open>
  C19: the handler of every route but the public ones (the probes, registration, login, refresh, logout and
  the two invitation endpoints) is out of reach without credentials: such a request is answered 401, or
  429 by the limiter in front, whatever the handler is.
\<close>

theorem protected_routes_refuse:
  assumes "rt \<in> set (NewRouter metrics)" "\<not> public_endpoint (rt_Endpoint rt)" "no_credentials d r"
  shows "\<exists>status body w'. status \<in> {401, 429} \<and>
     (\<forall>h :: 'a http_handler. guarded d (rt_Guards rt) h r w = (Inr (RespError status body), w'))"
  using protected_guards [OF assms(1,2)]
proof (elim disjE exE)
  fix gs assume gs: "rt_Guards rt = RequiresAuth # LimitedByCaller # gs"
  obtain body w' where "\<forall>h :: 'a http_handler. RequireAuth (rd_auth d) h r w = (Inr (RespError 401 body), w')"
    using RequireAuth_refuses [OF assms(3)] by blast
  then show ?thesis unfolding gs guarded_def by auto
next
  assume gs: "rt_Guards rt = [LimitedByIP, RequiresAuth]"
  obtain v w1 where v: "LimitByIP (rd_failOpen d) (clock w) (rd_limiter d) (ps_Auth (rd_policies d)) (rd_client d r) w = (v, w1)"
    by fastforce
  show ?thesis
  proof (cases v)
    case (Forward hs)
    obtain body w' where "\<forall>h :: 'a http_handler. RequireAuth (rd_auth d) h r w1 = (Inr (RespError 401 body), w')"
      using RequireAuth_refuses [OF assms(3)] by blast
    then show ?thesis using v Forward unfolding gs guarded_def by (auto simp: limited_def)
  next
    case (Reject hs e)
    then have "e = Sentinel ErrRateLimited" using v
      by (auto simp: LimitByIP_def serve_policy_def serve_limited_def Let_def split: if_splits sum.splits prod.splits)
    then show ?thesis using v Reject unfolding gs guarded_def
      by (auto simp: limited_def respond_error_def io_return_def WriteError_def FromError_def NewAPIError_def Let_def)
  qed
qed

text \<open>
  The table of routes is complete: every endpoint is mounted, each of them once.
\<close>

lemma endpoint_table:
  "map rt_Endpoint (NewRouter True) =
     [EpLive, EpReady, EpMetrics, EpRegister, EpLogin, EpRefresh, EpLogout, EpLogoutAll, EpMe, EpAccept, EpPreview,
      EpListMine, EpCreateOrganization, EpGetOrganization, EpUpdateOrganization, EpListRoles, EpCreateRole, EpUpdateRole,
      EpDeleteRole, EpAssignMemberRole, EpListMembers, EpTeamsList, EpTeamsCreate, EpTeamsGet, EpTeamsUpdate, EpTeamsDelete,
      EpTeamsListMembers, EpTeamsAddMember, EpTeamsRemoveMember, EpProjectsList, EpProjectsCreate, EpProjectsGet,
      EpProjectsUpdate, EpProjectsDelete, EpProjectsActivity, EpTasksList, EpTasksGet, EpTasksUpdate, EpTasksDelete,
      EpTasksActivity, EpTasksByProject, EpTasksCreate, EpInvitesList, EpInvitesCreate, EpInvitesResend, EpInvitesRevoke,
      EpKeysList, EpKeysCreate, EpKeysRevoke, EpAuditList]"
  by (simp add: route_tables)

lemma endpoints_mounted: "set (map rt_Endpoint (NewRouter True)) = UNIV"
proof -
  have "ep \<in> set (map rt_Endpoint (NewRouter True))" for ep
    unfolding endpoint_table by (cases ep) simp_all
  then show ?thesis by blast
qed

definition demo_deps :: router_deps where
  "demo_deps =
     \<lparr>rd_auth = \<lparr>mw_env = demo_env, mw_jwt = as_jwt demo_auth, mw_apiKey = None\<rparr>, rd_limiter = noopLimiter, rd_failOpen = True,
      rd_policies = \<lparr>ps_Auth = demo_policy, ps_User = demo_policy, ps_APIKey = demo_policy\<rparr>, rd_client = hr_RemoteAddr\<rparr>"

theorem protected_routes_refuse_witness:
  "\<exists>rt\<in>set (NewRouter True). rt_Endpoint rt = EpTasksDelete \<and>
     (\<exists>status body w'. status \<in> {401, 429} \<and>
        (\<forall>h :: nat http_handler. guarded demo_deps (rt_Guards rt) h (key_demo_request ''10'' []) demo_world = (Inr (RespError status body), w')))"
proof -
  obtain rt where rt: "rt \<in> set (NewRouter True)" "rt_Endpoint rt = EpTasksDelete"
    using endpoints_mounted by (metis (no_types, lifting) UNIV_I imageE list.set_map)
  have "no_credentials demo_deps (key_demo_request ''10'' [])"
    by (simp add: no_credentials_def PrincipalFromContext_def key_demo_request_def demo_deps_def resolve_def bearerToken_def
        resolveAPIKey_def io_return_def)
  from protected_routes_refuse [OF rt(1) _ this, of demo_world] rt show ?thesis
    by (auto simp: public_endpoint_def)
qed

text \<open>No two routes share a method and a pattern.\<close>

lemma routes_unambiguous: "distinct (map (\<lambda>rt. (rt_Method rt, rt_Pattern rt)) (NewRouter True))"
  by code_simp

end
