(* ===== verification/Processes.thy ===== *)
theory Processes
  imports Config Router Worker Invitation_Safety
begin

text \<open>
  What the two processes build from the configuration: the parts of \<open>cmd/api/main.go\<close> and
  \<open>cmd/worker/main.go\<close> that decide how the components are put together, and the periodic jobs of the
  worker. Opening connections, serving and shutting down is I/O and is not modelled. What a service
  takes from third-party code (the JWT library, address parsing and so on) is the argument it is built
  from: \<open>wired\<close> replaces what the configuration decides.
\<close>

section \<open>Wiring\<close>



definition jobEncryptionKey :: "Config \<Rightarrow> string" where
  "jobEncryptionKey cfg =
     (if jbc_EncryptionKey (cfg_Jobs cfg) \<noteq> [] then jbc_EncryptionKey (cfg_Jobs cfg)
      else ''jwt/'' @ jwt_Secret (cfg_JWT cfg))"

definition queue_options :: "Config \<Rightarrow> Options" where
  "queue_options cfg =
     \<lparr>op_EncryptionKey = jobEncryptionKey cfg, op_MaxAttempts = jbc_MaxAttempts (cfg_Jobs cfg),
      op_RetryBaseDelay = jbc_RetryBaseDelay (cfg_Jobs cfg), op_RetryMaxDelay = jbc_RetryMaxDelay (cfg_Jobs cfg)\<rparr>"

definition worker_options :: "Config \<Rightarrow> WorkerOptions" where
  "worker_options cfg =
     \<lparr>wo_Concurrency = wkc_Concurrency (cfg_Worker cfg), wo_BlockTimeout = wkc_BlockTimeout (cfg_Worker cfg),
      wo_StaleAfter = wkc_StaleAfter (cfg_Worker cfg), wo_ShutdownTimeout = wkc_ShutdownTimeout (cfg_Worker cfg),
      wo_ConsumerName = [], wo_PromoteInterval = 0\<rparr>"

definition mail_sender :: "Config \<Rightarrow> Sender" where
  "mail_sender cfg = (if Mail_Transport cfg = MailTransportNone then DiscardSender else LogSender)"


definition wired_keys :: "Config \<Rightarrow> apikeys_service \<Rightarrow> apikeys_service" where
  "wired_keys cfg s = s\<lparr>ks_defaultTTL := akc_DefaultTTL (cfg_APIKey cfg), ks_maxTTL := akc_MaxTTL (cfg_APIKey cfg)\<rparr>"


text \<open>The worker passes no queue to its invitation service.\<close>

definition worker_invitations :: "Config \<Rightarrow> invitations_service \<Rightarrow> invitations_service" where
  "worker_invitations cfg s =
     s\<lparr>iv_mailer := mail_sender cfg, iv_queue := None, iv_ttl := ivc_TTL (cfg_Invite cfg),
       iv_baseURL := ivc_BaseURL (cfg_Invite cfg)\<rparr>"

text \<open>
  The check of the database role (\<open>internal/database/database.go\<close>): row-level security confines a
  tenant only if the role of the connection cannot bypass it. \<open>outcome\<close> is what the query on
  \<open>pg_roles\<close> returns.
\<close>

definition validateRLSRole :: "bool \<Rightarrow> bool \<Rightarrow> err option" where
  "validateRLSRole superuser bypassRLS =
     (if superuser \<or> bypassRLS then Some (Message ''application database role must not be superuser or have BYPASSRLS'')
      else None)"

definition CheckRLSRole :: "err + (bool \<times> bool) \<Rightarrow> err option" where
  "CheckRLSRole outcome =
     (case outcome of
        Inl e \<Rightarrow> Some (wrap ''inspect application database role'' e)
      | Inr (superuser, bypassRLS) \<Rightarrow> validateRLSRole superuser bypassRLS)"

definition verify_role :: "Config \<Rightarrow> err + (bool \<times> bool) \<Rightarrow> err option" where
  "verify_role cfg outcome =
     (if IsProduction cfg then map_option (wrap ''verify production database role'') (CheckRLSRole outcome) else None)"

section \<open>Periodic jobs\<close>

definition invitationRedeliveryInterval :: duration where "invitationRedeliveryInterval = 5 * Minute"
definition apiKeyExpirySweepInterval :: duration where "apiKeyExpirySweepInterval = 6 * Hour"

text \<open>
  The payload a periodic job carries on: \<open>json.RawMessage\<close> marshals to \<open>null\<close> when it is nil and to
  its compacted text (\<open>squeeze\<close>) otherwise.
\<close>

definition raw_Marshal :: "(string \<Rightarrow> err + string) \<Rightarrow> string option \<Rightarrow> err + string" where
  "raw_Marshal squeeze payload = (case payload of None \<Rightarrow> Inr ''null'' | Some raw \<Rightarrow> squeeze raw)"

definition reschedule :: "env \<Rightarrow> (string \<Rightarrow> err + string) \<Rightarrow> Queue \<Rightarrow> duration \<Rightarrow> handler \<Rightarrow> handler" where
  "reschedule e squeeze q interval h c job =
     io_try (h c job) id (\<lambda>_.
     io_try (EnqueueIn e q c interval (jb_Type job) (Some (raw_Marshal squeeze (jb_Payload job)))) id (\<lambda>_. io_return ()))"

definition seed :: "env \<Rightarrow> Queue \<Rightarrow> ctx \<Rightarrow> string \<Rightarrow> duration \<Rightarrow> unit io" where
  "seed e q c jobType interval =
     io_case (EnqueueIn e q c interval jobType None) (\<lambda>_. io_return ()) (\<lambda>_. io_return ())"

definition registerHandlers ::
  "env \<Rightarrow> (string \<Rightarrow> err + string) \<Rightarrow> (string \<Rightarrow> err + uuid) \<Rightarrow> Queue \<Rightarrow> invitations_service \<Rightarrow> ctx \<Rightarrow> worker \<Rightarrow> worker io" where
  "registerHandlers e squeeze decode q inviteSvc c wk =
     (let wk1 = worker_Register wk JobTypeEmail (EmailJobHandler inviteSvc);
          wk2 = worker_Register wk1 JobTypeRedeliver
                  (reschedule e squeeze q invitationRedeliveryInterval (RedeliverJobHandler inviteSvc));
          wk3 = worker_Register wk2 JobTypeExpireSweep
                  (reschedule e squeeze q apiKeyExpirySweepInterval (ExpireSweepJobHandler decode))
      in io_try (seed e q c JobTypeRedeliver invitationRedeliveryInterval) id (\<lambda>_.
         io_try (seed e q c JobTypeExpireSweep apiKeyExpirySweepInterval) id (\<lambda>_. io_return wk3)))"

definition publishQueueDepth :: "ctx \<Rightarrow> (string \<times> int) list io" where
  "publishQueueDepth c =
     io_try (queue_Stats c) id (\<lambda>stats.
     io_return [(''ready'', ss_StreamLength stats), (''retry'', ss_RetryDue stats), (''dead'', ss_DeadLength stats)])"

text \<open>The start of the worker, up to the consumer loop: the failures that are only logged do not stop it.\<close>

definition worker_start ::
  "env \<Rightarrow> queue_lib \<Rightarrow> (string \<Rightarrow> err + string) \<Rightarrow> (string \<Rightarrow> err + uuid) \<Rightarrow> Config \<Rightarrow> invitations_service \<Rightarrow> string \<Rightarrow> ctx \<Rightarrow> worker io" where
  "worker_start e lib squeeze decode cfg s consumer c =
     (case NewQueue e lib False (queue_options cfg) of
        Inl er \<Rightarrow> io_throw (wrap ''build job queue'' er)
      | Inr q \<Rightarrow>
          io_try (registerHandlers e squeeze decode q (worker_invitations cfg s) c
              (NewWorker (queue_backend q) consumer (worker_options cfg))) id (\<lambda>wk.
          io_try (EnsureGroup c) (wrap ''prepare job queue'') (\<lambda>_.
          io_try (io_case (publishQueueDepth c) (\<lambda>_. io_return []) io_return) id (\<lambda>_.
          io_case (PromoteDue c 100) (\<lambda>_. io_return wk) (\<lambda>_. io_return wk)))))"

section \<open>What the configuration decides\<close>




text \<open>
  No accepted production configuration delivers mail: the log transport is refused there, and the only
  other transport discards every message.
\<close>

theorem production_discards_mail:
  assumes "Load pe = Inr cfg" "IsProduction cfg"
  shows "mail_sender cfg = DiscardSender"
  using loaded_valid [OF assms(1)] assms(2) by (simp add: hardened_def mail_sender_def)

lemma production_role_is_confined:
  "verify_role cfg outcome = None \<Longrightarrow> IsProduction cfg \<Longrightarrow> outcome = Inr (False, False)"
  by (auto simp: verify_role_def CheckRLSRole_def validateRLSRole_def split: sum.splits if_splits)

section \<open>Periodic jobs at work\<close>

text \<open>A failing run is left to the retries of the queue; a successful one is scheduled again.\<close>

lemma reschedule_failure: "h c job w = (Inl er, w') \<Longrightarrow> reschedule e squeeze q interval h c job w = (Inl er, w')"
  by (simp add: reschedule_def io_try_def io_case_def io_throw_def)

lemma reschedule_success:
  "h c job w = (Inr (), w1) \<Longrightarrow>
   snd (reschedule e squeeze q interval h c job w) =
     snd (EnqueueIn e q c interval (jb_Type job) (Some (raw_Marshal squeeze (jb_Payload job))) w1)"
  by (cases "EnqueueIn e q c interval (jb_Type job) (Some (raw_Marshal squeeze (jb_Payload job))) w1")
     (auto simp: reschedule_def io_try_def io_case_def io_throw_def io_return_def split: sum.split)

text \<open>The jobs of a type that wait for their time, and the identifiers given out so far.\<close>

definition scheduled :: "Queue \<Rightarrow> string \<Rightarrow> world \<Rightarrow> nat" where
  "scheduled q jobType w =
     length (filter (\<lambda>(m, _). case open_job q m of Inl _ \<Rightarrow> False | Inr j \<Rightarrow> jb_Type j = jobType) (jr_retry (redis w)))"

definition ids_given_out :: "env \<Rightarrow> Queue \<Rightarrow> world \<Rightarrow> bool" where
  "ids_given_out e q w \<longleftrightarrow>
     (\<forall>(m, _)\<in>set (jr_retry (redis w)). \<forall>j. open_job q m = Inr j \<longrightarrow> jb_ID j \<in> uuid_string e ` {..<fresh w})"

lemma seed_run:
  assumes lib: "faithful_lib (q_lib q)" "marshals (q_lib q)" "inj (uuid_string e)"
    and w: "faults w = []" "ids_given_out e q w" and job: "jobType \<noteq> []" "0 < interval"
  obtains w' where "seed e q Background jobType interval w = (Inr (), w')" "faults w' = []" "ids_given_out e q w'"
    "\<And>t. scheduled q t w' = scheduled q t w + (if t = jobType then 1 else 0)"
proof -
  let ?w = "w\<lparr>fresh := Suc (fresh w)\<rparr>"
  let ?job = "Job0\<lparr>jb_ID := uuid_string e (fresh w), jb_Type := jobType, jb_MaxAttempts := q_maxAttempts q, jb_EnqueuedAt := clock w,
    jb_Payload := None\<rparr>"
  obtain sealed where s: "seal q ?job ?w = (Inr sealed, ?w\<lparr>entropy_pos := entropy_pos ?w + NonceSize\<rparr>)"
    using seal_run [of ?w q ?job] w(1) lib(2) by auto
  have opened: "open_job q sealed = Inr ?job" by (rule seal_open [OF lib(1) s])
  let ?w1 = "?w\<lparr>entropy_pos := entropy_pos ?w + NonceSize\<rparr>"
  let ?w' = "?w1\<lparr>redis := zadd sealed ((clock w + interval) div Millisecond) (redis w)\<rparr>"
  have run: "seed e q Background jobType interval w = (Inr (), ?w')"
    using s job w(1) by (simp add: seed_def EnqueueIn_def enqueue_def io_try_def io_case_def io_return_def uuid_New_def time_Now_def
        redis_call_def next_fault_def Let_def)
  have "\<forall>(m, _)\<in>set (jr_retry (redis w)). m \<noteq> sealed"
    using w(2) opened lib(3) unfolding ids_given_out_def by (fastforce simp: inj_eq)
  then have new: "jr_retry (redis ?w') = jr_retry (redis w) @ [(sealed, (clock w + interval) div Millisecond)]"
    by (auto simp: zadd_def intro!: filter_True)
  have "ids_given_out e q ?w'"
    using w(2) opened new unfolding ids_given_out_def
    by (auto simp: lessThan_Suc image_insert split: prod.splits)
  then show thesis
    using that [OF run] w(1) new opened by (auto simp: scheduled_def)
qed

definition started :: "env \<Rightarrow> (string \<Rightarrow> err + string) \<Rightarrow> (string \<Rightarrow> err + uuid) \<Rightarrow> Queue \<Rightarrow> invitations_service \<Rightarrow> worker \<Rightarrow> world \<Rightarrow> world" where
  "started e squeeze decode q s wk w = snd (registerHandlers e squeeze decode q s Background wk w)"

lemma started_run:
  assumes lib: "faithful_lib (q_lib q)" "marshals (q_lib q)" "inj (uuid_string e)"
    and w: "faults w = []" "ids_given_out e q w"
  shows "faults (started e squeeze decode q s wk w) = [] \<and> ids_given_out e q (started e squeeze decode q s wk w) \<and>
     scheduled q JobTypeRedeliver (started e squeeze decode q s wk w) = Suc (scheduled q JobTypeRedeliver w) \<and>
     scheduled q JobTypeExpireSweep (started e squeeze decode q s wk w) = Suc (scheduled q JobTypeExpireSweep w)"
proof -
  obtain w1 where w1: "seed e q Background JobTypeRedeliver invitationRedeliveryInterval w = (Inr (), w1)" "faults w1 = []"
    "ids_given_out e q w1" "\<And>t. scheduled q t w1 = scheduled q t w + (if t = JobTypeRedeliver then 1 else 0)"
    by (rule seed_run [OF lib w, of JobTypeRedeliver invitationRedeliveryInterval])
      (auto simp: JobTypeRedeliver_def invitationRedeliveryInterval_def)
  obtain w2 where w2: "seed e q Background JobTypeExpireSweep apiKeyExpirySweepInterval w1 = (Inr (), w2)" "faults w2 = []"
    "ids_given_out e q w2" "\<And>t. scheduled q t w2 = scheduled q t w1 + (if t = JobTypeExpireSweep then 1 else 0)"
    by (rule seed_run [OF lib w1(2,3), of JobTypeExpireSweep apiKeyExpirySweepInterval])
      (auto simp: JobTypeExpireSweep_def apiKeyExpirySweepInterval_def)
  have "started e squeeze decode q s wk w = w2"
    using w1(1) w2(1) by (simp add: started_def registerHandlers_def io_try_def io_case_def io_return_def Let_def)
  then show ?thesis using w1 w2 by (simp add: JobTypeRedeliver_def JobTypeExpireSweep_def)
qed

text \<open>
  Every start of the worker schedules the periodic jobs anew beside the ones already scheduled, and each
  of them schedules itself again after it ran: after \<open>n\<close> starts every sweep is scheduled \<open>n\<close> times over.
\<close>

theorem starts_multiply_schedules:
  assumes "faithful_lib (q_lib q)" "marshals (q_lib q)" "inj (uuid_string e)"
    and "faults w = []" "ids_given_out e q w"
  shows "scheduled q JobTypeRedeliver ((started e squeeze decode q s wk ^^ n) w) = scheduled q JobTypeRedeliver w + n \<and>
     scheduled q JobTypeExpireSweep ((started e squeeze decode q s wk ^^ n) w) = scheduled q JobTypeExpireSweep w + n"
proof -
  let ?go = "started e squeeze decode q s wk"
  have "faults ((?go ^^ n) w) = [] \<and> ids_given_out e q ((?go ^^ n) w) \<and>
      scheduled q JobTypeRedeliver ((?go ^^ n) w) = scheduled q JobTypeRedeliver w + n \<and>
      scheduled q JobTypeExpireSweep ((?go ^^ n) w) = scheduled q JobTypeExpireSweep w + n"
  proof (induction n)
    case (Suc n)
    then show ?case using started_run [OF assms(1-3), of "(?go ^^ n) w" squeeze decode s wk] by simp
  qed (simp add: assms)
  then show ?thesis by blast
qed

lemma demo_uuid_inj: "inj (uuid_string demo_env)"
  using demo_uuid_roundtrip by (metis injI option.inject)

theorem starts_multiply_schedules_witness:
  "scheduled demo_queue JobTypeRedeliver
     ((started demo_env Inr (\<lambda>_. Inr 0) demo_queue invite_demo_service demo_worker ^^ 2) empty_world) = 2"
proof -
  have "faults empty_world = []" "ids_given_out demo_env demo_queue empty_world"
    "scheduled demo_queue JobTypeRedeliver empty_world = 0"
    by (simp_all add: empty_world_def ids_given_out_def scheduled_def)
  then show ?thesis
    using starts_multiply_schedules [OF demo_queue_ok(1,2) demo_uuid_inj, of empty_world, where n = 2] by simp
qed

section \<open>Redelivery\<close>






















end
