(* ===== verification/Session_Safety.thy ===== *)
theory Session_Safety
  imports Product
begin

text \<open>
  The end of refresh tokens. A token that is stored and revoked stays so, whatever statement of whatever
  service runs next, and \<open>Refresh\<close> rejects it: what the exchange of a token and a logout leave behind
  holds from then on.
\<close>

section \<open>Spent tokens\<close>

definition spent_token :: "string \<Rightarrow> uuid \<Rightarrow> store \<Rightarrow> bool" where
  "spent_token h fam db \<longleftrightarrow>
     (\<exists>t\<in>set (refresh_tokens db). t_TokenHash t = h \<and> t_FamilyID t = fam \<and> t_RevokedAt t \<noteq> None)"

interpretation spent: schema_property "spent_token h fam" for h fam .

lemma spent_update:
  assumes "spent_token h fam db"
    and f: "\<And>t. t_TokenHash (f t) = t_TokenHash t \<and> t_FamilyID (f t) = t_FamilyID t \<and> (t_RevokedAt t \<noteq> None \<longrightarrow> t_RevokedAt (f t) \<noteq> None)"
  shows "spent_token h fam (db\<lparr>refresh_tokens := update_where P f (refresh_tokens db)\<rparr>)"
proof -
  from assms(1) obtain t where t: "t \<in> set (refresh_tokens db)" "t_TokenHash t = h" "t_FamilyID t = fam" "t_RevokedAt t \<noteq> None"
    by (auto simp: spent_token_def)
  then have "(if P t then f t else t) \<in> set (update_where P f (refresh_tokens db))"
    by (simp add: set_update_where)
  moreover have "t_TokenHash (if P t then f t else t) = h" "t_FamilyID (if P t then f t else t) = fam"
    "t_RevokedAt (if P t then f t else t) \<noteq> None"
    using t f by auto
  ultimately show ?thesis unfolding spent_token_def by (intro bexI) auto
qed

lemma spent_append: "spent_token h fam db \<Longrightarrow> spent_token h fam (db\<lparr>refresh_tokens := refresh_tokens db @ ts\<rparr>)"
  by (auto simp: spent_token_def)

lemma spent_cong: "refresh_tokens db' = refresh_tokens db \<Longrightarrow> spent_token h fam db \<Longrightarrow> spent_token h fam db'"
  by (simp add: spent_token_def)

lemma spent_token_writes [keeps_intro]:
  "spent.keeps h fam T (CreateRefreshToken uid family hash expires ua ip)"
  "spent.keeps h fam T (RevokeRefreshToken tid replaced)"
  "spent.keeps h fam T (RevokeRefreshTokenFamily family)"
  "spent.keeps h fam T (RevokeAllUserRefreshTokens uid)"
  unfolding identity_writes revoke_where_def
  by (rule spent.statement; (rule unfolded_ids_writes [unfolded revoke_where_def])?;
      auto simp: Let_def guards_Inr intro!: spent_update spent_append split: if_splits)+

lemma spent_identity_writes [keeps_intro]:
  "spent.keeps h fam T (CreateUser email hash first_name last_name stat)"
  "spent.keeps h fam T (UpdateUserLastLogin uid)"
  "spent.keeps h fam T (CreateOrganization_q name slug stat)"
  "spent.keeps h fam T (rename_organization oid name)"
  "spent.keeps h fam T (CreateRole_q org name descr sys)"
  "spent.keeps h fam T (UpdateRole_q rid org name descr)"
  "spent.keeps h fam T (SetRolePermissions rid)"
  "spent.keeps h fam T (AddRolePermission rid pid)"
  "spent.keeps h fam T (CreateMembership org uid role stat joined_at)"
  "spent.keeps h fam T (UpdateMembershipRole mid org role)"
  unfolding identity_writes
  by (rule spent.statement; (rule unfolded_ids_writes)?;
      auto simp: Let_def guards_Inr one_row_def elim!: spent_cong [rotated] split: if_splits option.splits)+

lemma spent_DeleteRole [keeps_intro]: "spent.keeps h fam T (DeleteRole_q rid org)"
  unfolding identity_writes
  by (rule spent.statement, rule ids_DeleteRole [unfolded identity_writes])
    (erule delete_role_rows_cases; simp add: spent_token_def)

lemma spent_audit [keeps_intro]: "spent.keeps h fam T (insert_audit_log e p)"
  unfolding insert_audit_log_def
  by (rule spent.statement, rule ids_insert_audit_log [unfolded insert_audit_log_def])
    (auto simp: Let_def guards_Inr spent_token_def)

lemma spent_key_statements [keeps_intro]:
  "spent.keeps h fam T (CreateAPIKey org creator name prefix lf hash expires)"
  "spent.keeps h fam T (RevokeAPIKey kid org t)"
  "spent.keeps h fam T (RevokeAPIKeyByID kid org)"
  "spent.keeps h fam T (TouchAPIKey kid)"
  unfolding key_writes
  by (rule spent.statement; (rule unfolded_ids_key_statements)?;
      auto simp: Let_def guards_Inr elim!: spent_cong [rotated] split: sum.splits)+

lemma spent_invitation_statements [keeps_intro]:
  "spent.keeps h fam T (CreateInvitation org email role hash by expires)"
  "spent.keeps h fam T (MarkInvitationNotified jid org)"
  "spent.keeps h fam T (AcceptInvitation jid org t uid)"
  "spent.keeps h fam T (MarkInvitationExpired jid org)"
  "spent.keeps h fam T (RevokeInvitation jid org t)"
  "spent.keeps h fam T (RotateInvitationToken jid org hash t)"
  "spent.keeps h fam T (RotateInvitationForDelivery jid org hash)"
  unfolding CreateInvitation_def MarkInvitationNotified_def invitation_updates update_invitation_def
  by (rule spent.statement; (rule unfolded_ids_invitation_statements)?;
      auto simp: Let_def guards_Inr elim!: spent_cong [rotated] split: sum.splits)+

interpretation spent_identity: identity_statements "wf_and (spent_token h fam)" for h fam
  by unfold_locales (rule keeps_intro)+

interpretation spent_keys: key_statements "wf_and (spent_token h fam)" "\<lambda>_. True" for h fam
  by unfold_locales (rule keeps_intro)+

interpretation spent_settling: settling_statements "wf_and (spent_token h fam)" "\<lambda>_. True" for h fam
  by unfold_locales (rule keeps_intro)+

interpretation spent_invitations: invitation_statements "wf_and (spent_token h fam)" "\<lambda>_. True" for h fam
  by unfold_locales (rule spent_settling.settling_transactions TrueI spent_identity.identity_operations keeps_intro)+

interpretation spent_product: product_frame "wf_and (spent_token h fam)" for h fam
  by unfold_locales (auto simp: wf_and_def spent_token_def)

section \<open>What a spent token meets\<close>

lemma spent_rejected:
  assumes wf: "wf_ids (st w) (fresh w)" and spent: "spent_token (hashToken (as_env s) raw) fam (st w)"
  shows "isl (fst (Refresh s raw meta w)) \<and>
         (faults w = [] \<longrightarrow> fst (Refresh s raw meta w) = Inl (Sentinel ErrUnauthorized) \<and>
            family_revoked fam (st (snd (Refresh s raw meta w))))"
proof -
  from spent obtain t where t: "t \<in> set (refresh_tokens (st w))" "t_TokenHash t = hashToken (as_env s) raw"
      "t_FamilyID t = fam" "t_RevokedAt t \<noteq> None"
    by (auto simp: spent_token_def)
  have "isl (fst (Refresh s raw meta w))"
  proof (rule ccontr)
    assume "\<not> isl (fst (Refresh s raw meta w))"
    then obtain r where "Refresh s raw meta w = (Inr r, snd (Refresh s raw meta w))"
      by (metis not_isl_Inr prod.collapse)
    from Refresh_success [OF this wf] obtain t' where
      "t' \<in> set (refresh_tokens (st w))" "t_TokenHash t' = hashToken (as_env s) raw" "t_RevokedAt t' = None"
      by metis
    then show False using wf_token_hash [OF wf t(1)] t(2,4) by metis
  qed
  then show ?thesis using reuse_run [OF wf _ t(1,2,4), of meta] t(3) by auto
qed

lemma refresh_spends:
  assumes run: "Refresh s raw meta w = (Inr r, w')" and wf: "wf_ids (st w) (fresh w)"
  obtains new where "new \<in> set (refresh_tokens (st w'))" "t_RevokedAt new = None"
    "t_TokenHash new = hashToken (as_env s) (tp_RefreshToken (ar_Tokens r))"
    "wf_and (spent_token (hashToken (as_env s) raw) (t_FamilyID new)) (st w') (fresh w')"
proof -
  have wf': "wf_ids (st w') (fresh w')"
    using ids.keepsD(3) [OF ids_auth_operations(3) [of "\<lambda>_. True"] TrueI wf, of s raw meta] run by simp
  from Refresh_success [OF run wf] obtain t raw' new where
    t: "t_TokenHash t = hashToken (as_env s) raw" "tp_RefreshToken (ar_Tokens r) = raw'"
      "new \<in> set (refresh_tokens (st w'))" "t_TokenHash new = hashToken (as_env s) raw'" "t_RevokedAt new = None"
      "t_FamilyID new = t_FamilyID t"
      "t\<lparr>t_RevokedAt := Some (clock w), t_ReplacedBy := Some (t_ID new)\<rparr> \<in> set (refresh_tokens (st w'))"
    by metis
  have "spent_token (hashToken (as_env s) raw) (t_FamilyID new) (st w')"
    unfolding spent_token_def using t by (intro bexI [OF _ t(7)]) simp
  then show ?thesis using that t wf' by (simp add: wf_and_def)
qed

lemma logout_spends:
  assumes wf: "wf_ids (st w) (fresh w)" and nf: "faults w = []"
    and t: "t \<in> set (refresh_tokens (st w))" "t_TokenHash t = hashToken (as_env s) raw"
    and x: "x \<in> set (refresh_tokens (st w))" "t_FamilyID x = t_FamilyID t"
  shows "fst (Logout s raw w) = Inr ()"
    "wf_and (spent_token (t_TokenHash x) (t_FamilyID t)) (st (snd (Logout s raw w))) (fresh (snd (Logout s raw w)))"
proof -
  let ?w1 = "snd (Logout s raw w)"
  show "fst (Logout s raw w) = Inr ()" by (rule logout_run(1) [OF wf nf])
  have "wf_ids (st ?w1) (fresh ?w1)"
    using ids.keepsD(3) [OF ids_auth_operations(4) [of "\<lambda>_. True"] TrueI wf, of s raw] by simp
  moreover have rows: "refresh_tokens (st ?w1) = revoke_where (\<lambda>x. t_FamilyID x = t_FamilyID t) (clock w) (refresh_tokens (st w))"
    using logout_run(2) [OF wf nf t] by simp
  moreover have "\<exists>y\<in>set (refresh_tokens (st ?w1)). t_TokenHash y = t_TokenHash x \<and> t_FamilyID y = t_FamilyID t"
    unfolding rows revoke_where_def set_update_where by (rule bexI [OF _ imageI [OF x(1)]]) (simp add: x(2))
  ultimately show "wf_and (spent_token (t_TokenHash x) (t_FamilyID t)) (st ?w1) (fresh ?w1)"
    using revoke_family_revoked [OF rows] unfolding wf_and_def spent_token_def family_revoked_def by blast
qed

end
