(* ===== verification/Key_Life.thy ===== *)
theory Key_Life
  imports Session_Safety
begin

text \<open>
  The life of an issued API key. Its row keeps its identity, organization, creator, digest and expiry,
  whatever statement of whatever service runs next; only its revocation and the stamp of its last use
  change. So what \<open>Create\<close> returned is accepted until the key expires, is revoked, or loses its creator.
\<close>

definition issued_key :: "uuid \<Rightarrow> uuid \<Rightarrow> uuid \<Rightarrow> string \<Rightarrow> int \<Rightarrow> store \<Rightarrow> bool" where
  "issued_key kid org uid h x db \<longleftrightarrow>
     (\<exists>k\<in>set (api_keys db). k_ID k = kid \<and> k_OrganizationID k = org \<and> k_CreatedBy k = uid \<and> k_KeyHash k = h \<and> k_ExpiresAt k = x)"

interpretation issued: schema_property "issued_key kid org uid h x" for kid org uid h x .

lemma issued_update:
  assumes "issued_key kid org uid h x db"
    and f: "\<And>k. k_ID (f k) = k_ID k \<and> k_OrganizationID (f k) = k_OrganizationID k \<and> k_CreatedBy (f k) = k_CreatedBy k \<and>
              k_KeyHash (f k) = k_KeyHash k \<and> k_ExpiresAt (f k) = k_ExpiresAt k"
  shows "issued_key kid org uid h x (db\<lparr>api_keys := update_where P f (api_keys db)\<rparr>)"
proof -
  from assms(1) obtain k where k: "k \<in> set (api_keys db)" "k_ID k = kid" "k_OrganizationID k = org" "k_CreatedBy k = uid"
      "k_KeyHash k = h" "k_ExpiresAt k = x"
    by (auto simp: issued_key_def)
  then have "(if P k then f k else k) \<in> set (update_where P f (api_keys db))"
    by (simp add: set_update_where)
  then show ?thesis unfolding issued_key_def using k f by (intro bexI [of _ "if P k then f k else k"]) simp_all
qed

lemma issued_key_statements [keeps_intro]:
  "issued.keeps kid org uid h x T (CreateAPIKey o1 creator name prefix lf hash expires)"
  "issued.keeps kid org uid h x T (RevokeAPIKey k1 o1 t)"
  "issued.keeps kid org uid h x T (RevokeAPIKeyByID k1 o1)"
  "issued.keeps kid org uid h x T (TouchAPIKey k1)"
  unfolding key_writes
  by (rule issued.statement; (rule unfolded_ids_key_statements)?;
      (auto simp: Let_def guards_Inr intro!: issued_update split: sum.splits; simp add: issued_key_def)?)+

interpretation issued_identity: identity_statements "wf_and (issued_key kid org uid h x)" for kid org uid h x
  by (rule issued.identity_framed) (simp add: issued_key_def)

interpretation issued_keys: key_statements "wf_and (issued_key kid org uid h x)" "\<lambda>_. True" for kid org uid h x
  by unfold_locales (rule keeps_intro issued_identity.st_insert_audit_log)+

lemma issued_invitation_statements [keeps_intro]:
  "issued.keeps kid org uid h x T (CreateInvitation o1 email role hash by expires)"
  "issued.keeps kid org uid h x T (MarkInvitationNotified jid o1)"
  "issued.keeps kid org uid h x T (AcceptInvitation jid o1 t u1)"
  "issued.keeps kid org uid h x T (MarkInvitationExpired jid o1)"
  "issued.keeps kid org uid h x T (RevokeInvitation jid o1 t)"
  "issued.keeps kid org uid h x T (RotateInvitationToken jid o1 hash t)"
  "issued.keeps kid org uid h x T (RotateInvitationForDelivery jid o1 hash)"
  by (rule issued.framed [where f = product_tables], rule keeps_intro, rule keeps_intro, simp add: issued_key_def)+

interpretation issued_settling: settling_statements "wf_and (issued_key kid org uid h x)" "\<lambda>_. True" for kid org uid h x
  by unfold_locales (rule keeps_intro issued_identity.st_insert_audit_log)+

interpretation issued_invitations: invitation_statements "wf_and (issued_key kid org uid h x)" "\<lambda>_. True" for kid org uid h x
  by unfold_locales (rule issued_settling.settling_transactions TrueI issued_identity.identity_operations keeps_intro)+

interpretation issued_product: product_frame "wf_and (issued_key kid org uid h x)" for kid org uid h x
  by unfold_locales (auto simp: wf_and_def issued_key_def)

lemma create_key_issues:
  assumes "wf_ids (st w) (fresh w)" and "CreateKey s uid org inp w = (Inr res, w')"
  shows "wf_and (issued_key (kd_ID (cr_APIKey res)) org uid (hashKey (ks_env s) (cr_Key res)) (kd_ExpiresAt (cr_APIKey res)))
           (st w') (fresh w')" and "validKeyFormat (cr_Key res)"
proof -
  have "wf_ids (st w') (fresh w')"
    using ids.keepsD(3) [OF ids_keys.organization_key_operations(1) [OF TrueI] TrueI, OF assms(1), of s uid org inp] assms(2) by simp
  with create_key_success [OF assms(2)]
  show "wf_and (issued_key (kd_ID (cr_APIKey res)) org uid (hashKey (ks_env s) (cr_Key res)) (kd_ExpiresAt (cr_APIKey res)))
           (st w') (fresh w')" "validKeyFormat (cr_Key res)"
    by (auto simp: wf_and_def minted_def issued_key_def)
qed

lemma issued_key_admitted:
  assumes "wf_ids (st v) (fresh v)" and "faults v = []" and "tenant v = None"
    and "issued_key kid org uid (hashKey (ks_env s) raw) x (st v)" and "validKeyFormat raw"
    and "\<And>k. k \<in> set (api_keys (st v)) \<Longrightarrow> k_ID k = kid \<Longrightarrow> k_RevokedAt k = None"
    and "u \<in> set (users (st v))" and "u_ID u = uid" and "u_Status u = ''active''" and "clock v \<le> x"
  shows "\<exists>v'. Authenticate s raw v =
           (Inr \<lparr>UserID = uid, TokenID = uuid_Nil, Method = MethodAPIKey, APIKeyID = kid, OrganizationID = org\<rparr>, v')"
proof (rule authenticate_complete)
  from assms(4) obtain k where k: "k \<in> set (api_keys (st v))" "k_ID k = kid" "k_OrganizationID k = org" "k_CreatedBy k = uid"
      "k_KeyHash k = hashKey (ks_env s) raw" "k_ExpiresAt k = x"
    by (auto simp: issued_key_def)
  with assms(5-10) show "key_admits s raw (clock v) (st v)
     \<lparr>UserID = uid, TokenID = uuid_Nil, Method = MethodAPIKey, APIKeyID = kid, OrganizationID = org\<rparr>"
    unfolding key_admits_def by (intro conjI bexI [of _ k] bexI [of _ u]) simp_all
qed (use assms(1-3) in simp_all)

end
