(* ===== verification/Key_Scope.thy ===== *)
theory Key_Scope
  imports Product_Http Product
begin

text \<open>
  The reach of an API key over the whole API: every handler behind \<open>RequireAuth\<close> that takes its
  organization from the route changes only the rows of that organization, and the middleware lets a
  key through only where the organization of the route is its own.
\<close>

section \<open>Operations confined to the organization of the route\<close>

lemma confined_audit_anywhere [keeps_intro]: "confined.keeps org y T (insert_audit_log e p)"
  unfolding insert_audit_log_def
  by (rule confined.statement, rule ids_insert_audit_log [unfolded insert_audit_log_def])
    (auto simp: Let_def guards_Inr others_def)

lemma confined_record_event [keeps_intro]: "confined.keeps org y T (record_event h r ev)"
  unfolding record_event_def Record_def CreateAuditLog_def Let_def by (intro keeps_intro)

lemma confined_collect [keeps_intro]:
  "confined.keeps org y T (collect_roles e rs)" "confined.keeps org y T (invitation_role_names oid is names)"
  subgoal by (induction rs) (auto simp: identity_reads intro!: keeps_intro)
  subgoal by (induction "is" arbitrary: names) (auto simp: identity_reads intro!: keeps_intro)
  done

lemma confined_organization_reads [keeps_intro]:
  "confined.keeps org y T (GetOrganization uid oid)" "confined.keeps org y T (ListMembers e uid oid)"
  "confined.keeps org y T (ListRoles e uid oid)" "confined.keeps org y T (ListAudit uid oid flt page)"
  unfolding GetOrganization_def ListMembers_def ListRoles_def ListAudit_def CountAuditLogs_def ListAuditLogs_def organization_reads
  by (intro keeps_intro)+

lemma confined_invitation_operations [keeps_intro]:
  "confined.keeps org y T (Invite s c uid org inp)" "confined.keeps org y T (Resend s c uid org iid)"
  "confined.keeps org y T (RevokeInvite s uid org iid)" "confined.keeps org y T (ListInvites s uid oid iflt page)"
  subgoal by (simp add: confined_invitations.organization_invitation_operations)
  subgoal by (simp add: confined_invitations.organization_invitation_operations)
  subgoal by (simp add: confined_invitations.organization_invitation_operations)
  subgoal unfolding ListInvites_def organization_reads invitation_reads Let_def by (intro keeps_intro)
  done

lemma confined_product_operations [keeps_intro]:
  "confined.keeps org y T (CreateTeamIn uid org name descr)" "confined.keeps org y T (UpdateTeamOf uid org tid name descr)"
  "confined.keeps org y T (DeleteTeamOf uid org tid)" "confined.keeps org y T (AddMemberTo uid org tid muid)"
  "confined.keeps org y T (RemoveMemberFrom uid org tid mid)" "confined.keeps org y T (CreateProjectIn e uid org pinp)"
  "confined.keeps org y T (UpdateProjectOf e uid org pid pp)" "confined.keeps org y T (DeleteProjectOf e uid org pid)"
  "confined.keeps org y T (CreateTaskIn e uid org pid tinp)" "confined.keeps org y T (UpdateTaskOf e uid org kid kp)"
  "confined.keeps org y T (DeleteTaskOf e uid org kid)"
  by (simp_all add: confined_product.product_operations)

lemma confined_list_tasks [keeps_intro]: "confined.keeps org y T (list_tasks e uid oid tflt page)"
  unfolding list_tasks_def ensureProject_def Let_def
  by (cases "tf_ProjectID tflt"; simp only: option.case;
      intro keeps_intro confined_product.keeps_product_reads confined_product.keeps_authorize)

lemma confined_product_reads [keeps_intro]:
  "confined.keeps org y T (ListTeamsOf e uid oid)" "confined.keeps org y T (GetTeamOf uid oid tid)"
  "confined.keeps org y T (ListTeamMembersOf e uid oid tid)" "confined.keeps org y T (ListProjectsOf e uid oid pflt page)"
  "confined.keeps org y T (GetProjectOf uid oid pid)" "confined.keeps org y T (ListProjectActivity uid oid pid page)"
  "confined.keeps org y T (ListTasksOf e uid oid tflt page)" "confined.keeps org y T (ListByProject e uid oid pid tflt page)"
  "confined.keeps org y T (GetTaskOf uid oid kid)" "confined.keeps org y T (ListTaskActivity uid oid kid page)"
  unfolding ListTeamsOf_def GetTeamOf_def ListTeamMembersOf_def ListProjectsOf_def GetProjectOf_def ListProjectActivity_def
    ListTasksOf_def ListByProject_def GetTaskOf_def ListTaskActivity_def activity_page_def withOrgTx_def Let_def
  by (intro keeps_intro confined_product.keeps_product_reads confined_product.keeps_authorize)+

section \<open>Handlers\<close>

lemma confined_respond [keeps_intro]: "confined.keeps org y T (respond_error r e)"
  unfolding respond_error_def by (intro keeps_intro)

lemma confined_recorded [keeps_intro]: "confined.keeps org y T (recorded h r ev code x)"
  unfolding recorded_def by (intro keeps_intro)

lemma confined_steps:
  "(\<And>v. confined.keeps org y T (k v)) \<Longrightarrow> confined.keeps org y T (decode_body r b k)"
  "confined.keeps org y T m \<Longrightarrow> confined.keeps org y T (validated r v m)"
  "(\<And>u. confined.keeps org y T (k2 u)) \<Longrightarrow> confined.keeps org y T (with_user r k2)"
  "(\<And>i. confined.keeps org y T (k2 i)) \<Longrightarrow> confined.keeps org y T (with_param e r name k2)"
  "(\<And>p. confined.keeps org y T (k3 p)) \<Longrightarrow> confined.keeps org y T (with_page r k3)"
  "confined.keeps org y T n \<Longrightarrow> confined.keeps org y T (respond_page r n)"
  "confined.keeps org y T m2 \<Longrightarrow> confined.keeps org y T (respond_data r code m2)"
  unfolding decode_body_def validated_def with_user_def with_param_def with_page_def respond_page_def respond_data_def
  by (auto intro!: keeps_intro split: sum.split option.split prod.split)

lemma confined_route:
  assumes "uuid_Parse e (hr_URLParam r ''orgID'') = Some org"
  shows "confined.keeps org y T (k org) \<Longrightarrow> confined.keeps org y T (with_param e r ''orgID'' k)"
    "(\<And>u. confined.keeps org y T (k2 u org)) \<Longrightarrow> confined.keeps org y T (with_caller e r k2)"
  using assms by (auto simp: with_param_def with_caller_def caller_def intro!: keeps_intro split: option.split)

lemmas confined_handler = confined_steps(1,2,3,5-7) confined_route






section \<open>The reach of a key\<close>




end
