(* ===== verification/Spec2Isabelle.thy ===== *)
theory Spec2Isabelle
  imports TF_Prelude Httpx Validation Permissions Slug Store Queries Tenancy Authctx Organizations
    System_Roles Audit_Trail Auth Sessions RateLimit Worker Http_Api Org_Http Invite_Http Product_Http Change_Trail Processes
    Session_Safety Key_Life Key_Scope
begin

text \<open>
  \<^bold>\<open>TeamFlow\<close> is a multi-tenant project management service in Go: an HTTP API and a background worker over
  PostgreSQL and Redis. This development models its own code (\<open>internal/\<close> and the wiring of \<open>cmd/\<close>) and
  proves what makes it correct.

  \<^bold>\<open>The program.\<close> A request passes the middleware chain and the routes of the API, is authenticated by an
  access token or an API key, decoded and validated by a handler, and served by the service of its module.
  A service authorizes the caller through the organizations service, then runs its statements in a
  transaction confined to one tenant by row-level security, and records audit or activity entries. Some
  operations queue a job in Redis, which the worker delivers, retries with backoff and finally buries.

  \<^bold>\<open>How it is modelled.\<close> \<open>Store\<close> has the tables as lists of row records, the world (tables, Redis, clock,
  random source, the tenant of the transaction, and a script of infrastructure faults that strike any
  call) and the program monad \<open>'a io = world \<Rightarrow> (err + 'a) \<times> world\<close>: a Go function that returns a value
  and an error is an \<open>io\<close>, \<open>if err != nil { return f(err) }\<close> is \<open>io_try\<close>. A transaction restores the tables
  when its body or its commit fails. Every SQL statement is a definition with its row-level security,
  constraints, cascades and errors.

  \<^item> \<open>TF_Prelude\<close>: collections of facts, lists, text and numbers of the standard library.
  \<^item> \<open>Httpx\<close>, \<open>Validation\<close>, \<open>Permissions\<close>, \<open>Authctx\<close>, \<open>Slug\<close>, \<open>Fieldtypes\<close>, \<open>Mailer\<close>: the packages of these
    names (\<open>Slug\<close>: the two slug functions of \<open>auth\<close> and \<open>organizations\<close>).
  \<^item> \<open>Store\<close>, \<open>Queries\<close>: \<open>internal/database\<close> and the statements of \<open>internal/db\<close> on identities; the statements
    of a module are in the theory of the module.
  \<^item> \<open>Tenancy\<close>: keys of the tables, confinement of a transaction to its tenant.
  \<^item> \<open>Organizations\<close>, \<open>System_Roles\<close>, \<open>Org_Http\<close>: \<open>internal/organizations\<close> (service, seeding, handlers).
  \<^item> \<open>Audit_Trail\<close>: \<open>internal/audit\<close>. \<open>Activity\<close>: \<open>internal/activity\<close>.
  \<^item> \<open>Auth\<close>, \<open>Sessions\<close>, \<open>Session_Safety\<close>, \<open>Http_Api\<close>: \<open>internal/auth\<close> (service and tokens, properties of
    sessions, the end of tokens, middleware and handlers; \<open>Http_Api\<close> also has the handlers of API keys).
  \<^item> \<open>ApiKeys\<close>, \<open>Key_Safety\<close>, \<open>Key_Life\<close>, \<open>Key_Scope\<close>: \<open>internal/apikeys\<close> (service, authentication, the life of
    an issued key, and the reach of a key through the routes of every module).
  \<^item> \<open>Floats\<close>, \<open>RateLimit\<close>: \<open>internal/ratelimit\<close>, the Redis script included, under any correct rounding.
  \<^item> \<open>Base64\<close>, \<open>Jobs\<close>, \<open>Job_Safety\<close>, \<open>Job_Retries\<close>, \<open>Worker\<close>: \<open>internal/jobs\<close>.
  \<^item> \<open>Invitations\<close>, \<open>Invitation_Safety\<close>, \<open>Invite_Http\<close>: \<open>internal/invitations\<close>.
  \<^item> \<open>Teams\<close>, \<open>Projects\<close>, \<open>Tasks\<close>, \<open>Product\<close>, \<open>Product_Http\<close>, \<open>Product_Safety\<close>, \<open>Change_Trail\<close>: the packages of
    teams, projects and tasks, their shared invariants, handlers, updates and activity trail.
  \<^item> \<open>Frames\<close>, \<open>Schema\<close>: what each statement leaves alone; conformance of the tables to the schema,
    the rows the migrations insert included.
  \<^item> \<open>Config\<close>: \<open>internal/config\<close>. \<open>Middleware\<close>: \<open>internal/middleware\<close>, \<open>internal/observability\<close>,
    \<open>internal/metrics\<close>, \<open>internal/health\<close>. \<open>Router\<close>: \<open>internal/api\<close> and every \<open>routes.go\<close>. \<open>Processes\<close>: the
    wiring and the periodic jobs of \<open>cmd/api\<close> and \<open>cmd/worker\<close>.
  \<^item> this theory: runs of the whole service, requests and jobs in any order, and their invariants.

  \<^bold>\<open>Interfaces.\<close> \<open>store_invariant\<close> states what a statement must keep and proves it once for the program
  monad, transactions and loops; \<open>schema_property\<close> adds the keys of the tables. \<open>identity_statements\<close>,
  \<open>key_statements\<close>, \<open>settling_statements\<close>, \<open>invitation_statements\<close> and \<open>product_statements\<close> are the
  contracts of the statements of one module, in which its operations are proved to keep any such
  invariant, and \<open>service_invariant\<close> combines them for a whole run. They are interpreted on the keys, the
  owners, the sessions, spent tokens, the schema, issued and revoked keys, settled invitations and the
  confinement to a tenant.
  \<open>job_backend\<close> is the queue the worker relies on, interpreted on the Redis queue; \<open>key_authenticator\<close> is
  what the authentication middleware relies on, interpreted on the API key service.

  \<^bold>\<open>What is shown.\<close> Along every run: each organization keeps an active owner, a session family has at most
  one live token, a spent token, a revoked key and a settled invitation stay dead, an issued key works
  until it expires or is revoked, and every row satisfies the checks and foreign keys of the schema.
  Sessions: rotation, reuse detection, logout, login. Access: the decision of the authorization gate and
  of key authentication, confinement of operations and keys to their organization, refusal of anonymous
  requests by handlers and routes. Changes: invitations, projects and tasks change all or nothing, for
  authorized callers, with their record. The queue refines an abstract one, the worker drops no job, and
  the retries of a job are bounded; the limiter admits at most its budget and lets a waiting caller in.
  The configuration is accepted exactly when it satisfies its contract and then governs the components;
  responses are labelled on every path. Theorems that show a defect of the code say so.

  \<^bold>\<open>Parameters.\<close> What the code takes from elsewhere is an argument: \<open>env\<close> (hashing, UUID text, Unicode and
  collation tables, JSON text), \<open>jwt_lib\<close>, \<open>queue_lib\<close> (AEAD, envelope encoding, trimming of a stream,
  rounding), network and address parsing, JSON decoding, time layouts, the process environment.
  Hypotheses on them (\<open>faithful_lib\<close>: opening undoes sealing; \<open>marshals\<close>; correct rounding; digests of
  32 bytes) state documented behaviour, and witnesses instantiate them.

  \<^bold>\<open>Bounds.\<close> Loops are structural or have the bound of the code (five attempts for a slug, batches of a
  sweep); the consumer loop runs along the list of contexts it observes, so every finite run is covered.
  UUIDs are numbers drawn in order, hence distinct; instants and durations are nanoseconds as integers,
  with the wrap-around of 32 and 64 bits written out where the code can reach it; dates are \<open>yyyymmdd\<close>.
  Operations run one after the other; one interleaving of two transactions is an example
  (\<open>concurrent_demotions_lose_last_owner\<close>).

  \<^bold>\<open>Not modelled.\<close> Opening and closing connections, the HTTP server and signals (I/O); matching of requests
  against route patterns (the third-party router); the Prometheus client behind the counters; generated
  declarations of \<open>internal/db\<close> without behaviour and statements no service calls; log output beyond the
  records of the middleware chain. Of the database: row locks and isolation levels (\<open>FOR UPDATE\<close> reads are
  plain reads), a commit that takes effect although its acknowledgement is lost (a failed commit is one
  that did not happen), and citext beyond ASCII letters. Of encoding/json: the replacement of invalid
  UTF-8 in the text of a job's last error. Of net/http: streaming, hijacking and flushing.
\<close>

section \<open>Runs of the API\<close>

text \<open>
  The requests and jobs that change the database, each with arbitrary arguments, and the worlds the
  running system can reach: it starts with the tables as the migrations leave them (empty but for the
  catalogue of permissions), serves requests in any order, and between requests the clock, the random source and
  the faults of the infrastructure are arbitrary. Requests that only read are no steps: they leave the
  store as it is.
\<close>

datatype request =
    ReqRegister RegisterInput RequestMeta
  | ReqLogin LoginInput RequestMeta
  | ReqRefresh string RequestMeta
  | ReqLogout string
  | ReqLogoutAll uuid
  | ReqCreateOrganization uuid string
  | ReqUpdateOrganization uuid uuid string
  | ReqCreateRole uuid uuid string "string option" "string list"
  | ReqUpdateRole uuid uuid uuid string "string option" "string list"
  | ReqDeleteRole uuid uuid uuid
  | ReqAssignMemberRole uuid uuid uuid uuid
  | ReqRecord Event
  | ReqCreateKey uuid uuid CreateInput
  | ReqRevokeKey uuid uuid uuid
  | ReqAuthenticate string
  | ReqInvite ctx uuid uuid InviteInput
  | ReqResend ctx uuid uuid uuid
  | ReqRevokeInvite uuid uuid uuid
  | ReqAccept uuid AcceptInput RequestMeta
  | ReqCreateTeam uuid uuid string "string option"
  | ReqUpdateTeam uuid uuid uuid string "string option"
  | ReqDeleteTeam uuid uuid uuid
  | ReqAddMember uuid uuid uuid uuid
  | ReqRemoveMember uuid uuid uuid uuid
  | ReqCreateProject uuid uuid ProjectInput
  | ReqUpdateProject uuid uuid uuid ProjectPatch
  | ReqDeleteProject uuid uuid uuid
  | ReqCreateTask uuid uuid uuid TaskInput
  | ReqUpdateTask uuid uuid uuid TaskPatch
  | ReqDeleteTask uuid uuid uuid
  | JobExpireSweep "string \<Rightarrow> err + uuid" ctx Job
  | JobInvitationEmail ctx Job
  | JobRedeliver ctx Job

record services =
  sv_auth :: auth_service
  sv_keys :: apikeys_service
  sv_invites :: invitations_service

fun serve :: "services \<Rightarrow> request \<Rightarrow> world \<Rightarrow> world" where
  "serve s (ReqRegister inp meta) w = snd (Register (sv_auth s) inp meta w)"
| "serve s (ReqLogin inp meta) w = snd (Login (sv_auth s) inp meta w)"
| "serve s (ReqRefresh raw meta) w = snd (Refresh (sv_auth s) raw meta w)"
| "serve s (ReqLogout raw) w = snd (Logout (sv_auth s) raw w)"
| "serve s (ReqLogoutAll uid) w = snd (LogoutAll (sv_auth s) uid w)"
| "serve s (ReqCreateOrganization uid name) w = snd (CreateOrganization (as_env (sv_auth s)) uid name w)"
| "serve s (ReqUpdateOrganization uid org name) w = snd (UpdateOrganization uid org name w)"
| "serve s (ReqCreateRole uid org name descr perms) w = snd (CreateRole uid org name descr perms w)"
| "serve s (ReqUpdateRole uid org rid name descr perms) w = snd (UpdateRole uid org rid name descr perms w)"
| "serve s (ReqDeleteRole uid org rid) w = snd (DeleteRole uid org rid w)"
| "serve s (ReqAssignMemberRole uid org mid rid) w = snd (AssignMemberRole uid org mid rid w)"
| "serve s (ReqRecord ev) w = snd (Record (as_env (sv_auth s)) ev w)"
| "serve s (ReqCreateKey uid org inp) w = snd (CreateKey (sv_keys s) uid org inp w)"
| "serve s (ReqRevokeKey uid org kid) w = snd (RevokeKey (sv_keys s) uid org kid w)"
| "serve s (ReqAuthenticate raw) w = snd (Authenticate (sv_keys s) raw w)"
| "serve s (ReqInvite c uid org inp) w = snd (Invite (sv_invites s) c uid org inp w)"
| "serve s (ReqResend c uid org iid) w = snd (Resend (sv_invites s) c uid org iid w)"
| "serve s (ReqRevokeInvite uid org iid) w = snd (RevokeInvite (sv_invites s) uid org iid w)"
| "serve s (ReqAccept uid inp meta) w = snd (Accept (sv_invites s) uid inp meta w)"
| "serve s (ReqCreateTeam uid org name descr) w = snd (CreateTeamIn uid org name descr w)"
| "serve s (ReqUpdateTeam uid org tid name descr) w = snd (UpdateTeamOf uid org tid name descr w)"
| "serve s (ReqDeleteTeam uid org tid) w = snd (DeleteTeamOf uid org tid w)"
| "serve s (ReqAddMember uid org tid member) w = snd (AddMemberTo uid org tid member w)"
| "serve s (ReqRemoveMember uid org tid member) w = snd (RemoveMemberFrom uid org tid member w)"
| "serve s (ReqCreateProject uid org inp) w = snd (CreateProjectIn (as_env (sv_auth s)) uid org inp w)"
| "serve s (ReqUpdateProject uid org pid inp) w = snd (UpdateProjectOf (as_env (sv_auth s)) uid org pid inp w)"
| "serve s (ReqDeleteProject uid org pid) w = snd (DeleteProjectOf (as_env (sv_auth s)) uid org pid w)"
| "serve s (ReqCreateTask uid org pid inp) w = snd (CreateTaskIn (as_env (sv_auth s)) uid org pid inp w)"
| "serve s (ReqUpdateTask uid org kid inp) w = snd (UpdateTaskOf (as_env (sv_auth s)) uid org kid inp w)"
| "serve s (ReqDeleteTask uid org kid) w = snd (DeleteTaskOf (as_env (sv_auth s)) uid org kid w)"
| "serve s (JobExpireSweep decode c job) w = snd (ExpireSweepJobHandler decode c job w)"
| "serve s (JobInvitationEmail c job) w = snd (EmailJobHandler (sv_invites s) c job w)"
| "serve s (JobRedeliver c job) w = snd (RedeliverJobHandler (sv_invites s) c job w)"

inductive reachable :: "services \<Rightarrow> world \<Rightarrow> bool" for s where
  start: "migrated (st w) \<Longrightarrow> tenant w = None \<Longrightarrow> reachable s w"
| request: "reachable s w \<Longrightarrow> reachable s (serve s r w)"
| environment: "reachable s w \<Longrightarrow> reachable s (w\<lparr>clock := t, entropy := en, entropy_pos := p, faults := fs\<rparr>)"

text \<open>The worlds that come after a world: requests and jobs, and changes of the environment.\<close>

inductive later :: "services \<Rightarrow> world \<Rightarrow> world \<Rightarrow> bool" for s w where
  now: "later s w w"
| step: "later s w v \<Longrightarrow> later s w (serve s r v)"
| passage: "later s w v \<Longrightarrow> later s w (v\<lparr>clock := t, entropy := en, entropy_pos := p, faults := fs\<rparr>)"

section \<open>Invariants of the running system\<close>

text \<open>
  An invariant that the statements of invitations, keys and the product keep, and the operations on
  organizations and sessions, is kept by the running system.
\<close>

locale service_invariant = invitation_statements I "\<lambda>_. True" + product_statements I "\<lambda>_. True"
  for I :: "store \<Rightarrow> nat \<Rightarrow> bool" +
  assumes op_CreateOrganization: "keeps (\<lambda>_. True) (CreateOrganization e uid name)"
    and op_UpdateOrganization: "keeps (\<lambda>_. True) (UpdateOrganization uid org name)"
    and op_CreateRole: "keeps (\<lambda>_. True) (CreateRole uid org name descr perms)"
    and op_UpdateRole: "keeps (\<lambda>_. True) (UpdateRole uid org rid name descr perms)"
    and op_DeleteRole: "keeps (\<lambda>_. True) (DeleteRole uid org rid)"
    and op_AssignMemberRole: "keeps (\<lambda>_. True) (AssignMemberRole uid org mid rid)"
    and op_Register: "keeps (\<lambda>_. True) (Register s inp meta)"
    and op_Login: "keeps (\<lambda>_. True) (Login s linp meta)"
    and op_Refresh: "keeps (\<lambda>_. True) (Refresh s raw meta)"
    and op_Logout: "keeps (\<lambda>_. True) (Logout s raw)"
    and op_LogoutAll: "keeps (\<lambda>_. True) (LogoutAll s uid)"
begin

lemmas every_operation = op_CreateOrganization op_UpdateOrganization op_CreateRole op_UpdateRole op_DeleteRole op_AssignMemberRole
  op_Register op_Login op_Refresh op_Logout op_LogoutAll audit_rules(2) [OF TrueI]
  organization_key_operations [OF TrueI] key_operations [OF TrueI]
  organization_invitation_operations [OF TrueI] invitation_operations [OF TrueI] product_operations [OF TrueI]

lemma serve_keeps: "I (st w) (fresh w) \<Longrightarrow> I (st (serve s r w)) (fresh (serve s r w))"
  by (cases r; simp; rule keepsD(3) [where T = "\<lambda>_. True", OF _ TrueI]; (rule every_operation)?; assumption)

lemma later_keeps: "later s w v \<Longrightarrow> I (st w) (fresh w) \<Longrightarrow> I (st v) (fresh v)"
  by (induction rule: later.induct) (auto intro: serve_keeps)

lemma reachable_keeps:
  assumes "reachable s w" and "\<And>db n. migrated db \<Longrightarrow> I db n"
  shows "I (st w) (fresh w)"
  using assms(1) by induction (auto simp: assms(2) intro: serve_keeps)

end

interpretation run_ids: service_invariant wf_ids
  by unfold_locales (rule keeps_intro)+

interpretation run_owners: service_invariant "wf_and owned"
  by unfold_locales (rule keeps_intro)+

interpretation run_sessions: service_invariant sessions_ok
  by unfold_locales (rule keeps_intro)+


interpretation run_dead: service_invariant "wf_and (dead_key h)" for h
  by unfold_locales (rule dead_identity.identity_operations)+

interpretation run_issued: service_invariant "wf_and (issued_key kid org uid h x)" for kid org uid h x
  by unfold_locales (rule issued_identity.identity_operations)+

interpretation run_spent: service_invariant "wf_and (spent_token h fam)" for h fam
  by unfold_locales (rule spent_identity.identity_operations)+

interpretation run_settled: service_invariant "settled iid x" for iid x
  by unfold_locales (rule settled_identity.identity_operations)+

text \<open>
  C3: every organization always has an active Owner. In every state the running system reaches by
  serving requests one at a time, with any arguments and any faults, each organization has an active
  member whose role is the system role Owner of that organization.
\<close>

theorem every_organization_keeps_an_owner:
  assumes "reachable s w"
  shows "owned (st w)"
  using run_owners.reachable_keeps [OF assms] by (simp add: wf_and_def migrated_wf migrated_tables owned_def)

text \<open>A run: the migrated database, a registration, and the exchange of the refresh token it returned.\<close>

definition demo_registration :: RegisterInput where
  "demo_registration = \<lparr>ri_Email = ''a@x'', ri_Password = ''secret123'', ri_FirstName = ''A'', ri_LastName = ''B'',
     ri_OrganizationName = ''Acme''\<rparr>"

definition demo_services :: services where
  "demo_services = \<lparr>sv_auth = demo_auth, sv_keys = key_demo_service, sv_invites = invite_demo_service\<rparr>"

definition demo_start :: world where
  "demo_start = empty_world\<lparr>st := empty_store\<lparr>permissions :=
     map (\<lambda>(i, k, d). \<lparr>p_ID = i, p_Key = k, p_Description = d, p_CreatedAt = 0\<rparr>) (zip [1..<19] permission_catalogue)\<rparr>, fresh := 19\<rparr>"

abbreviation demo_registered :: "(err + AuthResult) \<times> world" where
  "demo_registered \<equiv> Register demo_auth demo_registration demo_meta demo_start"

abbreviation demo_refreshed :: "(err + AuthResult) \<times> world" where
  "demo_refreshed \<equiv> case demo_registered of (r, w) \<Rightarrow> Refresh demo_auth (tp_RefreshToken (ar_Tokens (projr r))) demo_meta w"

abbreviation demo_running :: world where
  "demo_running \<equiv> snd demo_refreshed"

lemma demo_migrated: "migrated (st demo_start)"
  unfolding migrated_def demo_start_def permission_catalogue_def by (simp add: upt_rec)

lemma demo_reachable: "reachable demo_services demo_running"
proof -
  have "reachable demo_services demo_start"
    by (rule reachable.start [OF demo_migrated]) (simp add: demo_start_def empty_world_def)
  from reachable.request [OF reachable.request [OF this, of "ReqRegister demo_registration demo_meta"],
      of "ReqRefresh (tp_RefreshToken (ar_Tokens (projr (fst demo_registered)))) demo_meta"]
  show ?thesis by (simp add: demo_services_def case_prod_beta)
qed

text \<open>The run succeeds: an organization with its five roles and its owner, and a rotated session.\<close>

lemma demo_running_rows:
  "case demo_refreshed of (_, w) \<Rightarrow>
     map o_Name (organizations (st w)) = [''Acme''] \<and> length (roles (st w)) = 5 \<and> length (users (st w)) = 1 \<and>
     map (\<lambda>t. t_RevokedAt t = None) (refresh_tokens (st w)) = [False, True] \<and>
     length (remdups (map t_FamilyID (refresh_tokens (st w)))) = 1"
  by code_simp

lemmas demo_rows = demo_running_rows [unfolded case_prod_beta [of _ demo_refreshed]]

theorem every_organization_keeps_an_owner_witness:
  "map o_Name (organizations (st demo_running)) = [''Acme''] \<and> owned (st demo_running)"
  using every_organization_keeps_an_owner [OF demo_reachable] demo_rows by simp

text \<open>
  C5: at most one live refresh token per session. In every reachable state two refresh tokens of the
  same family that are both not revoked are the same token.
\<close>

theorem one_live_token_per_family:
  assumes "reachable s w"
  shows "one_active (refresh_tokens (st w))"
  using run_sessions.reachable_keeps [OF assms]
  by (simp add: sessions_ok_def one_active_def migrated_wf migrated_tables)

theorem one_live_token_per_family_witness:
  "map (\<lambda>t. t_RevokedAt t = None) (refresh_tokens (st demo_running)) = [False, True] \<and>
   length (remdups (map t_FamilyID (refresh_tokens (st demo_running)))) = 1 \<and> one_active (refresh_tokens (st demo_running))"
  using one_live_token_per_family [OF demo_reachable] demo_rows by simp



section \<open>Finality\<close>

text \<open>
  C9: a refresh token works once. After a token has been exchanged successfully, no request exchanges it
  again, in any state the system reaches later, by any requests and jobs, with any passage of time and
  any faults. Where no fault strikes the attempt it is rejected as unauthorized and revokes the whole
  family, the token issued for it included.
\<close>

theorem refresh_token_single_use:
  assumes "wf_ids (st w) (fresh w)" and "Refresh (sv_auth s) raw meta w = (Inr r, w1)" and "later s w1 w2"
  shows "isl (fst (Refresh (sv_auth s) raw meta' w2)) \<and>
         (faults w2 = [] \<longrightarrow>
            fst (Refresh (sv_auth s) raw meta' w2) = Inl (Sentinel ErrUnauthorized) \<and>
            (\<exists>new\<in>set (refresh_tokens (st w1)).
               t_TokenHash new = hashToken (as_env (sv_auth s)) (tp_RefreshToken (ar_Tokens r)) \<and> t_RevokedAt new = None \<and>
               family_revoked (t_FamilyID new) (st (snd (Refresh (sv_auth s) raw meta' w2)))))"
proof -
  obtain new where new: "new \<in> set (refresh_tokens (st w1))" "t_RevokedAt new = None"
      "t_TokenHash new = hashToken (as_env (sv_auth s)) (tp_RefreshToken (ar_Tokens r))"
    and dead: "wf_and (spent_token (hashToken (as_env (sv_auth s)) raw) (t_FamilyID new)) (st w1) (fresh w1)"
    by (rule refresh_spends [OF assms(2,1)])
  from run_spent.later_keeps [OF assms(3) dead] have "wf_ids (st w2) (fresh w2)"
    "spent_token (hashToken (as_env (sv_auth s)) raw) (t_FamilyID new) (st w2)"
    by (simp_all add: wf_and_def)
  from spent_rejected [OF this, of meta'] new show ?thesis by blast
qed

theorem refresh_token_single_use_witness:
  "\<not> isl (fst (Refresh demo_auth ''live'' demo_meta token_world)) \<and>
   isl (fst (Refresh demo_auth ''live'' demo_meta
     (serve demo_services (ReqLogin \<lparr>li_Email = ''a@x'', li_Password = ''h''\<rparr> demo_meta)
       (snd (Refresh demo_auth ''live'' demo_meta token_world)))))"
proof -
  let ?r = "Refresh demo_auth ''live'' demo_meta token_world"
  have ok: "\<not> isl (fst ?r)" by code_simp
  then obtain r where "Refresh (sv_auth demo_services) ''live'' demo_meta token_world = (Inr r, snd ?r)"
    unfolding demo_services_def by (metis not_isl_Inr prod.collapse services.select_convs(1))
  from refresh_token_single_use [OF token_world_facts(1) this later.step [OF later.now]] ok show ?thesis
    unfolding demo_services_def by (metis services.select_convs(1))
qed

text \<open>
  C10: logging out ends the session. A logout that meets no fault returns normally, and then none of the
  refresh tokens of the session, neither the one presented nor any other of its family, can be
  exchanged again, in any state the system reaches later and whatever faults occur there.
\<close>

theorem logout_ends_session:
  assumes "wf_ids (st w) (fresh w)" and "faults w = []"
    and "t \<in> set (refresh_tokens (st w))" "t_TokenHash t = hashToken (as_env (sv_auth s)) raw"
    and "x \<in> set (refresh_tokens (st w))" "t_FamilyID x = t_FamilyID t" "t_TokenHash x = hashToken (as_env (sv_auth s)) raw'"
    and "later s (snd (Logout (sv_auth s) raw w)) w2"
  shows "fst (Logout (sv_auth s) raw w) = Inr () \<and> isl (fst (Refresh (sv_auth s) raw' meta w2))"
proof -
  note out = logout_spends [OF assms(1-6)]
  have "wf_and (spent_token (t_TokenHash x) (t_FamilyID t)) (st w2) (fresh w2)"
    by (rule run_spent.later_keeps [OF assms(8) out(2)])
  then have "wf_ids (st w2) (fresh w2)" "spent_token (hashToken (as_env (sv_auth s)) raw') (t_FamilyID t) (st w2)"
    by (simp_all add: wf_and_def assms(7))
  from spent_rejected [OF this, of meta] out(1) show ?thesis by blast
qed

theorem logout_ends_session_witness:
  "\<not> isl (fst (Refresh demo_auth ''live'' demo_meta token_world)) \<and> fst (Logout demo_auth ''old'' token_world) = Inr () \<and>
   isl (fst (Refresh demo_auth ''live'' demo_meta
     (serve demo_services (ReqLogin \<lparr>li_Email = ''a@x'', li_Password = ''h''\<rparr> demo_meta) (snd (Logout demo_auth ''old'' token_world)))))"
proof -
  have "\<not> isl (fst (Refresh demo_auth ''live'' demo_meta token_world))" by code_simp
  moreover have "demo_token 62 ''live'' None \<in> set (refresh_tokens (st token_world))" by code_simp
  moreover have "t_TokenHash (demo_token 61 ''old'' (Some 1)) = hashToken (as_env (sv_auth demo_services)) ''old''"
    "t_TokenHash (demo_token 62 ''live'' None) = hashToken (as_env (sv_auth demo_services)) ''live''"
    "t_FamilyID (demo_token 62 ''live'' None) = t_FamilyID (demo_token 61 ''old'' (Some 1))"
    by (simp_all add: demo_token_def demo_services_def demo_auth_def)
  ultimately show ?thesis
    using logout_ends_session [OF token_world_facts(1,2,3) _ _ _ _ later.step [OF later.now], of demo_services "''old''"
        "demo_token 62 ''live'' None" "''live''"]
    unfolding demo_services_def by (metis services.select_convs(1))
qed

text \<open>
  C6: revocation is final. In a store that satisfies the schema, once \<open>Revoke\<close> has returned for a
  key, no request authenticates with its secret again: not in any state the system reaches later, by
  any requests and jobs, with any passage of time and any faults.
\<close>

theorem revoked_key_never_authenticates:
  assumes "wf_ids (st w) (fresh w)" and "RevokeKey (sv_keys s) uid org kid w = (Inr u, w1)"
    and "k \<in> set (api_keys (st w))" and "k_ID k = kid" and "hashKey (ks_env (sv_keys s)) raw = k_KeyHash k"
    and "later s w1 w2"
  shows "isl (fst (Authenticate (sv_keys s) raw w2))"
proof -
  have "wf_ids (st w1) (fresh w1)"
    using ids.keepsD(3) [OF ids_keys.organization_key_operations(2) [OF TrueI] TrueI, of w] assms(1,2) by (metis snd_conv)
  then have "wf_and (dead_key (k_KeyHash k)) (st w1) (fresh w1)"
    using revoke_key_kills [OF assms(1-4)] by (simp add: wf_and_def)
  from run_dead.later_keeps [OF assms(6) this] show ?thesis
    unfolding wf_and_def by (metis assms(5) dead_key_rejected)
qed

theorem revoked_key_never_authenticates_witness:
  "\<exists>res. fst key_demo_run = Inr res \<and>
     isl (fst (Authenticate key_demo_service (cr_Key res)
       (serve demo_services (ReqCreateKey 1 10 key_demo_input)
         (snd (RevokeKey key_demo_service 1 10 100 (snd key_demo_run))))))"
proof -
  obtain res w' where r: "key_demo_run = (Inr res, w')" and wf: "wf_ids (st w') (fresh w')"
    by (rule key_demo_success)
  from create_key_success [OF r] obtain k row where
    m: "st w' = (st key_demo_world)\<lparr>api_keys := api_keys (st key_demo_world) @ [k], audit_logs := audit_logs (st key_demo_world) @ [row]\<rparr>"
    and hash: "k_KeyHash k = hashKey (ks_env key_demo_service) (cr_Key res)" and "k_ID k = kd_ID (cr_APIKey res)"
    by (auto simp: minted_def)
  have k: "k \<in> set (api_keys (st w'))" "hashKey (ks_env (sv_keys demo_services)) (cr_Key res) = k_KeyHash k"
    using m hash by (simp_all add: demo_services_def)
  note \<open>k_ID k = _\<close>
  moreover have "\<not> isl (fst (RevokeKey key_demo_service 1 10 100 w')) \<and> kd_ID (cr_APIKey res) = 100"
    using key_demo_revoke r by simp
  ultimately obtain u where rev: "RevokeKey (sv_keys demo_services) 1 10 100 w' = (Inr u, snd (RevokeKey key_demo_service 1 10 100 w'))"
      and "k_ID k = 100"
    by (metis demo_services_def not_isl_Inr prod.collapse services.select_convs(2))
  from revoked_key_never_authenticates [OF wf rev k(1) this(2) k(2) later.step [OF later.now]] r show ?thesis
    by (auto simp: demo_services_def simp del: serve.simps)
qed

text \<open>
  C35: a minted key works for as long as it should. After \<open>Create\<close> returned a key, the secret it returned
  authenticates its creator in its organization in every state the system reaches later, by any requests
  and jobs, up to and including the instant of expiry that the response shows, unless the key has been
  revoked, its creator is no longer active, or a fault strikes the lookup.
\<close>

theorem minted_key_authenticates:
  assumes "wf_ids (st w) (fresh w)" and "CreateKey (sv_keys s) uid org inp w = (Inr res, w1)" and "later s w1 w2"
    and "clock w2 \<le> kd_ExpiresAt (cr_APIKey res)"
    and "\<And>k. k \<in> set (api_keys (st w2)) \<Longrightarrow> k_ID k = kd_ID (cr_APIKey res) \<Longrightarrow> k_RevokedAt k = None"
    and "u \<in> set (users (st w2))" and "u_ID u = uid" and "u_Status u = ''active''"
    and "faults w2 = []" and "tenant w2 = None"
  shows "\<exists>w3. Authenticate (sv_keys s) (cr_Key res) w2 =
           (Inr \<lparr>UserID = uid, TokenID = uuid_Nil, Method = MethodAPIKey, APIKeyID = kd_ID (cr_APIKey res),
                 OrganizationID = org\<rparr>, w3)"
proof -
  note made = create_key_issues [OF assms(1,2)]
  from run_issued.later_keeps [OF assms(3) made(1)] have
    "wf_ids (st w2) (fresh w2)"
    "issued_key (kd_ID (cr_APIKey res)) org uid (hashKey (ks_env (sv_keys s)) (cr_Key res)) (kd_ExpiresAt (cr_APIKey res)) (st w2)"
    by (simp_all add: wf_and_def)
  from issued_key_admitted [OF this(1) assms(9,10) this(2) made(2) assms(5-8,4)] show ?thesis by simp
qed

text \<open>A second key is created after the first, and the first one is used.\<close>

lemma key_demo_later:
  "case key_demo_run of (r, w') \<Rightarrow>
     case CreateKey key_demo_service 1 10 key_demo_input w' of (_, w2) \<Rightarrow>
       clock w2 \<le> kd_ExpiresAt (cr_APIKey (projr r)) \<and> list_all (\<lambda>k. k_RevokedAt k = None) (api_keys (st w2)) \<and>
       u_Status (hd (users (st w2))) = ''active'' \<and>
       u_ID (hd (users (st w2))) = 1 \<and> users (st w2) \<noteq> [] \<and> faults w2 = [] \<and> tenant w2 = None"
  by code_simp

theorem minted_key_authenticates_witness:
  "\<exists>res w3. fst key_demo_run = Inr res \<and>
     Authenticate key_demo_service (cr_Key res) (serve demo_services (ReqCreateKey 1 10 key_demo_input) (snd key_demo_run)) =
       (Inr \<lparr>UserID = 1, TokenID = 0, Method = MethodAPIKey, APIKeyID = kd_ID (cr_APIKey res), OrganizationID = 10\<rparr>, w3)"
proof -
  obtain res w' where r: "key_demo_run = (Inr res, w')"
    by (rule key_demo_success)
  let ?w2 = "serve demo_services (ReqCreateKey 1 10 key_demo_input) w'"
  have keys: "sv_keys demo_services = key_demo_service" by (simp add: demo_services_def)
  have f: "clock ?w2 \<le> kd_ExpiresAt (cr_APIKey res)" "list_all (\<lambda>k. k_RevokedAt k = None) (api_keys (st ?w2))"
    "hd (users (st ?w2)) \<in> set (users (st ?w2))" "u_ID (hd (users (st ?w2))) = 1" "u_Status (hd (users (st ?w2))) = ''active''"
    "faults ?w2 = []" "tenant ?w2 = None"
    using key_demo_later r by (simp_all add: demo_services_def case_prod_beta)
  from minted_key_authenticates [of key_demo_world demo_services 1 10 key_demo_input res w' ?w2, OF key_demo_wf _ later.step [OF later.now] f(1) _ f(3-7)]
    f(2) r show ?thesis
    unfolding keys by (auto simp: list_all_iff simp del: serve.simps)
qed

text \<open>An acceptance and a revocation settle the invitation they name.\<close>

lemma settledI:
  assumes "wf_ids (st w) (fresh w)" "wf_ids (st w1) (fresh w1)" "fresh w \<le> fresh w1" "i \<in> set (invitations (st w))" "x \<noteq> ''pending''"
    and "invitations (st w1) = update_where (\<lambda>j. i_ID j = i_ID i) f (invitations (st w))" "\<And>j. i_Status (f j) = x"
  shows "settled (i_ID i) x (st w1) (fresh w1)"
proof -
  have "i_ID i < fresh w" using assms(1,4) by (auto simp: wf_ids_def rows_ok_def)
  then show ?thesis using assms(2,3,5-7) by (auto simp: settled_def set_update_where split: if_splits)
qed

lemma accept_settles:
  assumes wf: "wf_ids (st w) (fresh w)" and run: "Accept s uid inp meta w = (Inr res, w1)"
  shows "settled (ar_InvitationID res) ''accepted'' (st w1) (fresh w1)"
proof -
  note k = ids.keepsD [OF ids_invitations.invitation_operations(1) [OF TrueI, of "\<lambda>_. True" s uid inp meta] TrueI, of w, unfolded run snd_conv]
  from wf run show ?thesis
  proof (cases rule: accept_cases)
    case (3 i user)
    then show ?thesis
      using settledI [OF wf k(3) [OF wf] k(2), of i "''accepted''"] unfolding joined_def by (auto simp: accepted_row_def)
  qed auto
qed

lemma revoke_settles:
  assumes wf: "wf_ids (st w) (fresh w)" and run: "RevokeInvite s uid org iid w = (Inr u, w1)"
  shows "settled iid ''revoked'' (st w1) (fresh w1)"
proof -
  note k = ids.keepsD [OF ids_invitations.organization_invitation_operations(3) [OF TrueI, of "\<lambda>_. True" s uid org iid] TrueI, of w, unfolded run snd_conv]
  from run obtain t v where a: "Authorize uid org MembersManage w = (Inr t, v)"
    and "withOrgTx org (revoke_invite_tx s uid org iid) v = (Inr u, w1)"
    by (auto simp: RevokeInvite_def io_success)
  then obtain v1 v2 where tx: "revoke_invite_tx s uid org iid v1 = (Inr u, v2)" "st v1 = st v" "fresh v1 = fresh v" "st v2 = st w1"
    by (metis withOrgTx_success)
  have same: "st v1 = st w" "fresh w \<le> fresh v1" using authorize_may [OF a] tx by auto
  then have "wf_ids (st v1) (fresh v1)" using wf_ids_later [OF wf] by simp
  from this tx(1) show ?thesis
  proof (cases rule: revoke_invite_tx_success)
    case (1 i t)
    then show ?thesis
      using settledI [OF wf k(3) [OF wf] k(2), of i "''revoked''"] same tx(4) by auto
  qed
qed

text \<open>
  C7: an invitation is redeemed at most once. After an invitation was accepted or revoked, no later
  acceptance, by anyone, with any token, in any state the system reaches, is for this invitation.
\<close>

theorem settled_invitation_never_redeemed:
  assumes "wf_ids (st w) (fresh w)" and "later s w1 w2"
    and "(\<exists>uid inp meta res. Accept (sv_invites s) uid inp meta w = (Inr res, w1) \<and> ar_InvitationID res = iid) \<or>
         (\<exists>uid org. RevokeInvite (sv_invites s) uid org iid w = (Inr (), w1))"
  shows "case fst (Accept (sv_invites s) uid' inp' meta' w2) of
           Inl e \<Rightarrow> True | Inr res' \<Rightarrow> ar_InvitationID res' \<noteq> iid"
proof -
  obtain x where "settled iid x (st w1) (fresh w1)"
    using assms(3) accept_settles [OF assms(1)] revoke_settles [OF assms(1)] by metis
  from run_settled.later_keeps [OF assms(2) this] show ?thesis
    by (cases "Accept (sv_invites s) uid' inp' meta' w2") (auto split: sum.split dest: settled_rejects)
qed

theorem settled_invitation_never_redeemed_witness:
  "\<exists>res. fst accept_demo_run = Inr res \<and>
     (case fst (Accept invite_demo_service 2 accept_demo_input demo_meta (snd accept_demo_run)) of
        Inl e \<Rightarrow> True | Inr res' \<Rightarrow> ar_InvitationID res' \<noteq> ar_InvitationID res)"
proof -
  obtain res where r: "accept_demo_run = (Inr res, snd accept_demo_run)"
    using accept_demo_eval by (metis not_isl_Inr prod.collapse)
  then have "\<exists>uid inp meta res'. Accept (sv_invites demo_services) uid inp meta accept_demo_world = (Inr res', snd accept_demo_run) \<and>
      ar_InvitationID res' = ar_InvitationID res"
    by (auto simp: demo_services_def)
  from settled_invitation_never_redeemed [OF accept_demo_wf later.now disjI1 [OF this], of 2 accept_demo_input demo_meta] r
  show ?thesis unfolding demo_services_def by (metis fst_conv services.select_convs(3))
qed

end
